(* ===== verification/Slive_Prelude.thy ===== *)
theory Slive_Prelude
  imports Main "HOL-Library.AList" "HOL-Library.Word"
begin

text \<open>
  Shared vocabulary of the development: Go maps as association lists, the generic
  interfaces (keyed registries, invariant-preserving step systems, bounded queues) as
  locales, and the list facts that the component theories use.

  A Go map is an association list with distinct keys. Its order stands for the order in
  which a \<open>range\<close> loop visits the entries, which Go leaves unspecified: every theorem
  quantifies over the states and with them over these orders. \<open>mput\<close> is Go's
  \<open>m[k] = v\<close>, \<open>mdel\<close> its \<open>delete(m, k)\<close>, \<open>mget\<close> its two-valued lookup.
\<close>

type_synonym ('k, 'v) gomap = "('k \<times> 'v) list"

abbreviation mget :: "('k, 'v) gomap \<Rightarrow> 'k \<Rightarrow> 'v option" where
  "mget \<equiv> map_of"

abbreviation mput :: "'k \<Rightarrow> 'v \<Rightarrow> ('k, 'v) gomap \<Rightarrow> ('k, 'v) gomap" where
  "mput \<equiv> AList.update"

abbreviation mdel :: "'k \<Rightarrow> ('k, 'v) gomap \<Rightarrow> ('k, 'v) gomap" where
  "mdel \<equiv> AList.delete"

abbreviation mkeys :: "('k, 'v) gomap \<Rightarrow> 'k list" where
  "mkeys m \<equiv> map fst m"

abbreviation wf_map :: "('k, 'v) gomap \<Rightarrow> bool" where
  "wf_map m \<equiv> distinct (mkeys m)"

named_theorems store_simps \<open>updates of the object stores\<close>

subsection \<open>Maps\<close>

lemma mget_mput [simp]: "mget (mput k v m) = (mget m)(k \<mapsto> v)"
  by (rule update_conv')

lemma mget_mdel [simp]: "mget (mdel k m) = (mget m)(k := None)"
  by (rule delete_conv')

lemma wf_map_mput [simp, intro]: "wf_map m \<Longrightarrow> wf_map (mput k v m)"
  by (rule distinct_update)

lemma wf_map_mdel [simp, intro]: "wf_map m \<Longrightarrow> wf_map (mdel k m)"
  by (rule distinct_delete)

lemma set_mkeys: "set (mkeys m) = dom (mget m)"
  by (simp add: dom_map_of_conv_image_fst)

lemma mget_mem: "mget m k = Some v \<Longrightarrow> k \<in> set (mkeys m)"
  by (metis domI set_mkeys)

lemma mget_entry: "wf_map m \<Longrightarrow> (k, v) \<in> set m \<longleftrightarrow> mget m k = Some v"
  by (auto dest: map_of_SomeD)

lemma mget_Nil_iff: "m = [] \<longleftrightarrow> (\<forall>k. mget m k = None)"
  by (cases m) (auto simp: fun_upd_def split: if_splits)

lemma length_mput_fresh: "mget m k = None \<Longrightarrow> length (mput k v m) = Suc (length m)"
  by (induction m) (auto split: if_splits)

lemma length_mdel_present:
  "wf_map m \<Longrightarrow> mget m k = Some v \<Longrightarrow> Suc (length (mdel k m)) = length m"
  by (induction m) (auto split: if_splits simp: delete_idem map_of_eq_None_iff)

lemma mdel_idem [simp]: "mdel k (mdel k m) = mdel k m"
  by (simp add: delete_idem)

lemma mdel_mput_absent: "mget m k = None \<Longrightarrow> mdel k (mput k v m) = m"
proof (induction m)
  case (Cons x m)
  then show ?case
    by (cases x) (auto split: if_splits simp: delete_idem map_of_eq_None_iff)
qed simp

subsection \<open>Keyed registries\<close>

text \<open>
  Several components own a registry keyed by a string identifier: the rooms of the room
  manager, the WebSocket connections, the peer connections and the track forwarders of
  the signaling handler. What their clients rely on is stated once.
\<close>

locale keyed_registry =
  fixes find :: "'s \<Rightarrow> 'k \<Rightarrow> 'v option"
    and store :: "'k \<Rightarrow> 'v \<Rightarrow> 's \<Rightarrow> 's"
    and drop_key :: "'k \<Rightarrow> 's \<Rightarrow> 's"
    and ids :: "'s \<Rightarrow> 'k list"
    and ok :: "'s \<Rightarrow> bool"
  assumes find_store: "find (store k v s) = (find s)(k \<mapsto> v)"
    and find_drop: "find (drop_key k s) = (find s)(k := None)"
    and ids_find: "set (ids s) = dom (find s)"
    and ok_store: "ok s \<Longrightarrow> ok (store k v s)"
    and ok_drop: "ok s \<Longrightarrow> ok (drop_key k s)"
    and ids_distinct: "ok s \<Longrightarrow> distinct (ids s)"
begin

lemma find_store_same: "find (store k v s) k = Some v"
  by (simp add: find_store)

lemma find_store_other: "k' \<noteq> k \<Longrightarrow> find (store k v s) k' = find s k'"
  by (simp add: find_store)

lemma ids_store: "set (ids (store k v s)) = insert k (set (ids s))"
  by (auto simp: ids_find find_store)

lemma ids_drop: "set (ids (drop_key k s)) = set (ids s) - {k}"
  by (auto simp: ids_find find_drop)

lemma length_ids: "ok s \<Longrightarrow> length (ids s) = card (dom (find s))"
  using ids_distinct [of s] distinct_card [of "ids s"] by (simp add: ids_find)

lemma drop_all:
  "find (fold drop_key ks s) k = (if k \<in> set ks then None else find s k)"
  by (induction ks arbitrary: s) (auto simp: find_drop)

lemma store_drop_absent:
  "find s k = None \<Longrightarrow> find (drop_key k (store k v s)) = find s"
  by (auto simp: find_store find_drop)

end

subsection \<open>Step systems with an invariant\<close>

locale step_invariant =
  fixes start :: "'s \<Rightarrow> bool"
    and step :: "'s \<Rightarrow> 's \<Rightarrow> bool"
    and inv :: "'s \<Rightarrow> bool"
  assumes start_inv: "start s \<Longrightarrow> inv s"
    and step_inv: "step s t \<Longrightarrow> inv s \<Longrightarrow> inv t"
begin

lemma steps_inv: "step\<^sup>*\<^sup>* s t \<Longrightarrow> inv s \<Longrightarrow> inv t"
  by (induction rule: rtranclp_induct) (auto intro: step_inv)

lemma reachable_inv: "start s \<Longrightarrow> step\<^sup>*\<^sup>* s t \<Longrightarrow> inv t"
  by (blast intro: start_inv steps_inv)

end

subsection \<open>Decimal numbers\<close>

text \<open>\<open>strconv.FormatUint(n, 10)\<close> and \<open>strconv.ParseUint(s, 10, 64)\<close>.\<close>

definition digit_char :: "nat \<Rightarrow> char" where
  "digit_char d = char_of (48 + d)"

fun FormatUint :: "nat \<Rightarrow> string" where
  "FormatUint n = (if n < 10 then [digit_char n] else FormatUint (n div 10) @ [digit_char (n mod 10)])"

declare FormatUint.simps [simp del]

definition digit_val :: "char \<Rightarrow> nat option" where
  "digit_val c = (let n = of_char c :: nat in if 48 \<le> n \<and> n \<le> 57 then Some (n - 48) else None)"

fun parse_digits :: "nat \<Rightarrow> string \<Rightarrow> nat option" where
  "parse_digits acc [] = Some acc"
| "parse_digits acc (c # cs) =
     (case digit_val c of None \<Rightarrow> None | Some d \<Rightarrow> parse_digits (10 * acc + d) cs)"

definition ParseUint :: "string \<Rightarrow> nat option" where
  "ParseUint s =
     (if s = '''' then None
      else (case parse_digits 0 s of
              Some n \<Rightarrow> if n < 2 ^ 64 then Some n else None
            | None \<Rightarrow> None))"

lemma digit_val_char: "d < 10 \<Longrightarrow> digit_val (digit_char d) = Some d"
  by (simp add: digit_val_def digit_char_def)

lemma parse_digits_append:
  "parse_digits acc (xs @ ys) =
     (case parse_digits acc xs of None \<Rightarrow> None | Some a \<Rightarrow> parse_digits a ys)"
  by (induction xs arbitrary: acc) (auto split: option.split)

lemma parse_format: "parse_digits 0 (FormatUint n) = Some n"
proof (induction n rule: FormatUint.induct)
  case (1 n)
  show ?case
  proof (cases "n < 10")
    case True
    then show ?thesis by (subst FormatUint.simps) (simp add: digit_val_char)
  next
    case False
    with 1 have "parse_digits 0 (FormatUint (n div 10)) = Some (n div 10)" by blast
    with False show ?thesis
      by (subst FormatUint.simps) (simp add: parse_digits_append digit_val_char)
  qed
qed

lemma FormatUint_nonempty [simp]: "FormatUint n \<noteq> []"
  by (subst FormatUint.simps) simp

lemma ParseUint_FormatUint: "n < 2 ^ 64 \<Longrightarrow> ParseUint (FormatUint n) = Some n"
  by (simp add: ParseUint_def parse_format)

lemma FormatUint_inj: "FormatUint m = FormatUint n \<Longrightarrow> m = n"
  using parse_format by (metis option.inject)

subsection \<open>Bounded buffers\<close>

text \<open>
  A producer offers items to a bounded buffer without waiting, a consumer moves them out in
  order. \<open>push\<close> reports whether the item was taken; \<open>pop\<close> moves at most one item to the
  output.
\<close>

locale bounded_buffer =
  fixes buf :: "'s \<Rightarrow> 'a list"
    and out :: "'s \<Rightarrow> 'a list"
    and capacity :: "'s \<Rightarrow> nat"
    and push :: "'a \<Rightarrow> 's \<Rightarrow> bool \<times> 's"
    and pop :: "'s \<Rightarrow> 's"
  assumes push_taken: "push x s = (True, s') \<Longrightarrow>
      length (buf s) < capacity s \<and> buf s' = buf s @ [x] \<and> out s' = out s \<and> capacity s' = capacity s"
    and push_refused: "push x s = (False, s') \<Longrightarrow>
      capacity s \<le> length (buf s) \<and> buf s' = buf s \<and> out s' = out s \<and> capacity s' = capacity s"
    and pop_moves: "out (pop s) @ buf (pop s) = out s @ buf s"
    and pop_keeps: "capacity (pop s) = capacity s" "length (buf (pop s)) \<le> length (buf s)"
begin

text \<open>A run: offered items (\<open>Some\<close>) and consumer rounds (\<open>None\<close>), with the items taken.\<close>

fun drive :: "'a option list \<Rightarrow> 's \<Rightarrow> 'a list \<times> 's" where
  "drive [] s = ([], s)"
| "drive (None # es) s = drive es (pop s)"
| "drive (Some x # es) s =
     (case push x s of (b, s') \<Rightarrow>
        (case drive es s' of (xs, s'') \<Rightarrow> (if b then x # xs else xs, s'')))"

lemma drive_fifo:
  assumes "length (buf s) \<le> capacity s" and "drive es s = (xs, s')"
  shows "out s' @ buf s' = out s @ buf s @ xs \<and> length (buf s') \<le> capacity s \<and> capacity s' = capacity s \<and>
    length xs \<le> length (filter (\<lambda>e. e \<noteq> None) es)"
  using assms
proof (induction es s arbitrary: xs rule: drive.induct)
  case (2 es s)
  have "drive es (pop s) = (xs, s')" using 2(3) by simp
  moreover have "length (buf (pop s)) \<le> capacity (pop s)"
    using 2(2) pop_keeps [of s] by simp
  ultimately have "out s' @ buf s' = out (pop s) @ buf (pop s) @ xs \<and> length (buf s') \<le> capacity (pop s) \<and>
      capacity s' = capacity (pop s) \<and> length xs \<le> length (filter (\<lambda>e. e \<noteq> None) es)"
    using 2(1) by blast
  moreover have "out (pop s) @ buf (pop s) @ xs = out s @ buf s @ xs"
    using pop_moves [of s] by (metis append.assoc)
  ultimately show ?case using pop_keeps(1) [of s] by simp
next
  case (3 x es s)
  obtain b s1 where p: "push x s = (b, s1)" by fastforce
  obtain ys s2 where d: "drive es s1 = (ys, s2)" by fastforce
  have eq: "s' = s2" "xs = (if b then x # ys else ys)" using 3(3) p d by (auto split: if_splits)
  have s1: "out s1 @ buf s1 = out s @ buf s @ (if b then [x] else [])" "length (buf s1) \<le> capacity s"
    "capacity s1 = capacity s"
    using push_taken [of x s s1] push_refused [of x s s1] p 3(2) by (cases b; auto)+
  have "out s2 @ buf s2 = out s1 @ buf s1 @ ys \<and> length (buf s2) \<le> capacity s1 \<and> capacity s2 = capacity s1 \<and>
      length ys \<le> length (filter (\<lambda>e. e \<noteq> None) es)"
    using 3(1) [OF p [symmetric] _ d [folded eq(1)]] s1 eq(1) by simp
  moreover have "out s1 @ buf s1 @ ys = out s @ buf s @ xs"
    using s1(1) eq(2) by (metis append.assoc append_Cons append_Nil append_Nil2)
  ultimately show ?case using eq s1(3) by auto
qed simp

end

text \<open>\<open>strings.Contains\<close>.\<close>

fun strings_Contains :: "string \<Rightarrow> string \<Rightarrow> bool" where
  "strings_Contains [] sub \<longleftrightarrow> sub = []"
| "strings_Contains (x # xs) sub \<longleftrightarrow> take (length sub) (x # xs) = sub \<or> strings_Contains xs sub"

end
