(* ===== verification/Slive_Errors.thy ===== *)
theory Slive_Errors
  imports Slive_Prelude
begin

text \<open>
  Go error values. A sentinel (\<open>errors.New\<close> stored in a package variable) is a
  constructor; \<open>fmt.Errorf\<close> with \<open>%w\<close> verbs is \<open>Wrapf\<close>, which carries the rendered
  text and the wrapped errors; \<open>errors.Is\<close> searches that tree. A nil error is \<open>None\<close>
  of type \<open>gerror option\<close>.
\<close>

text \<open>The sentinels of \<open>internal/domain/errors.go\<close>.\<close>

datatype domain_error =
    ErrRoomClosed
  | ErrParticipantAlreadyExists
  | ErrParticipantNotFound
  | ErrParticipantLeft
  | ErrTrackAlreadyPublished
  | ErrTrackAlreadySubscribed
  | ErrTrackNotFound
  | ErrInvalidTrackKind
  | ErrInvalidTrackSource
  | ErrTrackNotPublished

fun domain_error_text :: "domain_error \<Rightarrow> string" where
  "domain_error_text ErrRoomClosed = ''room is closed''"
| "domain_error_text ErrParticipantAlreadyExists = ''participant already exists in the room''"
| "domain_error_text ErrParticipantNotFound = ''participant not found in the room''"
| "domain_error_text ErrParticipantLeft = ''participant has left the room''"
| "domain_error_text ErrTrackAlreadyPublished = ''track already published by participant''"
| "domain_error_text ErrTrackAlreadySubscribed = ''track already subscribed by participant''"
| "domain_error_text ErrTrackNotFound = ''track not found''"
| "domain_error_text ErrInvalidTrackKind = ''invalid track kind''"
| "domain_error_text ErrInvalidTrackSource = ''invalid track source''"
| "domain_error_text ErrTrackNotPublished = ''track not published''"

text \<open>The sentinels of \<open>internal/webrtc/errors.go\<close>; \<open>WErrTrackNotFound\<close> is
  \<open>webrtc.ErrTrackNotFound\<close>, a different variable from the domain's.\<close>

datatype webrtc_error =
    ErrTrackNotReady
  | WErrTrackNotFound
  | ErrPeerConnectionClosed
  | ErrInvalidSDP
  | ErrInvalidICECandidate
  | ErrNoPeerConnection
  | ErrSignalingError
  | ErrNegotiationFailed
  | ErrICEFailed
  | ErrNoPendingOffer
  | ErrUnexpectedOffer

fun webrtc_error_text :: "webrtc_error \<Rightarrow> string" where
  "webrtc_error_text ErrTrackNotReady = ''track not ready''"
| "webrtc_error_text WErrTrackNotFound = ''track not found''"
| "webrtc_error_text ErrPeerConnectionClosed = ''peer connection closed''"
| "webrtc_error_text ErrInvalidSDP = ''invalid SDP''"
| "webrtc_error_text ErrInvalidICECandidate = ''invalid ICE candidate''"
| "webrtc_error_text ErrNoPeerConnection = ''no peer connection''"
| "webrtc_error_text ErrSignalingError = ''signaling error''"
| "webrtc_error_text ErrNegotiationFailed = ''negotiation failed''"
| "webrtc_error_text ErrICEFailed = ''ice candidate failed''"
| "webrtc_error_text ErrNoPendingOffer = ''answer with no outstanding server offer''"
| "webrtc_error_text ErrUnexpectedOffer =
     ''unexpected browser offer while negotiation in progress''"

text \<open>The sentinels of the signaling package (\<open>message.go\<close>, \<open>connection.go\<close>,
  \<open>handler.go\<close>).\<close>

datatype signaling_error = ErrInvalidRequest | ErrConnectionClosed | ErrConnectionNotFound

fun signaling_error_text :: "signaling_error \<Rightarrow> string" where
  "signaling_error_text ErrInvalidRequest = ''invalid request''"
| "signaling_error_text ErrConnectionClosed = ''connection closed''"
| "signaling_error_text ErrConnectionNotFound = ''connection not found''"

text \<open>\<open>OtherE\<close> is any error value without a package variable: one built in place, or one
  returned by a library.\<close>

datatype sentinel =
    DomainE domain_error
  | WebrtcE webrtc_error
  | SignalingE signaling_error
  | OtherE string

datatype gerror = Sent sentinel | Wrapf string "gerror list"

fun sentinel_text :: "sentinel \<Rightarrow> string" where
  "sentinel_text (DomainE e) = domain_error_text e"
| "sentinel_text (WebrtcE e) = webrtc_error_text e"
| "sentinel_text (SignalingE e) = signaling_error_text e"
| "sentinel_text (OtherE s) = s"

fun error_text :: "gerror \<Rightarrow> string" where
  "error_text (Sent s) = sentinel_text s"
| "error_text (Wrapf t _) = t"

fun errors_Is :: "gerror \<Rightarrow> sentinel \<Rightarrow> bool" where
  "errors_Is (Sent s) t \<longleftrightarrow> s = t"
| "errors_Is (Wrapf _ es) t \<longleftrightarrow> (\<exists>e \<in> set es. errors_Is e t)"

abbreviation derr :: "domain_error \<Rightarrow> gerror" where
  "derr e \<equiv> Sent (DomainE e)"

abbreviation werr :: "webrtc_error \<Rightarrow> gerror" where
  "werr e \<equiv> Sent (WebrtcE e)"

abbreviation serr :: "signaling_error \<Rightarrow> gerror" where
  "serr e \<equiv> Sent (SignalingE e)"

end
