(* ===== verification/Domain_Track.thy ===== *)
theory Domain_Track
  imports Slive_Errors
begin

text \<open>
  The object store of \<open>internal/domain\<close> and the track component (\<open>track.go\<close>).

  Tracks, participants and rooms are shared by pointer: the same \<open>*Track\<close> sits in the
  room registry, in its publisher's map and in each subscriber's map. The store \<open>dheap\<close>
  maps addresses to objects, one function per struct type with its allocation counter; a
  pointer is an address, a nilable pointer an \<open>option\<close>. Every method takes the mutex of
  its receiver for its whole body, so one method is one step; mutexes are not part of the
  objects.
\<close>

type_synonym taddr = nat
type_synonym paddr = nat
type_synonym raddr = nat

subsection \<open>Enumerations\<close>

text \<open>\<open>TrackKind\<close> and \<open>TrackSource\<close> are Go \<open>int\<close>s that callers supply, so values
  outside the constants exist and are rejected by \<open>NewTrack\<close>.\<close>

type_synonym TrackKind = int
type_synonym TrackSource = int

definition TrackKindAudio :: TrackKind where "TrackKindAudio = 0"
definition TrackKindVideo :: TrackKind where "TrackKindVideo = 1"

definition TrackKind_String :: "TrackKind \<Rightarrow> string" where
  "TrackKind_String k =
     (if k = TrackKindAudio then ''audio''
      else if k = TrackKindVideo then ''video''
      else ''unknown'')"

definition TrackSourceMicrophone :: TrackSource where "TrackSourceMicrophone = 0"
definition TrackSourceCamera :: TrackSource where "TrackSourceCamera = 1"
definition TrackSourceScreenShare :: TrackSource where "TrackSourceScreenShare = 2"

definition TrackSource_String :: "TrackSource \<Rightarrow> string" where
  "TrackSource_String s =
     (if s = TrackSourceMicrophone then ''microphone''
      else if s = TrackSourceCamera then ''camera''
      else if s = TrackSourceScreenShare then ''screen_share''
      else ''unknown'')"

datatype TrackState = TrackStateCreated | TrackStatePublished | TrackStateUnpublished

fun TrackState_String :: "TrackState \<Rightarrow> string" where
  "TrackState_String TrackStateCreated = ''created''"
| "TrackState_String TrackStatePublished = ''published''"
| "TrackState_String TrackStateUnpublished = ''unpublished''"

datatype ParticipantState =
  ParticipantStateJoined | ParticipantStateActive | ParticipantStateLeft

fun ParticipantState_String :: "ParticipantState \<Rightarrow> string" where
  "ParticipantState_String ParticipantStateJoined = ''joined''"
| "ParticipantState_String ParticipantStateActive = ''active''"
| "ParticipantState_String ParticipantStateLeft = ''left''"

datatype RoomState = RoomStateCreated | RoomStateActive | RoomStateClosed

fun RoomState_String :: "RoomState \<Rightarrow> string" where
  "RoomState_String RoomStateCreated = ''created''"
| "RoomState_String RoomStateActive = ''active''"
| "RoomState_String RoomStateClosed = ''closed''"

lemmas track_consts =
  TrackKindAudio_def TrackKindVideo_def TrackSourceMicrophone_def TrackSourceCamera_def
  TrackSourceScreenShare_def

subsection \<open>The structs and the object store\<close>

record Track =
  t_id :: string
  t_kind :: TrackKind
  t_source :: TrackSource
  t_state :: TrackState
  publisher :: "paddr option"
  subscribers :: "(string, paddr) gomap"

record Participant =
  p_id :: string
  p_name :: string
  p_state :: ParticipantState
  p_room :: "raddr option"
  pubTracks :: "(string, taddr) gomap"
  subTracks :: "(string, taddr) gomap"

record Room =
  r_id :: string
  r_state :: RoomState
  participants :: "(string, paddr) gomap"
  tracks :: "(string, taddr) gomap"

record dheap =
  trk :: "taddr \<Rightarrow> Track"
  par :: "paddr \<Rightarrow> Participant"
  rom :: "raddr \<Rightarrow> Room"
  ntrk :: nat
  npar :: nat
  nrom :: nat

definition upd_trk :: "taddr \<Rightarrow> (Track \<Rightarrow> Track) \<Rightarrow> dheap \<Rightarrow> dheap" where
  "upd_trk t f h = h\<lparr>trk := (trk h)(t := f (trk h t))\<rparr>"

definition upd_par :: "paddr \<Rightarrow> (Participant \<Rightarrow> Participant) \<Rightarrow> dheap \<Rightarrow> dheap" where
  "upd_par p f h = h\<lparr>par := (par h)(p := f (par h p))\<rparr>"

definition upd_rom :: "raddr \<Rightarrow> (Room \<Rightarrow> Room) \<Rightarrow> dheap \<Rightarrow> dheap" where
  "upd_rom r f h = h\<lparr>rom := (rom h)(r := f (rom h r))\<rparr>"

lemma upd_trk_sel [simp]:
  "trk (upd_trk t f h) = (trk h)(t := f (trk h t))"
  "par (upd_trk t f h) = par h" "rom (upd_trk t f h) = rom h"
  "ntrk (upd_trk t f h) = ntrk h" "npar (upd_trk t f h) = npar h" "nrom (upd_trk t f h) = nrom h"
  by (simp_all add: upd_trk_def)

lemma upd_par_sel [simp]:
  "par (upd_par p g h) = (par h)(p := g (par h p))"
  "trk (upd_par p g h) = trk h" "rom (upd_par p g h) = rom h"
  "ntrk (upd_par p g h) = ntrk h" "npar (upd_par p g h) = npar h" "nrom (upd_par p g h) = nrom h"
  by (simp_all add: upd_par_def)

lemma upd_rom_sel [simp]:
  "rom (upd_rom r k h) = (rom h)(r := k (rom h r))"
  "trk (upd_rom r k h) = trk h" "par (upd_rom r k h) = par h"
  "ntrk (upd_rom r k h) = ntrk h" "npar (upd_rom r k h) = npar h" "nrom (upd_rom r k h) = nrom h"
  by (simp_all add: upd_rom_def)

subsection \<open>Track operations\<close>

definition isValidTrackKind :: "TrackKind \<Rightarrow> bool" where
  "isValidTrackKind kind \<longleftrightarrow> kind = TrackKindAudio \<or> kind = TrackKindVideo"

definition isValidTrackSource :: "TrackSource \<Rightarrow> bool" where
  "isValidTrackSource source \<longleftrightarrow>
     source = TrackSourceMicrophone \<or> source = TrackSourceCamera \<or> source = TrackSourceScreenShare"

definition mkTrack :: "string \<Rightarrow> TrackKind \<Rightarrow> TrackSource \<Rightarrow> Track" where
  "mkTrack i kind source = \<lparr>t_id = i, t_kind = kind, t_source = source,
     t_state = TrackStateCreated, publisher = None, subscribers = []\<rparr>"

definition NewTrackUnvalidated ::
  "string \<Rightarrow> TrackKind \<Rightarrow> TrackSource \<Rightarrow> dheap \<Rightarrow> taddr \<times> dheap" where
  "NewTrackUnvalidated i kind source h =
     (ntrk h, h\<lparr>trk := (trk h)(ntrk h := mkTrack i kind source), ntrk := Suc (ntrk h)\<rparr>)"

definition NewTrack ::
  "string \<Rightarrow> TrackKind \<Rightarrow> TrackSource \<Rightarrow> dheap \<Rightarrow> (gerror + taddr) \<times> dheap" where
  "NewTrack i kind source h =
     (if \<not> isValidTrackKind kind then (Inl (derr ErrInvalidTrackKind), h)
      else if \<not> isValidTrackSource source then (Inl (derr ErrInvalidTrackSource), h)
      else (Inr (ntrk h),
            h\<lparr>trk := (trk h)(ntrk h := mkTrack i kind source), ntrk := Suc (ntrk h)\<rparr>))"

definition Track_SetPublisher :: "taddr \<Rightarrow> paddr option \<Rightarrow> dheap \<Rightarrow> dheap" where
  "Track_SetPublisher t p = upd_trk t (\<lambda>x. x\<lparr>publisher := p\<rparr>)"

definition Track_Publish :: "taddr \<Rightarrow> dheap \<Rightarrow> dheap" where
  "Track_Publish t = upd_trk t (\<lambda>x. x\<lparr>t_state := TrackStatePublished\<rparr>)"

definition Track_Unpublish :: "taddr \<Rightarrow> dheap \<Rightarrow> dheap" where
  "Track_Unpublish t = upd_trk t (\<lambda>x. x\<lparr>t_state := TrackStateUnpublished\<rparr>)"

definition Track_addSubscriber ::
  "taddr \<Rightarrow> paddr \<Rightarrow> string \<Rightarrow> dheap \<Rightarrow> gerror option \<times> dheap" where
  "Track_addSubscriber t p participantID h =
     (if t_state (trk h t) \<noteq> TrackStatePublished then (Some (derr ErrTrackNotPublished), h)
      else if mget (subscribers (trk h t)) participantID \<noteq> None then (None, h)
      else (None, upd_trk t (\<lambda>x. x\<lparr>subscribers := mput participantID p (subscribers x)\<rparr>) h))"

definition Track_AddSubscriber :: "taddr \<Rightarrow> paddr \<Rightarrow> dheap \<Rightarrow> gerror option \<times> dheap" where
  "Track_AddSubscriber t p h = Track_addSubscriber t p (p_id (par h p)) h"

definition Track_RemoveSubscriber :: "taddr \<Rightarrow> string \<Rightarrow> dheap \<Rightarrow> dheap" where
  "Track_RemoveSubscriber t participantID =
     upd_trk t (\<lambda>x. x\<lparr>subscribers := mdel participantID (subscribers x)\<rparr>)"

definition Track_Subscribers :: "taddr \<Rightarrow> dheap \<Rightarrow> string list" where
  "Track_Subscribers t h = mkeys (subscribers (trk h t))"

definition Track_GetSubscriber :: "taddr \<Rightarrow> string \<Rightarrow> dheap \<Rightarrow> paddr option" where
  "Track_GetSubscriber t participantID h = mget (subscribers (trk h t)) participantID"

definition Track_SubscriberCount :: "taddr \<Rightarrow> dheap \<Rightarrow> nat" where
  "Track_SubscriberCount t h = length (subscribers (trk h t))"

definition Track_HasSubscribers :: "taddr \<Rightarrow> dheap \<Rightarrow> bool" where
  "Track_HasSubscribers t h \<longleftrightarrow> length (subscribers (trk h t)) > 0"

lemmas track_ops =
  Track_SetPublisher_def Track_Publish_def Track_Unpublish_def Track_addSubscriber_def
  Track_AddSubscriber_def Track_RemoveSubscriber_def

subsection \<open>Track lemmas\<close>

lemma NewTrack_valid:
  "(\<exists>t h'. NewTrack i k s h = (Inr t, h')) \<longleftrightarrow> isValidTrackKind k \<and> isValidTrackSource s"
  by (simp add: NewTrack_def)

lemma NewTrack_InrD:
  "NewTrack i k s h = (Inr t, h') \<Longrightarrow>
     t = ntrk h \<and> trk h' = (trk h)(t := mkTrack i k s) \<and> par h' = par h \<and> rom h' = rom h \<and>
     ntrk h' = Suc (ntrk h) \<and> npar h' = npar h \<and> nrom h' = nrom h"
  by (auto simp: NewTrack_def split: if_splits)

lemma NewTrack_InlD:
  "NewTrack i k s h = (Inl e, h') \<Longrightarrow>
     h' = h \<and> (e = derr ErrInvalidTrackKind \<or> e = derr ErrInvalidTrackSource)"
  by (auto simp: NewTrack_def split: if_splits)

lemma addSubscriber_error:
  "fst (Track_addSubscriber t p i h) = Some e \<longleftrightarrow>
     e = derr ErrTrackNotPublished \<and> t_state (trk h t) \<noteq> TrackStatePublished"
  by (auto simp: Track_addSubscriber_def)

lemma HasSubscribers_iff:
  "Track_HasSubscribers t h \<longleftrightarrow> (\<exists>i p. Track_GetSubscriber t i h = Some p)"
  by (simp add: Track_HasSubscribers_def Track_GetSubscriber_def mget_Nil_iff)

lemma SubscriberCount_add:
  assumes "t_state (trk h t) = TrackStatePublished" and "Track_GetSubscriber t i h = None"
  shows "Track_SubscriberCount t (snd (Track_addSubscriber t p i h)) =
           Suc (Track_SubscriberCount t h)"
  using assms
  by (simp add: Track_SubscriberCount_def Track_addSubscriber_def Track_GetSubscriber_def
      length_mput_fresh)

end
