(* ===== verification/Domain_Participant.thy ===== *)
theory Domain_Participant
  imports Domain_Track
begin

text \<open>
  The participant component (\<open>internal/domain/participant.go\<close>): publication and
  subscription bookkeeping of one client, and the mirrored entries in the tracks.
\<close>

subsection \<open>Operations\<close>

definition mkParticipant :: "string \<Rightarrow> string \<Rightarrow> Participant" where
  "mkParticipant i name = \<lparr>p_id = i, p_name = name, p_state = ParticipantStateJoined,
     p_room = None, pubTracks = [], subTracks = []\<rparr>"

definition NewParticipant :: "string \<Rightarrow> string \<Rightarrow> dheap \<Rightarrow> paddr \<times> dheap" where
  "NewParticipant i name h =
     (npar h, h\<lparr>par := (par h)(npar h := mkParticipant i name), npar := Suc (npar h)\<rparr>)"

definition Participant_SetRoom :: "paddr \<Rightarrow> raddr option \<Rightarrow> dheap \<Rightarrow> dheap" where
  "Participant_SetRoom p room = upd_par p (\<lambda>x. x\<lparr>p_room := room\<rparr>)"

definition Participant_Activate :: "paddr \<Rightarrow> dheap \<Rightarrow> dheap" where
  "Participant_Activate p = upd_par p (\<lambda>x. x\<lparr>p_state := ParticipantStateActive\<rparr>)"

text \<open>\<open>Leave\<close>: two \<open>range\<close> loops, over the published and over the subscribed tracks,
  each deleting the entry it visits.\<close>

definition leave_published :: "paddr \<Rightarrow> string \<Rightarrow> string \<times> taddr \<Rightarrow> dheap \<Rightarrow> dheap" where
  "leave_published p participantID = (\<lambda>(trackID, track) h.
     upd_par p (\<lambda>x. x\<lparr>pubTracks := mdel trackID (pubTracks x)\<rparr>)
       (Track_RemoveSubscriber track participantID
         (Track_SetPublisher track None (Track_Unpublish track h))))"

definition leave_subscribed :: "paddr \<Rightarrow> string \<Rightarrow> string \<times> taddr \<Rightarrow> dheap \<Rightarrow> dheap" where
  "leave_subscribed p participantID = (\<lambda>(trackID, track) h.
     upd_par p (\<lambda>x. x\<lparr>subTracks := mdel trackID (subTracks x)\<rparr>) (Track_RemoveSubscriber track participantID h))"

definition Participant_Leave :: "paddr \<Rightarrow> dheap \<Rightarrow> dheap" where
  "Participant_Leave p h =
     (let h1 = upd_par p (\<lambda>x. x\<lparr>p_state := ParticipantStateLeft\<rparr>) h;
          participantID = p_id (par h1 p);
          h2 = fold (leave_published p participantID) (pubTracks (par h1 p)) h1;
          h3 = fold (leave_subscribed p participantID) (subTracks (par h2 p)) h2
      in upd_par p (\<lambda>x. x\<lparr>pubTracks := [], subTracks := [], p_room := None\<rparr>) h3)"

definition Participant_PublishTrack :: "paddr \<Rightarrow> taddr \<Rightarrow> dheap \<Rightarrow> gerror option \<times> dheap" where
  "Participant_PublishTrack p track h =
     (if p_state (par h p) = ParticipantStateLeft then (Some (derr ErrParticipantLeft), h)
      else if mget (pubTracks (par h p)) (t_id (trk h track)) \<noteq> None
      then (Some (derr ErrTrackAlreadyPublished), h)
      else (None,
        Track_Publish track (Track_SetPublisher track (Some p)
          (upd_par p (\<lambda>x. x\<lparr>pubTracks := mput (t_id (trk h track)) track (pubTracks x)\<rparr>) h))))"

definition Participant_UnpublishTrack :: "paddr \<Rightarrow> string \<Rightarrow> dheap \<Rightarrow> gerror option \<times> dheap" where
  "Participant_UnpublishTrack p trackID h =
     (if p_state (par h p) = ParticipantStateLeft then (Some (derr ErrParticipantLeft), h)
      else (case mget (pubTracks (par h p)) trackID of
        None \<Rightarrow> (Some (derr ErrTrackNotFound), h)
      | Some track \<Rightarrow>
          (None, upd_par p (\<lambda>x. x\<lparr>pubTracks := mdel trackID (pubTracks x)\<rparr>) (Track_Unpublish track h))))"

definition Participant_SubscribeTrack :: "paddr \<Rightarrow> taddr \<Rightarrow> dheap \<Rightarrow> gerror option \<times> dheap" where
  "Participant_SubscribeTrack p track h =
     (if p_state (par h p) = ParticipantStateLeft then (Some (derr ErrParticipantLeft), h)
      else if mget (subTracks (par h p)) (t_id (trk h track)) \<noteq> None
      then (Some (derr ErrTrackAlreadySubscribed), h)
      else
        let h1 = upd_par p (\<lambda>x. x\<lparr>subTracks := mput (t_id (trk h track)) track (subTracks x)\<rparr>) h
        in (case Track_addSubscriber track p (p_id (par h1 p)) h1 of
              (None, h2) \<Rightarrow> (None, h2)
            | (Some err, h2) \<Rightarrow>
                (Some err, upd_par p (\<lambda>x. x\<lparr>subTracks := mdel (t_id (trk h2 track)) (subTracks x)\<rparr>) h2)))"

definition Participant_UnsubscribeTrack :: "paddr \<Rightarrow> string \<Rightarrow> dheap \<Rightarrow> gerror option \<times> dheap" where
  "Participant_UnsubscribeTrack p trackID h =
     (if p_state (par h p) = ParticipantStateLeft then (Some (derr ErrParticipantLeft), h)
      else (case mget (subTracks (par h p)) trackID of
        None \<Rightarrow> (Some (derr ErrTrackNotFound), h)
      | Some track \<Rightarrow>
          (None, upd_par p (\<lambda>x. x\<lparr>subTracks := mdel trackID (subTracks x)\<rparr>)
                   (Track_RemoveSubscriber track (p_id (par h p)) h))))"

definition Participant_PublishedTracks :: "paddr \<Rightarrow> dheap \<Rightarrow> string list" where
  "Participant_PublishedTracks p h = mkeys (pubTracks (par h p))"

definition Participant_SubscribedTracks :: "paddr \<Rightarrow> dheap \<Rightarrow> string list" where
  "Participant_SubscribedTracks p h = mkeys (subTracks (par h p))"

definition Participant_GetPublishedTrack :: "paddr \<Rightarrow> string \<Rightarrow> dheap \<Rightarrow> taddr option" where
  "Participant_GetPublishedTrack p trackID h = mget (pubTracks (par h p)) trackID"

definition Participant_GetSubscribedTrack :: "paddr \<Rightarrow> string \<Rightarrow> dheap \<Rightarrow> taddr option" where
  "Participant_GetSubscribedTrack p trackID h = mget (subTracks (par h p)) trackID"

lemmas participant_ops =
  Participant_SetRoom_def Participant_Activate_def Participant_PublishTrack_def
  Participant_UnpublishTrack_def Participant_SubscribeTrack_def Participant_UnsubscribeTrack_def

subsection \<open>Exact effects\<close>

text \<open>A failing operation leaves every object as it was.\<close>

lemma PublishTrack_error:
  "Participant_PublishTrack p t h = (Some e, h') \<Longrightarrow> h' = h"
  by (auto simp: Participant_PublishTrack_def split: if_splits)

lemma UnpublishTrack_error:
  "Participant_UnpublishTrack p i h = (Some e, h') \<Longrightarrow> h' = h"
  by (auto simp: Participant_UnpublishTrack_def split: if_splits option.splits)

lemma UnsubscribeTrack_error:
  "Participant_UnsubscribeTrack p i h = (Some e, h') \<Longrightarrow> h' = h"
  by (auto simp: Participant_UnsubscribeTrack_def split: if_splits option.splits)

lemma subscribe_rollback:
  assumes "mget (subTracks (par h p)) k = None"
  shows "upd_par p (\<lambda>x. x\<lparr>subTracks := mdel k (subTracks x)\<rparr>)
           (upd_par p (\<lambda>x. x\<lparr>subTracks := mput k v (subTracks x)\<rparr>) h) = h"
  using assms by (simp add: upd_par_def mdel_mput_absent)

lemma SubscribeTrack_error:
  "Participant_SubscribeTrack p t h = (Some e, h') \<Longrightarrow> h' = h"
  by (auto simp: Participant_SubscribeTrack_def Track_addSubscriber_def Let_def
      subscribe_rollback split: if_splits)

lemma SubscribeTrack_ok:
  assumes "Participant_SubscribeTrack p t h = (None, h')"
  shows "p_state (par h p) \<noteq> ParticipantStateLeft"
    and "mget (subTracks (par h p)) (t_id (trk h t)) = None"
    and "t_state (trk h t) = TrackStatePublished"
    and "par h' = (par h)(p := (par h p)\<lparr>subTracks := mput (t_id (trk h t)) t (subTracks (par h p))\<rparr>)"
    and "trk h' = (if mget (subscribers (trk h t)) (p_id (par h p)) = None
           then (trk h)(t := (trk h t)\<lparr>subscribers :=
                  mput (p_id (par h p)) p (subscribers (trk h t))\<rparr>)
           else trk h)"
    and "rom h' = rom h" and "ntrk h' = ntrk h" and "npar h' = npar h" and "nrom h' = nrom h"
  using assms
  by (auto simp: Participant_SubscribeTrack_def Track_addSubscriber_def Let_def
      split: if_splits)

lemma PublishTrack_ok:
  assumes "Participant_PublishTrack p t h = (None, h')"
  shows "p_state (par h p) \<noteq> ParticipantStateLeft"
    and "mget (pubTracks (par h p)) (t_id (trk h t)) = None"
    and "par h' = (par h)(p := (par h p)\<lparr>pubTracks := mput (t_id (trk h t)) t (pubTracks (par h p))\<rparr>)"
    and "trk h' = (trk h)(t := (trk h t)\<lparr>publisher := Some p, t_state := TrackStatePublished\<rparr>)"
    and "rom h' = rom h" and "ntrk h' = ntrk h" and "npar h' = npar h" and "nrom h' = nrom h"
  using assms
  by (auto simp: Participant_PublishTrack_def Track_Publish_def Track_SetPublisher_def
      split: if_splits)

lemma UnpublishTrack_ok:
  assumes "Participant_UnpublishTrack p i h = (None, h')"
  obtains t where "mget (pubTracks (par h p)) i = Some t"
    and "par h' = (par h)(p := (par h p)\<lparr>pubTracks := mdel i (pubTracks (par h p))\<rparr>)"
    and "trk h' = (trk h)(t := (trk h t)\<lparr>t_state := TrackStateUnpublished\<rparr>)"
    and "rom h' = rom h" and "ntrk h' = ntrk h" and "npar h' = npar h" and "nrom h' = nrom h"
  using assms
  by (auto simp: Participant_UnpublishTrack_def Track_Unpublish_def
      split: if_splits option.splits)

lemma UnsubscribeTrack_ok:
  assumes "Participant_UnsubscribeTrack p i h = (None, h')"
  obtains t where "mget (subTracks (par h p)) i = Some t"
    and "p_state (par h p) \<noteq> ParticipantStateLeft"
    and "par h' = (par h)(p := (par h p)\<lparr>subTracks := mdel i (subTracks (par h p))\<rparr>)"
    and "trk h' = (trk h)(t := (trk h t)\<lparr>subscribers := mdel (p_id (par h p)) (subscribers (trk h t))\<rparr>)"
    and "rom h' = rom h" and "ntrk h' = ntrk h" and "npar h' = npar h" and "nrom h' = nrom h"
  using assms
  by (auto simp: Participant_UnsubscribeTrack_def Track_RemoveSubscriber_def
      split: if_splits option.splits)

subsection \<open>Participant.Leave\<close>

lemma leave_published_fold:
  "par (fold (leave_published p i) xs h) =
     (par h)(p := (par h p)\<lparr>pubTracks := fold (\<lambda>e. mdel (fst e)) xs (pubTracks (par h p))\<rparr>) \<and>
   rom (fold (leave_published p i) xs h) = rom h"
  by (induction xs arbitrary: h) (auto simp: leave_published_def track_ops)

lemma leave_subscribed_fold:
  "par (fold (leave_subscribed p i) xs h) =
     (par h)(p := (par h p)\<lparr>subTracks := fold (\<lambda>e. mdel (fst e)) xs (subTracks (par h p))\<rparr>) \<and>
   rom (fold (leave_subscribed p i) xs h) = rom h"
  by (induction xs arbitrary: h) (auto simp: leave_subscribed_def track_ops)

lemma leave_published_trk:
  "trk (fold (leave_published p i) xs h) t =
     (if t \<in> snd ` set xs
      then (trk h t)\<lparr>t_state := TrackStateUnpublished, publisher := None,
             subscribers := mdel i (subscribers (trk h t))\<rparr>
      else trk h t)"
proof (induction xs arbitrary: h)
  case (Cons x xs)
  then show ?case
    by (cases x) (auto simp: leave_published_def track_ops delete_twist)
qed simp

lemma leave_subscribed_trk:
  "trk (fold (leave_subscribed p i) xs h) t =
     (if t \<in> snd ` set xs
      then (trk h t)\<lparr>subscribers := mdel i (subscribers (trk h t))\<rparr>
      else trk h t)"
proof (induction xs arbitrary: h)
  case (Cons x xs)
  then show ?case
    by (cases x) (auto simp: leave_subscribed_def track_ops)
qed simp

text \<open>
  The whole effect of \<open>Leave\<close> on the store: the participant is emptied, its published
  tracks lose state, owner and its own subscription, its subscribed tracks lose its
  subscription, nothing else changes.
\<close>

lemma Leave_par:
  "par (Participant_Leave p h) =
     (par h)(p := (par h p)\<lparr>p_state := ParticipantStateLeft, pubTracks := [], subTracks := [],
                p_room := None\<rparr>)"
  by (auto simp: Participant_Leave_def Let_def leave_published_fold leave_subscribed_fold)

lemma Leave_rom [simp]: "rom (Participant_Leave p h) = rom h"
  by (simp add: Participant_Leave_def Let_def leave_published_fold leave_subscribed_fold)

lemma Leave_trk:
  "trk (Participant_Leave p h) t =
     (let x = trk h t; i = p_id (par h p);
          x' = (if t \<in> snd ` set (pubTracks (par h p))
                then x\<lparr>t_state := TrackStateUnpublished, publisher := None,
                       subscribers := mdel i (subscribers x)\<rparr> else x)
      in if t \<in> snd ` set (subTracks (par h p))
         then x'\<lparr>subscribers := mdel i (subscribers x')\<rparr> else x')"
  by (simp add: Participant_Leave_def Let_def leave_published_trk leave_subscribed_trk
      leave_published_fold)

end
