(* ===== verification/Domain_Room.thy ===== *)
theory Domain_Room
  imports Domain_Participant
begin

text \<open>
  The room component (\<open>internal/domain/room.go\<close>): membership, the room-wide track
  registry, subscription through the registry, and the teardown of a departing member.
\<close>

subsection \<open>Operations\<close>

definition mkRoom :: "string \<Rightarrow> Room" where
  "mkRoom i = \<lparr>r_id = i, r_state = RoomStateCreated, participants = [], tracks = []\<rparr>"

definition NewRoom :: "string \<Rightarrow> dheap \<Rightarrow> raddr \<times> dheap" where
  "NewRoom i h = (nrom h, h\<lparr>rom := (rom h)(nrom h := mkRoom i), nrom := Suc (nrom h)\<rparr>)"

definition Room_Participants :: "raddr \<Rightarrow> dheap \<Rightarrow> string list" where
  "Room_Participants r h = mkeys (participants (rom h r))"

definition Room_Tracks :: "raddr \<Rightarrow> dheap \<Rightarrow> string list" where
  "Room_Tracks r h = mkeys (tracks (rom h r))"

definition Room_GetParticipant :: "raddr \<Rightarrow> string \<Rightarrow> dheap \<Rightarrow> paddr option" where
  "Room_GetParticipant r participantID h = mget (participants (rom h r)) participantID"

definition Room_GetTrack :: "raddr \<Rightarrow> string \<Rightarrow> dheap \<Rightarrow> taddr option" where
  "Room_GetTrack r trackID h = mget (tracks (rom h r)) trackID"

definition Room_Create :: "raddr \<Rightarrow> dheap \<Rightarrow> gerror option \<times> dheap" where
  "Room_Create r h =
     (if r_state (rom h r) = RoomStateClosed then (Some (derr ErrRoomClosed), h)
      else if r_state (rom h r) = RoomStateCreated
      then (None, upd_rom r (\<lambda>x. x\<lparr>r_state := RoomStateActive\<rparr>) h)
      else (None, h))"

definition Room_Join :: "raddr \<Rightarrow> paddr \<Rightarrow> dheap \<Rightarrow> gerror option \<times> dheap" where
  "Room_Join r p h =
     (if r_state (rom h r) = RoomStateClosed then (Some (derr ErrRoomClosed), h)
      else if mget (participants (rom h r)) (p_id (par h p)) \<noteq> None
      then (Some (derr ErrParticipantAlreadyExists), h)
      else (None, upd_rom r (\<lambda>x. x\<lparr>participants := mput (p_id (par h p)) p (participants x)\<rparr>) h))"

definition detach_subscriber ::
  "raddr \<Rightarrow> taddr \<Rightarrow> string \<Rightarrow> string \<Rightarrow> dheap \<Rightarrow> dheap" where
  "detach_subscriber r track excl subscriberID h =
     (if subscriberID = excl then h
      else
        let h1 = (case mget (participants (rom h r)) subscriberID of
                    Some subscriber \<Rightarrow>
                      snd (Participant_UnsubscribeTrack subscriber (t_id (trk h track)) h)
                  | None \<Rightarrow> h)
        in Track_RemoveSubscriber track subscriberID h1)"

definition Room_destroyTrackLocked :: "raddr \<Rightarrow> taddr \<Rightarrow> string \<Rightarrow> dheap \<Rightarrow> dheap" where
  "Room_destroyTrackLocked r track excl h =
     (let h1 = Track_SetPublisher track None (Track_Unpublish track h);
          h2 = upd_rom r (\<lambda>x. x\<lparr>tracks := mdel (t_id (trk h1 track)) (tracks x)\<rparr>) h1
      in fold (detach_subscriber r track excl) (Track_Subscribers track h2) h2)"

text \<open>The three loops of \<open>Leave\<close>. The second one ranges over the registry while it
  deletes from it: an entry that is gone when its turn comes is not visited.\<close>

definition leave_destroy :: "raddr \<Rightarrow> paddr \<Rightarrow> string \<Rightarrow> string \<Rightarrow> dheap \<Rightarrow> dheap" where
  "leave_destroy r p participantID trackID h =
     (case Participant_GetPublishedTrack p trackID h of
        Some track \<Rightarrow> Room_destroyTrackLocked r track participantID h
      | None \<Rightarrow> h)"

definition leave_purge :: "raddr \<Rightarrow> string \<Rightarrow> string \<Rightarrow> dheap \<Rightarrow> dheap" where
  "leave_purge r participantID trackID h =
     (case mget (tracks (rom h r)) trackID of
        None \<Rightarrow> h
      | Some track \<Rightarrow>
          if t_state (trk h track) = TrackStateUnpublished \<and> publisher (trk h track) = None
          then Room_destroyTrackLocked r track participantID h
          else h)"

definition leave_unsubscribe :: "raddr \<Rightarrow> paddr \<Rightarrow> string \<Rightarrow> dheap \<Rightarrow> dheap" where
  "leave_unsubscribe r p trackID h =
     (let h1 = snd (Participant_UnsubscribeTrack p trackID h)
      in (case mget (tracks (rom h1 r)) trackID of
            None \<Rightarrow> h1
          | Some track \<Rightarrow>
              if \<not> Track_HasSubscribers track h1 \<and> publisher (trk h1 track) = None
              then upd_rom r (\<lambda>x. x\<lparr>tracks := mdel trackID (tracks x)\<rparr>) h1
              else h1))"

definition Room_Leave :: "raddr \<Rightarrow> string \<Rightarrow> dheap \<Rightarrow> gerror option \<times> dheap" where
  "Room_Leave r participantID h =
     (if r_state (rom h r) = RoomStateClosed then (Some (derr ErrRoomClosed), h)
      else (case mget (participants (rom h r)) participantID of
        None \<Rightarrow> (Some (derr ErrParticipantNotFound), h)
      | Some p \<Rightarrow>
          let h1 = fold (leave_destroy r p participantID) (Participant_PublishedTracks p h) h;
              h2 = fold (leave_purge r participantID) (mkeys (tracks (rom h1 r))) h1;
              h3 = fold (leave_unsubscribe r p) (Participant_SubscribedTracks p h2) h2
          in (None, upd_rom r (\<lambda>x. x\<lparr>participants := mdel participantID (participants x)\<rparr>) h3)))"

definition Room_Close :: "raddr \<Rightarrow> dheap \<Rightarrow> gerror option \<times> dheap" where
  "Room_Close r h =
     (if r_state (rom h r) = RoomStateClosed then (None, h)
      else
        let h1 = upd_rom r (\<lambda>x. x\<lparr>r_state := RoomStateClosed\<rparr>) h;
            h2 = fold (\<lambda>(_, p). Participant_Leave p) (participants (rom h1 r)) h1
        in (None, upd_rom r (\<lambda>x. x\<lparr>participants := [], tracks := []\<rparr>) h2))"

definition Room_PublishTrack :: "raddr \<Rightarrow> taddr \<Rightarrow> dheap \<Rightarrow> gerror option \<times> dheap" where
  "Room_PublishTrack r track h =
     (if r_state (rom h r) = RoomStateClosed then (Some (derr ErrRoomClosed), h)
      else if mget (tracks (rom h r)) (t_id (trk h track)) \<noteq> None
      then (Some (derr ErrTrackAlreadyPublished), h)
      else (None, upd_rom r (\<lambda>x. x\<lparr>tracks := mput (t_id (trk h track)) track (tracks x)\<rparr>) h))"

definition Room_UnpublishTrack :: "raddr \<Rightarrow> string \<Rightarrow> dheap \<Rightarrow> gerror option \<times> dheap" where
  "Room_UnpublishTrack r trackID h =
     (if r_state (rom h r) = RoomStateClosed then (Some (derr ErrRoomClosed), h)
      else if mget (tracks (rom h r)) trackID = None then (Some (derr ErrTrackNotFound), h)
      else (None, upd_rom r (\<lambda>x. x\<lparr>tracks := mdel trackID (tracks x)\<rparr>) h))"

fun resolve_published :: "(string, paddr) gomap \<Rightarrow> string \<Rightarrow> dheap \<Rightarrow> taddr option" where
  "resolve_published [] trackID h = None"
| "resolve_published ((_, p) # ps) trackID h =
     (case Participant_GetPublishedTrack p trackID h of
        Some track \<Rightarrow> Some track
      | None \<Rightarrow> resolve_published ps trackID h)"

definition Room_resolvePublishedTrackLocked :: "raddr \<Rightarrow> string \<Rightarrow> dheap \<Rightarrow> taddr option" where
  "Room_resolvePublishedTrackLocked r trackID h =
     resolve_published (participants (rom h r)) trackID h"

definition room_lookup_track :: "raddr \<Rightarrow> string \<Rightarrow> dheap \<Rightarrow> taddr option" where
  "room_lookup_track r trackID h =
     (case mget (tracks (rom h r)) trackID of
        Some track \<Rightarrow> Some track
      | None \<Rightarrow> Room_resolvePublishedTrackLocked r trackID h)"

definition Room_SubscribeToTrack :: "raddr \<Rightarrow> paddr \<Rightarrow> string \<Rightarrow> dheap \<Rightarrow> gerror option \<times> dheap" where
  "Room_SubscribeToTrack r p trackID h =
     (if r_state (rom h r) = RoomStateClosed then (Some (derr ErrRoomClosed), h)
      else (case room_lookup_track r trackID h of
        None \<Rightarrow> (Some (derr ErrTrackNotFound), h)
      | Some track \<Rightarrow> Participant_SubscribeTrack p track h))"

definition Room_UnsubscribeFromTrack :: "raddr \<Rightarrow> paddr \<Rightarrow> string \<Rightarrow> dheap \<Rightarrow> gerror option \<times> dheap" where
  "Room_UnsubscribeFromTrack r p trackID h =
     (if r_state (rom h r) = RoomStateClosed then (Some (derr ErrRoomClosed), h)
      else if mget (tracks (rom h r)) trackID = None \<and>
              Room_resolvePublishedTrackLocked r trackID h = None
      then (Some (derr ErrTrackNotFound), h)
      else Participant_UnsubscribeTrack p trackID h)"

subsection \<open>The room invariant\<close>

abbreviation is_member :: "raddr \<Rightarrow> dheap \<Rightarrow> string \<Rightarrow> paddr \<Rightarrow> bool" where
  "is_member r h i p \<equiv> mget (participants (rom h r)) i = Some p"

text \<open>Membership is keyed by the participant's own identifier, and no member has left.\<close>

definition members_ok :: "raddr \<Rightarrow> dheap \<Rightarrow> bool" where
  "members_ok r h \<longleftrightarrow> wf_map (participants (rom h r)) \<and>
     (\<forall>i p. is_member r h i p \<longrightarrow>
        p_id (par h p) = i \<and> p_state (par h p) \<noteq> ParticipantStateLeft \<and> p < npar h \<and>
        wf_map (pubTracks (par h p)) \<and> wf_map (subTracks (par h p)))"

text \<open>Subscription symmetry: a member holds a track in \<open>subTracks\<close> under the track's
  identifier exactly when the track holds the member in \<open>subscribers\<close>.\<close>

definition sub_symmetric :: "raddr \<Rightarrow> dheap \<Rightarrow> bool" where
  "sub_symmetric r h \<longleftrightarrow>
     (\<forall>i p. is_member r h i p \<longrightarrow>
        (\<forall>k t. mget (subTracks (par h p)) k = Some t \<longrightarrow> t_id (trk h t) = k \<and> t < ntrk h) \<and>
        (\<forall>t < ntrk h. mget (subscribers (trk h t)) i = Some p \<longleftrightarrow>
            mget (subTracks (par h p)) (t_id (trk h t)) = Some t))"

text \<open>A member's published tracks are published and owned by it.\<close>

definition pubs_owned :: "raddr \<Rightarrow> dheap \<Rightarrow> bool" where
  "pubs_owned r h \<longleftrightarrow>
     (\<forall>i p k t. is_member r h i p \<longrightarrow> mget (pubTracks (par h p)) k = Some t \<longrightarrow>
        t_id (trk h t) = k \<and> publisher (trk h t) = Some p \<and>
        t_state (trk h t) = TrackStatePublished \<and> t < ntrk h \<and>
        (\<forall>j q. mget (subscribers (trk h t)) j = Some q \<longrightarrow> is_member r h j q))"

text \<open>The registry only ever holds live tracks: each entry is a track that some member
  publishes under that identifier.\<close>

definition registry_live :: "raddr \<Rightarrow> dheap \<Rightarrow> bool" where
  "registry_live r h \<longleftrightarrow> wf_map (tracks (rom h r)) \<and>
     (\<forall>k t. mget (tracks (rom h r)) k = Some t \<longrightarrow>
        (\<exists>i p. is_member r h i p \<and> mget (pubTracks (par h p)) k = Some t))"

text \<open>Subscriber maps are well formed and refer to allocated participants.\<close>

definition subs_wf :: "dheap \<Rightarrow> bool" where
  "subs_wf h \<longleftrightarrow> (\<forall>t < ntrk h. wf_map (subscribers (trk h t)) \<and>
     (\<forall>j q. mget (subscribers (trk h t)) j = Some q \<longrightarrow> q < npar h))"

definition room_inv :: "raddr \<Rightarrow> dheap \<Rightarrow> bool" where
  "room_inv r h \<longleftrightarrow> members_ok r h \<and> sub_symmetric r h \<and> pubs_owned r h \<and>
     registry_live r h \<and> subs_wf h"

lemma members_okD:
  assumes "members_ok r h" and "is_member r h i p"
  shows "p_id (par h p) = i" "p_state (par h p) \<noteq> ParticipantStateLeft" "p < npar h"
    "wf_map (pubTracks (par h p))" "wf_map (subTracks (par h p))"
  using assms by (auto simp: members_ok_def)

lemma sub_keyed:
  assumes "sub_symmetric r h" and "is_member r h i p" and "mget (subTracks (par h p)) k = Some t"
  shows "t_id (trk h t) = k" and "t < ntrk h"
  using assms unfolding sub_symmetric_def by blast+

lemma sub_iff:
  assumes "sub_symmetric r h" and "is_member r h i p" and "t < ntrk h"
  shows "mget (subscribers (trk h t)) i = Some p \<longleftrightarrow>
           mget (subTracks (par h p)) (t_id (trk h t)) = Some t"
  using assms unfolding sub_symmetric_def by blast

lemma pubs_ownedD:
  assumes "pubs_owned r h" and "is_member r h i p" and "mget (pubTracks (par h p)) k = Some t"
  shows "t_id (trk h t) = k" "publisher (trk h t) = Some p"
    "t_state (trk h t) = TrackStatePublished" "t < ntrk h"
    "mget (subscribers (trk h t)) j = Some q \<Longrightarrow> is_member r h j q"
  using assms unfolding pubs_owned_def by blast+

lemma pubs_ownedI:
  assumes "\<And>i p k t. is_member r h i p \<Longrightarrow> mget (pubTracks (par h p)) k = Some t \<Longrightarrow>
      t_id (trk h t) = k \<and> publisher (trk h t) = Some p \<and>
      t_state (trk h t) = TrackStatePublished \<and> t < ntrk h"
    and "\<And>i p k t j q. is_member r h i p \<Longrightarrow> mget (pubTracks (par h p)) k = Some t \<Longrightarrow>
      mget (subscribers (trk h t)) j = Some q \<Longrightarrow> is_member r h j q"
  shows "pubs_owned r h"
  unfolding pubs_owned_def
proof (intro allI impI)
  fix i p k t
  assume m: "is_member r h i p" and k: "mget (pubTracks (par h p)) k = Some t"
  have "\<forall>j q. mget (subscribers (trk h t)) j = Some q \<longrightarrow> is_member r h j q"
    using assms(2) [OF m k] by simp
  with assms(1) [OF m k]
  show "t_id (trk h t) = k \<and> publisher (trk h t) = Some p \<and>
      t_state (trk h t) = TrackStatePublished \<and> t < ntrk h \<and>
      (\<forall>j q. mget (subscribers (trk h t)) j = Some q \<longrightarrow> is_member r h j q)"
    by simp
qed

end
