(* ===== verification/Domain_Teardown.thy ===== *)
theory Domain_Teardown
  imports Domain_Room
begin

text \<open>
  The teardown of a departing member (\<open>Room.Leave\<close> with \<open>destroyTrackLocked\<close>,
  \<open>room.go\<close>). All its loops only ever take entries away: \<open>shrinks r S\<close> is that order on
  stores, where \<open>S\<close> is the set of tracks whose state and owner may be cleared. Each loop
  is a path in this order that keeps the subscription symmetry, so the facts established by
  one iteration survive the rest.
\<close>

subsection \<open>The order in which teardown moves\<close>

definition par_shrinks :: "Participant \<Rightarrow> Participant \<Rightarrow> bool" where
  "par_shrinks x y \<longleftrightarrow> p_id y = p_id x \<and> p_name y = p_name x \<and> p_state y = p_state x \<and>
     p_room y = p_room x \<and> pubTracks y = pubTracks x \<and>
     mget (subTracks y) \<subseteq>\<^sub>m mget (subTracks x) \<and> (wf_map (subTracks x) \<longrightarrow> wf_map (subTracks y))"

definition trk_shrinks :: "bool \<Rightarrow> Track \<Rightarrow> Track \<Rightarrow> bool" where
  "trk_shrinks fixed x y \<longleftrightarrow> t_id y = t_id x \<and> t_kind y = t_kind x \<and> t_source y = t_source x \<and>
     (fixed \<longrightarrow> t_state y = t_state x \<and> publisher y = publisher x) \<and>
     (t_state x = TrackStateUnpublished \<longrightarrow> t_state y = TrackStateUnpublished) \<and>
     (publisher x = None \<longrightarrow> publisher y = None) \<and>
     mget (subscribers y) \<subseteq>\<^sub>m mget (subscribers x) \<and>
     (wf_map (subscribers x) \<longrightarrow> wf_map (subscribers y))"

definition rom_shrinks :: "Room \<Rightarrow> Room \<Rightarrow> bool" where
  "rom_shrinks x y \<longleftrightarrow> r_id y = r_id x \<and> r_state y = r_state x \<and>
     participants y = participants x \<and> mget (tracks y) \<subseteq>\<^sub>m mget (tracks x) \<and>
     (wf_map (tracks x) \<longrightarrow> wf_map (tracks y))"

definition shrinks :: "raddr \<Rightarrow> taddr set \<Rightarrow> dheap \<Rightarrow> dheap \<Rightarrow> bool" where
  "shrinks r S h h' \<longleftrightarrow>
     (\<forall>p. par_shrinks (par h p) (par h' p)) \<and>
     (\<forall>t. trk_shrinks (t \<notin> S) (trk h t) (trk h' t)) \<and>
     rom_shrinks (rom h r) (rom h' r) \<and> (\<forall>r'. r' \<noteq> r \<longrightarrow> rom h' r' = rom h r') \<and>
     ntrk h' = ntrk h \<and> npar h' = npar h \<and> nrom h' = nrom h"

lemma mdel_le [simp]: "(mget m)(k := None) \<subseteq>\<^sub>m mget m"
  by (simp add: map_le_def)

lemma map_leD: "m \<subseteq>\<^sub>m m' \<Longrightarrow> m k = Some v \<Longrightarrow> m' k = Some v"
  by (metis domI map_le_def)

lemma map_le_NoneD: "m \<subseteq>\<^sub>m m' \<Longrightarrow> m' k = None \<Longrightarrow> m k = None"
  by (metis map_leD not_None_eq)

lemma par_shrinks_refl [simp]: "par_shrinks x x"
  by (simp add: par_shrinks_def)

lemma trk_shrinks_refl [simp]: "trk_shrinks b x x"
  by (simp add: trk_shrinks_def)

lemma rom_shrinks_refl [simp]: "rom_shrinks x x"
  by (simp add: rom_shrinks_def)

lemma par_shrinks_trans: "par_shrinks x y \<Longrightarrow> par_shrinks y z \<Longrightarrow> par_shrinks x z"
  by (auto simp: par_shrinks_def intro: map_le_trans)

lemma trk_shrinks_trans: "trk_shrinks b x y \<Longrightarrow> trk_shrinks b y z \<Longrightarrow> trk_shrinks b x z"
  by (auto simp: trk_shrinks_def intro: map_le_trans)

lemma rom_shrinks_trans: "rom_shrinks x y \<Longrightarrow> rom_shrinks y z \<Longrightarrow> rom_shrinks x z"
  by (auto simp: rom_shrinks_def intro: map_le_trans)

lemma trk_shrinks_weaken: "trk_shrinks b x y \<Longrightarrow> (c \<Longrightarrow> b) \<Longrightarrow> trk_shrinks c x y"
  by (auto simp: trk_shrinks_def)

lemma shrinks_refl [simp]: "shrinks r S h h"
  by (simp add: shrinks_def)

lemma shrinks_trans:
  assumes "shrinks r S h h1" and "shrinks r S h1 h2"
  shows "shrinks r S h h2"
proof -
  have "par_shrinks (par h p) (par h2 p)" for p
    using assms par_shrinks_trans unfolding shrinks_def by blast
  moreover have "trk_shrinks (t \<notin> S) (trk h t) (trk h2 t)" for t
    using assms trk_shrinks_trans unfolding shrinks_def by blast
  moreover have "rom_shrinks (rom h r) (rom h2 r)"
    using assms rom_shrinks_trans unfolding shrinks_def by blast
  ultimately show ?thesis
    using assms unfolding shrinks_def by simp
qed

lemma shrinks_mono: "shrinks r S h h' \<Longrightarrow> S \<subseteq> S' \<Longrightarrow> shrinks r S' h h'"
  unfolding shrinks_def by (blast intro: trk_shrinks_weaken)

lemma shrinks_fold:
  assumes "\<And>x h. x \<in> set xs \<Longrightarrow> P h \<Longrightarrow> shrinks r S h (f x h) \<and> P (f x h)" and "P h"
  shows "shrinks r S h (fold f xs h) \<and> P (fold f xs h)"
  using assms
proof (induction xs arbitrary: h)
  case (Cons x xs)
  from Cons.prems have "shrinks r S h (f x h)" and P: "P (f x h)" by auto
  moreover from Cons.IH [OF _ P] Cons.prems(1)
  have "shrinks r S (f x h) (fold f xs (f x h)) \<and> P (fold f xs (f x h))" by auto
  ultimately show ?case by (auto intro: shrinks_trans)
qed simp

text \<open>Readings of the order at single objects.\<close>

lemma shrinks_parD:
  assumes "shrinks r S h h'"
  shows "p_id (par h' p) = p_id (par h p)" "p_state (par h' p) = p_state (par h p)"
    "p_room (par h' p) = p_room (par h p)" "p_name (par h' p) = p_name (par h p)"
    "pubTracks (par h' p) = pubTracks (par h p)"
    "mget (subTracks (par h' p)) \<subseteq>\<^sub>m mget (subTracks (par h p))"
    "wf_map (subTracks (par h p)) \<Longrightarrow> wf_map (subTracks (par h' p))"
  using assms unfolding shrinks_def par_shrinks_def by blast+

lemma shrinks_trkD:
  assumes "shrinks r S h h'"
  shows "t_id (trk h' t) = t_id (trk h t)" "t_kind (trk h' t) = t_kind (trk h t)"
    "t_source (trk h' t) = t_source (trk h t)"
    "t \<notin> S \<Longrightarrow> t_state (trk h' t) = t_state (trk h t)"
    "t \<notin> S \<Longrightarrow> publisher (trk h' t) = publisher (trk h t)"
    "t_state (trk h t) = TrackStateUnpublished \<Longrightarrow> t_state (trk h' t) = TrackStateUnpublished"
    "publisher (trk h t) = None \<Longrightarrow> publisher (trk h' t) = None"
    "mget (subscribers (trk h' t)) \<subseteq>\<^sub>m mget (subscribers (trk h t))"
    "wf_map (subscribers (trk h t)) \<Longrightarrow> wf_map (subscribers (trk h' t))"
  using assms unfolding shrinks_def trk_shrinks_def by blast+

lemma shrinks_romD:
  assumes "shrinks r S h h'"
  shows "participants (rom h' r) = participants (rom h r)" "r_state (rom h' r) = r_state (rom h r)"
    "r_id (rom h' r) = r_id (rom h r)"
    "mget (tracks (rom h' r)) \<subseteq>\<^sub>m mget (tracks (rom h r))"
    "wf_map (tracks (rom h r)) \<Longrightarrow> wf_map (tracks (rom h' r))"
    "r' \<noteq> r \<Longrightarrow> rom h' r' = rom h r'"
    "ntrk h' = ntrk h" "npar h' = npar h" "nrom h' = nrom h"
  using assms unfolding shrinks_def rom_shrinks_def by blast+

subsection \<open>The loop invariant: membership and symmetry\<close>

definition teardown_ok :: "raddr \<Rightarrow> dheap \<Rightarrow> bool" where
  "teardown_ok r h \<longleftrightarrow> members_ok r h \<and> sub_symmetric r h"

lemma members_ok_shrinks: "shrinks r S h h' \<Longrightarrow> members_ok r h \<Longrightarrow> members_ok r h'"
  unfolding members_ok_def by (simp add: shrinks_parD shrinks_romD)

lemma member_unique:
  assumes "members_ok r h" and "is_member r h i p" and "is_member r h j p"
  shows "i = j"
  using members_okD(1) [OF assms(1,2)] members_okD(1) [OF assms(1,3)] by simp

lemma Unsubscribe_shrinks:
  "shrinks r S h (snd (Participant_UnsubscribeTrack p k h))"
  by (auto simp: shrinks_def Participant_UnsubscribeTrack_def par_shrinks_def trk_shrinks_def
      Track_RemoveSubscriber_def split: option.splits)

lemma Unsubscribe_teardown:
  assumes ok: "teardown_ok r h" and mem: "is_member r h i p"
  shows "teardown_ok r (snd (Participant_UnsubscribeTrack p k h))"
proof -
  let ?u = "Participant_UnsubscribeTrack p k h"
  have mo: "members_ok r h" and sy: "sub_symmetric r h"
    using ok by (auto simp: teardown_ok_def)
  note idp = members_okD(1) [OF mo mem]
  show ?thesis
  proof (cases "fst ?u")
    case (Some e)
    then have "snd ?u = h" by (metis UnsubscribeTrack_error prod.collapse)
    with ok show ?thesis by simp
  next
    case None
    then have "?u = (None, snd ?u)" by (metis prod.collapse)
    then obtain t where t: "mget (subTracks (par h p)) k = Some t"
      and P: "par (snd ?u) = (par h)(p := (par h p)\<lparr>subTracks := mdel k (subTracks (par h p))\<rparr>)"
      and T: "trk (snd ?u) = (trk h)(t := (trk h t)\<lparr>subscribers :=
                 mdel (p_id (par h p)) (subscribers (trk h t))\<rparr>)"
      and R: "rom (snd ?u) = rom h" and N: "ntrk (snd ?u) = ntrk h"
      by (rule UnsubscribeTrack_ok)
    note tk = sub_keyed [OF sy mem t]
    have "sub_symmetric r (snd ?u)"
      unfolding sub_symmetric_def
    proof (intro allI impI conjI)
      fix j q l s
      assume q: "is_member r (snd ?u) j q"
      then have qm: "is_member r h j q" by (simp add: R)
      { assume "mget (subTracks (par (snd ?u) q)) l = Some s"
        then have "mget (subTracks (par h q)) l = Some s"
          by (auto simp: P split: if_splits)
        from sub_keyed [OF sy qm this]
        show "t_id (trk (snd ?u) s) = l" "s < ntrk (snd ?u)" by (auto simp: T N) }
      { assume "s < ntrk (snd ?u)"
        then have old: "mget (subscribers (trk h s)) j = Some q \<longleftrightarrow>
            mget (subTracks (par h q)) (t_id (trk h s)) = Some s"
          using sub_iff [OF sy qm] by (simp add: N)
        show "mget (subscribers (trk (snd ?u) s)) j = Some q \<longleftrightarrow>
            mget (subTracks (par (snd ?u) q)) (t_id (trk (snd ?u) s)) = Some s"
        proof (cases "q = p")
          case True
          then have j: "j = i" using member_unique [OF mo qm] mem by simp
          show ?thesis
          proof (cases "s = t")
            case True
            with \<open>q = p\<close> j idp tk(1) show ?thesis by (simp add: P T)
          next
            case False
            with \<open>q = p\<close> j old t show ?thesis by (simp add: P T)
          qed
        next
          case False
          then have j: "j \<noteq> i" using mem qm by auto
          have "mget (subscribers (trk (snd ?u) s)) j = mget (subscribers (trk h s)) j"
            using j idp by (simp add: T)
          moreover have "par (snd ?u) q = par h q" using False by (simp add: P)
          moreover have "t_id (trk (snd ?u) s) = t_id (trk h s)" by (simp add: T)
          ultimately show ?thesis using old by simp
        qed }
    qed
    with members_ok_shrinks [OF Unsubscribe_shrinks mo] show ?thesis
      by (simp add: teardown_ok_def)
  qed
qed

text \<open>After the call the member no longer holds the track.\<close>

lemma Unsubscribe_gone:
  assumes "members_ok r h" and "is_member r h i p"
  shows "mget (subTracks (par (snd (Participant_UnsubscribeTrack p k h)) p)) k = None"
  using members_okD(2) [OF assms]
  by (auto simp: Participant_UnsubscribeTrack_def split: option.splits)

lemma RemoveSubscriber_shrinks: "shrinks r S h (Track_RemoveSubscriber t j h)"
  by (auto simp: shrinks_def trk_shrinks_def Track_RemoveSubscriber_def)

lemma RemoveSubscriber_teardown:
  assumes ok: "teardown_ok r h"
    and no: "\<And>q. is_member r h j q \<Longrightarrow> mget (subscribers (trk h t)) j \<noteq> Some q"
  shows "teardown_ok r (Track_RemoveSubscriber t j h)"
proof -
  have sy: "sub_symmetric r h" and mo: "members_ok r h"
    using ok by (auto simp: teardown_ok_def)
  have "sub_symmetric r (Track_RemoveSubscriber t j h)"
    using sy no unfolding sub_symmetric_def Track_RemoveSubscriber_def
    by (simp add: fun_upd_def) blast
  with members_ok_shrinks [OF RemoveSubscriber_shrinks mo] show ?thesis
    by (simp add: teardown_ok_def)
qed

subsection \<open>Destroying one track\<close>

lemma detach_step:
  assumes ok: "teardown_ok r h" and t: "t < ntrk h"
  shows "shrinks r {} h (detach_subscriber r t excl j h)"
    and "teardown_ok r (detach_subscriber r t excl j h)"
    and "j \<noteq> excl \<Longrightarrow> mget (subscribers (trk (detach_subscriber r t excl j h) t)) j = None"
proof -
  define h1 where "h1 = (case mget (participants (rom h r)) j of
       Some q \<Rightarrow> snd (Participant_UnsubscribeTrack q (t_id (trk h t)) h) | None \<Rightarrow> h)"
  have eq: "detach_subscriber r t excl j h =
      (if j = excl then h else Track_RemoveSubscriber t j h1)"
    by (simp add: detach_subscriber_def h1_def Let_def)
  have s1: "shrinks r {} h h1"
    by (auto simp: h1_def Unsubscribe_shrinks split: option.splits)
  have ok1: "teardown_ok r h1"
    using ok Unsubscribe_teardown by (auto simp: h1_def split: option.splits)
  have no: "mget (subscribers (trk h1 t)) j \<noteq> Some q" if q: "is_member r h1 j q" for q
  proof -
    have qh: "is_member r h j q" using q s1 by (simp add: shrinks_romD)
    then have h1: "h1 = snd (Participant_UnsubscribeTrack q (t_id (trk h t)) h)"
      by (simp add: h1_def)
    have "mget (subTracks (par h1 q)) (t_id (trk h1 t)) = None"
      using Unsubscribe_gone [OF _ qh] ok shrinks_trkD(1) [OF s1]
      by (simp add: h1 teardown_ok_def)
    moreover have "t < ntrk h1" using t s1 by (simp add: shrinks_romD)
    ultimately show ?thesis
      using sub_iff [of r h1 j q t] ok1 q by (simp add: teardown_ok_def)
  qed
  show "shrinks r {} h (detach_subscriber r t excl j h)"
    using s1 by (auto simp: eq intro: shrinks_trans RemoveSubscriber_shrinks)
  show "teardown_ok r (detach_subscriber r t excl j h)"
    using ok ok1 no by (auto simp: eq intro: RemoveSubscriber_teardown)
  show "mget (subscribers (trk (detach_subscriber r t excl j h) t)) j = None" if "j \<noteq> excl"
    using that by (simp add: eq Track_RemoveSubscriber_def)
qed

lemma detach_fold:
  assumes "teardown_ok r h" and "t < ntrk h"
  shows "shrinks r {} h (fold (detach_subscriber r t excl) xs h) \<and>
     teardown_ok r (fold (detach_subscriber r t excl) xs h) \<and>
     (\<forall>j \<in> set xs. j \<noteq> excl \<longrightarrow>
        mget (subscribers (trk (fold (detach_subscriber r t excl) xs h) t)) j = None)"
  using assms
proof (induction xs arbitrary: h)
  case (Cons j xs)
  let ?h1 = "detach_subscriber r t excl j h"
  let ?h2 = "fold (detach_subscriber r t excl) xs ?h1"
  note st = detach_step [OF Cons.prems, where excl = excl and j = j]
  have "t < ntrk ?h1" using Cons.prems(2) shrinks_romD(7) [OF st(1)] by simp
  note ih = Cons.IH [OF st(2) this]
  then have le: "mget (subscribers (trk ?h2 t)) \<subseteq>\<^sub>m mget (subscribers (trk ?h1 t))"
    by (blast intro: shrinks_trkD(8))
  have "j \<noteq> excl \<longrightarrow> mget (subscribers (trk ?h2 t)) j = None"
    using map_le_NoneD [OF le st(3)] by blast
  moreover have "shrinks r {} h ?h2" using ih st(1) by (blast intro: shrinks_trans)
  ultimately show ?case using ih by simp
qed simp

definition destroyed :: "raddr \<Rightarrow> string \<Rightarrow> taddr \<Rightarrow> dheap \<Rightarrow> bool" where
  "destroyed r excl t h \<longleftrightarrow> t_state (trk h t) = TrackStateUnpublished \<and>
     publisher (trk h t) = None \<and> mget (tracks (rom h r)) (t_id (trk h t)) = None \<and>
     (\<forall>j. j \<noteq> excl \<longrightarrow> mget (subscribers (trk h t)) j = None)"

lemma destroyed_shrinks:
  assumes "shrinks r S h h'" and "destroyed r excl t h"
  shows "destroyed r excl t h'"
proof -
  have "mget (tracks (rom h' r)) (t_id (trk h t)) = None"
    by (rule map_le_NoneD [OF shrinks_romD(4) [OF assms(1)]])
      (use assms(2) in \<open>simp add: destroyed_def\<close>)
  moreover have "mget (subscribers (trk h' t)) j = None" if "j \<noteq> excl" for j
    by (rule map_le_NoneD [OF shrinks_trkD(8) [OF assms(1), of t]])
      (use assms(2) that in \<open>simp add: destroyed_def\<close>)
  ultimately show ?thesis
    using assms(2) by (simp add: destroyed_def shrinks_trkD [OF assms(1)])
qed

lemma teardown_ok_cong:
  assumes "teardown_ok r h" and "par h' = par h" and "npar h' = npar h" and "ntrk h' = ntrk h"
    and "participants (rom h' r) = participants (rom h r)"
    and "\<And>t. t_id (trk h' t) = t_id (trk h t)" and "\<And>t. subscribers (trk h' t) = subscribers (trk h t)"
  shows "teardown_ok r h'"
  using assms by (simp add: teardown_ok_def members_ok_def sub_symmetric_def)

lemma destroy_effect:
  assumes ok: "teardown_ok r h" and t: "t < ntrk h"
  shows "shrinks r {t} h (Room_destroyTrackLocked r t excl h)"
    and "teardown_ok r (Room_destroyTrackLocked r t excl h)"
    and "destroyed r excl t (Room_destroyTrackLocked r t excl h)"
proof -
  define h2 where "h2 = upd_rom r (\<lambda>x. x\<lparr>tracks := mdel (t_id (trk h t)) (tracks x)\<rparr>)
      (Track_SetPublisher t None (Track_Unpublish t h))"
  let ?h3 = "fold (detach_subscriber r t excl) (Track_Subscribers t h2) h2"
  have eq: "Room_destroyTrackLocked r t excl h = ?h3"
    by (simp add: Room_destroyTrackLocked_def h2_def Let_def Track_SetPublisher_def
        Track_Unpublish_def)
  have s: "shrinks r {t} h h2"
    by (auto simp: shrinks_def h2_def Track_SetPublisher_def Track_Unpublish_def
        trk_shrinks_def rom_shrinks_def)
  have ok2: "teardown_ok r h2"
    by (rule teardown_ok_cong [OF ok])
      (simp_all add: h2_def Track_SetPublisher_def Track_Unpublish_def)
  have t2: "t < ntrk h2"
    using t by (simp add: h2_def Track_SetPublisher_def Track_Unpublish_def)
  note f = detach_fold [OF ok2 t2, of excl "Track_Subscribers t h2"]
  from f have f1: "shrinks r {} h2 ?h3" by blast
  show "shrinks r {t} h (Room_destroyTrackLocked r t excl h)"
    unfolding eq using s f1 by (blast intro: shrinks_trans shrinks_mono)
  show "teardown_ok r (Room_destroyTrackLocked r t excl h)"
    unfolding eq using f by blast
  have none: "mget (subscribers (trk ?h3 t)) j = None" if "j \<noteq> excl" for j
  proof (cases "j \<in> set (Track_Subscribers t h2)")
    case False
    then have "mget (subscribers (trk h2 t)) j = None"
      by (simp add: Track_Subscribers_def map_of_eq_None_iff)
    with shrinks_trkD(8) [OF f1, of t] show ?thesis by (rule map_le_NoneD)
  qed (use f that in blast)
  have "mget (tracks (rom h2 r)) (t_id (trk h t)) = None"
    by (simp add: h2_def)
  with shrinks_romD(4) [OF f1] have "mget (tracks (rom ?h3 r)) (t_id (trk h t)) = None"
    by (rule map_le_NoneD)
  moreover have "t_state (trk h2 t) = TrackStateUnpublished" "publisher (trk h2 t) = None"
      "t_id (trk h2 t) = t_id (trk h t)"
    by (simp_all add: h2_def Track_SetPublisher_def Track_Unpublish_def)
  ultimately show "destroyed r excl t (Room_destroyTrackLocked r t excl h)"
    unfolding eq using none by (simp add: destroyed_def shrinks_trkD [OF f1])
qed

subsection \<open>The three loops\<close>

lemma leave_destroy_fold:
  assumes ok: "teardown_ok r h"
    and ts: "\<And>k t. mget (pubTracks (par h p)) k = Some t \<Longrightarrow> t < ntrk h"
    and S: "ran (mget (pubTracks (par h p))) \<subseteq> S"
  shows "shrinks r S h (fold (leave_destroy r p i) xs h) \<and>
     teardown_ok r (fold (leave_destroy r p i) xs h) \<and>
     (\<forall>k \<in> set xs. \<forall>t. mget (pubTracks (par h p)) k = Some t \<longrightarrow>
        destroyed r i t (fold (leave_destroy r p i) xs h))"
  using assms
proof (induction xs arbitrary: h)
  case (Cons k xs)
  let ?h1 = "leave_destroy r p i k h"
  have st: "shrinks r S h ?h1 \<and> teardown_ok r ?h1 \<and>
      (\<forall>t. mget (pubTracks (par h p)) k = Some t \<longrightarrow> destroyed r i t ?h1)"
  proof (cases "mget (pubTracks (par h p)) k")
    case None
    then show ?thesis
      using Cons.prems(1) by (simp add: leave_destroy_def Participant_GetPublishedTrack_def)
  next
    case (Some t)
    then have "t < ntrk h" and "{t} \<subseteq> S" using Cons.prems by (auto intro: ranI)
    with Some destroy_effect [OF Cons.prems(1), of t i] show ?thesis
      by (auto simp: leave_destroy_def Participant_GetPublishedTrack_def
          intro: shrinks_mono)
  qed
  then have s: "shrinks r S h ?h1" by blast
  have ih: "shrinks r S ?h1 (fold (leave_destroy r p i) xs ?h1) \<and>
     teardown_ok r (fold (leave_destroy r p i) xs ?h1) \<and>
     (\<forall>k \<in> set xs. \<forall>t. mget (pubTracks (par h p)) k = Some t \<longrightarrow>
        destroyed r i t (fold (leave_destroy r p i) xs ?h1))"
  proof -
    have pub: "pubTracks (par ?h1 p) = pubTracks (par h p)" by (rule shrinks_parD(5) [OF s])
    show ?thesis
      using Cons.IH [of ?h1] st Cons.prems by (simp add: pub shrinks_romD(7) [OF s])
  qed
  with st destroyed_shrinks show ?case
    by (auto intro: shrinks_trans)
qed simp

text \<open>The purge loop finds nothing when every registry entry is published.\<close>

lemma leave_purge_fold:
  assumes "\<And>k t. mget (tracks (rom h r)) k = Some t \<Longrightarrow> t_state (trk h t) \<noteq> TrackStateUnpublished"
  shows "fold (leave_purge r i) xs h = h"
proof (induction xs)
  case (Cons k xs)
  have "leave_purge r i k h = h"
    using assms by (auto simp: leave_purge_def split: option.splits)
  with Cons show ?case by simp
qed simp

lemma leave_unsubscribe_shrinks: "shrinks r S h (leave_unsubscribe r p k h)"
proof -
  let ?h1 = "snd (Participant_UnsubscribeTrack p k h)"
  have "shrinks r S ?h1 (upd_rom r (\<lambda>x. x\<lparr>tracks := mdel k (tracks x)\<rparr>) ?h1)"
    by (simp add: shrinks_def rom_shrinks_def)
  with Unsubscribe_shrinks [of r S h p k] show ?thesis
    by (auto simp: leave_unsubscribe_def Let_def split: option.splits intro: shrinks_trans)
qed

lemma leave_unsubscribe_teardown:
  assumes "teardown_ok r h" and "is_member r h i p"
  shows "teardown_ok r (leave_unsubscribe r p k h)"
    and "mget (subTracks (par (leave_unsubscribe r p k h) p)) k = None"
proof -
  let ?h1 = "snd (Participant_UnsubscribeTrack p k h)"
  have ok1: "teardown_ok r ?h1" by (rule Unsubscribe_teardown [OF assms])
  have "teardown_ok r (upd_rom r (\<lambda>x. x\<lparr>tracks := mdel k (tracks x)\<rparr>) ?h1)"
    by (rule teardown_ok_cong [OF ok1]) simp_all
  with ok1 show "teardown_ok r (leave_unsubscribe r p k h)"
    by (auto simp: leave_unsubscribe_def Let_def split: option.splits)
  have "par (leave_unsubscribe r p k h) = par ?h1"
    by (simp add: leave_unsubscribe_def Let_def split: option.splits)
  then show "mget (subTracks (par (leave_unsubscribe r p k h) p)) k = None"
    using Unsubscribe_gone [of r h i p k] assms by (simp add: teardown_ok_def)
qed

lemma leave_unsubscribe_fold:
  assumes "teardown_ok r h" and "is_member r h i p"
  shows "shrinks r {} h (fold (leave_unsubscribe r p) xs h) \<and>
     teardown_ok r (fold (leave_unsubscribe r p) xs h) \<and>
     (\<forall>k \<in> set xs. mget (subTracks (par (fold (leave_unsubscribe r p) xs h) p)) k = None)"
  using assms
proof (induction xs arbitrary: h)
  case (Cons k xs)
  let ?h1 = "leave_unsubscribe r p k h"
  have s: "shrinks r {} h ?h1" by (rule leave_unsubscribe_shrinks)
  have "is_member r ?h1 i p" using Cons.prems(2) by (simp add: shrinks_romD [OF s])
  note ih = Cons.IH [OF leave_unsubscribe_teardown(1) [OF Cons.prems, of k] this]
  then have s1: "shrinks r {} ?h1 (fold (leave_unsubscribe r p) xs ?h1)" by blast
  have "mget (subTracks (par (fold (leave_unsubscribe r p) xs ?h1) p)) k = None"
    by (rule map_le_NoneD [OF shrinks_parD(6) [OF s1]])
      (rule leave_unsubscribe_teardown(2) [OF Cons.prems])
  with ih s show ?case by (auto intro: shrinks_trans)
qed simp

end
