(* ===== verification/Domain_System.thy ===== *)
theory Domain_System
  imports Domain_Teardown
begin

text \<open>
  The rooms as a system: every operation that a member can trigger keeps the room
  invariant, so it holds in every reachable state; the departure of a member and the
  closing of a room do what their contracts say.
\<close>

subsection \<open>Leaving\<close>

lemma room_invD:
  assumes "room_inv r h"
  shows "members_ok r h" "sub_symmetric r h" "pubs_owned r h" "registry_live r h" "subs_wf h"
    "teardown_ok r h"
  using assms by (auto simp: room_inv_def teardown_ok_def)

lemma registry_liveE:
  assumes "registry_live r h" and "mget (tracks (rom h r)) k = Some t"
  obtains j q where "is_member r h j q" and "mget (pubTracks (par h q)) k = Some t"
  using assms unfolding registry_live_def by blast

lemma pub_disjoint:
  assumes "pubs_owned r h" and "is_member r h i p" and "is_member r h j q" and "q \<noteq> p"
    and "mget (pubTracks (par h q)) k = Some t"
  shows "t \<notin> ran (mget (pubTracks (par h p)))"
proof
  assume "t \<in> ran (mget (pubTracks (par h p)))"
  then obtain l where "mget (pubTracks (par h p)) l = Some t" by (auto simp: ran_def)
  from pubs_ownedD(2) [OF assms(1,2) this] pubs_ownedD(2) [OF assms(1,3,5)] assms(4)
  show False by simp
qed

lemma Leave_cases:
  assumes "Room_Leave r i h = (e, h')"
  obtains (closed) "r_state (rom h r) = RoomStateClosed" "e = Some (derr ErrRoomClosed)" "h' = h"
  | (absent) "r_state (rom h r) \<noteq> RoomStateClosed" "mget (participants (rom h r)) i = None"
      "e = Some (derr ErrParticipantNotFound)" "h' = h"
  | (left) p where "r_state (rom h r) \<noteq> RoomStateClosed" "is_member r h i p" "e = None"
  using assms by (auto simp: Room_Leave_def Let_def split: if_splits option.splits)

text \<open>The state in which \<open>Leave\<close> deletes the membership entry of \<open>p\<close>.\<close>

definition left_state :: "raddr \<Rightarrow> string \<Rightarrow> paddr \<Rightarrow> dheap \<Rightarrow> dheap \<Rightarrow> bool" where
  "left_state r i p h h3 \<longleftrightarrow>
     room_inv r h \<and> is_member r h i p \<and>
     shrinks r (ran (mget (pubTracks (par h p)))) h h3 \<and> teardown_ok r h3 \<and>
     (\<forall>k t. mget (pubTracks (par h p)) k = Some t \<longrightarrow> destroyed r i t h3) \<and>
     (\<forall>k. mget (subTracks (par h3 p)) k = None)"

definition drop_member :: "raddr \<Rightarrow> string \<Rightarrow> dheap \<Rightarrow> dheap" where
  "drop_member r i = upd_rom r (\<lambda>x. x\<lparr>participants := mdel i (participants x)\<rparr>)"

lemma drop_member_sel [simp]:
  "par (drop_member r i h) = par h" "trk (drop_member r i h) = trk h"
  "ntrk (drop_member r i h) = ntrk h" "npar (drop_member r i h) = npar h"
  "tracks (rom (drop_member r i h) r) = tracks (rom h r)"
  "participants (rom (drop_member r i h) r) = mdel i (participants (rom h r))"
  "r_state (rom (drop_member r i h) r) = r_state (rom h r)"
  by (simp_all add: drop_member_def)

lemma registry_after_destroy:
  assumes inv: "room_inv r h" and mem: "is_member r h i p"
    and s: "shrinks r (ran (mget (pubTracks (par h p)))) h h1"
    and d: "\<forall>k t. mget (pubTracks (par h p)) k = Some t \<longrightarrow> destroyed r i t h1"
    and k: "mget (tracks (rom h1 r)) k = Some t"
  obtains j q where "is_member r h j q" "q \<noteq> p" "mget (pubTracks (par h q)) k = Some t"
    "t_state (trk h1 t) = TrackStatePublished"
proof -
  note I = room_invD [OF inv]
  obtain j q where q: "is_member r h j q" "mget (pubTracks (par h q)) k = Some t"
    by (rule registry_liveE [OF I(4) map_leD [OF shrinks_romD(4) [OF s] k]])
  have "q \<noteq> p"
  proof
    assume "q = p"
    with d q have "mget (tracks (rom h1 r)) (t_id (trk h1 t)) = None"
      by (simp add: destroyed_def)
    with pubs_ownedD(1) [OF I(3) q] k show False by (simp add: shrinks_trkD [OF s])
  qed
  moreover from pub_disjoint [OF I(3) mem q(1) this q(2)] pubs_ownedD(3) [OF I(3) q]
  have "t_state (trk h1 t) = TrackStatePublished" by (simp add: shrinks_trkD [OF s])
  ultimately show ?thesis using that q by blast
qed

lemma Leave_decompose:
  assumes inv: "room_inv r h" and mem: "is_member r h i p"
    and lv: "Room_Leave r i h = (None, h')"
  obtains h3 where "left_state r i p h h3" and "h' = drop_member r i h3"
proof -
  note I = room_invD [OF inv]
  let ?S = "ran (mget (pubTracks (par h p)))"
  define h1 where "h1 = fold (leave_destroy r p i) (Participant_PublishedTracks p h) h"
  define h3 where "h3 = fold (leave_unsubscribe r p) (Participant_SubscribedTracks p h1) h1"
  have d: "shrinks r ?S h h1 \<and> teardown_ok r h1 \<and>
      (\<forall>k \<in> set (Participant_PublishedTracks p h). \<forall>t.
         mget (pubTracks (par h p)) k = Some t \<longrightarrow> destroyed r i t h1)"
    unfolding h1_def
    by (rule leave_destroy_fold [OF I(6)]) (auto dest: pubs_ownedD(4) [OF I(3) mem])
  then have s1: "shrinks r ?S h h1" and ok1: "teardown_ok r h1" by blast+
  have d1: "\<forall>k t. mget (pubTracks (par h p)) k = Some t \<longrightarrow> destroyed r i t h1"
    using d mget_mem by (metis Participant_PublishedTracks_def)
  have purge: "fold (leave_purge r i) xs h1 = h1" for xs
    by (rule leave_purge_fold) (auto elim: registry_after_destroy [OF inv mem s1 d1])
  have mem1: "is_member r h1 i p" using mem by (simp add: shrinks_romD [OF s1])
  note u = leave_unsubscribe_fold [OF ok1 mem1, of "Participant_SubscribedTracks p h1",
      folded h3_def]
  then have s3: "shrinks r {} h1 h3" by blast
  have none: "mget (subTracks (par h3 p)) k = None" for k
  proof (cases "k \<in> set (Participant_SubscribedTracks p h1)")
    case False
    then have "mget (subTracks (par h1 p)) k = None"
      by (simp add: Participant_SubscribedTracks_def map_of_eq_None_iff)
    with shrinks_parD(6) [OF s3, of p] show ?thesis by (rule map_le_NoneD)
  qed (use u in blast)
  have h': "h' = drop_member r i h3"
    using lv mem purge
    by (auto simp: Room_Leave_def Let_def h1_def [symmetric] h3_def [symmetric] drop_member_def
        split: if_splits)
  have s: "shrinks r ?S h h3"
    by (rule shrinks_trans [OF s1 shrinks_mono [OF s3]]) simp
  have ds: "\<forall>k t. mget (pubTracks (par h p)) k = Some t \<longrightarrow> destroyed r i t h3"
    using destroyed_shrinks [OF s3] d1 by blast
  have ok3: "teardown_ok r h3" using u by blast
  have "left_state r i p h h3"
    unfolding left_state_def using inv mem s ok3 ds none by blast
  then show ?thesis using h' by (rule that)
qed

lemma left_stateD:
  assumes "left_state r i p h h3"
  shows "room_inv r h" "is_member r h i p"
    "shrinks r (ran (mget (pubTracks (par h p)))) h h3" "teardown_ok r h3"
    "\<forall>k t. mget (pubTracks (par h p)) k = Some t \<longrightarrow> destroyed r i t h3"
    "mget (subTracks (par h3 p)) k = None"
  using assms by (auto simp: left_state_def)

lemma left_member_iff:
  assumes "left_state r i p h h3"
  shows "is_member r (drop_member r i h3) j q \<longleftrightarrow> j \<noteq> i \<and> is_member r h j q"
  using left_stateD(3) [OF assms] by (simp add: shrinks_romD)

lemma left_member_neq:
  assumes L: "left_state r i p h h3" and "is_member r (drop_member r i h3) j q"
  shows "q \<noteq> p"
  using assms left_stateD(2) [OF L] member_unique [OF room_invD(1) [OF left_stateD(1) [OF L]]]
  by (metis left_member_iff)

lemma left_teardown:
  assumes L: "left_state r i p h h3"
  shows "teardown_ok r (drop_member r i h3)"
proof -
  have ok: "members_ok r h3" "sub_symmetric r h3"
    using left_stateD(4) [OF L] by (simp_all add: teardown_ok_def)
  have sub: "is_member r (drop_member r i h3) j q \<Longrightarrow> is_member r h3 j q" for j q
    by (simp split: if_splits)
  have "members_ok r (drop_member r i h3)"
    using ok(1) by (simp add: members_ok_def)
  moreover have "sub_symmetric r (drop_member r i h3)"
    using ok(2) sub unfolding sub_symmetric_def drop_member_sel(1-3) by blast
  ultimately show ?thesis by (simp add: teardown_ok_def)
qed

text \<open>No track keeps the departed member as a subscriber.\<close>

lemma left_not_subscriber:
  assumes L: "left_state r i p h h3" and "t < ntrk h"
  shows "mget (subscribers (trk h3 t)) i \<noteq> Some p"
proof -
  note s = left_stateD(3) [OF L]
  have "is_member r h3 i p" using left_stateD(2) [OF L] by (simp add: shrinks_romD [OF s])
  then show ?thesis
    using sub_iff [of r h3 i p t] left_stateD(4,6) [OF L] assms(2)
    by (simp add: teardown_ok_def shrinks_romD [OF s])
qed

lemma left_pubs:
  assumes L: "left_state r i p h h3"
  shows "pubs_owned r (drop_member r i h3)"
proof (rule pubs_ownedI)
  note I = room_invD [OF left_stateD(1) [OF L]] and s = left_stateD(3) [OF L]
    and mem = left_stateD(2) [OF L]
  fix j q k t
  assume m': "is_member r (drop_member r i h3) j q"
    and "mget (pubTracks (par (drop_member r i h3) q)) k = Some t"
  then have k: "mget (pubTracks (par h q)) k = Some t" by (simp add: shrinks_parD [OF s])
  have m: "is_member r h j q" using m' left_member_iff [OF L] by blast
  note P = pubs_ownedD [OF I(3) m k]
    and nS = pub_disjoint [OF I(3) mem m left_member_neq [OF L m'] k]
  show "t_id (trk (drop_member r i h3) t) = k \<and> publisher (trk (drop_member r i h3) t) = Some q \<and>
      t_state (trk (drop_member r i h3) t) = TrackStatePublished \<and> t < ntrk (drop_member r i h3)"
    using P(1-4) nS by (simp add: shrinks_trkD [OF s] shrinks_romD [OF s])
  fix l x
  assume "mget (subscribers (trk (drop_member r i h3) t)) l = Some x"
  then have x: "mget (subscribers (trk h3 t)) l = Some x" by simp
  have lx: "is_member r h l x"
    by (rule P(5) [OF map_leD [OF shrinks_trkD(8) [OF s] x]])
  moreover have "l \<noteq> i" using left_not_subscriber [OF L P(4)] x lx mem by auto
  ultimately show "is_member r (drop_member r i h3) l x" using left_member_iff [OF L] by blast
qed

lemma left_registry:
  assumes L: "left_state r i p h h3"
  shows "registry_live r (drop_member r i h3)"
  unfolding registry_live_def
proof (intro conjI allI impI)
  note I = room_invD [OF left_stateD(1) [OF L]] and s = left_stateD(3) [OF L]
    and mem = left_stateD(2) [OF L]
  show "wf_map (tracks (rom (drop_member r i h3) r))"
    using I(4) by (simp add: registry_live_def shrinks_romD [OF s])
  fix k t
  assume "mget (tracks (rom (drop_member r i h3) r)) k = Some t"
  then have "mget (tracks (rom h3 r)) k = Some t" by simp
  then obtain j q where q: "is_member r h j q" "q \<noteq> p" "mget (pubTracks (par h q)) k = Some t"
    using registry_after_destroy [OF left_stateD(1,2,3,5) [OF L]] by blast
  then have "j \<noteq> i" using mem by auto
  with q show "\<exists>j q. is_member r (drop_member r i h3) j q \<and>
      mget (pubTracks (par (drop_member r i h3) q)) k = Some t"
    using left_member_iff [OF L] by (auto simp: shrinks_parD [OF s])
qed

lemma subs_wf_shrinks:
  assumes s: "shrinks r S h h'" and wf: "subs_wf h"
  shows "subs_wf h'"
  unfolding subs_wf_def
proof (intro allI impI conjI)
  fix t assume "t < ntrk h'"
  then have t: "t < ntrk h" by (simp add: shrinks_romD [OF s])
  with wf show "wf_map (subscribers (trk h' t))"
    by (simp add: subs_wf_def shrinks_trkD [OF s])
  fix j q assume "mget (subscribers (trk h' t)) j = Some q"
  then have "mget (subscribers (trk h t)) j = Some q"
    by (rule map_leD [OF shrinks_trkD(8) [OF s]])
  with wf t show "q < npar h'" by (auto simp: subs_wf_def shrinks_romD [OF s])
qed

lemma Leave_room_inv:
  assumes inv: "room_inv r h" and lv: "Room_Leave r i h = (e, h')"
  shows "room_inv r h'"
  using lv
proof (cases rule: Leave_cases)
  case (left p)
  then obtain h3 where L: "left_state r i p h h3" and h': "h' = drop_member r i h3"
    using Leave_decompose [OF inv] lv by metis
  have "subs_wf (drop_member r i h3)"
    using subs_wf_shrinks [OF left_stateD(3) [OF L] room_invD(5) [OF inv]]
    by (simp add: subs_wf_def)
  then show ?thesis
    using left_teardown [OF L] left_pubs [OF L] left_registry [OF L]
    by (simp add: h' room_inv_def teardown_ok_def)
qed (use inv in simp_all)

end
