(* ===== verification/Domain_Steps.thy ===== *)
theory Domain_Steps
  imports Domain_System
begin

text \<open>
  The room as a transition system. Each way in which the signaling handler and the SDK
  client drive a room (\<open>join\<close>, \<open>publish\<close>, \<open>unpublish\<close>, \<open>subscribe\<close>, \<open>unsubscribe\<close>,
  \<open>leave\<close>, \<open>close\<close>) is a step; every step keeps the room invariant, so it holds in all
  reachable states.
\<close>

definition room_ok :: "raddr \<Rightarrow> dheap \<Rightarrow> bool" where
  "room_ok r h \<longleftrightarrow> room_inv r h \<and>
     (r_state (rom h r) = RoomStateClosed \<longrightarrow> participants (rom h r) = [])"

lemma room_okD:
  assumes "room_ok r h"
  shows "room_inv r h" and "r_state (rom h r) = RoomStateClosed \<Longrightarrow> participants (rom h r) = []"
  using assms by (simp_all add: room_ok_def)

lemma room_okI:
  assumes "members_ok r h" "sub_symmetric r h" "pubs_owned r h" "registry_live r h" "subs_wf h"
    and "r_state (rom h r) = RoomStateClosed \<Longrightarrow> participants (rom h r) = []"
  shows "room_ok r h"
  using assms by (simp add: room_ok_def room_inv_def)

lemma room_ok_member_open:
  "room_ok r h \<Longrightarrow> is_member r h i p \<Longrightarrow> r_state (rom h r) \<noteq> RoomStateClosed"
  by (auto dest: room_okD(2))

subsection \<open>Allocation\<close>

lemma NewTrack_heap:
  assumes "NewTrack k kd src h = (Inr t, h1)"
  shows "t = ntrk h" "trk h1 = (trk h)(t := mkTrack k kd src)" "par h1 = par h" "rom h1 = rom h"
    "ntrk h1 = Suc (ntrk h)" "npar h1 = npar h"
  using assms by (auto simp: NewTrack_def split: if_splits)

text \<open>The invariant of a room only depends on the room, its members and the allocated
  tracks: allocation elsewhere does not disturb it.\<close>

lemma subs_wfD:
  assumes "subs_wf h" and "t < ntrk h"
  shows "wf_map (subscribers (trk h t))" and "mget (subscribers (trk h t)) j = Some q \<Longrightarrow> q < npar h"
  using assms unfolding subs_wf_def by blast+

lemma subs_wfI:
  assumes "\<And>t. t < ntrk h \<Longrightarrow> wf_map (subscribers (trk h t))"
    and "\<And>t j q. t < ntrk h \<Longrightarrow> mget (subscribers (trk h t)) j = Some q \<Longrightarrow> q < npar h"
  shows "subs_wf h"
  using assms unfolding subs_wf_def by blast

lemma sub_symmetricI:
  assumes "\<And>i p k t. is_member r h i p \<Longrightarrow> mget (subTracks (par h p)) k = Some t \<Longrightarrow>
      t_id (trk h t) = k \<and> t < ntrk h"
    and "\<And>i p t. is_member r h i p \<Longrightarrow> t < ntrk h \<Longrightarrow>
      mget (subscribers (trk h t)) i = Some p \<longleftrightarrow> mget (subTracks (par h p)) (t_id (trk h t)) = Some t"
  shows "sub_symmetric r h"
  using assms unfolding sub_symmetric_def by blast

lemma sub_symmetric_cong:
  assumes "sub_symmetric r h" and "participants (rom h' r) = participants (rom h r)"
    and "\<And>p. subTracks (par h' p) = subTracks (par h p)"
    and "\<And>t. t_id (trk h' t) = t_id (trk h t)" "\<And>t. subscribers (trk h' t) = subscribers (trk h t)"
    and "ntrk h' = ntrk h"
  shows "sub_symmetric r h'"
  using assms(1) unfolding sub_symmetric_def assms(2-6) .

lemma subs_wf_cong:
  assumes "subs_wf h" and "\<And>t. subscribers (trk h' t) = subscribers (trk h t)"
    and "ntrk h' = ntrk h" "npar h' = npar h"
  shows "subs_wf h'"
  using assms(1) unfolding subs_wf_def assms(2-4) .

lemma registry_liveI:
  assumes "wf_map (tracks (rom h r))"
    and "\<And>k t. mget (tracks (rom h r)) k = Some t \<Longrightarrow>
      \<exists>i p. is_member r h i p \<and> mget (pubTracks (par h p)) k = Some t"
  shows "registry_live r h"
  using assms unfolding registry_live_def by blast

lemma members_okI:
  assumes "wf_map (participants (rom h r))"
    and "\<And>i p. is_member r h i p \<Longrightarrow>
        p_id (par h p) = i \<and> p_state (par h p) \<noteq> ParticipantStateLeft \<and> p < npar h \<and>
        wf_map (pubTracks (par h p)) \<and> wf_map (subTracks (par h p))"
  shows "members_ok r h"
  using assms unfolding members_ok_def by blast

lemma room_ok_frame:
  assumes ok: "room_ok r h" and rom: "rom h' r = rom h r"
    and par: "\<And>i p. is_member r h i p \<Longrightarrow> par h' p = par h p"
    and trk: "\<And>t. t < ntrk h \<Longrightarrow> trk h' t = trk h t"
    and new: "\<And>t. ntrk h \<le> t \<Longrightarrow> t < ntrk h' \<Longrightarrow> subscribers (trk h' t) = []"
    and mono: "ntrk h \<le> ntrk h'" "npar h \<le> npar h'"
  shows "room_ok r h'"
proof (rule room_okI)
  note I = room_invD [OF room_okD(1) [OF ok]]
  have old: "t < ntrk h \<or> subscribers (trk h' t) = []" if "t < ntrk h'" for t
    using new [of t] that by (cases "t < ntrk h") simp_all
  show "members_ok r h'"
  proof (rule members_okI)
    show "wf_map (participants (rom h' r))" using I(1) by (simp add: members_ok_def rom)
    fix i p assume "is_member r h' i p"
    then have m: "is_member r h i p" by (simp add: rom)
    from members_okD [OF I(1) m] par [OF m] mono(2)
    show "p_id (par h' p) = i \<and> p_state (par h' p) \<noteq> ParticipantStateLeft \<and> p < npar h' \<and>
        wf_map (pubTracks (par h' p)) \<and> wf_map (subTracks (par h' p))" by simp
  qed
  show "sub_symmetric r h'"
  proof (rule sub_symmetricI)
    fix i p k t assume "is_member r h' i p" and k: "mget (subTracks (par h' p)) k = Some t"
    then have m: "is_member r h i p" by (simp add: rom)
    with k par have "mget (subTracks (par h p)) k = Some t" by simp
    from sub_keyed [OF I(2) m this] trk mono(1) show "t_id (trk h' t) = k \<and> t < ntrk h'" by simp
  next
    fix i p t assume "is_member r h' i p" and t: "t < ntrk h'"
    then have m: "is_member r h i p" by (simp add: rom)
    show "mget (subscribers (trk h' t)) i = Some p \<longleftrightarrow>
        mget (subTracks (par h' p)) (t_id (trk h' t)) = Some t"
    proof (cases "t < ntrk h")
      case True then show ?thesis using sub_iff [OF I(2) m True] trk par [OF m] by simp
    next
      case False
      then have "mget (subTracks (par h p)) l \<noteq> Some t" for l
        using sub_keyed(2) [OF I(2) m] by blast
      with old [OF t] False show ?thesis by (simp add: par [OF m])
    qed
  qed
  show "pubs_owned r h'"
  proof (rule pubs_ownedI)
    fix i p k t assume "is_member r h' i p" and k: "mget (pubTracks (par h' p)) k = Some t"
    then have m: "is_member r h i p" by (simp add: rom)
    with k par have k': "mget (pubTracks (par h p)) k = Some t" by simp
    note P = pubs_ownedD [OF I(3) m k']
    show "t_id (trk h' t) = k \<and> publisher (trk h' t) = Some p \<and>
      t_state (trk h' t) = TrackStatePublished \<and> t < ntrk h'"
      using P(1-4) trk [OF P(4)] mono(1) by simp
    show "is_member r h' j x" if "mget (subscribers (trk h' t)) j = Some x" for j x
      using P(5) that trk [OF P(4)] by (simp add: rom)
  qed
  show "registry_live r h'"
  proof (rule registry_liveI)
    show "wf_map (tracks (rom h' r))" using I(4) by (simp add: registry_live_def rom)
    fix k t assume "mget (tracks (rom h' r)) k = Some t"
    then have "mget (tracks (rom h r)) k = Some t" by (simp add: rom)
    then obtain j q where "is_member r h j q" "mget (pubTracks (par h q)) k = Some t"
      by (rule registry_liveE [OF I(4)])
    then show "\<exists>i p. is_member r h' i p \<and> mget (pubTracks (par h' p)) k = Some t"
      using par by (metis rom)
  qed
  show "subs_wf h'"
  proof (rule subs_wfI)
    fix t assume t: "t < ntrk h'"
    then show "wf_map (subscribers (trk h' t))"
      using old [OF t] subs_wfD(1) [OF I(5)] trk by fastforce
    fix j q assume q: "mget (subscribers (trk h' t)) j = Some q"
    then have "t < ntrk h" using old [OF t] by auto
    with q subs_wfD(2) [OF I(5), of t j q] trk mono(2) show "q < npar h'" by simp
  qed
qed (use room_okD(2) [OF ok] rom in simp)

lemma NewTrack_room_ok:
  assumes ok: "room_ok r h" and n: "NewTrack k kd src h = (Inr t, h1)"
  shows "room_ok r h1"
  by (rule room_ok_frame [OF ok])
    (simp_all add: NewTrack_heap [OF n] mkTrack_def le_less_Suc_eq)

lemma NewTrack_fresh:
  assumes ok: "room_ok r h" and n: "NewTrack k kd src h = (Inr t, h1)" and m: "is_member r h i p"
  shows "mget (pubTracks (par h1 p)) l \<noteq> Some t"
  using pubs_ownedD(4) [OF room_invD(3) [OF room_okD(1) [OF ok]] m] NewTrack_heap [OF n]
  by auto

subsection \<open>Joining\<close>

text \<open>The join of the handler and of the SDK: a fresh participant, \<open>Room.Join\<close>, and on
  success \<open>SetRoom\<close>.\<close>

definition join_new :: "raddr \<Rightarrow> string \<Rightarrow> string \<Rightarrow> dheap \<Rightarrow> (gerror + paddr) \<times> dheap" where
  "join_new r i name h =
     (case NewParticipant i name h of (p, h1) \<Rightarrow>
        (case Room_Join r p h1 of
           (Some err, h2) \<Rightarrow> (Inl err, h2)
         | (None, h2) \<Rightarrow> (Inr p, Participant_SetRoom p (Some r) h2)))"

lemma join_new_heap:
  assumes "join_new r i name h = (Inr p, h')"
  shows "p = npar h" and "mget (participants (rom h r)) i = None"
    and "r_state (rom h r) \<noteq> RoomStateClosed"
    and "par h' = (par h)(npar h := (mkParticipant i name)\<lparr>p_room := Some r\<rparr>)"
    and "rom h' = (rom h)(r := (rom h r)\<lparr>participants := mput i p (participants (rom h r))\<rparr>)"
    and "trk h' = trk h" "ntrk h' = ntrk h" "npar h' = Suc (npar h)"
  using assms
  by (auto simp: join_new_def NewParticipant_def Room_Join_def Participant_SetRoom_def
      mkParticipant_def split: if_splits)

lemma join_new_error_heap:
  assumes "join_new r i name h = (Inl e, h')"
  shows "par h' = (par h)(npar h := mkParticipant i name)" "rom h' = rom h"
    "trk h' = trk h" "ntrk h' = ntrk h" "npar h' = Suc (npar h)"
  using assms
  by (auto simp: join_new_def NewParticipant_def Room_Join_def split: if_splits)

lemma members_old:
  assumes "room_ok r h" and "is_member r h i p"
  shows "p \<noteq> npar h"
  using members_okD(3) [OF room_invD(1) [OF room_okD(1) [OF assms(1)]] assms(2)] by simp

lemma join_error_room_ok:
  assumes ok: "room_ok r h" and j: "join_new r i name h = (Inl e, h')"
  shows "room_ok r h'"
  by (rule room_ok_frame [OF ok])
    (use members_old [OF ok] in \<open>auto simp: join_new_error_heap [OF j]\<close>)

lemma join_room_ok:
  assumes ok: "room_ok r h" and j: "join_new r i name h = (Inr p, h')"
  shows "room_ok r h'"
proof (rule room_okI)
  note I = room_invD [OF room_okD(1) [OF ok]] and H = join_new_heap [OF j]
  have mem: "is_member r h' l q \<longleftrightarrow> l = i \<and> q = p \<or> is_member r h l q" for l q
    using H(2) by (auto simp: H(5))
  have old: "par h' q = par h q" if "is_member r h l q" for l q
    using members_old [OF ok that] by (simp add: H)
  have new: "p_id (par h' p) = i" "pubTracks (par h' p) = []" "subTracks (par h' p) = []"
    "p_state (par h' p) = ParticipantStateJoined"
    by (simp_all add: H mkParticipant_def)
  have nosub: "mget (subscribers (trk h t)) l \<noteq> Some p" if "t < ntrk h" for t l
    using subs_wfD(2) [OF I(5) that, of l p] H(1) by auto
  show "members_ok r h'"
  proof (rule members_okI)
    show "wf_map (participants (rom h' r))" using I(1) by (simp add: members_ok_def H(5))
    fix l q assume "is_member r h' l q"
    then consider "l = i" "q = p" | "is_member r h l q" using mem by blast
    then show "p_id (par h' q) = l \<and> p_state (par h' q) \<noteq> ParticipantStateLeft \<and>
        q < npar h' \<and> wf_map (pubTracks (par h' q)) \<and> wf_map (subTracks (par h' q))"
    proof cases
      case 1 then show ?thesis using new H(1,8) by simp
    next
      case 2 then show ?thesis using members_okD [OF I(1) 2] old [OF 2] H(8) by simp
    qed
  qed
  show "sub_symmetric r h'"
    unfolding sub_symmetric_def
  proof (intro allI impI)
    fix l q assume "is_member r h' l q"
    then consider "l = i" "q = p" | "is_member r h l q" using mem by blast
    then show "(\<forall>k t. mget (subTracks (par h' q)) k = Some t \<longrightarrow> t_id (trk h' t) = k \<and> t < ntrk h') \<and>
        (\<forall>t < ntrk h'. mget (subscribers (trk h' t)) l = Some q \<longleftrightarrow>
          mget (subTracks (par h' q)) (t_id (trk h' t)) = Some t)"
    proof cases
      case 1 then show ?thesis using new nosub by (simp add: H(6,7))
    next
      case 2 then show ?thesis
        using sub_keyed [OF I(2) 2] sub_iff [OF I(2) 2] old by (simp add: H(6,7))
    qed
  qed
  show "pubs_owned r h'"
  proof (rule pubs_ownedI)
    fix l q k t assume "is_member r h' l q" and k: "mget (pubTracks (par h' q)) k = Some t"
    then have m: "is_member r h l q" using mem new by auto
    with k old have k': "mget (pubTracks (par h q)) k = Some t" by simp
    note P = pubs_ownedD [OF I(3) m k']
    show "t_id (trk h' t) = k \<and> publisher (trk h' t) = Some q \<and>
      t_state (trk h' t) = TrackStatePublished \<and> t < ntrk h'"
      using P(1-4) by (simp add: H(6,7))
    show "is_member r h' j x" if "mget (subscribers (trk h' t)) j = Some x" for j x
      using P(5) that mem by (simp add: H(6))
  qed
  show "registry_live r h'"
  proof (rule registry_liveI)
    show "wf_map (tracks (rom h' r))" using I(4) by (simp add: registry_live_def H(5))
    fix k t assume "mget (tracks (rom h' r)) k = Some t"
    then have "mget (tracks (rom h r)) k = Some t" by (simp add: H(5))
    then show "\<exists>i p. is_member r h' i p \<and> mget (pubTracks (par h' p)) k = Some t"
      by (rule registry_liveE [OF I(4)]) (use mem old in metis)
  qed
  show "subs_wf h'"
  proof (rule subs_wfI)
    fix t assume "t < ntrk h'"
    then have t: "t < ntrk h" by (simp add: H(7))
    then show "wf_map (subscribers (trk h' t))" using subs_wfD(1) [OF I(5)] by (simp add: H(6))
    fix j q assume "mget (subscribers (trk h' t)) j = Some q"
    then show "q < npar h'" using subs_wfD(2) [OF I(5) t, of j q] by (simp add: H(6,8))
  qed
qed (use join_new_heap [OF j] in simp)

subsection \<open>Publishing\<close>

lemma PublishTrack_room_ok:
  assumes ok: "room_ok r h" and m: "is_member r h i p" and n: "NewTrack k kd src h = (Inr t, h1)"
    and pub: "Participant_PublishTrack p t h1 = (None, h2)"
  shows "room_ok r h2" and "mget (pubTracks (par h2 p)) k = Some t" and "rom h2 = rom h"
    and "t_id (trk h2 t) = k" and "publisher (trk h2 t) = Some p"
    and "mget (pubTracks (par h p)) k = None"
proof -
  note N = NewTrack_heap [OF n] and P = PublishTrack_ok [OF pub]
  have tid: "t_id (trk h1 t) = k" by (simp add: N mkTrack_def)
  have par12: "par h2 = (par h)(p := (par h p)\<lparr>pubTracks := mput k t (pubTracks (par h p))\<rparr>)"
    using P(3) tid N(3) by simp
  show pubk: "mget (pubTracks (par h2 p)) k = Some t" and rom: "rom h2 = rom h"
    and "t_id (trk h2 t) = k" and "publisher (trk h2 t) = Some p"
    by (simp_all add: par12 P(4,5) N(2,4) mkTrack_def)
  show fresh: "mget (pubTracks (par h p)) k = None" using P(2) tid N(3) by simp
  have keep: "mget (pubTracks (par h2 q)) l = Some u \<longleftrightarrow>
      mget (pubTracks (par h q)) l = Some u \<or> q = p \<and> l = k \<and> u = t" for q l u
    using fresh by (auto simp: par12)
  have par2: "subTracks (par h2 q) = subTracks (par h q)" "p_id (par h2 q) = p_id (par h q)"
    "p_state (par h2 q) = p_state (par h q)"
    "wf_map (pubTracks (par h q)) \<Longrightarrow> wf_map (pubTracks (par h2 q))" for q
    by (auto simp: par12)
  have trk2: "trk h2 u = trk h u" if "u < ntrk h" for u using that by (simp add: P N)
  have trkt: "subscribers (trk h2 t) = []" by (simp add: P N mkTrack_def)
  have ntrk2: "ntrk h2 = Suc (ntrk h)" "npar h2 = npar h" by (simp_all add: P N)
  have ok1: "room_ok r h1" by (rule NewTrack_room_ok [OF ok n])
  note I = room_invD [OF room_okD(1) [OF ok]] and J = room_invD [OF room_okD(1) [OF ok1]]
  show "room_ok r h2"
  proof (rule room_okI)
    show "members_ok r h2"
      by (rule members_okI)
        (use I(1) members_okD [OF I(1)] par2 ntrk2 in \<open>simp_all add: rom members_ok_def\<close>)
    show "sub_symmetric r h2"
      by (rule sub_symmetric_cong [OF J(2)]) (simp_all add: P(3-6))
    show "pubs_owned r h2"
    proof (rule pubs_ownedI)
      fix j q l u assume "is_member r h2 j q" and l: "mget (pubTracks (par h2 q)) l = Some u"
      then have q: "is_member r h j q" by (simp add: rom)
      consider "q = p" "l = k" "u = t" | "mget (pubTracks (par h q)) l = Some u"
        using keep l by blast
      then show "t_id (trk h2 u) = l \<and> publisher (trk h2 u) = Some q \<and>
          t_state (trk h2 u) = TrackStatePublished \<and> u < ntrk h2"
      proof cases
        case 1 then show ?thesis by (simp add: P(4,6) N(1,2,5) mkTrack_def)
      next
        case 2 then show ?thesis using pubs_ownedD(1-4) [OF I(3) q 2] trk2 ntrk2 by simp
      qed
      fix a x assume "mget (subscribers (trk h2 u)) a = Some x"
      then show "is_member r h2 a x"
        using pubs_ownedD(4,5) [OF I(3) q] keep l trkt trk2
        by (cases "u = t") (auto simp: rom)
    qed
    show "registry_live r h2"
      using I(4) keep unfolding registry_live_def rom by blast
    show "subs_wf h2"
      by (rule subs_wf_cong [OF J(5)]) (simp_all add: P(4,6,7))
  qed (use room_okD(2) [OF ok] rom in simp)
qed

lemma Room_PublishTrack_cases:
  assumes "Room_PublishTrack r t h = (e, h')"
  obtains (closed) "r_state (rom h r) = RoomStateClosed" "e = Some (derr ErrRoomClosed)" "h' = h"
  | (taken) u where "mget (tracks (rom h r)) (t_id (trk h t)) = Some u"
      "e = Some (derr ErrTrackAlreadyPublished)" "h' = h"
  | (registered) "mget (tracks (rom h r)) (t_id (trk h t)) = None" "e = None"
      "h' = upd_rom r (\<lambda>x. x\<lparr>tracks := mput (t_id (trk h t)) t (tracks x)\<rparr>) h"
proof (cases "r_state (rom h r) = RoomStateClosed")
  case True
  then show ?thesis using assms by (intro closed) (simp_all add: Room_PublishTrack_def)
next
  case False
  show ?thesis
  proof (cases "mget (tracks (rom h r)) (t_id (trk h t))")
    case None
    with False assms show ?thesis by (intro registered) (simp_all add: Room_PublishTrack_def)
  next
    case (Some u)
    with False assms show ?thesis by (intro taken [OF Some]) (simp_all add: Room_PublishTrack_def)
  qed
qed

text \<open>The registry may be replaced by any part of it that is still backed by publications.\<close>

definition set_registry :: "raddr \<Rightarrow> (string, taddr) gomap \<Rightarrow> dheap \<Rightarrow> dheap" where
  "set_registry r m = upd_rom r (\<lambda>x. x\<lparr>tracks := m\<rparr>)"

lemma set_registry_sel [simp]:
  "par (set_registry r m h) = par h" "trk (set_registry r m h) = trk h"
  "ntrk (set_registry r m h) = ntrk h" "npar (set_registry r m h) = npar h"
  "tracks (rom (set_registry r m h) r) = m"
  "participants (rom (set_registry r m h) r) = participants (rom h r)"
  "r_state (rom (set_registry r m h) r) = r_state (rom h r)"
  by (simp_all add: set_registry_def)

lemma set_registry_room_ok:
  assumes ok: "room_ok r h" and wf: "wf_map m"
    and live: "\<And>k t. mget m k = Some t \<Longrightarrow> \<exists>i p. is_member r h i p \<and> mget (pubTracks (par h p)) k = Some t"
  shows "room_ok r (set_registry r m h)"
proof (rule room_okI)
  note I = room_invD [OF room_okD(1) [OF ok]]
  show "members_ok r (set_registry r m h)" using I(1) unfolding members_ok_def set_registry_sel .
  show "sub_symmetric r (set_registry r m h)" using I(2) unfolding sub_symmetric_def set_registry_sel .
  show "pubs_owned r (set_registry r m h)" using I(3) unfolding pubs_owned_def set_registry_sel .
  show "registry_live r (set_registry r m h)" 
    using wf live unfolding registry_live_def set_registry_sel by blast
  show "subs_wf (set_registry r m h)" using I(5) unfolding subs_wf_def set_registry_sel .
qed (use room_okD(2) [OF ok] in simp)

lemma Room_PublishTrack_room_ok:
  assumes ok: "room_ok r h" and m: "is_member r h i p"
    and k: "mget (pubTracks (par h p)) (t_id (trk h t)) = Some t"
    and rp: "Room_PublishTrack r t h = (e, h')"
  shows "room_ok r h'"
  using rp
proof (cases rule: Room_PublishTrack_cases)
  case registered
  note I = room_invD [OF room_okD(1) [OF ok]]
  have "h' = set_registry r (mput (t_id (trk h t)) t (tracks (rom h r))) h"
    using registered(3) by (simp add: set_registry_def upd_rom_def)
  moreover have "room_ok r (set_registry r (mput (t_id (trk h t)) t (tracks (rom h r))) h)"
  proof (rule set_registry_room_ok [OF ok])
    show "wf_map (mput (t_id (trk h t)) t (tracks (rom h r)))"
      using I(4) unfolding registry_live_def by blast
    fix l u assume "mget (mput (t_id (trk h t)) t (tracks (rom h r))) l = Some u"
    then consider "l = t_id (trk h t)" "u = t" | "mget (tracks (rom h r)) l = Some u"
      by (cases "l = t_id (trk h t)") simp_all
    then show "\<exists>i p. is_member r h i p \<and> mget (pubTracks (par h p)) l = Some u"
      by cases (use k m registry_liveE [OF I(4)] in blast)+
  qed
  ultimately show ?thesis by simp
qed (use ok in simp_all)

subsection \<open>Unpublishing\<close>

text \<open>Withdrawing a publication together with any part of the registry that contains the
  registry's reference to that track.\<close>

lemma UnpublishTrack_registry_ok:
  assumes ok: "room_ok r h" and m: "is_member r h i p"
    and un: "Participant_UnpublishTrack p k h = (None, h1)"
    and wf: "wf_map reg" and sub: "mget reg \<subseteq>\<^sub>m mget (tracks (rom h r))"
    and out: "mget reg k \<noteq> mget (pubTracks (par h p)) k"
  shows "room_ok r (set_registry r reg h1)"
proof -
  obtain t where t: "mget (pubTracks (par h p)) k = Some t"
    and par1: "par h1 = (par h)(p := (par h p)\<lparr>pubTracks := mdel k (pubTracks (par h p))\<rparr>)"
    and trk1: "trk h1 = (trk h)(t := (trk h t)\<lparr>t_state := TrackStateUnpublished\<rparr>)"
    and rest: "rom h1 = rom h" "ntrk h1 = ntrk h" "npar h1 = npar h"
    by (rule UnpublishTrack_ok [OF un]) blast
  note I = room_invD [OF room_okD(1) [OF ok]]
  let ?h = "set_registry r reg h1"
  have mem: "is_member r ?h j q \<longleftrightarrow> is_member r h j q" for j q by (simp add: rest)
  have pubs: "mget (pubTracks (par ?h q)) l = Some u \<longleftrightarrow>
      mget (pubTracks (par h q)) l = Some u \<and> \<not> (q = p \<and> l = k)" for q l u
    by (simp add: par1)
  have parts: "subTracks (par ?h q) = subTracks (par h q)" "p_id (par ?h q) = p_id (par h q)"
    "p_state (par ?h q) = p_state (par h q)"
    "wf_map (pubTracks (par h q)) \<Longrightarrow> wf_map (pubTracks (par ?h q))" for q
    by (auto simp: par1)
  have trks: "t_id (trk ?h u) = t_id (trk h u)" "subscribers (trk ?h u) = subscribers (trk h u)"
    "publisher (trk ?h u) = publisher (trk h u)" "u \<noteq> t \<Longrightarrow> trk ?h u = trk h u" for u
    by (simp_all add: trk1)
  show ?thesis
  proof (rule room_okI)
    show "members_ok r ?h"
      by (rule members_okI)
        (use I(1) members_okD [OF I(1)] parts in \<open>simp_all add: rest members_ok_def\<close>)
    show "sub_symmetric r ?h"
      by (rule sub_symmetric_cong [OF I(2)]) (simp_all add: par1 trk1 rest)
    show "subs_wf ?h" by (rule subs_wf_cong [OF I(5)]) (simp_all add: trk1 rest)
    show "pubs_owned r ?h"
    proof (rule pubs_ownedI)
      fix j q l u assume "is_member r ?h j q" and "mget (pubTracks (par ?h q)) l = Some u"
      then have q: "is_member r h j q" and l: "mget (pubTracks (par h q)) l = Some u"
        and ne: "\<not> (q = p \<and> l = k)" using mem pubs by blast+
      note P = pubs_ownedD [OF I(3) q l]
      have "u \<noteq> t" using pubs_ownedD(1,2) [OF I(3) m t] P(1,2) ne by auto
      then show "t_id (trk ?h u) = l \<and> publisher (trk ?h u) = Some q \<and>
          t_state (trk ?h u) = TrackStatePublished \<and> u < ntrk ?h"
        using P(1-4) by (simp add: trk1 rest)
      fix a x assume "mget (subscribers (trk ?h u)) a = Some x"
      then have "mget (subscribers (trk h u)) a = Some x" by (simp only: trks)
      from P(5) [OF this] show "is_member r ?h a x" using mem by blast
    qed
    show "registry_live r ?h"
    proof (rule registry_liveI)
      fix l u assume "mget (tracks (rom ?h r)) l = Some u"
      then have l: "mget reg l = Some u" by simp
      from map_leD [OF sub l] obtain j q where "is_member r h j q"
        "mget (pubTracks (par h q)) l = Some u"
        by (rule registry_liveE [OF I(4)])
      moreover from this l out have "\<not> (q = p \<and> l = k)" by auto
      ultimately show "\<exists>i p. is_member r ?h i p \<and> mget (pubTracks (par ?h p)) l = Some u"
        using mem pubs by blast
    qed (use wf in simp)
  qed (use room_okD(2) [OF ok] rest in simp)
qed

end
