(* ===== verification/Domain_Reach.thy ===== *)
theory Domain_Reach
  imports Domain_Steps
begin

text \<open>
  Subscribing, unsubscribing, creating and closing keep the room invariant; the step
  relation of a room, its reachable states, and the contracts of the departure of a
  member and of the closing of a room.
\<close>

subsection \<open>Track lookup\<close>

lemma resolve_published_Some:
  "resolve_published ps k h = Some t \<Longrightarrow>
     \<exists>j q. (j, q) \<in> set ps \<and> mget (pubTracks (par h q)) k = Some t"
  by (induction ps k h rule: resolve_published.induct)
    (auto simp: Participant_GetPublishedTrack_def split: option.splits)

lemma resolve_published_None:
  "resolve_published ps k h = None \<longleftrightarrow>
     (\<forall>j q. (j, q) \<in> set ps \<longrightarrow> mget (pubTracks (par h q)) k = None)"
  by (induction ps k h rule: resolve_published.induct)
    (auto simp: Participant_GetPublishedTrack_def split: option.splits)

lemma members_entry:
  "members_ok r h \<Longrightarrow> (j, q) \<in> set (participants (rom h r)) \<longleftrightarrow> is_member r h j q"
  by (rule mget_entry) (simp add: members_ok_def)

lemma lookup_published:
  assumes ok: "room_ok r h" and l: "room_lookup_track r k h = Some t"
  obtains j q where "is_member r h j q" and "mget (pubTracks (par h q)) k = Some t"
proof (cases "mget (tracks (rom h r)) k")
  note I = room_invD [OF room_okD(1) [OF ok]]
  case None
  with l have "resolve_published (participants (rom h r)) k h = Some t"
    by (simp add: room_lookup_track_def Room_resolvePublishedTrackLocked_def)
  then obtain j q where "(j, q) \<in> set (participants (rom h r))"
    and k: "mget (pubTracks (par h q)) k = Some t" using resolve_published_Some by blast
  then have "is_member r h j q" using members_entry [OF I(1)] by blast
  then show ?thesis using k by (rule that)
next
  note I = room_invD [OF room_okD(1) [OF ok]]
  case (Some u)
  with l have "mget (tracks (rom h r)) k = Some t" by (simp add: room_lookup_track_def)
  then show ?thesis by (rule registry_liveE [OF I(4)]) (rule that)
qed

text \<open>A track is found exactly when some member publishes it under that identifier.\<close>

lemma lookup_Some_iff:
  assumes ok: "room_ok r h"
  shows "room_lookup_track r k h \<noteq> None \<longleftrightarrow>
    (\<exists>j q. is_member r h j q \<and> mget (pubTracks (par h q)) k \<noteq> None)"
proof
  assume "room_lookup_track r k h \<noteq> None"
  then obtain t where "room_lookup_track r k h = Some t" by blast
  then show "\<exists>j q. is_member r h j q \<and> mget (pubTracks (par h q)) k \<noteq> None"
    by (rule lookup_published [OF ok]) auto
next
  assume "\<exists>j q. is_member r h j q \<and> mget (pubTracks (par h q)) k \<noteq> None"
  then obtain j q where "(j, q) \<in> set (participants (rom h r))" "mget (pubTracks (par h q)) k \<noteq> None"
    using members_entry [OF room_invD(1) [OF room_okD(1) [OF ok]]] by blast
  then have "resolve_published (participants (rom h r)) k h \<noteq> None"
    by (metis resolve_published_None)
  then show "room_lookup_track r k h \<noteq> None"
    by (simp add: room_lookup_track_def Room_resolvePublishedTrackLocked_def split: option.split)
qed

subsection \<open>Subscribing\<close>

lemma subscribe_heap:
  assumes ok: "room_ok r h" and m: "is_member r h i p"
    and s: "Room_SubscribeToTrack r p k h = (None, h')"
  obtains t j q where "is_member r h j q" "mget (pubTracks (par h q)) k = Some t"
    and "t < ntrk h" and "t_id (trk h t) = k"
    and "mget (subTracks (par h p)) k = None" and "mget (subscribers (trk h t)) i = None"
    and "par h' = (par h)(p := (par h p)\<lparr>subTracks := mput k t (subTracks (par h p))\<rparr>)"
    and "trk h' = (trk h)(t := (trk h t)\<lparr>subscribers := mput i p (subscribers (trk h t))\<rparr>)"
    and "rom h' = rom h" "ntrk h' = ntrk h" "npar h' = npar h"
proof -
  note I = room_invD [OF room_okD(1) [OF ok]]
  obtain t where l: "room_lookup_track r k h = Some t"
    and s': "Participant_SubscribeTrack p t h = (None, h')"
    using s by (auto simp: Room_SubscribeToTrack_def split: if_splits option.splits)
  obtain j q where q: "is_member r h j q" "mget (pubTracks (par h q)) k = Some t"
    using l by (rule lookup_published [OF ok])
  note P = pubs_ownedD [OF I(3) q] and S = SubscribeTrack_ok [OF s']
  have pid: "p_id (par h p) = i" by (rule members_okD(1) [OF I(1) m])
  have sub: "mget (subTracks (par h p)) k = None" using S(2) P(1) by simp
  have none: "mget (subscribers (trk h t)) i = None"
  proof (cases "mget (subscribers (trk h t)) i")
    case (Some x)
    with P(5) have "is_member r h i x" by blast
    with m Some sub_iff [OF I(2) m P(4)] P(1) sub show ?thesis by simp
  qed
  show ?thesis
    by (rule that [OF q P(4,1) sub none]) (use S(4-8) P(1) pid none in simp_all)
qed

lemma members_other_id:
  assumes "members_ok r h" and "is_member r h i p" and "is_member r h j q"
  shows "q = p \<longleftrightarrow> j = i"
  using members_okD(1) [OF assms(1,2)] members_okD(1) [OF assms(1,3)] assms(2,3)
  by (metis option.inject)

text \<open>An operation that only rewrites subscription entries, on both sides, keeps the
  invariant when the two sides stay symmetric and only members are added.\<close>

lemma resub_room_ok:
  assumes ok: "room_ok r h"
    and rest: "rom h' = rom h" "ntrk h' = ntrk h" "npar h' = npar h"
    and par: "\<And>x. p_id (par h' x) = p_id (par h x)" "\<And>x. p_state (par h' x) = p_state (par h x)"
      "\<And>x. pubTracks (par h' x) = pubTracks (par h x)"
      "\<And>x. wf_map (subTracks (par h x)) \<Longrightarrow> wf_map (subTracks (par h' x))"
    and trk: "\<And>u. t_id (trk h' u) = t_id (trk h u)" "\<And>u. publisher (trk h' u) = publisher (trk h u)"
      "\<And>u. t_state (trk h' u) = t_state (trk h u)"
      "\<And>u. wf_map (subscribers (trk h u)) \<Longrightarrow> wf_map (subscribers (trk h' u))"
    and keyed: "\<And>l x a u. is_member r h l x \<Longrightarrow> mget (subTracks (par h' x)) a = Some u \<Longrightarrow>
      t_id (trk h u) = a \<and> u < ntrk h"
    and sym: "\<And>l x u. is_member r h l x \<Longrightarrow> u < ntrk h \<Longrightarrow>
      mget (subscribers (trk h' u)) l = Some x \<longleftrightarrow> mget (subTracks (par h' x)) (t_id (trk h u)) = Some u"
    and subs: "\<And>u b y. mget (subscribers (trk h' u)) b = Some y \<Longrightarrow>
      mget (subscribers (trk h u)) b = Some y \<or> is_member r h b y"
  shows "room_ok r h'"
proof (rule room_okI)
  note I = room_invD [OF room_okD(1) [OF ok]]
  show "members_ok r h'"
    using I(1) par(4) unfolding members_ok_def par(1-3) rest by blast
  show "sub_symmetric r h'"
    using keyed sym unfolding sub_symmetric_def trk(1) rest by blast
  show "pubs_owned r h'"
    using I(3) subs unfolding pubs_owned_def par(1-3) trk(1-3) rest by blast
  show "registry_live r h'" using I(4) unfolding registry_live_def par(3) rest .
  show "subs_wf h'"
    using I(5) trk(4) subs members_okD(3) [OF I(1)] unfolding subs_wf_def rest by blast
qed (use room_okD(2) [OF ok] rest in simp)

lemma Subscribe_room_ok:
  assumes ok: "room_ok r h" and m: "is_member r h i p"
    and s: "Room_SubscribeToTrack r p k h = (None, h')"
  shows "room_ok r h'"
  using ok m s
proof (rule subscribe_heap)
  note I = room_invD [OF room_okD(1) [OF ok]]
  fix t j q
  assume t: "t < ntrk h" and tid: "t_id (trk h t) = k"
    and sub: "mget (subTracks (par h p)) k = None" and none: "mget (subscribers (trk h t)) i = None"
    and par: "par h' = (par h)(p := (par h p)\<lparr>subTracks := mput k t (subTracks (par h p))\<rparr>)"
    and trk: "trk h' = (trk h)(t := (trk h t)\<lparr>subscribers := mput i p (subscribers (trk h t))\<rparr>)"
    and rest: "rom h' = rom h" "ntrk h' = ntrk h" "npar h' = npar h"
  have subsx: "mget (subscribers (trk h' u)) l = Some x \<longleftrightarrow>
      mget (subscribers (trk h u)) l = Some x \<or> u = t \<and> l = i \<and> x = p" for u l x
    using none by (auto simp: trk)
  have subTx: "mget (subTracks (par h' x)) l = Some u \<longleftrightarrow>
      mget (subTracks (par h x)) l = Some u \<or> x = p \<and> l = k \<and> u = t" for u l x
    using sub by (auto simp: par)
  show ?thesis
  proof (rule resub_room_ok [OF ok rest])
    show "t_id (trk h u) = a \<and> u < ntrk h"
      if "is_member r h l x" and "mget (subTracks (par h' x)) a = Some u" for l x a u
      using that(2) sub_keyed [OF I(2) that(1)] tid t unfolding subTx by blast
    show "mget (subscribers (trk h' u)) l = Some x \<longleftrightarrow>
        mget (subTracks (par h' x)) (t_id (trk h u)) = Some u"
      if "is_member r h l x" and "u < ntrk h" for l x u
      using sub_iff [OF I(2) that] members_other_id [OF I(1) m that(1)] tid
      unfolding subsx subTx by blast
    show "mget (subscribers (trk h u)) b = Some y \<or> is_member r h b y"
      if "mget (subscribers (trk h' u)) b = Some y" for u b y
      using that m unfolding subsx by blast
  qed (auto simp: par trk)
qed

subsection \<open>Unsubscribing\<close>

lemma Unsubscribe_room_ok:
  assumes ok: "room_ok r h" and m: "is_member r h i p"
    and s: "Participant_UnsubscribeTrack p k h = (None, h')"
  shows "room_ok r h'"
proof -
  note I = room_invD [OF room_okD(1) [OF ok]]
  obtain t where sub: "mget (subTracks (par h p)) k = Some t"
    and par: "par h' = (par h)(p := (par h p)\<lparr>subTracks := mdel k (subTracks (par h p))\<rparr>)"
    and trk': "trk h' = (trk h)(t := (trk h t)\<lparr>subscribers := mdel (p_id (par h p)) (subscribers (trk h t))\<rparr>)"
    and rest: "rom h' = rom h" "ntrk h' = ntrk h" "npar h' = npar h"
    by (rule UnsubscribeTrack_ok [OF s]) blast
  have trk: "trk h' = (trk h)(t := (trk h t)\<lparr>subscribers := mdel i (subscribers (trk h t))\<rparr>)"
    using trk' members_okD(1) [OF I(1) m] by simp
  note K = sub_keyed [OF I(2) m sub]
  have subsx: "mget (subscribers (trk h' u)) l = Some x \<longleftrightarrow>
      mget (subscribers (trk h u)) l = Some x \<and> \<not> (u = t \<and> l = i)" for u l x
    by (auto simp: trk)
  have subTx: "mget (subTracks (par h' x)) l = Some u \<longleftrightarrow>
      mget (subTracks (par h x)) l = Some u \<and> \<not> (x = p \<and> l = k)" for u l x
    by (auto simp: par)
  show ?thesis
  proof (rule resub_room_ok [OF ok rest])
    show "t_id (trk h u) = a \<and> u < ntrk h"
      if "is_member r h l x" and "mget (subTracks (par h' x)) a = Some u" for l x a u
      using that(2) sub_keyed [OF I(2) that(1)] unfolding subTx by blast
    show "mget (subscribers (trk h' u)) l = Some x \<longleftrightarrow>
        mget (subTracks (par h' x)) (t_id (trk h u)) = Some u"
      if "is_member r h l x" and "u < ntrk h" for l x u
      using sub_iff [OF I(2) that] members_other_id [OF I(1) m that(1)] K(1) sub
      unfolding subsx subTx by (metis option.inject)
    show "mget (subscribers (trk h u)) b = Some y \<or> is_member r h b y"
      if "mget (subscribers (trk h' u)) b = Some y" for u b y
      using that unfolding subsx by blast
  qed (auto simp: par trk)
qed

subsection \<open>Creating and closing\<close>

lemma Create_room_ok:
  assumes "room_ok r h"
  shows "room_ok r (snd (Room_Create r h))"
proof -
  note I = room_invD [OF room_okD(1) [OF assms]]
  have eq: "participants (rom (snd (Room_Create r h)) r) = participants (rom h r)"
    "tracks (rom (snd (Room_Create r h)) r) = tracks (rom h r)"
    "par (snd (Room_Create r h)) = par h" "trk (snd (Room_Create r h)) = trk h"
    "ntrk (snd (Room_Create r h)) = ntrk h" "npar (snd (Room_Create r h)) = npar h"
    by (simp_all add: Room_Create_def)
  have closed: "r_state (rom (snd (Room_Create r h)) r) = RoomStateClosed \<longleftrightarrow>
      r_state (rom h r) = RoomStateClosed"
    by (simp add: Room_Create_def)
  show ?thesis
  proof (rule room_okI)
    show "members_ok r (snd (Room_Create r h))" using I(1) unfolding members_ok_def eq .
    show "sub_symmetric r (snd (Room_Create r h))" using I(2) unfolding sub_symmetric_def eq .
    show "pubs_owned r (snd (Room_Create r h))" using I(3) unfolding pubs_owned_def eq .
    show "registry_live r (snd (Room_Create r h))" using I(4) unfolding registry_live_def eq .
    show "subs_wf (snd (Room_Create r h))" using I(5) unfolding subs_wf_def eq .
  qed (use room_okD(2) [OF assms] eq(1) closed in simp)
qed

abbreviation leave_all :: "(string, paddr) gomap \<Rightarrow> dheap \<Rightarrow> dheap" where
  "leave_all ps \<equiv> fold (\<lambda>(_, p). Participant_Leave p) ps"

lemma Leave_alloc [simp]:
  "ntrk (Participant_Leave p h) = ntrk h" "npar (Participant_Leave p h) = npar h"
proof -
  have "ntrk (fold (leave_published p i) xs h) = ntrk h \<and> npar (fold (leave_published p i) xs h) = npar h"
    for i xs h
    by (induction xs arbitrary: h) (auto simp: leave_published_def track_ops)
  moreover have "ntrk (fold (leave_subscribed p i) xs h) = ntrk h \<and> npar (fold (leave_subscribed p i) xs h) = npar h"
    for i xs h
    by (induction xs arbitrary: h) (auto simp: leave_subscribed_def track_ops)
  ultimately show "ntrk (Participant_Leave p h) = ntrk h" "npar (Participant_Leave p h) = npar h"
    by (simp_all add: Participant_Leave_def Let_def)
qed

lemma leave_all_frame:
  "rom (leave_all ps h) = rom h \<and> ntrk (leave_all ps h) = ntrk h \<and> npar (leave_all ps h) = npar h"
  by (induction ps arbitrary: h) (auto simp: case_prod_beta)

lemma leave_all_par:
  "par (leave_all ps h) x =
     (if x \<in> snd ` set ps
      then (par h x)\<lparr>p_state := ParticipantStateLeft, pubTracks := [], subTracks := [], p_room := None\<rparr>
      else par h x)"
  by (induction ps arbitrary: h) (auto simp: case_prod_beta Leave_par)

lemma Leave_subs_le: "mget (subscribers (trk (Participant_Leave p h) t)) \<subseteq>\<^sub>m mget (subscribers (trk h t))"
  by (simp add: Leave_trk Let_def map_le_def)

lemma Leave_subs_wf:
  "wf_map (subscribers (trk h t)) \<Longrightarrow> wf_map (subscribers (trk (Participant_Leave p h) t))"
  by (auto simp: Leave_trk Let_def)

lemma leave_all_subs_le: "mget (subscribers (trk (leave_all ps h) t)) \<subseteq>\<^sub>m mget (subscribers (trk h t))"
proof (induction ps arbitrary: h)
  case (Cons x ps)
  then show ?case
    using map_le_trans [OF Cons.IH Leave_subs_le [of "snd x" h t]] by (simp add: case_prod_beta)
qed simp

lemma leave_all_subs_wf:
  "wf_map (subscribers (trk h t)) \<Longrightarrow> wf_map (subscribers (trk (leave_all ps h) t))"
  by (induction ps arbitrary: h) (simp_all add: case_prod_beta Leave_subs_wf)

lemma leave_all_gone:
  assumes "(j, p) \<in> set ps" and "t \<in> snd ` set (subTracks (par h p))"
  shows "mget (subscribers (trk (leave_all ps h) t)) (p_id (par h p)) = None"
  using assms
proof (induction ps arbitrary: h)
  case (Cons x ps)
  show ?case
  proof (cases "snd x = p")
    case True
    have "mget (subscribers (trk (Participant_Leave p h) t)) (p_id (par h p)) = None"
      using Cons.prems(2) by (simp add: Leave_trk Let_def)
    then have "mget (subscribers (trk (leave_all ps (Participant_Leave p h)) t)) (p_id (par h p)) = None"
      by (rule map_le_NoneD [OF leave_all_subs_le])
    with True show ?thesis by (cases x) simp
  next
    case False
    then have "par (Participant_Leave (snd x) h) p = par h p" by (simp add: Leave_par)
    with Cons.IH [of "Participant_Leave (snd x) h"] Cons.prems False show ?thesis
      by (auto simp: case_prod_beta)
  qed
qed simp

definition dead_track :: "Track \<Rightarrow> bool" where
  "dead_track x \<longleftrightarrow> t_state x = TrackStateUnpublished \<and> publisher x = None"

lemma Leave_dead: "dead_track (trk h t) \<Longrightarrow> dead_track (trk (Participant_Leave p h) t)"
  by (simp add: dead_track_def Leave_trk Let_def)

lemma leave_all_dead_mono: "dead_track (trk h t) \<Longrightarrow> dead_track (trk (leave_all ps h) t)"
  by (induction ps arbitrary: h) (simp_all add: case_prod_beta Leave_dead)

lemma leave_all_dead:
  assumes "(j, p) \<in> set ps" and "t \<in> snd ` set (pubTracks (par h p))"
  shows "dead_track (trk (leave_all ps h) t)"
  using assms
proof (induction ps arbitrary: h)
  case (Cons x ps)
  show ?case
  proof (cases "snd x = p")
    case True
    have "dead_track (trk (Participant_Leave p h) t)"
      using Cons.prems(2) by (simp add: dead_track_def Leave_trk Let_def)
    with True show ?thesis by (cases x) (simp add: leave_all_dead_mono)
  next
    case False
    then have "par (Participant_Leave (snd x) h) p = par h p" by (simp add: Leave_par)
    with Cons.IH [of "Participant_Leave (snd x) h"] Cons.prems False show ?thesis
      by (auto simp: case_prod_beta)
  qed
qed simp

lemma Close_heap:
  assumes "r_state (rom h r) \<noteq> RoomStateClosed"
  shows "Room_Close r h = (None, upd_rom r (\<lambda>x. x\<lparr>participants := [], tracks := []\<rparr>)
    (leave_all (participants (rom h r)) (upd_rom r (\<lambda>x. x\<lparr>r_state := RoomStateClosed\<rparr>) h)))"
  using assms by (simp add: Room_Close_def Let_def)

lemma Close_room_ok:
  assumes ok: "room_ok r h"
  shows "room_ok r (snd (Room_Close r h))"
proof (cases "r_state (rom h r) = RoomStateClosed")
  case False
  note I = room_invD [OF room_okD(1) [OF ok]]
  define h1 where "h1 = upd_rom r (\<lambda>x. x\<lparr>r_state := RoomStateClosed\<rparr>) h"
  define h' where "h' = snd (Room_Close r h)"
  have h': "h' = upd_rom r (\<lambda>x. x\<lparr>participants := [], tracks := []\<rparr>)
      (leave_all (participants (rom h r)) h1)"
    by (simp add: h'_def h1_def Close_heap [OF False])
  have empty: "participants (rom h' r) = []" "tracks (rom h' r) = []" by (simp_all add: h')
  have "subs_wf h'"
  proof (rule subs_wfI)
    fix t assume "t < ntrk h'"
    then have t: "t < ntrk h" by (simp add: h' h1_def leave_all_frame)
    show "wf_map (subscribers (trk h' t))"
      using subs_wfD(1) [OF I(5) t] by (simp add: h' h1_def leave_all_subs_wf)
    fix j q assume "mget (subscribers (trk h' t)) j = Some q"
    then have "mget (subscribers (trk (leave_all (participants (rom h r)) h1) t)) j = Some q"
      by (simp add: h')
    from map_leD [OF leave_all_subs_le this] have "mget (subscribers (trk h t)) j = Some q"
      by (simp add: h1_def)
    from subs_wfD(2) [OF I(5) t this] show "q < npar h'"
      by (simp add: h' h1_def leave_all_frame)
  qed
  then have "room_ok r h'"
    by (intro room_okI)
      (simp_all add: members_ok_def sub_symmetric_def pubs_owned_def registry_live_def empty)
  then show ?thesis by (simp add: h'_def)
qed (use ok in \<open>simp add: Room_Close_def\<close>)

end
