(* ===== verification/Room_Protocol.thy ===== *)
theory Room_Protocol
  imports Domain_Reach
begin

text \<open>
  The room protocol: the step relation whose steps are the ways the signaling handler and
  the SDK client drive a room, the invariant of its reachable states, and the contracts of
  the single operations.
\<close>

inductive room_step :: "raddr \<Rightarrow> dheap \<Rightarrow> dheap \<Rightarrow> bool" for r :: raddr where
  create: "room_step r h (snd (Room_Create r h))"
| join: "join_new r i name h = (res, h') \<Longrightarrow> room_step r h h'"
| publish: "is_member r h i p \<Longrightarrow> NewTrack k kd src h = (Inr t, h1) \<Longrightarrow>
    Participant_PublishTrack p t h1 = (None, h2) \<Longrightarrow> Room_PublishTrack r t h2 = (e, h3) \<Longrightarrow>
    room_step r h h3"
| publish_refused: "is_member r h i p \<Longrightarrow> NewTrack k kd src h = (Inr t, h1) \<Longrightarrow>
    Participant_PublishTrack p t h1 = (Some e, h2) \<Longrightarrow> room_step r h h2"
| publish_undone: "is_member r h i p \<Longrightarrow> NewTrack k kd src h = (Inr t, h1) \<Longrightarrow>
    Participant_PublishTrack p t h1 = (None, h2) \<Longrightarrow> Room_PublishTrack r t h2 = (Some e, h3) \<Longrightarrow>
    Participant_UnpublishTrack p k h3 = (e', h4) \<Longrightarrow> room_step r h h4"
| unpublish: "is_member r h i p \<Longrightarrow> Participant_UnpublishTrack p k h = (None, h1) \<Longrightarrow>
    Room_UnpublishTrack r k h1 = (e, h2) \<Longrightarrow> room_step r h h2"
| subscribe: "is_member r h i p \<Longrightarrow> Room_SubscribeToTrack r p k h = (e, h') \<Longrightarrow> room_step r h h'"
| unsubscribe: "is_member r h i p \<Longrightarrow> Room_UnsubscribeFromTrack r p k h = (e, h') \<Longrightarrow> room_step r h h'"
| leave: "Room_Leave r i h = (e, h') \<Longrightarrow> room_step r h h'"
| reconnect: "is_member r h i p \<Longrightarrow> room_step r h (Participant_SetRoom p (Some r) h)"
| remote_track: "NewTrack k kd src h = (Inr t, h1) \<Longrightarrow>
    room_step r h (Track_Publish t (Track_SetPublisher t (Some p) h1))"
| close: "Room_Close r h = (e, h') \<Longrightarrow> room_step r h h'"

inductive_cases room_stepE: "room_step r h h'"

subsection \<open>Failing operations change nothing\<close>

lemma Subscribe_error: "Room_SubscribeToTrack r p k h = (Some e, h') \<Longrightarrow> h' = h"
  by (auto simp: Room_SubscribeToTrack_def dest: SubscribeTrack_error split: if_splits option.splits)

lemma Unsubscribe_error: "Room_UnsubscribeFromTrack r p k h = (Some e, h') \<Longrightarrow> h' = h"
  by (auto simp: Room_UnsubscribeFromTrack_def dest: UnsubscribeTrack_error split: if_splits)

lemma Room_PublishTrack_error: "Room_PublishTrack r t h = (Some e, h') \<Longrightarrow> h' = h"
  by (auto simp: Room_PublishTrack_def split: if_splits)

lemma Room_UnpublishTrack_error: "Room_UnpublishTrack r k h = (Some e, h') \<Longrightarrow> h' = h"
  by (auto simp: Room_UnpublishTrack_def split: if_splits)

lemma Join_error: "Room_Join r p h = (Some e, h') \<Longrightarrow> h' = h"
  by (auto simp: Room_Join_def split: if_splits)

lemma Room_Leave_error: "Room_Leave r i h = (Some e, h') \<Longrightarrow> h' = h"
  by (erule Leave_cases) auto

lemma Unsubscribe_ok_participant:
  "Room_UnsubscribeFromTrack r p k h = (None, h') \<Longrightarrow> Participant_UnsubscribeTrack p k h = (None, h')"
  by (auto simp: Room_UnsubscribeFromTrack_def split: if_splits)

subsection \<open>Every step keeps the invariant\<close>

lemma unpublish_room_ok:
  assumes ok: "room_ok r h" and m: "is_member r h i p"
    and un: "Participant_UnpublishTrack p k h = (None, h1)"
    and ru: "Room_UnpublishTrack r k h1 = (e, h2)"
  shows "room_ok r h2"
proof -
  note I = room_invD [OF room_okD(1) [OF ok]]
  obtain t where t: "mget (pubTracks (par h p)) k = Some t" and rom1: "rom h1 = rom h"
    by (rule UnpublishTrack_ok [OF un]) blast
  have "h2 = set_registry r (mdel k (tracks (rom h1 r))) h1"
  proof (cases "mget (tracks (rom h1 r)) k")
    case None
    then have "mdel k (tracks (rom h1 r)) = tracks (rom h1 r)"
      by (simp add: delete_idem map_of_eq_None_iff)
    then show ?thesis
      using ru None
      by (auto simp: Room_UnpublishTrack_def set_registry_def upd_rom_def split: if_splits)
  next
    case (Some u)
    then show ?thesis
      using ru room_ok_member_open [OF ok m]
      by (simp add: Room_UnpublishTrack_def set_registry_def upd_rom_def rom1)
  qed
  moreover have "room_ok r (set_registry r (mdel k (tracks (rom h1 r))) h1)"
    by (rule UnpublishTrack_registry_ok [OF ok m un])
      (use I(4) t in \<open>auto simp: rom1 registry_live_def map_le_def\<close>)
  ultimately show ?thesis by simp
qed

lemma undone_room_ok:
  assumes ok: "room_ok r h" and m: "is_member r h i p" and n: "NewTrack k kd src h = (Inr t, h1)"
    and pub: "Participant_PublishTrack p t h1 = (None, h2)"
    and rp: "Room_PublishTrack r t h2 = (Some e, h3)"
    and un: "Participant_UnpublishTrack p k h3 = (e', h4)"
  shows "room_ok r h4" and "e' = None" and "mget (pubTracks (par h4 p)) k = None"
    and "rom h4 = rom h"
proof -
  note P = PublishTrack_room_ok [OF ok m n pub]
  have h3: "h3 = h2" by (rule Room_PublishTrack_error [OF rp])
  have m2: "is_member r h2 i p" using m P(3) by simp
  note I = room_invD [OF room_okD(1) [OF P(1)]]
  show e': "e' = None"
    using un h3 P(2) members_okD(2) [OF I(1) m2]
    by (auto simp: Participant_UnpublishTrack_def split: if_splits)
  have un2: "Participant_UnpublishTrack p k h2 = (None, h4)" using un h3 e' by simp
  obtain rom4: "rom h4 = rom h2"
    and par4: "par h4 = (par h2)(p := (par h2 p)\<lparr>pubTracks := mdel k (pubTracks (par h2 p))\<rparr>)"
    by (rule UnpublishTrack_ok [OF un2]) blast
  show "mget (pubTracks (par h4 p)) k = None" by (simp add: par4)
  show "rom h4 = rom h" using rom4 P(3) by simp
  have same: "set_registry r (tracks (rom h2 r)) h4 = h4"
    by (simp add: set_registry_def upd_rom_def flip: rom4)
  have "mget (tracks (rom h2 r)) k \<noteq> Some t"
  proof
    assume "mget (tracks (rom h2 r)) k = Some t"
    then have "mget (tracks (rom h r)) k = Some t" by (simp add: P(3))
    then obtain j q where q: "is_member r h j q" "mget (pubTracks (par h q)) k = Some t"
      by (rule registry_liveE [OF room_invD(4) [OF room_okD(1) [OF ok]]])
    with NewTrack_fresh [OF ok n q(1)] NewTrack_heap(3) [OF n] show False by simp
  qed
  then have "room_ok r (set_registry r (tracks (rom h2 r)) h4)"
    by (intro UnpublishTrack_registry_ok [OF P(1) m2 un2])
      (use I(4) P(2) in \<open>simp_all add: registry_live_def\<close>)
  with same show "room_ok r h4" by simp
qed

lemma refused_room_ok:
  assumes "room_ok r h" and "NewTrack k kd src h = (Inr t, h1)"
    and "Participant_PublishTrack p t h1 = (Some e, h2)"
  shows "room_ok r h2"
  using NewTrack_room_ok [OF assms(1,2)] PublishTrack_error [OF assms(3)] by simp

lemma publish_room_ok:
  assumes ok: "room_ok r h" and m: "is_member r h i p" and n: "NewTrack k kd src h = (Inr t, h1)"
    and pub: "Participant_PublishTrack p t h1 = (None, h2)"
    and rp: "Room_PublishTrack r t h2 = (e, h3)"
  shows "room_ok r h3"
proof -
  note P = PublishTrack_room_ok [OF ok m n pub]
  show ?thesis
    by (rule Room_PublishTrack_room_ok [OF P(1) _ _ rp, of i p]) (use m P in simp_all)
qed

lemma Leave_room_ok:
  assumes ok: "room_ok r h" and lv: "Room_Leave r i h = (e, h')"
  shows "room_ok r h'"
  using lv
proof (cases rule: Leave_cases)
  case (left p)
  obtain h3 where L: "left_state r i p h h3" and h': "h' = drop_member r i h3"
    using lv left by (blast intro: Leave_decompose [OF room_okD(1) [OF ok]])
  have "r_state (rom h' r) = r_state (rom h r)"
    using left_stateD(3) [OF L] by (simp add: h' shrinks_romD)
  with Leave_room_inv [OF room_okD(1) [OF ok] lv] left(1) show ?thesis by (simp add: room_ok_def)
qed (use ok in simp_all)

lemma SetRoom_room_ok: "room_ok r (Participant_SetRoom p x h) \<longleftrightarrow> room_ok r h"
proof -
  let ?h = "Participant_SetRoom p x h"
  have "p_id (par ?h q) = p_id (par h q)" "p_state (par ?h q) = p_state (par h q)"
    "pubTracks (par ?h q) = pubTracks (par h q)" "subTracks (par ?h q) = subTracks (par h q)" for q
    by (simp_all add: Participant_SetRoom_def)
  moreover have "trk ?h = trk h" "rom ?h = rom h" "ntrk ?h = ntrk h" "npar ?h = npar h"
    by (simp_all add: Participant_SetRoom_def)
  ultimately show ?thesis
    by (simp only: room_ok_def room_inv_def members_ok_def sub_symmetric_def pubs_owned_def registry_live_def subs_wf_def)
qed

lemma remote_track_room_ok:
  assumes ok: "room_ok r h" and n: "NewTrack k kd src h = (Inr t, h1)"
  shows "room_ok r (Track_Publish t (Track_SetPublisher t (Some p) h1))"
  by (rule room_ok_frame [OF ok]) (use NewTrack_heap [OF n] in \<open>auto simp: track_ops mkTrack_def\<close>)

lemma room_step_ok: "room_step r h h' \<Longrightarrow> room_ok r h \<Longrightarrow> room_ok r h'"
proof (induction rule: room_step.induct)
  case (join i name h res h')
  then show ?case using join_error_room_ok join_room_ok by (cases res) blast+
next
  case (subscribe h i p k e h')
  then show ?case
    using Subscribe_error Subscribe_room_ok by (cases e) blast+
next
  case (unsubscribe h i p k e h')
  show ?case
  proof (cases e)
    case None
    with unsubscribe(2) have "Participant_UnsubscribeTrack p k h = (None, h')"
      by (blast intro: Unsubscribe_ok_participant)
    with unsubscribe(3,1) show ?thesis by (rule Unsubscribe_room_ok)
  next
    case (Some e')
    with unsubscribe(2) have "h' = h" by (blast intro: Unsubscribe_error)
    with unsubscribe(3) show ?thesis by simp
  qed
next
  case (close h e h')
  then show ?case using Close_room_ok [of r h] by simp
next
  case (reconnect h i p)
  then show ?case by (simp add: SetRoom_room_ok)
qed (blast intro: remote_track_room_ok Create_room_ok publish_room_ok refused_room_ok undone_room_ok(1)
    unpublish_room_ok Leave_room_ok)+

definition room_start :: "raddr \<Rightarrow> dheap \<Rightarrow> bool" where
  "room_start r h \<longleftrightarrow> (\<exists>i h0. subs_wf h0 \<and> NewRoom i h0 = (r, h))"

lemma room_start_ok: "room_start r h \<Longrightarrow> room_ok r h"
  by (auto simp: room_start_def NewRoom_def mkRoom_def room_ok_def room_inv_def members_ok_def
      sub_symmetric_def pubs_owned_def registry_live_def subs_wf_def)

interpretation room: step_invariant "room_start r" "room_step r" "room_ok r" for r
  by unfold_locales (blast intro: room_start_ok room_step_ok)+

text \<open>A component that drives a room: each of its own steps is a sequence of steps of the room
  protocol on the heap that it holds. Then its runs refine the room protocol and keep the
  room invariant.\<close>

locale room_driver =
  fixes r :: raddr
    and heap :: "'s \<Rightarrow> dheap"
    and drive :: "'s \<Rightarrow> 's \<Rightarrow> bool"
  assumes simulates: "drive s s' \<Longrightarrow> room_ok r (heap s) \<Longrightarrow> (room_step r)\<^sup>*\<^sup>* (heap s) (heap s')"
begin

lemma run_refines:
  assumes "drive\<^sup>*\<^sup>* s s'" and ok: "room_ok r (heap s)"
  shows "(room_step r)\<^sup>*\<^sup>* (heap s) (heap s') \<and> room_ok r (heap s')"
  using assms(1)
proof (induction rule: rtranclp_induct)
  case (step t u)
  then have "(room_step r)\<^sup>*\<^sup>* (heap s) (heap u)" using simulates by (metis rtranclp_trans)
  then show ?case using room.steps_inv ok by blast
qed (use ok in simp)

end

end
