(* ===== verification/Room_Contracts.thy ===== *)
theory Room_Contracts
  imports Room_Protocol
begin

text \<open>
  The contracts of the room component: what holds in every reachable state, what the
  departure of a member and the closing of a room achieve, and how the operations fail.
  The example room below, built by the operations themselves, is the input at which the
  contracts are evaluated.
\<close>

subsection \<open>An example room\<close>

definition empty_heap :: dheap where
  "empty_heap =
     \<lparr>trk = (\<lambda>_. mkTrack '''' 0 0), par = (\<lambda>_. mkParticipant '''' ''''), rom = (\<lambda>_. mkRoom ''''),
      ntrk = 0, npar = 0, nrom = 0\<rparr>"

definition demo_start :: dheap where
  "demo_start = snd (NewRoom ''room-1'' empty_heap)"

definition demo_joined :: dheap where
  "demo_joined = snd (join_new 0 ''bob'' ''Bob'' (snd (join_new 0 ''alice'' ''Alice''
     (snd (Room_Create 0 demo_start)))))"

definition demo_published :: dheap where
  "demo_published = snd (Room_PublishTrack 0 0 (snd (Participant_PublishTrack 0 0
     (snd (NewTrack ''mic'' TrackKindAudio TrackSourceMicrophone demo_joined)))))"

definition demo_room :: dheap where
  "demo_room = snd (Room_SubscribeToTrack 0 1 ''mic'' demo_published)"

lemma demo_start_ok: "room_start 0 demo_start"
  unfolding room_start_def demo_start_def
  by (intro exI [of _ "''room-1''"] exI [of _ empty_heap])
    (simp add: NewRoom_def subs_wf_def empty_heap_def)

lemma demo_joined_steps: "(room_step 0)\<^sup>*\<^sup>* demo_start demo_joined"
  unfolding demo_joined_def
  by (meson converse_rtranclp_into_rtranclp rtranclp.rtrancl_refl room_step.create room_step.join
      surjective_pairing)

lemma demo_joined_members: "is_member 0 demo_joined ''alice'' 0" "is_member 0 demo_joined ''bob'' 1"
  by code_simp+

lemma demo_published_step: "room_step 0 demo_joined demo_published"
proof (rule room_step.publish [OF demo_joined_members(1)])
  let ?n = "NewTrack ''mic'' TrackKindAudio TrackSourceMicrophone demo_joined"
  have "fst ?n = Inr 0" by code_simp
  then show "?n = (Inr 0, snd ?n)" by (metis prod.collapse)
  have "fst (Participant_PublishTrack 0 0 (snd ?n)) = None" by code_simp
  then show "Participant_PublishTrack 0 0 (snd ?n) = (None, snd (Participant_PublishTrack 0 0 (snd ?n)))"
    by (metis prod.collapse)
  show "Room_PublishTrack 0 0 (snd (Participant_PublishTrack 0 0 (snd ?n))) =
      (fst (Room_PublishTrack 0 0 (snd (Participant_PublishTrack 0 0 (snd ?n)))), demo_published)"
    by (simp add: demo_published_def)
qed

lemma demo_room_step: "room_step 0 demo_published demo_room"
proof (rule room_step.subscribe)
  show "is_member 0 demo_published ''bob'' 1" by code_simp
  show "Room_SubscribeToTrack 0 1 ''mic'' demo_published =
      (fst (Room_SubscribeToTrack 0 1 ''mic'' demo_published), demo_room)"
    by (simp add: demo_room_def)
qed

lemma demo_steps: "(room_step 0)\<^sup>*\<^sup>* demo_start demo_room"
  using demo_joined_steps demo_published_step demo_room_step by (meson rtranclp.rtrancl_into_rtrancl)

lemma demo_room_ok: "room_ok 0 demo_room"
  by (rule room.reachable_inv [OF demo_start_ok demo_steps])

lemma demo_joined_ok: "room_ok 0 demo_joined"
  by (rule room.reachable_inv [OF demo_start_ok demo_joined_steps])

lemma demo_room_members: "is_member 0 demo_room ''alice'' 0" "is_member 0 demo_room ''bob'' 1"
  by code_simp+

subsection \<open>The invariant\<close>



subsection \<open>Departure of a member\<close>

lemma left_no_subscribers:
  assumes L: "left_state r i p h h3" and k: "mget (pubTracks (par h p)) k = Some t"
  shows "subscribers (trk h3 t) = []"
proof -
  note I = room_invD [OF left_stateD(1) [OF L]] and s = left_stateD(3) [OF L]
  note P = pubs_ownedD [OF I(3) left_stateD(2) [OF L] k]
  have "mget (subscribers (trk h3 t)) j = None" for j
  proof (cases "j = i")
    case True
    show ?thesis
    proof (rule ccontr)
      assume "mget (subscribers (trk h3 t)) j \<noteq> None"
      then obtain x where x: "mget (subscribers (trk h3 t)) i = Some x" using True by blast
      from P(5) [OF map_leD [OF shrinks_trkD(8) [OF s] x]] left_stateD(2) [OF L] x
        left_not_subscriber [OF L P(4)] show False by simp
    qed
  next
    case False
    then show ?thesis using left_stateD(5) [OF L] k by (simp add: destroyed_def)
  qed
  then show ?thesis by (simp add: mget_Nil_iff)
qed

text \<open>C4. \<open>Room.Leave\<close> of a member succeeds and tears it down completely: exactly that
  member is gone from the membership; every track it published is unpublished, has no
  publisher, no subscriber and no registry entry, and no remaining member is subscribed to
  it; no track at all keeps the departed member as a subscriber; and the publications of
  the remaining members are untouched.\<close>

theorem Leave_contract:
  assumes ok: "room_ok r h" and mem: "is_member r h i p"
  shows "\<exists>h'. Room_Leave r i h = (None, h') \<and>
    (\<forall>j q. is_member r h' j q \<longleftrightarrow> j \<noteq> i \<and> is_member r h j q) \<and>
    (\<forall>k t. mget (pubTracks (par h p)) k = Some t \<longrightarrow>
       t_state (trk h' t) = TrackStateUnpublished \<and> publisher (trk h' t) = None \<and>
       subscribers (trk h' t) = [] \<and> Room_GetTrack r k h' = None \<and>
       (\<forall>j q. is_member r h' j q \<longrightarrow> Participant_GetSubscribedTrack q k h' \<noteq> Some t)) \<and>
    (\<forall>t < ntrk h. mget (subscribers (trk h' t)) i \<noteq> Some p) \<and>
    (\<forall>j q k t. is_member r h' j q \<longrightarrow> mget (pubTracks (par h q)) k = Some t \<longrightarrow>
       mget (pubTracks (par h' q)) k = Some t \<and> t_state (trk h' t) = TrackStatePublished)"
proof -
  note I = room_invD [OF room_okD(1) [OF ok]]
  obtain h' where lv: "Room_Leave r i h = (None, h')"
    using mem room_ok_member_open [OF ok mem] by (simp add: Room_Leave_def Let_def)
  obtain h3 where L: "left_state r i p h h3" and h': "h' = drop_member r i h3"
    by (rule Leave_decompose [OF room_okD(1) [OF ok] mem lv])
  note s = left_stateD(3) [OF L]
  have ok': "room_ok r h'" by (rule Leave_room_ok [OF ok lv])
  note I' = room_invD [OF room_okD(1) [OF ok']]
  have own: "t_state (trk h' t) = TrackStateUnpublished \<and> publisher (trk h' t) = None \<and>
       subscribers (trk h' t) = [] \<and> Room_GetTrack r k h' = None \<and>
       (\<forall>j q. is_member r h' j q \<longrightarrow> Participant_GetSubscribedTrack q k h' \<noteq> Some t)"
    if k: "mget (pubTracks (par h p)) k = Some t" for k t
  proof -
    note P = pubs_ownedD [OF I(3) mem k]
    have d: "destroyed r i t h3" using left_stateD(5) [OF L] k by blast
    have none: "subscribers (trk h' t) = []" using left_no_subscribers [OF L k] by (simp add: h')
    have t': "t < ntrk h'" and tid: "t_id (trk h' t) = k"
      using P(1,4) by (simp_all add: h' shrinks_trkD [OF s] shrinks_romD [OF s])
    have "Participant_GetSubscribedTrack q k h' \<noteq> Some t" if "is_member r h' j q" for j q
      using sub_iff [OF I'(2) that t'] none tid by (simp add: Participant_GetSubscribedTrack_def)
    moreover have "Room_GetTrack r k h' = None"
      using d P(1) by (simp add: destroyed_def Room_GetTrack_def h' shrinks_trkD [OF s])
    ultimately show ?thesis using d none by (simp add: h' destroyed_def)
  qed
  have rest: "mget (pubTracks (par h' q)) k = Some t \<and> t_state (trk h' t) = TrackStatePublished"
    if "is_member r h' j q" and k: "mget (pubTracks (par h q)) k = Some t" for j q k t
  proof -
    have k': "mget (pubTracks (par h' q)) k = Some t" using k by (simp add: h' shrinks_parD [OF s])
    with pubs_ownedD(3) [OF I'(3) that(1) k'] show ?thesis by blast
  qed
  have gone: "mget (subscribers (trk h' t)) i \<noteq> Some p" if "t < ntrk h" for t
    using left_not_subscriber [OF L that] by (simp add: h')
  have mems: "is_member r h' j q \<longleftrightarrow> j \<noteq> i \<and> is_member r h j q" for j q
    unfolding h' by (rule left_member_iff [OF L])
  show ?thesis using lv mems own gone rest by blast
qed

theorem Leave_contract_witness:
  "\<exists>h'. Room_Leave 0 ''alice'' demo_room = (None, h') \<and>
    \<not> is_member 0 h' ''alice'' 0 \<and> is_member 0 h' ''bob'' 1 \<and>
    t_state (trk h' 0) = TrackStateUnpublished \<and> Participant_GetSubscribedTrack 1 ''mic'' h' \<noteq> Some 0"
proof -
  have k: "mget (pubTracks (par demo_room 0)) ''mic'' = Some 0" by code_simp
  obtain h' where lv: "Room_Leave 0 ''alice'' demo_room = (None, h')"
    and mem: "\<forall>j q. is_member 0 h' j q \<longleftrightarrow> j \<noteq> ''alice'' \<and> is_member 0 demo_room j q"
    and own: "\<forall>k t. mget (pubTracks (par demo_room 0)) k = Some t \<longrightarrow>
       t_state (trk h' t) = TrackStateUnpublished \<and> publisher (trk h' t) = None \<and>
       subscribers (trk h' t) = [] \<and> Room_GetTrack 0 k h' = None \<and>
       (\<forall>j q. is_member 0 h' j q \<longrightarrow> Participant_GetSubscribedTrack q k h' \<noteq> Some t)"
    using Leave_contract [OF demo_room_ok demo_room_members(1)] by (elim exE conjE)
  have b: "is_member 0 h' ''bob'' 1" using mem demo_room_members(2) by simp
  have a: "\<not> is_member 0 h' ''alice'' 0" using mem by blast
  show ?thesis using own [rule_format, OF k] lv a b by blast
qed

subsection \<open>Closing\<close>

text \<open>\<open>Room.Close\<close> of an open room empties it: state closed, no members, no registry
  entries; every former member has left, belongs to no room and holds no publications or
  subscriptions; every track a member published is unpublished without a publisher; and no
  track keeps a former member as a subscriber.\<close>

theorem Close_contract:
  assumes ok: "room_ok r h" and op: "r_state (rom h r) \<noteq> RoomStateClosed"
  shows "\<exists>h'. Room_Close r h = (None, h') \<and> r_state (rom h' r) = RoomStateClosed \<and>
    Room_Participants r h' = [] \<and> Room_Tracks r h' = [] \<and>
    (\<forall>i p. is_member r h i p \<longrightarrow>
       p_state (par h' p) = ParticipantStateLeft \<and> p_room (par h' p) = None \<and>
       pubTracks (par h' p) = [] \<and> subTracks (par h' p) = [] \<and>
       (\<forall>k t. mget (pubTracks (par h p)) k = Some t \<longrightarrow>
          t_state (trk h' t) = TrackStateUnpublished \<and> publisher (trk h' t) = None) \<and>
       (\<forall>t < ntrk h. mget (subscribers (trk h' t)) i \<noteq> Some p))"
proof -
  note I = room_invD [OF room_okD(1) [OF ok]]
  define h1 where "h1 = upd_rom r (\<lambda>x. x\<lparr>r_state := RoomStateClosed\<rparr>) h"
  define h2 where "h2 = leave_all (participants (rom h r)) h1"
  define h' where "h' = upd_rom r (\<lambda>x. x\<lparr>participants := [], tracks := []\<rparr>) h2"
  have c: "Room_Close r h = (None, h')" by (simp add: Close_heap [OF op] h'_def h2_def h1_def)
  have shape: "r_state (rom h' r) = RoomStateClosed" "Room_Participants r h' = []" "Room_Tracks r h' = []"
    by (simp_all add: h'_def h2_def h1_def leave_all_frame Room_Participants_def Room_Tracks_def)
  have each: "p_state (par h' p) = ParticipantStateLeft \<and> p_room (par h' p) = None \<and>
       pubTracks (par h' p) = [] \<and> subTracks (par h' p) = [] \<and>
       (\<forall>k t. mget (pubTracks (par h p)) k = Some t \<longrightarrow>
          t_state (trk h' t) = TrackStateUnpublished \<and> publisher (trk h' t) = None) \<and>
       (\<forall>t < ntrk h. mget (subscribers (trk h' t)) i \<noteq> Some p)" if m: "is_member r h i p" for i p
  proof (intro conjI allI impI)
    have e: "(i, p) \<in> set (participants (rom h r))" using members_entry [OF I(1)] m by blast
    then have in_ps: "p \<in> snd ` set (participants (rom h r))" by force
    then show "p_state (par h' p) = ParticipantStateLeft" "p_room (par h' p) = None"
       "pubTracks (par h' p) = []" "subTracks (par h' p) = []"
      by (simp_all add: h'_def h2_def leave_all_par)
    fix k t assume "mget (pubTracks (par h p)) k = Some t"
    then have "t \<in> snd ` set (pubTracks (par h1 p))" by (force simp: h1_def dest: map_of_SomeD)
    from leave_all_dead [OF e this]
    show "t_state (trk h' t) = TrackStateUnpublished" "publisher (trk h' t) = None"
      by (simp_all add: h'_def h2_def dead_track_def)
  next
    fix t assume t: "t < ntrk h"
    have e: "(i, p) \<in> set (participants (rom h r))" using members_entry [OF I(1)] m by blast
    show "mget (subscribers (trk h' t)) i \<noteq> Some p"
    proof
      assume "mget (subscribers (trk h' t)) i = Some p"
      then have a: "mget (subscribers (trk h2 t)) i = Some p" by (simp add: h'_def)
      then have "mget (subscribers (trk h t)) i = Some p"
        using map_leD [OF leave_all_subs_le a [unfolded h2_def]] by (simp add: h1_def)
      then have "mget (subTracks (par h p)) (t_id (trk h t)) = Some t"
        using sub_iff [OF I(2) m t] by simp
      then have "t \<in> snd ` set (subTracks (par h1 p))" by (force simp: h1_def dest: map_of_SomeD)
      from leave_all_gone [OF e this]
      have "mget (subscribers (trk h2 t)) (p_id (par h1 p)) = None" by (simp only: h2_def)
      moreover have "p_id (par h1 p) = i" using members_okD(1) [OF I(1) m] by (simp add: h1_def)
      ultimately show False using a by (simp only: option.distinct)
    qed
  qed
  show ?thesis using c shape each by blast
qed

theorem Close_contract_witness:
  "\<exists>h'. Room_Close 0 demo_room = (None, h') \<and> Room_Participants 0 h' = [] \<and>
    p_state (par h' 1) = ParticipantStateLeft \<and> subTracks (par h' 1) = []"
proof -
  have "r_state (rom demo_room 0) \<noteq> RoomStateClosed" by code_simp
  from Close_contract [OF demo_room_ok this] demo_room_members(2) show ?thesis by blast
qed

subsection \<open>A closed room stays closed\<close>

lemma closed_no_members:
  "room_ok r h \<Longrightarrow> r_state (rom h r) = RoomStateClosed \<Longrightarrow> \<not> is_member r h i p"
  by (simp add: room_ok_def)

lemma room_step_closed:
  assumes "room_step r h h'" and "room_ok r h" and "r_state (rom h r) = RoomStateClosed"
  shows "r_state (rom h' r) = RoomStateClosed"
  using assms(1)
proof (cases rule: room_step.cases)
  case (join i name res)
  then show ?thesis using assms(3)
    by (auto simp: join_new_def NewParticipant_def Room_Join_def)
qed (use assms(2,3) closed_no_members in
    \<open>auto simp: Room_Create_def Room_Leave_def Room_Close_def NewTrack_heap track_ops\<close>)

text \<open>Closing is final: no sequence of operations reopens a closed room or brings a
  member into it; joining, creating and leaving it report \<open>ErrRoomClosed\<close>.\<close>

theorem closed_room_stays_closed:
  assumes ok: "room_ok r h" and cl: "r_state (rom h r) = RoomStateClosed"
    and st: "(room_step r)\<^sup>*\<^sup>* h h'"
  shows "r_state (rom h' r) = RoomStateClosed \<and> Room_Participants r h' = [] \<and>
    fst (Room_Join r p h') = Some (derr ErrRoomClosed) \<and>
    fst (Room_Create r h') = Some (derr ErrRoomClosed) \<and>
    fst (Room_Leave r i h') = Some (derr ErrRoomClosed)"
proof -
  have "room_ok r h' \<and> r_state (rom h' r) = RoomStateClosed"
    using st
  proof (induction rule: rtranclp_induct)
    case base then show ?case using ok cl by blast
  next
    case (step y z) then show ?case using room_step_ok room_step_closed by blast
  qed
  then show ?thesis
    by (simp add: Room_Join_def Room_Create_def Room_Leave_def Room_Participants_def room_ok_def)
qed

theorem closed_room_stays_closed_witness:
  "Room_Participants 0 (snd (Room_Close 0 demo_room)) = [] \<and>
   fst (Room_Join 0 0 (snd (Room_Close 0 demo_room))) = Some (derr ErrRoomClosed)"
proof -
  have "r_state (rom (snd (Room_Close 0 demo_room)) 0) = RoomStateClosed" by code_simp
  from closed_room_stays_closed [OF Close_room_ok [OF demo_room_ok] this rtranclp.rtrancl_refl]
  show ?thesis by blast
qed

subsection \<open>Subscribing\<close>



lemma unsubscribe_restores:
  assumes ok: "room_ok r h" and m: "is_member r h i p"
    and s: "Room_SubscribeToTrack r p k h = (None, h')"
  shows "Room_UnsubscribeFromTrack r p k h' = (None, h)"
  using ok m s
proof (rule subscribe_heap)
  note I = room_invD [OF room_okD(1) [OF ok]]
  fix t j q
  assume q: "is_member r h j q" "mget (pubTracks (par h q)) k = Some t"
    and sub: "mget (subTracks (par h p)) k = None" and none: "mget (subscribers (trk h t)) i = None"
    and par: "par h' = (par h)(p := (par h p)\<lparr>subTracks := mput k t (subTracks (par h p))\<rparr>)"
    and trk: "trk h' = (trk h)(t := (trk h t)\<lparr>subscribers := mput i p (subscribers (trk h t))\<rparr>)"
    and rest: "rom h' = rom h" "ntrk h' = ntrk h" "npar h' = npar h"
  have nrom: "nrom h' = nrom h"
    using s by (auto simp: Room_SubscribeToTrack_def dest: SubscribeTrack_ok(9)
        split: if_splits option.splits)
  have "room_lookup_track r k h \<noteq> None" using lookup_Some_iff [OF ok, of k] q by blast
  moreover have "room_lookup_track r k h' \<noteq> None"
    using lookup_Some_iff [OF Subscribe_room_ok [OF ok m s], of k] q rest(1) par by fastforce
  ultimately have found: "\<not> (mget (tracks (rom h' r)) k = None \<and>
      Room_resolvePublishedTrackLocked r k h' = None)"
    by (auto simp: room_lookup_track_def)
  have "p_state (par h' p) \<noteq> ParticipantStateLeft" "p_id (par h' p) = i"
    using members_okD(1,2) [OF I(1) m] by (simp_all add: par)
  moreover have "mget (subTracks (par h' p)) k = Some t" by (simp add: par)
  ultimately have "Participant_UnsubscribeTrack p k h' =
      (None, upd_par p (\<lambda>x. x\<lparr>subTracks := mdel k (subTracks x)\<rparr>) (Track_RemoveSubscriber t i h'))"
    by (simp add: Participant_UnsubscribeTrack_def)
  also have "\<dots> = (None, h)"
    using sub none
    by (auto intro!: dheap.equality
        simp: Track_RemoveSubscriber_def par trk rest nrom mdel_mput_absent)
  finally show ?thesis
    using found room_ok_member_open [OF ok m] rest(1) by (simp add: Room_UnsubscribeFromTrack_def)
qed

text \<open>C6. Subscribing and unsubscribing are inverse: after a successful subscription the
  same member can unsubscribe, and the whole store is then exactly what it was before.\<close>

theorem subscribe_unsubscribe_roundtrip:
  assumes ok: "room_ok r h" and m: "is_member r h i p"
    and s: "Room_SubscribeToTrack r p k h = (None, h')"
  shows "Room_UnsubscribeFromTrack r p k h' = (None, h)"
  using ok m s by (rule unsubscribe_restores)

theorem subscribe_unsubscribe_roundtrip_witness:
  "Room_UnsubscribeFromTrack 0 1 ''mic'' demo_room = (None, demo_published)"
proof (rule subscribe_unsubscribe_roundtrip)
  show "room_ok 0 demo_published"
    by (rule room_step_ok [OF demo_published_step demo_joined_ok])
  show "is_member 0 demo_published ''bob'' 1" by code_simp
  have "fst (Room_SubscribeToTrack 0 1 ''mic'' demo_published) = None" by code_simp
  then show "Room_SubscribeToTrack 0 1 ''mic'' demo_published = (None, demo_room)"
    unfolding demo_room_def by (metis prod.collapse)
qed

subsection \<open>Unpublishing and leaving: what is left behind\<close>

lemma unpublish_heap:
  assumes ok: "room_ok r h" and m: "is_member r h j q"
    and un: "Participant_UnpublishTrack q k h = (None, h1)"
    and ru: "Room_UnpublishTrack r k h1 = (e, h2)"
  shows "par h2 = (par h)(q := (par h q)\<lparr>pubTracks := mdel k (pubTracks (par h q))\<rparr>)"
    and "participants (rom h2 r) = participants (rom h r)"
    and "mget (tracks (rom h2 r)) k = None" and "r_state (rom h2 r) = r_state (rom h r)"
proof -
  obtain P: "par h1 = (par h)(q := (par h q)\<lparr>pubTracks := mdel k (pubTracks (par h q))\<rparr>)"
    and R: "rom h1 = rom h"
    by (rule UnpublishTrack_ok [OF un]) blast
  show "par h2 = (par h)(q := (par h q)\<lparr>pubTracks := mdel k (pubTracks (par h q))\<rparr>)"
    "participants (rom h2 r) = participants (rom h r)" "mget (tracks (rom h2 r)) k = None"
    "r_state (rom h2 r) = r_state (rom h r)"
    using ru room_ok_member_open [OF ok m] P R
    by (auto simp: Room_UnpublishTrack_def split: if_splits)
qed

lemma subscribed_again_fails:
  assumes ok: "room_ok r h" and m: "is_member r h i p"
    and l: "mget (tracks (rom h r)) k \<noteq> None" and sub: "mget (subTracks (par h p)) k \<noteq> None"
  shows "Room_SubscribeToTrack r p k h = (Some (derr ErrTrackAlreadySubscribed), h)"
proof -
  note I = room_invD [OF room_okD(1) [OF ok]]
  obtain t where t: "mget (tracks (rom h r)) k = Some t" using l by blast
  then have lk: "room_lookup_track r k h = Some t" by (simp add: room_lookup_track_def)
  obtain j q where q: "is_member r h j q" "mget (pubTracks (par h q)) k = Some t"
    using lk by (rule lookup_published [OF ok])
  show ?thesis
    using lk room_ok_member_open [OF ok m] pubs_ownedD(1) [OF I(3) q] sub members_okD(2) [OF I(1) m]
    by (simp add: Room_SubscribeToTrack_def Participant_SubscribeTrack_def)
qed

text \<open>C7. Unpublishing does not detach the subscribers. When the only publisher of a track
  withdraws it, a subscribed member still holds the withdrawn track; it cannot unsubscribe
  (\<open>ErrTrackNotFound\<close>), and when the identifier is published again it cannot subscribe to the
  new track (\<open>ErrTrackAlreadySubscribed\<close>).\<close>

theorem unpublish_strands_subscriber:
  assumes ok: "room_ok r h" and p: "is_member r h i p" and q: "is_member r h j q" and ne: "q \<noteq> p"
    and sub: "Participant_GetSubscribedTrack p k h = Some t"
    and only: "\<forall>l x. is_member r h l x \<longrightarrow> x \<noteq> q \<longrightarrow> Participant_GetPublishedTrack x k h = None"
    and un: "Participant_UnpublishTrack q k h = (None, h1)" and ru: "Room_UnpublishTrack r k h1 = (e, h2)"
  shows "Participant_GetSubscribedTrack p k h2 = Some t \<and>
    Room_UnsubscribeFromTrack r p k h2 = (Some (derr ErrTrackNotFound), h2) \<and>
    (\<forall>kd src t' h3 h4 h5. NewTrack k kd src h2 = (Inr t', h3) \<longrightarrow>
       Participant_PublishTrack q t' h3 = (None, h4) \<longrightarrow> Room_PublishTrack r t' h4 = (None, h5) \<longrightarrow>
       Room_SubscribeToTrack r p k h5 = (Some (derr ErrTrackAlreadySubscribed), h5))"
proof -
  note U = unpublish_heap [OF ok q un ru]
  have ok2: "room_ok r h2" by (rule unpublish_room_ok [OF ok q un ru])
  have p2: "is_member r h2 i p" and q2: "is_member r h2 j q" using p q U(2) by simp_all
  have sub2: "mget (subTracks (par h2 p)) k = Some t"
    using sub ne by (simp add: U(1) Participant_GetSubscribedTrack_def)
  have "room_lookup_track r k h2 = None"
  proof (rule ccontr)
    assume "room_lookup_track r k h2 \<noteq> None"
    then obtain l x where x: "is_member r h2 l x" "mget (pubTracks (par h2 x)) k \<noteq> None"
      using lookup_Some_iff [OF ok2] by metis
    then have "x \<noteq> q" by (auto simp: U(1))
    with x only show False by (simp add: U(1,2) Participant_GetPublishedTrack_def)
  qed
  then have nf: "mget (tracks (rom h2 r)) k = None" "Room_resolvePublishedTrackLocked r k h2 = None"
    by (auto simp: room_lookup_track_def split: option.splits)
  have again: "Room_SubscribeToTrack r p k h5 = (Some (derr ErrTrackAlreadySubscribed), h5)"
    if n: "NewTrack k kd src h2 = (Inr t', h3)" and pub: "Participant_PublishTrack q t' h3 = (None, h4)"
      and rp: "Room_PublishTrack r t' h4 = (None, h5)" for kd src t' h3 h4 h5
  proof (rule subscribed_again_fails)
    note P = PublishTrack_room_ok [OF ok2 q2 n pub]
    show "room_ok r h5" by (rule publish_room_ok [OF ok2 q2 n pub rp])
    have h5: "h5 = upd_rom r (\<lambda>x. x\<lparr>tracks := mput k t' (tracks x)\<rparr>) h4"
      using rp P(4) by (auto simp: Room_PublishTrack_def split: if_splits)
    show "is_member r h5 i p" using p2 P(3) by (simp add: h5)
    show "mget (tracks (rom h5 r)) k \<noteq> None" by (simp add: h5)
    show "mget (subTracks (par h5 p)) k \<noteq> None"
      using sub2 ne by (simp add: h5 PublishTrack_ok(3) [OF pub] NewTrack_heap(3) [OF n])
  qed
  show ?thesis
    using sub2 nf again room_ok_member_open [OF ok2 p2]
    by (simp add: Participant_GetSubscribedTrack_def Room_UnsubscribeFromTrack_def)
qed

definition demo_unpublished :: dheap where
  "demo_unpublished = snd (Room_UnpublishTrack 0 ''mic'' (snd (Participant_UnpublishTrack 0 ''mic'' demo_room)))"

theorem unpublish_strands_subscriber_witness:
  "Participant_GetSubscribedTrack 1 ''mic'' demo_unpublished = Some 0 \<and>
   Room_UnsubscribeFromTrack 0 1 ''mic'' demo_unpublished =
     (Some (derr ErrTrackNotFound), demo_unpublished)"
proof -
  let ?u = "Participant_UnpublishTrack 0 ''mic'' demo_room"
  have "map snd (participants (rom demo_room 0)) = [0, 1]" by code_simp
  then have two: "x = 0 \<or> x = 1" if "is_member 0 demo_room l x" for l x
    using map_of_SomeD [OF that] by (metis (no_types) image_eqI list.set_map empty_iff insert_iff
        list.set snd_conv)
  have none: "Participant_GetPublishedTrack 1 ''mic'' demo_room = None" by code_simp
  have only: "\<forall>l x. is_member 0 demo_room l x \<longrightarrow> x \<noteq> 0 \<longrightarrow>
      Participant_GetPublishedTrack x ''mic'' demo_room = None"
    using two none by metis
  have "fst ?u = None" by code_simp
  then have u: "?u = (None, snd ?u)" by (metis prod.collapse)
  have r: "Room_UnpublishTrack 0 ''mic'' (snd ?u) =
      (fst (Room_UnpublishTrack 0 ''mic'' (snd ?u)), demo_unpublished)"
    by (simp add: demo_unpublished_def)
  have s: "Participant_GetSubscribedTrack 1 ''mic'' demo_room = Some 0" by code_simp
  show ?thesis
    using unpublish_strands_subscriber [OF demo_room_ok demo_room_members(2,1) _ s only u r] by simp
qed

text \<open>\<open>Room.Leave\<close> does not touch the departing participant itself: its state, its room
  pointer and its publications are what they were, so it does not become
  \<open>ParticipantStateLeft\<close> and a holder of the pointer can still publish through it.\<close>

lemma Leave_keeps_participant:
  assumes ok: "room_ok r h" and mem: "is_member r h i p" and lv: "Room_Leave r i h = (None, h')"
  shows "p_state (par h' p) = p_state (par h p) \<and> p_state (par h' p) \<noteq> ParticipantStateLeft \<and>
    p_room (par h' p) = p_room (par h p) \<and> pubTracks (par h' p) = pubTracks (par h p) \<and>
    (t_id (trk h' t) \<notin> set (Participant_PublishedTracks p h) \<longrightarrow>
       fst (Participant_PublishTrack p t h') = None)"
proof -
  obtain h3 where L: "left_state r i p h h3" and h': "h' = drop_member r i h3"
    by (rule Leave_decompose [OF room_okD(1) [OF ok] mem lv])
  note s = left_stateD(3) [OF L]
  have st: "p_state (par h p) \<noteq> ParticipantStateLeft"
    by (rule members_okD(2) [OF room_invD(1) [OF room_okD(1) [OF ok]] mem])
  have same: "p_state (par h' p) = p_state (par h p)" "p_room (par h' p) = p_room (par h p)"
    "pubTracks (par h' p) = pubTracks (par h p)"
    by (simp_all add: h' shrinks_parD [OF s])
  have "fst (Participant_PublishTrack p t h') = None"
    if "t_id (trk h' t) \<notin> set (Participant_PublishedTracks p h)"
    using that st
    by (simp add: Participant_PublishTrack_def same Participant_PublishedTracks_def map_of_eq_None_iff)
  with st same show ?thesis by simp
qed

end
