(* ===== verification/Signaling_Message.thy ===== *)
theory Signaling_Message
  imports Slive_Errors
begin

text \<open>
  The wire messages of \<open>internal/signaling/message.go\<close>: the message types, the request and
  response structs with their JSON encodings, the request validators and the mapping of
  errors to protocol error codes.

  \<open>encoding/json\<close> works on a parsed value: \<open>json\<close> is the syntax tree of a JSON text (the
  lexical level is the standard library's). Decoding follows \<open>json.Unmarshal\<close> into a
  struct: entries are processed in order, a key selects a field when it is equal to the
  field's tag up to the case of ASCII letters, a later entry overwrites an earlier one, \<open>null\<close> leaves the field
  as it is, an unknown key is skipped, a missing key leaves the zero value, and a value of
  the wrong type makes the whole decoding fail.
\<close>

subsection \<open>Message types\<close>

type_synonym MessageType = string

definition MessageTypeCreateRoom :: MessageType where "MessageTypeCreateRoom = ''create_room''"
definition MessageTypeRoomCreated :: MessageType where "MessageTypeRoomCreated = ''room_created''"
definition MessageTypeJoinRoom :: MessageType where "MessageTypeJoinRoom = ''join_room''"
definition MessageTypeRoomJoined :: MessageType where "MessageTypeRoomJoined = ''room_joined''"
definition MessageTypeLeaveRoom :: MessageType where "MessageTypeLeaveRoom = ''leave_room''"
definition MessageTypeRoomLeft :: MessageType where "MessageTypeRoomLeft = ''room_left''"
definition MessageTypeParticipantJoined :: MessageType where
  "MessageTypeParticipantJoined = ''participant_joined''"
definition MessageTypeParticipantLeft :: MessageType where
  "MessageTypeParticipantLeft = ''participant_left''"
definition MessageTypePublishTrack :: MessageType where "MessageTypePublishTrack = ''publish_track''"
definition MessageTypeTrackPublished :: MessageType where
  "MessageTypeTrackPublished = ''track_published''"
definition MessageTypeUnpublishTrack :: MessageType where
  "MessageTypeUnpublishTrack = ''unpublish_track''"
definition MessageTypeTrackUnpublished :: MessageType where
  "MessageTypeTrackUnpublished = ''track_unpublished''"
definition MessageTypeSubscribeTrack :: MessageType where
  "MessageTypeSubscribeTrack = ''subscribe_track''"
definition MessageTypeTrackSubscribed :: MessageType where
  "MessageTypeTrackSubscribed = ''track_subscribed''"
definition MessageTypeUnsubscribeTrack :: MessageType where
  "MessageTypeUnsubscribeTrack = ''unsubscribe_track''"
definition MessageTypeTrackUnsubscribed :: MessageType where
  "MessageTypeTrackUnsubscribed = ''track_unsubscribed''"
definition MessageTypeTrackAvailable :: MessageType where
  "MessageTypeTrackAvailable = ''track_available''"
definition MessageTypeTrackUnavailable :: MessageType where
  "MessageTypeTrackUnavailable = ''track_unavailable''"
definition MessageTypeOffer :: MessageType where "MessageTypeOffer = ''webrtc:offer''"
definition MessageTypeAnswer :: MessageType where "MessageTypeAnswer = ''webrtc:answer''"
definition MessageTypeICECandidate :: MessageType where
  "MessageTypeICECandidate = ''webrtc:ice-candidate''"
definition MessageTypeError :: MessageType where "MessageTypeError = ''error''"

lemmas message_types =
  MessageTypeCreateRoom_def MessageTypeRoomCreated_def MessageTypeJoinRoom_def
  MessageTypeRoomJoined_def MessageTypeLeaveRoom_def MessageTypeRoomLeft_def
  MessageTypeParticipantJoined_def MessageTypeParticipantLeft_def MessageTypePublishTrack_def
  MessageTypeTrackPublished_def MessageTypeUnpublishTrack_def MessageTypeTrackUnpublished_def
  MessageTypeSubscribeTrack_def MessageTypeTrackSubscribed_def MessageTypeUnsubscribeTrack_def
  MessageTypeTrackUnsubscribed_def MessageTypeTrackAvailable_def MessageTypeTrackUnavailable_def
  MessageTypeOffer_def MessageTypeAnswer_def MessageTypeICECandidate_def MessageTypeError_def

subsection \<open>JSON values and decoding\<close>

text \<open>\<open>JNum\<close> is an integer literal, \<open>JFrac\<close> a number literal with a fraction or an exponent.\<close>

datatype json =
    JNull
  | JBool bool
  | JNum int
  | JFrac string
  | JStr string
  | JArr "json list"
  | JObj "(string \<times> json) list"

definition json_error :: gerror where
  "json_error = Sent (OtherE ''json'')"

definition ascii_lower :: "char \<Rightarrow> char" where
  "ascii_lower c = (let n = of_char c :: nat in if 65 \<le> n \<and> n \<le> 90 then char_of (n + 32) else c)"

definition key_matches :: "string \<Rightarrow> string \<Rightarrow> bool" where
  "key_matches tag k \<longleftrightarrow> k = tag \<or> map ascii_lower k = map ascii_lower tag"

fun dec_string :: "string \<Rightarrow> json \<Rightarrow> gerror + string" where
  "dec_string old (JStr s) = Inr s"
| "dec_string old JNull = Inr old"
| "dec_string old _ = Inl json_error"

definition int64_ok :: "int \<Rightarrow> bool" where
  "int64_ok n \<longleftrightarrow> - (2 ^ 63) \<le> n \<and> n < 2 ^ 63"

fun dec_int :: "int \<Rightarrow> json \<Rightarrow> gerror + int" where
  "dec_int old (JNum n) = (if int64_ok n then Inr n else Inl json_error)"
| "dec_int old JNull = Inr old"
| "dec_int old _ = Inl json_error"

text \<open>A slice of strings: \<open>null\<close> sets it to nil, as an empty slice here; the elements of
  an array are decoded into zero values.\<close>

fun dec_all :: "(json \<Rightarrow> gerror + 'a) \<Rightarrow> json list \<Rightarrow> gerror + 'a list" where
  "dec_all d [] = Inr []"
| "dec_all d (v # vs) =
     (case d v of Inl e \<Rightarrow> Inl e
      | Inr x \<Rightarrow> (case dec_all d vs of Inl e \<Rightarrow> Inl e | Inr xs \<Rightarrow> Inr (x # xs)))"

fun dec_strings :: "string list \<Rightarrow> json \<Rightarrow> gerror + string list" where
  "dec_strings old (JArr vs) = dec_all (dec_string '''') vs"
| "dec_strings old JNull = Inr []"
| "dec_strings old _ = Inl json_error"

text \<open>One field of a struct: the entries whose key selects it, in order.\<close>

fun dec_field :: "('a \<Rightarrow> json \<Rightarrow> gerror + 'a) \<Rightarrow> string \<Rightarrow> 'a \<Rightarrow> (string \<times> json) list \<Rightarrow> gerror + 'a" where
  "dec_field d tag old [] = Inr old"
| "dec_field d tag old ((k, v) # kvs) =
     (if key_matches tag k
      then (case d old v of Inl e \<Rightarrow> Inl e | Inr x \<Rightarrow> dec_field d tag x kvs)
      else dec_field d tag old kvs)"

abbreviation str_field :: "string \<Rightarrow> (string \<times> json) list \<Rightarrow> gerror + string" where
  "str_field tag kvs \<equiv> dec_field dec_string tag '''' kvs"

text \<open>A struct: \<open>null\<close> decodes to the zero value, anything but an object fails.\<close>

fun dec_struct :: "((string \<times> json) list \<Rightarrow> gerror + 'a) \<Rightarrow> json \<Rightarrow> gerror + 'a" where
  "dec_struct f (JObj kvs) = f kvs"
| "dec_struct f JNull = f []"
| "dec_struct f _ = Inl json_error"

definition bind_r :: "gerror + 'a \<Rightarrow> ('a \<Rightarrow> gerror + 'b) \<Rightarrow> gerror + 'b" where
  "bind_r x f = (case x of Inl e \<Rightarrow> Inl e | Inr a \<Rightarrow> f a)"

lemma bind_r_simps [simp]: "bind_r (Inl e) f = Inl e" "bind_r (Inr a) f = f a"
  by (simp_all add: bind_r_def)

subsection \<open>Requests\<close>

record CreateRoomRequest =
  cr_RoomID :: string
  cr_ParticipantID :: string
  cr_ParticipantName :: string

definition enc_CreateRoomRequest :: "CreateRoomRequest \<Rightarrow> json" where
  "enc_CreateRoomRequest r = JObj [(''room_id'', JStr (cr_RoomID r)),
     (''participant_id'', JStr (cr_ParticipantID r)), (''participant_name'', JStr (cr_ParticipantName r))]"

definition dec_CreateRoomRequest :: "json \<Rightarrow> gerror + CreateRoomRequest" where
  "dec_CreateRoomRequest = dec_struct (\<lambda>kvs.
     bind_r (str_field ''room_id'' kvs) (\<lambda>a.
     bind_r (str_field ''participant_id'' kvs) (\<lambda>b.
     bind_r (str_field ''participant_name'' kvs) (\<lambda>c.
     Inr \<lparr>cr_RoomID = a, cr_ParticipantID = b, cr_ParticipantName = c\<rparr>))))"

record JoinRoomRequest =
  jr_RoomID :: string
  jr_ParticipantID :: string
  jr_ParticipantName :: string

definition enc_JoinRoomRequest :: "JoinRoomRequest \<Rightarrow> json" where
  "enc_JoinRoomRequest r = JObj [(''room_id'', JStr (jr_RoomID r)),
     (''participant_id'', JStr (jr_ParticipantID r)), (''participant_name'', JStr (jr_ParticipantName r))]"

definition dec_JoinRoomRequest :: "json \<Rightarrow> gerror + JoinRoomRequest" where
  "dec_JoinRoomRequest = dec_struct (\<lambda>kvs.
     bind_r (str_field ''room_id'' kvs) (\<lambda>a.
     bind_r (str_field ''participant_id'' kvs) (\<lambda>b.
     bind_r (str_field ''participant_name'' kvs) (\<lambda>c.
     Inr \<lparr>jr_RoomID = a, jr_ParticipantID = b, jr_ParticipantName = c\<rparr>))))"

record LeaveRoomRequest =
  lr_RoomID :: string
  lr_ParticipantID :: string

definition enc_LeaveRoomRequest :: "LeaveRoomRequest \<Rightarrow> json" where
  "enc_LeaveRoomRequest r = JObj [(''room_id'', JStr (lr_RoomID r)),
     (''participant_id'', JStr (lr_ParticipantID r))]"

definition dec_LeaveRoomRequest :: "json \<Rightarrow> gerror + LeaveRoomRequest" where
  "dec_LeaveRoomRequest = dec_struct (\<lambda>kvs.
     bind_r (str_field ''room_id'' kvs) (\<lambda>a.
     bind_r (str_field ''participant_id'' kvs) (\<lambda>b.
     Inr \<lparr>lr_RoomID = a, lr_ParticipantID = b\<rparr>)))"

record TrackInfo =
  ti_ID :: string
  ti_Kind :: string
  ti_Source :: string

definition zero_TrackInfo :: TrackInfo where
  "zero_TrackInfo = \<lparr>ti_ID = '''', ti_Kind = '''', ti_Source = ''''\<rparr>"

definition enc_TrackInfo :: "TrackInfo \<Rightarrow> json" where
  "enc_TrackInfo t = JObj [(''id'', JStr (ti_ID t)), (''kind'', JStr (ti_Kind t)),
     (''source'', JStr (ti_Source t))]"

fun dec_TrackInfo :: "TrackInfo \<Rightarrow> json \<Rightarrow> gerror + TrackInfo" where
  "dec_TrackInfo old (JObj kvs) =
     bind_r (dec_field dec_string ''id'' (ti_ID old) kvs) (\<lambda>a.
     bind_r (dec_field dec_string ''kind'' (ti_Kind old) kvs) (\<lambda>b.
     bind_r (dec_field dec_string ''source'' (ti_Source old) kvs) (\<lambda>c.
     Inr \<lparr>ti_ID = a, ti_Kind = b, ti_Source = c\<rparr>)))"
| "dec_TrackInfo old JNull = Inr old"
| "dec_TrackInfo old _ = Inl json_error"

record PublishTrackRequest =
  pr_RoomID :: string
  pr_ParticipantID :: string
  pr_Track :: TrackInfo

definition enc_PublishTrackRequest :: "PublishTrackRequest \<Rightarrow> json" where
  "enc_PublishTrackRequest r = JObj [(''room_id'', JStr (pr_RoomID r)),
     (''participant_id'', JStr (pr_ParticipantID r)), (''track'', enc_TrackInfo (pr_Track r))]"

definition dec_PublishTrackRequest :: "json \<Rightarrow> gerror + PublishTrackRequest" where
  "dec_PublishTrackRequest = dec_struct (\<lambda>kvs.
     bind_r (str_field ''room_id'' kvs) (\<lambda>a.
     bind_r (str_field ''participant_id'' kvs) (\<lambda>b.
     bind_r (dec_field dec_TrackInfo ''track'' zero_TrackInfo kvs) (\<lambda>c.
     Inr \<lparr>pr_RoomID = a, pr_ParticipantID = b, pr_Track = c\<rparr>))))"

text \<open>\<open>UnpublishTrackRequest\<close>, \<open>SubscribeTrackRequest\<close> and \<open>UnsubscribeTrackRequest\<close> have the
  same fields and tags.\<close>

record TrackRequest =
  tr_RoomID :: string
  tr_ParticipantID :: string
  tr_TrackID :: string

definition enc_TrackRequest :: "TrackRequest \<Rightarrow> json" where
  "enc_TrackRequest r = JObj [(''room_id'', JStr (tr_RoomID r)),
     (''participant_id'', JStr (tr_ParticipantID r)), (''track_id'', JStr (tr_TrackID r))]"

definition dec_TrackRequest :: "json \<Rightarrow> gerror + TrackRequest" where
  "dec_TrackRequest = dec_struct (\<lambda>kvs.
     bind_r (str_field ''room_id'' kvs) (\<lambda>a.
     bind_r (str_field ''participant_id'' kvs) (\<lambda>b.
     bind_r (str_field ''track_id'' kvs) (\<lambda>c.
     Inr \<lparr>tr_RoomID = a, tr_ParticipantID = b, tr_TrackID = c\<rparr>))))"

record OfferRequest =
  or_RoomID :: string
  or_ParticipantID :: string
  or_TargetParticipantID :: string
  or_SDP :: string
  or_TrackIDs :: "string list"

definition enc_OfferRequest :: "OfferRequest \<Rightarrow> json" where
  "enc_OfferRequest r = JObj [(''room_id'', JStr (or_RoomID r)),
     (''participant_id'', JStr (or_ParticipantID r)),
     (''target_participant_id'', JStr (or_TargetParticipantID r)),
     (''sdp'', JStr (or_SDP r)), (''track_ids'', JArr (map JStr (or_TrackIDs r)))]"

definition dec_OfferRequest :: "json \<Rightarrow> gerror + OfferRequest" where
  "dec_OfferRequest = dec_struct (\<lambda>kvs.
     bind_r (str_field ''room_id'' kvs) (\<lambda>a.
     bind_r (str_field ''participant_id'' kvs) (\<lambda>b.
     bind_r (str_field ''target_participant_id'' kvs) (\<lambda>c.
     bind_r (str_field ''sdp'' kvs) (\<lambda>d.
     bind_r (dec_field dec_strings ''track_ids'' [] kvs) (\<lambda>e.
     Inr \<lparr>or_RoomID = a, or_ParticipantID = b, or_TargetParticipantID = c, or_SDP = d,
          or_TrackIDs = e\<rparr>))))))"

record AnswerRequest =
  ar_RoomID :: string
  ar_ParticipantID :: string
  ar_TargetParticipantID :: string
  ar_SDP :: string

definition enc_AnswerRequest :: "AnswerRequest \<Rightarrow> json" where
  "enc_AnswerRequest r = JObj [(''room_id'', JStr (ar_RoomID r)),
     (''participant_id'', JStr (ar_ParticipantID r)),
     (''target_participant_id'', JStr (ar_TargetParticipantID r)), (''sdp'', JStr (ar_SDP r))]"

definition dec_AnswerRequest :: "json \<Rightarrow> gerror + AnswerRequest" where
  "dec_AnswerRequest = dec_struct (\<lambda>kvs.
     bind_r (str_field ''room_id'' kvs) (\<lambda>a.
     bind_r (str_field ''participant_id'' kvs) (\<lambda>b.
     bind_r (str_field ''target_participant_id'' kvs) (\<lambda>c.
     bind_r (str_field ''sdp'' kvs) (\<lambda>d.
     Inr \<lparr>ar_RoomID = a, ar_ParticipantID = b, ar_TargetParticipantID = c, ar_SDP = d\<rparr>)))))"

record ICECandidateRequest =
  ic_RoomID :: string
  ic_ParticipantID :: string
  ic_TargetParticipantID :: string
  ic_Candidate :: string
  ic_SDPMid :: string
  ic_SDPMLineIndex :: int

definition enc_ICECandidateRequest :: "ICECandidateRequest \<Rightarrow> json" where
  "enc_ICECandidateRequest r = JObj [(''room_id'', JStr (ic_RoomID r)),
     (''participant_id'', JStr (ic_ParticipantID r)),
     (''target_participant_id'', JStr (ic_TargetParticipantID r)),
     (''candidate'', JStr (ic_Candidate r)), (''sdp_mid'', JStr (ic_SDPMid r)),
     (''sdp_mline_index'', JNum (ic_SDPMLineIndex r))]"

definition dec_ICECandidateRequest :: "json \<Rightarrow> gerror + ICECandidateRequest" where
  "dec_ICECandidateRequest = dec_struct (\<lambda>kvs.
     bind_r (str_field ''room_id'' kvs) (\<lambda>a.
     bind_r (str_field ''participant_id'' kvs) (\<lambda>b.
     bind_r (str_field ''target_participant_id'' kvs) (\<lambda>c.
     bind_r (str_field ''candidate'' kvs) (\<lambda>d.
     bind_r (str_field ''sdp_mid'' kvs) (\<lambda>e.
     bind_r (dec_field dec_int ''sdp_mline_index'' 0 kvs) (\<lambda>f.
     Inr \<lparr>ic_RoomID = a, ic_ParticipantID = b, ic_TargetParticipantID = c, ic_Candidate = d,
          ic_SDPMid = e, ic_SDPMLineIndex = f\<rparr>)))))))"

subsection \<open>Responses and notifications\<close>

text \<open>One constructor per struct, its arguments in the order of the struct's fields.\<close>

datatype ParticipantInfo = ParticipantInfo (pi_ID: string) (pi_Name: string)

datatype PublishedTrackInfo =
  PublishedTrackInfo (pti_ParticipantID: string) (pti_Track: TrackInfo)

datatype payload =
    RoomCreatedResponse string string string
  | RoomJoinedResponse string string "ParticipantInfo list" "PublishedTrackInfo list" string
  | ParticipantJoinedNotification ParticipantInfo
  | RoomLeftResponse string string string
  | ParticipantLeftNotification string
  | TrackPublishedResponse string string string
  | TrackAvailableNotification string TrackInfo
  | TrackUnpublishedResponse string string string
  | TrackUnavailableNotification string string
  | TrackSubscribedResponse string string string
  | TrackUnsubscribedResponse string string string
  | OfferNotification string string "string list"
  | AnswerNotification string string
  | ICECandidateNotification string string string int
  | ErrorResponse string string string

definition enc_ParticipantInfo :: "ParticipantInfo \<Rightarrow> json" where
  "enc_ParticipantInfo p = JObj [(''id'', JStr (pi_ID p)), (''name'', JStr (pi_Name p))]"

definition enc_PublishedTrackInfo :: "PublishedTrackInfo \<Rightarrow> json" where
  "enc_PublishedTrackInfo t = JObj [(''participant_id'', JStr (pti_ParticipantID t)),
     (''track'', enc_TrackInfo (pti_Track t))]"

fun enc_payload :: "payload \<Rightarrow> json" where
  "enc_payload (RoomCreatedResponse r p s) =
     JObj [(''room_id'', JStr r), (''participant_id'', JStr p), (''status'', JStr s)]"
| "enc_payload (RoomJoinedResponse r p ps ts s) =
     JObj [(''room_id'', JStr r), (''participant_id'', JStr p),
       (''participants'', JArr (map enc_ParticipantInfo ps)),
       (''tracks'', JArr (map enc_PublishedTrackInfo ts)), (''status'', JStr s)]"
| "enc_payload (ParticipantJoinedNotification p) = JObj [(''participant'', enc_ParticipantInfo p)]"
| "enc_payload (RoomLeftResponse r p s) =
     JObj [(''room_id'', JStr r), (''participant_id'', JStr p), (''status'', JStr s)]"
| "enc_payload (ParticipantLeftNotification p) = JObj [(''participant_id'', JStr p)]"
| "enc_payload (TrackPublishedResponse t p s) =
     JObj [(''track_id'', JStr t), (''participant_id'', JStr p), (''status'', JStr s)]"
| "enc_payload (TrackAvailableNotification p t) =
     JObj [(''participant_id'', JStr p), (''track'', enc_TrackInfo t)]"
| "enc_payload (TrackUnpublishedResponse t p s) =
     JObj [(''track_id'', JStr t), (''participant_id'', JStr p), (''status'', JStr s)]"
| "enc_payload (TrackUnavailableNotification p t) =
     JObj [(''participant_id'', JStr p), (''track_id'', JStr t)]"
| "enc_payload (TrackSubscribedResponse t p s) =
     JObj [(''track_id'', JStr t), (''publisher_id'', JStr p), (''status'', JStr s)]"
| "enc_payload (TrackUnsubscribedResponse t p s) =
     JObj [(''track_id'', JStr t), (''participant_id'', JStr p), (''status'', JStr s)]"
| "enc_payload (OfferNotification p d ts) =
     JObj [(''source_participant_id'', JStr p), (''sdp'', JStr d), (''track_ids'', JArr (map JStr ts))]"
| "enc_payload (AnswerNotification p d) =
     JObj [(''source_participant_id'', JStr p), (''sdp'', JStr d)]"
| "enc_payload (ICECandidateNotification p c m i) =
     JObj [(''source_participant_id'', JStr p), (''candidate'', JStr c), (''sdp_mid'', JStr m),
       (''sdp_mline_index'', JNum i)]"
| "enc_payload (ErrorResponse e c t) =
     JObj [(''error'', JStr e), (''code'', JStr c), (''request_type'', JStr t)]"

subsection \<open>Messages\<close>

text \<open>\<open>Data\<close> is a raw message: \<open>None\<close> when the \<open>data\<close> key is missing.\<close>

record Message =
  msg_Type :: MessageType
  msg_Data :: "json option"

definition NewMessage :: "MessageType \<Rightarrow> payload \<Rightarrow> Message" where
  "NewMessage t d = \<lparr>msg_Type = t, msg_Data = Some (enc_payload d)\<rparr>"

fun dec_raw :: "json option \<Rightarrow> json \<Rightarrow> gerror + json option" where
  "dec_raw old v = Inr (Some v)"

definition ParseMessage :: "json \<Rightarrow> gerror + Message" where
  "ParseMessage v =
     (case dec_struct (\<lambda>kvs.
        bind_r (str_field ''type'' kvs) (\<lambda>t.
        bind_r (dec_field dec_raw ''data'' None kvs) (\<lambda>d.
        Inr \<lparr>msg_Type = t, msg_Data = d\<rparr>))) v of
      Inl e \<Rightarrow> Inl (Wrapf (''failed to unmarshal message: '' @ error_text e) [e])
    | Inr m \<Rightarrow> Inr m)"

definition Message_Marshal :: "Message \<Rightarrow> json" where
  "Message_Marshal m = JObj [(''type'', JStr (msg_Type m)),
     (''data'', case msg_Data m of None \<Rightarrow> JNull | Some d \<Rightarrow> d)]"

text \<open>\<open>UnmarshalData\<close> on an absent payload fails: there is no input to parse.\<close>

definition UnmarshalData :: "(json \<Rightarrow> gerror + 'a) \<Rightarrow> Message \<Rightarrow> gerror + 'a" where
  "UnmarshalData d m = (case msg_Data m of None \<Rightarrow> Inl json_error | Some v \<Rightarrow> d v)"

subsection \<open>Error codes\<close>

definition ErrorCodeRoomNotFound :: string where "ErrorCodeRoomNotFound = ''room_not_found''"
definition ErrorCodeRoomClosed :: string where "ErrorCodeRoomClosed = ''room_closed''"
definition ErrorCodeParticipantNotFound :: string where
  "ErrorCodeParticipantNotFound = ''participant_not_found''"
definition ErrorCodeTrackNotFound :: string where "ErrorCodeTrackNotFound = ''track_not_found''"
definition ErrorCodeInvalidRequest :: string where "ErrorCodeInvalidRequest = ''invalid_request''"
definition ErrorCodeInternalError :: string where "ErrorCodeInternalError = ''internal_error''"
definition ErrorCodeInvalidWebRTCMessage :: string where
  "ErrorCodeInvalidWebRTCMessage = ''invalid_webrtc_message''"
definition ErrorCodeConnectionNotFound :: string where
  "ErrorCodeConnectionNotFound = ''connection_not_found''"
definition ErrorCodePeerConnectionClosed :: string where
  "ErrorCodePeerConnectionClosed = ''peer_connection_closed''"
definition ErrorCodeNegotiationFailed :: string where
  "ErrorCodeNegotiationFailed = ''negotiation_failed''"
definition ErrorCodeICEFailed :: string where "ErrorCodeICEFailed = ''ice_failed''"
definition ErrorCodeTrackAlreadyPublished :: string where
  "ErrorCodeTrackAlreadyPublished = ''track_already_published''"
definition ErrorCodeTrackAlreadySubscribed :: string where
  "ErrorCodeTrackAlreadySubscribed = ''track_already_subscribed''"
definition ErrorCodeTrackNotPublished :: string where
  "ErrorCodeTrackNotPublished = ''track_not_published''"
definition ErrorCodeParticipantAlreadyExists :: string where
  "ErrorCodeParticipantAlreadyExists = ''participant_already_exists''"
definition ErrorCodeParticipantLeft :: string where "ErrorCodeParticipantLeft = ''participant_left''"
definition ErrorCodeInvalidTrackKind :: string where
  "ErrorCodeInvalidTrackKind = ''invalid_track_kind''"
definition ErrorCodeInvalidTrackSource :: string where
  "ErrorCodeInvalidTrackSource = ''invalid_track_source''"

lemmas error_codes =
  ErrorCodeRoomNotFound_def ErrorCodeRoomClosed_def ErrorCodeParticipantNotFound_def
  ErrorCodeTrackNotFound_def ErrorCodeInvalidRequest_def ErrorCodeInternalError_def
  ErrorCodeInvalidWebRTCMessage_def ErrorCodeConnectionNotFound_def
  ErrorCodePeerConnectionClosed_def ErrorCodeNegotiationFailed_def ErrorCodeICEFailed_def
  ErrorCodeTrackAlreadyPublished_def ErrorCodeTrackAlreadySubscribed_def
  ErrorCodeTrackNotPublished_def ErrorCodeParticipantAlreadyExists_def
  ErrorCodeParticipantLeft_def ErrorCodeInvalidTrackKind_def ErrorCodeInvalidTrackSource_def

definition errorCodeFromDomainError :: "gerror option \<Rightarrow> string" where
  "errorCodeFromDomainError err =
     (case err of None \<Rightarrow> '''' | Some e \<Rightarrow>
        if errors_Is e (DomainE ErrRoomClosed) then ErrorCodeRoomClosed
        else if errors_Is e (DomainE ErrParticipantNotFound) then ErrorCodeParticipantNotFound
        else if errors_Is e (DomainE ErrTrackNotFound) then ErrorCodeTrackNotFound
        else if errors_Is e (DomainE ErrTrackAlreadyPublished) then ErrorCodeTrackAlreadyPublished
        else if errors_Is e (DomainE ErrTrackAlreadySubscribed) then ErrorCodeTrackAlreadySubscribed
        else if errors_Is e (DomainE ErrTrackNotPublished) then ErrorCodeTrackNotPublished
        else if errors_Is e (DomainE ErrParticipantAlreadyExists) then ErrorCodeParticipantAlreadyExists
        else if errors_Is e (DomainE ErrParticipantLeft) then ErrorCodeParticipantLeft
        else if errors_Is e (DomainE ErrInvalidTrackKind) then ErrorCodeInvalidTrackKind
        else if errors_Is e (DomainE ErrInvalidTrackSource) then ErrorCodeInvalidTrackSource
        else ErrorCodeInternalError)"

definition errorCodeFromError :: "gerror option \<Rightarrow> string" where
  "errorCodeFromError err =
     (case err of None \<Rightarrow> '''' | Some e \<Rightarrow>
        if errors_Is e (SignalingE ErrInvalidRequest) then ErrorCodeInvalidRequest
        else if errors_Is e (SignalingE ErrConnectionNotFound) then ErrorCodeConnectionNotFound
        else if errors_Is e (WebrtcE ErrICEFailed) then ErrorCodeICEFailed
        else if errors_Is e (WebrtcE ErrPeerConnectionClosed) then ErrorCodePeerConnectionClosed
        else if errors_Is e (WebrtcE ErrNegotiationFailed) then ErrorCodeNegotiationFailed
        else if errors_Is e (WebrtcE ErrNoPeerConnection) then ErrorCodeConnectionNotFound
        else if errors_Is e (WebrtcE WErrTrackNotFound) then ErrorCodeTrackNotFound
        else if errors_Is e (WebrtcE ErrInvalidSDP) \<or> errors_Is e (WebrtcE ErrInvalidICECandidate) \<or>
                errors_Is e (WebrtcE ErrTrackNotReady)
        then ErrorCodeInvalidWebRTCMessage
        else errorCodeFromDomainError err)"

subsection \<open>Validation\<close>

definition MaxSDPLength :: nat where "MaxSDPLength = 64 * 1024"
definition MaxCandidateLength :: nat where "MaxCandidateLength = 1024"

definition invalid_request :: "string \<Rightarrow> gerror option" where
  "invalid_request detail =
     Some (Wrapf (error_text (serr ErrInvalidRequest) @ '': '' @ detail) [serr ErrInvalidRequest])"

definition ValidateOfferRequest :: "OfferRequest option \<Rightarrow> gerror option" where
  "ValidateOfferRequest req =
     (case req of None \<Rightarrow> invalid_request ''offer request cannot be nil''
      | Some r \<Rightarrow>
          if or_ParticipantID r = '''' then invalid_request ''participant_id is required''
          else if or_TargetParticipantID r = '''' then invalid_request ''target_participant_id is required''
          else if or_SDP r = '''' then invalid_request ''sdp is required''
          else if length (or_SDP r) > MaxSDPLength
          then invalid_request ''sdp exceeds maximum length of 65536 bytes''
          else None)"

definition ValidateAnswerRequest :: "AnswerRequest option \<Rightarrow> gerror option" where
  "ValidateAnswerRequest req =
     (case req of None \<Rightarrow> invalid_request ''answer request cannot be nil''
      | Some r \<Rightarrow>
          if ar_ParticipantID r = '''' then invalid_request ''participant_id is required''
          else if ar_TargetParticipantID r = '''' then invalid_request ''target_participant_id is required''
          else if ar_SDP r = '''' then invalid_request ''sdp is required''
          else if length (ar_SDP r) > MaxSDPLength
          then invalid_request ''sdp exceeds maximum length of 65536 bytes''
          else None)"

definition ValidateICECandidateRequest :: "ICECandidateRequest option \<Rightarrow> gerror option" where
  "ValidateICECandidateRequest req =
     (case req of None \<Rightarrow> invalid_request ''ice candidate request cannot be nil''
      | Some r \<Rightarrow>
          if ic_ParticipantID r = '''' then invalid_request ''participant_id is required''
          else if ic_TargetParticipantID r = '''' then invalid_request ''target_participant_id is required''
          else if ic_Candidate r = '''' then invalid_request ''candidate is required''
          else if length (ic_Candidate r) > MaxCandidateLength
          then invalid_request ''candidate exceeds maximum length of 1024 bytes''
          else if ic_SDPMid r = '''' then invalid_request ''sdp_mid is required''
          else if ic_SDPMLineIndex r < 0 then invalid_request ''sdp_mline_index must be non-negative''
          else None)"

subsection \<open>Laws\<close>

lemma key_matches_refl [simp]: "key_matches k k"
  by (simp add: key_matches_def)

lemma dec_all_JStr [simp]: "dec_all (dec_string z) (map JStr xs) = Inr xs"
  by (induction xs) simp_all

lemma dec_enc_TrackInfo [simp]: "dec_TrackInfo old (enc_TrackInfo t) = Inr t"
  by (simp add: enc_TrackInfo_def key_matches_def ascii_lower_def)

lemmas request_codecs =
  enc_CreateRoomRequest_def dec_CreateRoomRequest_def enc_JoinRoomRequest_def
  dec_JoinRoomRequest_def enc_LeaveRoomRequest_def dec_LeaveRoomRequest_def
  enc_PublishTrackRequest_def dec_PublishTrackRequest_def enc_TrackRequest_def
  dec_TrackRequest_def enc_OfferRequest_def dec_OfferRequest_def enc_AnswerRequest_def
  dec_AnswerRequest_def enc_ICECandidateRequest_def dec_ICECandidateRequest_def

lemma dec_enc_requests:
  "dec_CreateRoomRequest (enc_CreateRoomRequest a) = Inr a"
  "dec_JoinRoomRequest (enc_JoinRoomRequest b) = Inr b"
  "dec_LeaveRoomRequest (enc_LeaveRoomRequest c) = Inr c"
  "dec_PublishTrackRequest (enc_PublishTrackRequest d) = Inr d"
  "dec_TrackRequest (enc_TrackRequest e) = Inr e"
  "dec_OfferRequest (enc_OfferRequest f) = Inr f"
  "dec_AnswerRequest (enc_AnswerRequest g) = Inr g"
  "int64_ok (ic_SDPMLineIndex i) \<Longrightarrow> dec_ICECandidateRequest (enc_ICECandidateRequest i) = Inr i"
  by (simp_all add: request_codecs key_matches_def ascii_lower_def)

lemma error_code_wrap: "errorCodeFromError (Some (Wrapf t [e])) = errorCodeFromError (Some e)"
  by (simp add: errorCodeFromError_def errorCodeFromDomainError_def)

lemma invalid_request_code: "errorCodeFromError (invalid_request d) = ErrorCodeInvalidRequest"
  by (simp add: errorCodeFromError_def invalid_request_def)

lemma parse_marshal:
  "ParseMessage (Message_Marshal \<lparr>msg_Type = t, msg_Data = Some d\<rparr>) = Inr \<lparr>msg_Type = t, msg_Data = Some d\<rparr>"
  by (simp add: ParseMessage_def Message_Marshal_def key_matches_def ascii_lower_def)



definition reported_codes :: "string set" where
  "reported_codes =
     {ErrorCodeRoomClosed, ErrorCodeParticipantNotFound, ErrorCodeTrackNotFound,
      ErrorCodeInvalidRequest, ErrorCodeInternalError, ErrorCodeInvalidWebRTCMessage,
      ErrorCodeConnectionNotFound, ErrorCodePeerConnectionClosed, ErrorCodeNegotiationFailed,
      ErrorCodeICEFailed, ErrorCodeTrackAlreadyPublished, ErrorCodeTrackAlreadySubscribed,
      ErrorCodeTrackNotPublished, ErrorCodeParticipantAlreadyExists, ErrorCodeParticipantLeft,
      ErrorCodeInvalidTrackKind, ErrorCodeInvalidTrackSource}"

text \<open>Every error maps to one of the protocol's error codes, and never to
  \<open>room_not_found\<close>, which the protocol documents; wrapping an error with more context, any
  number of times, does not change its code; and an error chain that carries both the ICE
  failure and the closed peer connection reports \<open>ice_failed\<close>.\<close>

theorem error_code_mapping:
  "errorCodeFromError (Some e) \<in> reported_codes \<and>
   errorCodeFromError (Some e) \<noteq> ErrorCodeRoomNotFound \<and>
   errorCodeFromError (Some (Wrapf t [e])) = errorCodeFromError (Some e) \<and>
   errorCodeFromError (Some (Wrapf t [werr ErrICEFailed, werr ErrPeerConnectionClosed])) = ErrorCodeICEFailed"
proof -
  have "errorCodeFromError (Some e) \<in> reported_codes"
    by (simp add: errorCodeFromError_def errorCodeFromDomainError_def reported_codes_def)
  moreover have "ErrorCodeRoomNotFound \<notin> reported_codes"
    by (simp add: reported_codes_def error_codes)
  moreover have "errorCodeFromError (Some (Wrapf t [werr ErrICEFailed, werr ErrPeerConnectionClosed])) =
      ErrorCodeICEFailed"
    by (simp add: errorCodeFromError_def)
  ultimately show ?thesis using error_code_wrap by metis
qed

text \<open>The validators accept exactly the complete requests within the size limits (64 KiB
  of SDP, 1 KiB of candidate, a non-negative line index), and every rejection, also of a
  nil request, is reported as \<open>invalid_request\<close>.\<close>

theorem validators_exact:
  "(ValidateOfferRequest (Some f) = None \<longleftrightarrow>
      or_ParticipantID f \<noteq> '''' \<and> or_TargetParticipantID f \<noteq> '''' \<and> or_SDP f \<noteq> '''' \<and>
      length (or_SDP f) \<le> 65536) \<and>
   (ValidateAnswerRequest (Some g) = None \<longleftrightarrow>
      ar_ParticipantID g \<noteq> '''' \<and> ar_TargetParticipantID g \<noteq> '''' \<and> ar_SDP g \<noteq> '''' \<and>
      length (ar_SDP g) \<le> 65536) \<and>
   (ValidateICECandidateRequest (Some i) = None \<longleftrightarrow>
      ic_ParticipantID i \<noteq> '''' \<and> ic_TargetParticipantID i \<noteq> '''' \<and> ic_Candidate i \<noteq> '''' \<and>
      length (ic_Candidate i) \<le> 1024 \<and> ic_SDPMid i \<noteq> '''' \<and> 0 \<le> ic_SDPMLineIndex i) \<and>
   errorCodeFromError (ValidateOfferRequest qo) \<in> {'''', ErrorCodeInvalidRequest} \<and>
   errorCodeFromError (ValidateAnswerRequest qa) \<in> {'''', ErrorCodeInvalidRequest} \<and>
   errorCodeFromError (ValidateICECandidateRequest qi) \<in> {'''', ErrorCodeInvalidRequest}"
proof (intro conjI)
  have none: "errorCodeFromError None = ''''" by (simp add: errorCodeFromError_def)
  show "ValidateOfferRequest (Some f) = None \<longleftrightarrow>
      or_ParticipantID f \<noteq> '''' \<and> or_TargetParticipantID f \<noteq> '''' \<and> or_SDP f \<noteq> '''' \<and>
      length (or_SDP f) \<le> 65536"
    by (auto simp: ValidateOfferRequest_def invalid_request_def MaxSDPLength_def)
  show "ValidateAnswerRequest (Some g) = None \<longleftrightarrow>
      ar_ParticipantID g \<noteq> '''' \<and> ar_TargetParticipantID g \<noteq> '''' \<and> ar_SDP g \<noteq> '''' \<and>
      length (ar_SDP g) \<le> 65536"
    by (auto simp: ValidateAnswerRequest_def invalid_request_def MaxSDPLength_def)
  show "ValidateICECandidateRequest (Some i) = None \<longleftrightarrow>
      ic_ParticipantID i \<noteq> '''' \<and> ic_TargetParticipantID i \<noteq> '''' \<and> ic_Candidate i \<noteq> '''' \<and>
      length (ic_Candidate i) \<le> 1024 \<and> ic_SDPMid i \<noteq> '''' \<and> 0 \<le> ic_SDPMLineIndex i"
    by (auto simp: ValidateICECandidateRequest_def invalid_request_def MaxCandidateLength_def)
  show "errorCodeFromError (ValidateOfferRequest qo) \<in> {'''', ErrorCodeInvalidRequest}"
    by (simp add: ValidateOfferRequest_def invalid_request_code none split: option.split)
  show "errorCodeFromError (ValidateAnswerRequest qa) \<in> {'''', ErrorCodeInvalidRequest}"
    by (simp add: ValidateAnswerRequest_def invalid_request_code none split: option.split)
  show "errorCodeFromError (ValidateICECandidateRequest qi) \<in> {'''', ErrorCodeInvalidRequest}"
    by (simp add: ValidateICECandidateRequest_def invalid_request_code none split: option.split)
qed

end
