(* ===== verification/Signaling_Connection.thy ===== *)
theory Signaling_Connection
  imports Signaling_Message
begin

text \<open>
  One WebSocket connection (\<open>internal/signaling/connection.go\<close>): the bounded send buffer
  between the handlers and the write loop, the receive buffer between the read loop and the
  message loop, and closing. The socket itself (gorilla/websocket) is represented by the
  outcome of its writes, the field \<open>c_wire\<close>, and by the frames that arrive.

  Where a Go \<open>select\<close> has several ready cases the runtime picks one; \<open>c_pick\<close> is that choice.
  A send that finds the buffer full waits for the write loop, which is the step
  \<open>writeLoop_step\<close> in \<open>Connection_Send\<close>.
\<close>

datatype ConnectionState =
  ConnectionStateConnected | ConnectionStateDisconnected | ConnectionStateClosed

definition sendBuffer :: nat where "sendBuffer = 256"
definition receiveBuffer :: nat where "receiveBuffer = 256"

record Connection =
  c_participantID :: string
  c_roomID :: string
  c_state :: ConnectionState
  c_sendChan :: "Message list"
  c_receiveChan :: "json list"
  c_closeChan :: bool
  c_written :: "Message list"
  c_pick :: bool
  c_wire :: bool

subsection \<open>Timeouts and origins\<close>

definition DefaultWSReadTimeout :: int where "DefaultWSReadTimeout = 60000000000"
definition DefaultWSPingInterval :: int where "DefaultWSPingInterval = 30000000000"
definition DefaultWSWriteTimeout :: int where "DefaultWSWriteTimeout = 10000000000"

text \<open>The normalisation of the configured durations (nanoseconds) in
  \<open>NewConnectionWithConfig\<close>: read, ping, write.\<close>

definition normalizeTimeouts :: "int \<Rightarrow> int \<Rightarrow> int \<Rightarrow> int \<times> int \<times> int" where
  "normalizeTimeouts readTimeout pingInterval writeTimeout =
     (let readTimeout = (if readTimeout \<le> 0 then DefaultWSReadTimeout else readTimeout);
          writeTimeout = (if writeTimeout \<le> 0 then DefaultWSWriteTimeout else writeTimeout);
          pingInterval = (if pingInterval \<le> 0 then DefaultWSPingInterval else pingInterval);
          pingInterval = (if pingInterval > readTimeout div 2 then readTimeout div 2 else pingInterval)
      in (readTimeout, pingInterval, writeTimeout))"

text \<open>\<open>isOriginAllowed\<close>: the \<open>Origin\<close> header (empty when absent), the request's \<open>Host\<close>, and
  the host that \<open>url.Parse\<close> finds in the origin, \<open>None\<close> when it does not parse.\<close>

definition isOriginAllowed :: "(string \<Rightarrow> string option) \<Rightarrow> string \<Rightarrow> string \<Rightarrow> string list \<Rightarrow> bool" where
  "isOriginAllowed parseHost origin reqHost allowedOrigins \<longleftrightarrow>
     (if origin = '''' then True
      else if list_ex (\<lambda>a. a = origin) allowedOrigins then True
      else (case parseHost origin of Some host \<Rightarrow> host = reqHost | None \<Rightarrow> False))"

subsection \<open>Operations\<close>

definition NewConnection :: "string \<Rightarrow> string \<Rightarrow> bool \<Rightarrow> bool \<Rightarrow> Connection" where
  "NewConnection roomID participantID pick wire =
     \<lparr>c_participantID = participantID, c_roomID = roomID, c_state = ConnectionStateConnected,
      c_sendChan = [], c_receiveChan = [], c_closeChan = False, c_written = [], c_pick = pick,
      c_wire = wire\<rparr>"

definition Connection_Close :: "Connection \<Rightarrow> Connection" where
  "Connection_Close c =
     (if c_closeChan c then c else c\<lparr>c_closeChan := True, c_state := ConnectionStateClosed\<rparr>)"

definition Connection_IsClosed :: "Connection \<Rightarrow> bool" where
  "Connection_IsClosed c \<longleftrightarrow> c_state c = ConnectionStateClosed"

definition writeLoop_step :: "Connection \<Rightarrow> Connection" where
  "writeLoop_step c =
     (if c_closeChan c then c
      else (case c_sendChan c of
              [] \<Rightarrow> c
            | m # ms \<Rightarrow>
                if c_wire c then c\<lparr>c_sendChan := ms, c_written := c_written c @ [m]\<rparr>
                else Connection_Close (c\<lparr>c_sendChan := ms\<rparr>)))"

definition Connection_Send :: "MessageType \<Rightarrow> payload \<Rightarrow> Connection \<Rightarrow> gerror option \<times> Connection" where
  "Connection_Send msgType d c =
     (let m = NewMessage msgType d in
      if length (c_sendChan c) < sendBuffer
      then (if c_closeChan c \<and> \<not> c_pick c then (Some (serr ErrConnectionClosed), c)
            else (None, c\<lparr>c_sendChan := c_sendChan c @ [m]\<rparr>))
      else
        let c1 = writeLoop_step c in
        if c_closeChan c1 then (Some (serr ErrConnectionClosed), c1)
        else (None, c1\<lparr>c_sendChan := c_sendChan c1 @ [m]\<rparr>))"

text \<open>A frame arrives, or the read fails: \<open>None\<close>.\<close>

definition readLoop_step :: "json option \<Rightarrow> Connection \<Rightarrow> Connection" where
  "readLoop_step frame c =
     (if c_closeChan c then c
      else (case frame of
              None \<Rightarrow> Connection_Close c
            | Some data \<Rightarrow>
                if length (c_receiveChan c) < receiveBuffer
                then c\<lparr>c_receiveChan := c_receiveChan c @ [data]\<rparr> else c))"

text \<open>\<open>Receive\<close>: \<open>None\<close> when it has to wait.\<close>

definition Connection_Receive :: "Connection \<Rightarrow> ((gerror + Message) \<times> Connection) option" where
  "Connection_Receive c =
     (case c_receiveChan c of
        data # rest \<Rightarrow>
          if c_closeChan c \<and> \<not> c_pick c then Some (Inl (serr ErrConnectionClosed), c)
          else Some (ParseMessage data, c\<lparr>c_receiveChan := rest\<rparr>)
      | [] \<Rightarrow> if c_closeChan c then Some (Inl (serr ErrConnectionClosed), c) else None)"

subsection \<open>Runs\<close>

datatype conn_op = OpSend MessageType payload | OpWrite | OpClose

fun conn_step :: "conn_op \<Rightarrow> Connection \<Rightarrow> Message list \<times> Connection" where
  "conn_step (OpSend t d) c =
     (case Connection_Send t d c of
        (None, c') \<Rightarrow> ([NewMessage t d], c') | (Some _, c') \<Rightarrow> ([], c'))"
| "conn_step OpWrite c = ([], writeLoop_step c)"
| "conn_step OpClose c = ([], Connection_Close c)"

text \<open>The messages a sequence of operations accepts, and the final connection.\<close>

fun conn_run :: "conn_op list \<Rightarrow> Connection \<Rightarrow> Message list \<times> Connection" where
  "conn_run [] c = ([], c)"
| "conn_run (x # xs) c =
     (case conn_step x c of (ms, c1) \<Rightarrow> (case conn_run xs c1 of (ms', c2) \<Rightarrow> (ms @ ms', c2)))"

lemma Close_sel [simp]:
  "c_sendChan (Connection_Close c) = c_sendChan c" "c_written (Connection_Close c) = c_written c"
  "c_wire (Connection_Close c) = c_wire c" "c_closeChan (Connection_Close c)"
  by (simp_all add: Connection_Close_def)

lemma writeLoop_step_wire:
  assumes "c_wire c"
  shows "c_written (writeLoop_step c) @ c_sendChan (writeLoop_step c) = c_written c @ c_sendChan c"
    and "c_wire (writeLoop_step c)"
    and "length (c_sendChan (writeLoop_step c)) \<le> length (c_sendChan c)"
  using assms by (auto simp: writeLoop_step_def split: list.split)

lemma writeLoop_step_room:
  assumes "\<not> c_closeChan (writeLoop_step c)" and "c_sendChan c \<noteq> []"
  shows "Suc (length (c_sendChan (writeLoop_step c))) = length (c_sendChan c)"
  using assms by (auto simp: writeLoop_step_def split: list.splits if_splits)

lemma conn_step_fifo:
  assumes "c_wire c" and "length (c_sendChan c) \<le> sendBuffer" and "conn_step x c = (ms, c')"
  shows "c_written c' @ c_sendChan c' = c_written c @ c_sendChan c @ ms \<and> c_wire c' \<and>
    length (c_sendChan c') \<le> sendBuffer"
proof (cases x)
  case (OpSend t d)
  note W = writeLoop_step_wire [OF assms(1)]
  have room: "length (c_sendChan (writeLoop_step c)) < sendBuffer"
    if "\<not> length (c_sendChan c) < sendBuffer" and "\<not> c_closeChan (writeLoop_step c)"
    using writeLoop_step_room [OF that(2)] that(1) assms(2) by (cases "c_sendChan c") (auto simp: sendBuffer_def)
  have app: "c_written (writeLoop_step c) @ c_sendChan (writeLoop_step c) @ z =
      c_written c @ c_sendChan c @ z" for z
    using W(1) by (metis append.assoc)
  { assume "length (c_sendChan c) < sendBuffer"
    then have "c_written c' @ c_sendChan c' = c_written c @ c_sendChan c @ ms \<and> c_wire c' \<and>
        length (c_sendChan c') \<le> sendBuffer"
      using assms OpSend by (auto simp: Connection_Send_def Let_def split: if_splits) }
  moreover
  { assume full: "\<not> length (c_sendChan c) < sendBuffer"
    then have "c_written c' @ c_sendChan c' = c_written c @ c_sendChan c @ ms \<and> c_wire c' \<and>
        length (c_sendChan c') \<le> sendBuffer"
      using assms OpSend W(2,3) app [of "[]"] app room
      by (auto simp: Connection_Send_def Let_def split: if_splits) }
  ultimately show ?thesis by blast
next
  case OpWrite
  then show ?thesis
    using writeLoop_step_wire [OF assms(1)] assms by auto
next
  case OpClose
  then show ?thesis
    using assms by auto
qed

lemma conn_run_fifo:
  assumes "c_wire c" and "length (c_sendChan c) \<le> sendBuffer" and "conn_run xs c = (ms, c')"
  shows "c_written c' @ c_sendChan c' = c_written c @ c_sendChan c @ ms \<and>
    length (c_sendChan c') \<le> sendBuffer"
  using assms
proof (induction xs arbitrary: c ms)
  case (Cons x xs)
  obtain m1 c1 where s: "conn_step x c = (m1, c1)" by fastforce
  obtain m2 where r: "conn_run xs c1 = (m2, c')" and ms: "ms = m1 @ m2"
    using Cons.prems(3) s by (auto split: prod.splits)
  have F: "c_written c1 @ c_sendChan c1 = c_written c @ c_sendChan c @ m1" "c_wire c1"
    "length (c_sendChan c1) \<le> sendBuffer"
    using conn_step_fifo [OF Cons.prems(1,2) s] by blast+
  have "c_written c' @ c_sendChan c' = c_written c1 @ c_sendChan c1 @ m2 \<and>
      length (c_sendChan c') \<le> sendBuffer"
    by (rule Cons.IH [OF F(2,3) r])
  with F(1) show ?case using ms by (metis append.assoc)
qed simp



text \<open>The normalised timeouts of a connection are positive for the read and the write
  deadline, the ping interval never exceeds half the read deadline, so an idle client is
  pinged before its deadline expires, and it is positive as soon as the read timeout is at
  least two nanoseconds.\<close>

theorem timeouts_normalized:
  "case normalizeTimeouts r p w of (r', p', w') \<Rightarrow>
     0 < r' \<and> 0 < w' \<and> 0 \<le> p' \<and> 2 * p' \<le> r' \<and> (0 < p' \<longleftrightarrow> r \<noteq> 1)"
  by (auto simp: normalizeTimeouts_def DefaultWSReadTimeout_def DefaultWSWriteTimeout_def
      DefaultWSPingInterval_def Let_def)

end
