(* ===== verification/Signaling_Managers.thy ===== *)
theory Signaling_Managers
  imports Signaling_Connection Room_Contracts
begin

text \<open>
  The two registries of the signaling package: \<open>room_manager.go\<close> (room identifier to room)
  and \<open>connection_manager.go\<close> (participant identifier to connection). Both provide the keyed
  registry interface of the prelude.
\<close>

subsection \<open>Room manager\<close>

text \<open>\<open>ErrRoomAlreadyExists\<close> and \<open>ErrRoomNotFound\<close> of this package are aliases of the domain's
  participant errors.\<close>

definition RM_ErrRoomAlreadyExists :: gerror where "RM_ErrRoomAlreadyExists = derr ErrParticipantAlreadyExists"
definition RM_ErrRoomNotFound :: gerror where "RM_ErrRoomNotFound = derr ErrParticipantNotFound"

type_synonym RoomManager = "(string, raddr) gomap"

definition NewRoomManager :: RoomManager where "NewRoomManager = []"

definition RoomManager_add ::
  "string \<Rightarrow> RoomManager \<Rightarrow> dheap \<Rightarrow> (gerror + raddr) \<times> RoomManager \<times> dheap" where
  "RoomManager_add roomID rm h =
     (case NewRoom roomID h of (room, h1) \<Rightarrow>
        (case Room_Create room h1 of
           (Some err, h2) \<Rightarrow> (Inl err, rm, h2)
         | (None, h2) \<Rightarrow> (Inr room, mput roomID room rm, h2)))"

definition RoomManager_CreateRoom ::
  "string \<Rightarrow> RoomManager \<Rightarrow> dheap \<Rightarrow> (gerror + raddr) \<times> RoomManager \<times> dheap" where
  "RoomManager_CreateRoom roomID rm h =
     (case mget rm roomID of
        Some _ \<Rightarrow> (Inl RM_ErrRoomAlreadyExists, rm, h)
      | None \<Rightarrow> RoomManager_add roomID rm h)"

definition RoomManager_GetRoom :: "RoomManager \<Rightarrow> string \<Rightarrow> raddr option" where
  "RoomManager_GetRoom rm roomID = mget rm roomID"

definition RoomManager_GetOrCreateRoom ::
  "string \<Rightarrow> RoomManager \<Rightarrow> dheap \<Rightarrow> (gerror + raddr) \<times> RoomManager \<times> dheap" where
  "RoomManager_GetOrCreateRoom roomID rm h =
     (case mget rm roomID of
        Some room \<Rightarrow> (Inr room, rm, h)
      | None \<Rightarrow> RoomManager_add roomID rm h)"

definition RoomManager_CloseRoom ::
  "string \<Rightarrow> RoomManager \<Rightarrow> dheap \<Rightarrow> gerror option \<times> RoomManager \<times> dheap" where
  "RoomManager_CloseRoom roomID rm h =
     (case mget rm roomID of
        None \<Rightarrow> (Some RM_ErrRoomNotFound, rm, h)
      | Some room \<Rightarrow>
          (case Room_Close room h of
             (Some err, h1) \<Rightarrow> (Some err, rm, h1)
           | (None, h1) \<Rightarrow> (None, mdel roomID rm, h1)))"

definition RoomManager_RoomIDs :: "RoomManager \<Rightarrow> string list" where
  "RoomManager_RoomIDs rm = mkeys rm"

text \<open>The registry of rooms: distinct identifiers, each naming an allocated open room of that
  identifier that satisfies the room invariant.\<close>

definition rm_inv :: "RoomManager \<Rightarrow> dheap \<Rightarrow> bool" where
  "rm_inv rm h \<longleftrightarrow> wf_map rm \<and>
     (\<forall>i r. mget rm i = Some r \<longrightarrow>
        r < nrom h \<and> r_id (rom h r) = i \<and> r_state (rom h r) \<noteq> RoomStateClosed)"

interpretation rooms: keyed_registry RoomManager_GetRoom mput mdel RoomManager_RoomIDs wf_map
  by unfold_locales
    (simp_all only: RoomManager_GetRoom_def [abs_def] RoomManager_RoomIDs_def set_mkeys mget_mput
      mget_mdel wf_map_mput wf_map_mdel)

lemma rm_invD:
  assumes "rm_inv rm h" and "RoomManager_GetRoom rm i = Some r"
  shows "r < nrom h" "r_id (rom h r) = i" "r_state (rom h r) \<noteq> RoomStateClosed"
  using assms by (auto simp: rm_inv_def RoomManager_GetRoom_def)

lemma RoomManager_add_effect:
  "RoomManager_add i rm h =
     (Inr (nrom h), mput i (nrom h) rm,
      h\<lparr>rom := (rom h)(nrom h := (mkRoom i)\<lparr>r_state := RoomStateActive\<rparr>), nrom := Suc (nrom h)\<rparr>)"
  by (simp add: RoomManager_add_def NewRoom_def Room_Create_def mkRoom_def upd_rom_def)

lemma RoomManager_add_inv:
  assumes "rm_inv rm h" and "RoomManager_add i rm h = (res, rm', h')"
  shows "rm_inv rm' h'"
  using assms
  by (fastforce simp: RoomManager_add_effect rm_inv_def mkRoom_def less_Suc_eq split: if_splits)

lemma Close_other_rooms:
  assumes "Room_Close r h = (e, h')"
  shows "e = None" and "nrom h' = nrom h" and "x \<noteq> r \<Longrightarrow> rom h' x = rom h x"
    and "r_state (rom h r) \<noteq> RoomStateClosed \<Longrightarrow> r_state (rom h' r) = RoomStateClosed"
proof -
  have n: "nrom (leave_all ps g) = nrom g" for ps g
  proof (induction ps arbitrary: g)
    case (Cons p ps)
    have "nrom (fold (leave_published q i) xs g) = nrom g" for q i xs g
      by (induction xs arbitrary: g) (auto simp: leave_published_def track_ops)
    moreover have "nrom (fold (leave_subscribed q i) xs g) = nrom g" for q i xs g
      by (induction xs arbitrary: g) (auto simp: leave_subscribed_def track_ops)
    ultimately have "nrom (Participant_Leave (snd p) g) = nrom g"
      by (simp add: Participant_Leave_def Let_def)
    with Cons.IH show ?case by (cases p) simp
  qed simp
  show "e = None" "nrom h' = nrom h" "x \<noteq> r \<Longrightarrow> rom h' x = rom h x"
    "r_state (rom h r) \<noteq> RoomStateClosed \<Longrightarrow> r_state (rom h' r) = RoomStateClosed"
    using assms by (auto simp: Room_Close_def Let_def n leave_all_frame split: if_splits)
qed

lemma CloseRoom_inv:
  assumes inv: "rm_inv rm h" and c: "RoomManager_CloseRoom i rm h = (e, rm', h')"
  shows "rm_inv rm' h'"
proof (cases "mget rm i")
  case None
  then show ?thesis using assms by (simp add: RoomManager_CloseRoom_def)
next
  case (Some r)
  obtain h1 where cl: "Room_Close r h = (None, h1)"
    using Close_other_rooms(1) [of r h] by (metis prod.collapse)
  note C = Close_other_rooms [OF cl]
  have eq: "rm' = mdel i rm" "h' = h1" using c Some cl by (auto simp: RoomManager_CloseRoom_def)
  have ne: "x \<noteq> r" if "mget rm j = Some x" and "j \<noteq> i" for j x
    using rm_invD(2) [OF inv, of j x] rm_invD(2) [OF inv, of i r] that Some
    by (auto simp: RoomManager_GetRoom_def)
  show ?thesis
    unfolding rm_inv_def eq
  proof (intro conjI allI impI)
    show "wf_map (mdel i rm)" using inv by (simp add: rm_inv_def)
    fix j x assume "mget (mdel i rm) j = Some x"
    then have j: "mget rm j = Some x" "j \<noteq> i" by (auto split: if_splits)
    note R = rm_invD [OF inv, unfolded RoomManager_GetRoom_def, OF j(1)] and x = C(3) [OF ne [OF j]]
    show "x < nrom h1" "r_id (rom h1 x) = j" "r_state (rom h1 x) \<noteq> RoomStateClosed"
      using R C(2) x by simp_all
  qed
qed

lemma get_or_create:
  assumes inv: "rm_inv rm h"
  obtains r rm1 h1 where "RoomManager_GetOrCreateRoom i rm h = (Inr r, rm1, h1)" "RoomManager_GetRoom rm1 i = Some r"
    "r_state (rom h1 r) \<noteq> RoomStateClosed"
proof (cases "mget rm i")
  case (Some r)
  show thesis
    by (rule that [of r rm h])
      (use Some rm_invD [OF inv, of i r] in \<open>simp_all add: RoomManager_GetOrCreateRoom_def RoomManager_GetRoom_def\<close>)
next
  case None
  show thesis
    by (rule that [of "nrom h" "mput i (nrom h) rm"
          "h\<lparr>rom := (rom h)(nrom h := (mkRoom i)\<lparr>r_state := RoomStateActive\<rparr>), nrom := Suc (nrom h)\<rparr>"])
      (use None in \<open>simp_all add: RoomManager_GetOrCreateRoom_def RoomManager_GetRoom_def
        RoomManager_add_effect mkRoom_def\<close>)
qed

text \<open>The room registry behaves as a set of open rooms: \<open>GetOrCreateRoom\<close> always succeeds
  with a registered open room of that identifier, a second call returns the same room and
  changes nothing, other identifiers are untouched; \<open>CreateRoom\<close> refuses exactly the
  identifiers that exist; \<open>CloseRoom\<close> refuses exactly the unknown ones, closes the room and
  forgets it. All of them keep the registry invariant.\<close>

theorem room_manager_contract:
  assumes inv: "rm_inv rm h"
  shows "(\<exists>r rm1 h1. RoomManager_GetOrCreateRoom i rm h = (Inr r, rm1, h1) \<and> rm_inv rm1 h1 \<and>
      RoomManager_GetRoom rm1 i = Some r \<and> r_id (rom h1 r) = i \<and> r_state (rom h1 r) \<noteq> RoomStateClosed \<and>
      (\<forall>j. j \<noteq> i \<longrightarrow> RoomManager_GetRoom rm1 j = RoomManager_GetRoom rm j) \<and>
      RoomManager_GetOrCreateRoom i rm1 h1 = (Inr r, rm1, h1) \<and>
      RoomManager_CreateRoom i rm1 h1 = (Inl RM_ErrRoomAlreadyExists, rm1, h1)) \<and>
    (RoomManager_GetRoom rm i = None \<longleftrightarrow> (\<exists>r rm1 h1. RoomManager_CreateRoom i rm h = (Inr r, rm1, h1))) \<and>
    (RoomManager_GetRoom rm i = None \<longleftrightarrow>
       RoomManager_CloseRoom i rm h = (Some RM_ErrRoomNotFound, rm, h)) \<and>
    (\<forall>r. RoomManager_GetRoom rm i = Some r \<longrightarrow>
       (\<exists>h1. RoomManager_CloseRoom i rm h = (None, mdel i rm, h1) \<and> rm_inv (mdel i rm) h1 \<and>
          r_state (rom h1 r) = RoomStateClosed \<and> RoomManager_GetRoom (mdel i rm) i = None))"
proof (intro conjI)
  let ?P = "\<lambda>r rm1 h1. RoomManager_GetOrCreateRoom i rm h = (Inr r, rm1, h1) \<and> rm_inv rm1 h1 \<and>
      RoomManager_GetRoom rm1 i = Some r \<and> r_id (rom h1 r) = i \<and> r_state (rom h1 r) \<noteq> RoomStateClosed \<and>
      (\<forall>j. j \<noteq> i \<longrightarrow> RoomManager_GetRoom rm1 j = RoomManager_GetRoom rm j) \<and>
      RoomManager_GetOrCreateRoom i rm1 h1 = (Inr r, rm1, h1) \<and>
      RoomManager_CreateRoom i rm1 h1 = (Inl RM_ErrRoomAlreadyExists, rm1, h1)"
  show "\<exists>r rm1 h1. ?P r rm1 h1"
  proof (cases "mget rm i")
    case (Some r)
    then have "?P r rm h"
      using inv rm_invD [OF inv, of i r]
      by (simp add: RoomManager_GetOrCreateRoom_def RoomManager_CreateRoom_def RoomManager_GetRoom_def)
    then show ?thesis by blast
  next
    case None
    let ?h = "h\<lparr>rom := (rom h)(nrom h := (mkRoom i)\<lparr>r_state := RoomStateActive\<rparr>), nrom := Suc (nrom h)\<rparr>"
    have "rm_inv (mput i (nrom h) rm) ?h"
      by (rule RoomManager_add_inv [OF inv RoomManager_add_effect])
    then have "?P (nrom h) (mput i (nrom h) rm) ?h"
      using None
      by (simp add: RoomManager_GetOrCreateRoom_def RoomManager_CreateRoom_def
          RoomManager_GetRoom_def RoomManager_add_effect mkRoom_def)
    then show ?thesis by blast
  qed
  show "RoomManager_GetRoom rm i = None \<longleftrightarrow> (\<exists>r rm1 h1. RoomManager_CreateRoom i rm h = (Inr r, rm1, h1))"
    by (simp add: RoomManager_CreateRoom_def RoomManager_GetRoom_def RoomManager_add_effect
        split: option.split)
  have cl: "\<exists>h1. RoomManager_CloseRoom i rm h = (None, mdel i rm, h1) \<and> rm_inv (mdel i rm) h1 \<and>
          r_state (rom h1 r) = RoomStateClosed \<and> RoomManager_GetRoom (mdel i rm) i = None"
    if "RoomManager_GetRoom rm i = Some r" for r
  proof -
    obtain h1 where c: "Room_Close r h = (None, h1)"
      using Close_other_rooms(1) [of r h] by (metis prod.collapse)
    have eq: "RoomManager_CloseRoom i rm h = (None, mdel i rm, h1)"
      using that c by (simp add: RoomManager_CloseRoom_def RoomManager_GetRoom_def)
    with CloseRoom_inv [OF inv eq] Close_other_rooms(4) [OF c] rm_invD(3) [OF inv that]
    show ?thesis by (simp add: RoomManager_GetRoom_def)
  qed
  then show "\<forall>r. RoomManager_GetRoom rm i = Some r \<longrightarrow>
       (\<exists>h1. RoomManager_CloseRoom i rm h = (None, mdel i rm, h1) \<and> rm_inv (mdel i rm) h1 \<and>
          r_state (rom h1 r) = RoomStateClosed \<and> RoomManager_GetRoom (mdel i rm) i = None)" by blast
  show "RoomManager_GetRoom rm i = None \<longleftrightarrow>
       RoomManager_CloseRoom i rm h = (Some RM_ErrRoomNotFound, rm, h)"
  proof
    assume "RoomManager_GetRoom rm i = None"
    then show "RoomManager_CloseRoom i rm h = (Some RM_ErrRoomNotFound, rm, h)"
      by (simp add: RoomManager_CloseRoom_def RoomManager_GetRoom_def)
  next
    assume e: "RoomManager_CloseRoom i rm h = (Some RM_ErrRoomNotFound, rm, h)"
    show "RoomManager_GetRoom rm i = None"
    proof (rule ccontr)
      assume "RoomManager_GetRoom rm i \<noteq> None"
      then obtain r where "RoomManager_GetRoom rm i = Some r" by blast
      from cl [OF this] e show False by auto
    qed
  qed
qed

theorem room_manager_contract_witness:
  "\<exists>r rm1 h1. RoomManager_GetOrCreateRoom ''a'' NewRoomManager empty_heap = (Inr r, rm1, h1) \<and>
     RoomManager_GetOrCreateRoom ''a'' rm1 h1 = (Inr r, rm1, h1)"
proof -
  have "rm_inv NewRoomManager empty_heap" by (simp add: rm_inv_def NewRoomManager_def)
  from room_manager_contract [OF this, of "''a''"] show ?thesis by blast
qed

subsection \<open>Connection manager\<close>

type_synonym caddr = nat
type_synonym ConnectionManager = "(string, caddr) gomap"
type_synonym conn_store = "caddr \<Rightarrow> Connection"

definition NewConnectionManager :: ConnectionManager where "NewConnectionManager = []"

definition ConnectionManager_Add :: "conn_store \<Rightarrow> caddr \<Rightarrow> ConnectionManager \<Rightarrow> ConnectionManager" where
  "ConnectionManager_Add st conn cm = mput (c_participantID (st conn)) conn cm"

definition ConnectionManager_Remove :: "string \<Rightarrow> ConnectionManager \<Rightarrow> ConnectionManager" where
  "ConnectionManager_Remove connID cm = mdel connID cm"

definition ConnectionManager_RemoveIf ::
  "string \<Rightarrow> caddr \<Rightarrow> ConnectionManager \<Rightarrow> bool \<times> ConnectionManager" where
  "ConnectionManager_RemoveIf participantID conn cm =
     (if mget cm participantID = Some conn then (True, mdel participantID cm) else (False, cm))"

definition ConnectionManager_Get :: "ConnectionManager \<Rightarrow> string \<Rightarrow> caddr option" where
  "ConnectionManager_Get cm participantID = mget cm participantID"

definition ConnectionManager_GetByRoom :: "conn_store \<Rightarrow> string \<Rightarrow> ConnectionManager \<Rightarrow> caddr list" where
  "ConnectionManager_GetByRoom st roomID cm = filter (\<lambda>c. c_roomID (st c) = roomID) (map snd cm)"

definition ConnectionManager_ConnectionIDs :: "ConnectionManager \<Rightarrow> string list" where
  "ConnectionManager_ConnectionIDs cm = mkeys cm"

definition ConnectionManager_CloseAll :: "conn_store \<Rightarrow> ConnectionManager \<Rightarrow> conn_store \<times> ConnectionManager" where
  "ConnectionManager_CloseAll st cm =
     (fold (\<lambda>(_, c) s. s(c := Connection_Close (s c))) cm st, [])"

interpretation conns: keyed_registry ConnectionManager_Get mput ConnectionManager_Remove
    ConnectionManager_ConnectionIDs wf_map
  by unfold_locales
    (simp_all only: ConnectionManager_Get_def [abs_def] ConnectionManager_Remove_def
      ConnectionManager_ConnectionIDs_def set_mkeys mget_mput mget_mdel wf_map_mput wf_map_mdel)

lemma Connection_Close_idem [simp]: "Connection_Close (Connection_Close c) = Connection_Close c"
  by (simp add: Connection_Close_def)

lemma close_all_fold:
  "fold (\<lambda>(_, c) s. s(c := Connection_Close (s c))) cm st c =
     (if c \<in> snd ` set cm then Connection_Close (st c) else st c)"
  by (induction cm arbitrary: st) auto

text \<open>Reconnection is safe: after a participant's newer connection has been registered, the
  cleanup of the older one removes nothing and the newer one stays reachable, while the
  cleanup of the current connection removes exactly it; other participants are never
  affected.\<close>

theorem stale_cleanup_keeps_new_connection:
  assumes "c_participantID (st old) = i" and "c_participantID (st new) = i" and "old \<noteq> new"
  shows "ConnectionManager_RemoveIf i old (ConnectionManager_Add st new (ConnectionManager_Add st old cm)) =
      (False, ConnectionManager_Add st new (ConnectionManager_Add st old cm)) \<and>
    ConnectionManager_Get (ConnectionManager_Add st new (ConnectionManager_Add st old cm)) i = Some new \<and>
    fst (ConnectionManager_RemoveIf i new (ConnectionManager_Add st new cm)) \<and>
    ConnectionManager_Get (snd (ConnectionManager_RemoveIf i new (ConnectionManager_Add st new cm))) =
      (ConnectionManager_Get cm)(i := None)"
proof -
  have "ConnectionManager_Get (mdel i (mput i new cm)) = (ConnectionManager_Get cm)(i := None)"
    by (simp add: ConnectionManager_Get_def fun_eq_iff)
  then show ?thesis
    using assms conns.find_store_same [of i new "ConnectionManager_Add st old cm"]
    by (simp add: ConnectionManager_RemoveIf_def ConnectionManager_Add_def ConnectionManager_Get_def)
qed

theorem stale_cleanup_keeps_new_connection_witness:
  "ConnectionManager_Get (ConnectionManager_Add (\<lambda>_. NewConnection ''r'' ''p'' True True) 2
     (ConnectionManager_Add (\<lambda>_. NewConnection ''r'' ''p'' True True) 1 NewConnectionManager)) ''p'' = Some 2"
  using stale_cleanup_keeps_new_connection
    [of "\<lambda>_. NewConnection ''r'' ''p'' True True" 1 "''p''" 2 NewConnectionManager]
  by (simp add: NewConnection_def)

text \<open>\<open>CloseAll\<close> closes every registered connection, touches no other, and empties the
  registry.\<close>

theorem CloseAll_contract:
  "snd (ConnectionManager_CloseAll st cm) = NewConnectionManager \<and>
   fst (ConnectionManager_CloseAll st cm) c =
     (if c \<in> snd ` set cm then Connection_Close (st c) else st c) \<and>
   c_closeChan (Connection_Close (st c))"
  by (simp add: ConnectionManager_CloseAll_def NewConnectionManager_def close_all_fold)

end
