(* ===== verification/Peer_Connection.thy ===== *)
theory Peer_Connection
  imports Slive_Errors
begin

text \<open>
  The peer connection (\<open>internal/webrtc/peer_connection.go\<close>, \<open>retry.go\<close>, \<open>track.go\<close>): its
  bookkeeping, the egress tracks with their reserved MIDs, the ICE candidate queue, and the
  negotiation gate that serialises browser offers and server offers.

  pion/webrtc is not part of the repository: it is the record \<open>P\<close> of the operations the code
  calls, over an unknown state type \<open>'p\<close>. Each method runs under \<open>negMu\<close> or \<open>mu\<close>; one method is
  one step. Logging and the attempt and failure counters are left out.
\<close>

unbundle bit_operations_syntax

subsection \<open>Tracks, descriptions, candidates\<close>

text \<open>\<open>WebRTCTrack\<close>: the address of its domain track with that track's identifier and kind (which
  never change), the pion track behind it
  (\<open>TrackLocal\<close> with a handle, \<open>TrackRemote\<close> with its SSRC, none after \<open>Close\<close>) and the codec.\<close>

datatype pion_track = TrackLocal nat | TrackRemote "32 word"

record Codec =
  MimeType :: string
  ClockRate :: nat
  Channels :: nat
  SDPFmtpLine :: string

record WebRTCTrack =
  wt_domain :: nat
  wt_id :: string
  wt_kind :: int
  wt_track :: "pion_track option"
  wt_codec :: Codec

definition WebRTCTrack_IsRemote :: "WebRTCTrack \<Rightarrow> bool" where
  "WebRTCTrack_IsRemote t \<longleftrightarrow> (case wt_track t of Some (TrackRemote _) \<Rightarrow> True | _ \<Rightarrow> False)"

definition WebRTCTrack_RemoteSSRC :: "WebRTCTrack \<Rightarrow> 32 word \<times> bool" where
  "WebRTCTrack_RemoteSSRC t = (case wt_track t of Some (TrackRemote s) \<Rightarrow> (s, True) | _ \<Rightarrow> (0, False))"

definition WebRTCTrack_Close :: "WebRTCTrack \<Rightarrow> WebRTCTrack" where
  "WebRTCTrack_Close t = t\<lparr>wt_track := None\<rparr>"

datatype SDPType = SDPTypeOffer | SDPTypeAnswer

record SessionDescription =
  sd_type :: SDPType
  sd_sdp :: string

record ICECandidate =
  ice_Candidate :: string
  ice_SDPMid :: "string option"
  ice_SDPMLineIndex :: "16 word option"

definition ICECandidate_SDPMid :: "ICECandidate \<Rightarrow> string" where
  "ICECandidate_SDPMid c = (case ice_SDPMid c of Some m \<Rightarrow> m | None \<Rightarrow> '''')"

definition ICECandidate_SDPMLineIndex :: "ICECandidate \<Rightarrow> 16 word" where
  "ICECandidate_SDPMLineIndex c = (case ice_SDPMLineIndex c of Some i \<Rightarrow> i | None \<Rightarrow> 0)"

subsection \<open>pion\<close>

datatype SignalingState =
    SignalingStateStable
  | SignalingStateHaveLocalOffer
  | SignalingStateHaveRemoteOffer
  | SignalingStateClosed

fun SignalingState_String :: "SignalingState \<Rightarrow> string" where
  "SignalingState_String SignalingStateStable = ''stable''"
| "SignalingState_String SignalingStateHaveLocalOffer = ''have-local-offer''"
| "SignalingState_String SignalingStateHaveRemoteOffer = ''have-remote-offer''"
| "SignalingState_String SignalingStateClosed = ''closed''"

text \<open>Senders and transceivers are handles. \<open>P_Gathered\<close> tells whether candidate gathering
  completes before the connection's context is cancelled.\<close>

record 'p pion =
  P_SignalingState :: "'p \<Rightarrow> SignalingState"
  P_CreateOffer :: "'p \<Rightarrow> (gerror + SessionDescription) \<times> 'p"
  P_CreateAnswer :: "'p \<Rightarrow> (gerror + SessionDescription) \<times> 'p"
  P_SetLocalDescription :: "SessionDescription \<Rightarrow> 'p \<Rightarrow> gerror option \<times> 'p"
  P_SetRemoteDescription :: "SessionDescription \<Rightarrow> 'p \<Rightarrow> gerror option \<times> 'p"
  P_LocalDescription :: "'p \<Rightarrow> SessionDescription option"
  P_RemoteDescription :: "'p \<Rightarrow> SessionDescription option"
  P_Gathered :: "'p \<Rightarrow> bool"
  P_AddICECandidate :: "ICECandidate \<Rightarrow> 'p \<Rightarrow> gerror option \<times> 'p"
  P_Close :: "'p \<Rightarrow> gerror option \<times> 'p"
  P_AddTrack :: "nat \<Rightarrow> string \<Rightarrow> 'p \<Rightarrow> (gerror + nat) \<times> 'p"
  P_RemoveTrack :: "nat \<Rightarrow> 'p \<Rightarrow> gerror option \<times> 'p"
  P_AddTransceiverFromTrack :: "nat \<Rightarrow> string \<Rightarrow> 'p \<Rightarrow> (gerror + nat) \<times> 'p"
  P_GetSenders :: "'p \<Rightarrow> nat list"
  P_SenderTrackID :: "nat \<Rightarrow> 'p \<Rightarrow> string option"
  P_GetTransceivers :: "'p \<Rightarrow> nat list"
  P_Sender :: "nat \<Rightarrow> 'p \<Rightarrow> nat"
  P_Mid :: "nat \<Rightarrow> 'p \<Rightarrow> string"
  P_SetMid :: "nat \<Rightarrow> string \<Rightarrow> 'p \<Rightarrow> gerror option \<times> 'p"

subsection \<open>The connection\<close>

datatype PeerConnectionState =
    PeerConnectionStateNew
  | PeerConnectionStateConnecting
  | PeerConnectionStateConnected
  | PeerConnectionStateDisconnected
  | PeerConnectionStateFailed
  | PeerConnectionStateClosed

fun PeerConnectionState_String :: "PeerConnectionState \<Rightarrow> string" where
  "PeerConnectionState_String PeerConnectionStateNew = ''new''"
| "PeerConnectionState_String PeerConnectionStateConnecting = ''connecting''"
| "PeerConnectionState_String PeerConnectionStateConnected = ''connected''"
| "PeerConnectionState_String PeerConnectionStateDisconnected = ''disconnected''"
| "PeerConnectionState_String PeerConnectionStateFailed = ''failed''"
| "PeerConnectionState_String PeerConnectionStateClosed = ''closed''"

definition PeerConnectionState_Usable :: "PeerConnectionState \<Rightarrow> bool" where
  "PeerConnectionState_Usable s \<longleftrightarrow> s \<noteq> PeerConnectionStateClosed \<and> s \<noteq> PeerConnectionStateFailed"

text \<open>What the connection hands to its signaling sender.\<close>

datatype pc_msg =
    PcOffer string string
  | PcAnswer string string
  | PcCandidate string string string int

text \<open>\<open>sendSignaling\<close> is the configured sender, a function from message to error, or nil;
  \<open>sentLog\<close> records the calls made to it. Generations and MIDs are \<open>uint64\<close>.\<close>

record 'p PeerConnection =
  pionPC :: 'p
  pc_state :: PeerConnectionState
  localTracks :: "(string, WebRTCTrack) gomap"
  remoteTracks :: "(string, WebRTCTrack) gomap"
  pc_participantID :: string
  sendSignaling :: "(pc_msg \<Rightarrow> gerror option) option"
  sentLog :: "pc_msg list"
  isNegotiating :: bool
  pendingNegotiation :: bool
  pendingInboundOffer :: "SessionDescription option"
  negotiationsQueued :: int
  nextEgressMID :: "64 word"
  publishSlots :: "nat list"
  negotiationGeneration :: "64 word"
  lastOfferGeneration :: "64 word"
  pendingICECandidates :: "ICECandidate list"
  pc_cancelled :: bool

definition egressMIDBase :: "64 word" where "egressMIDBase = 100"

definition pc_dead :: "'p PeerConnection \<Rightarrow> bool" where
  "pc_dead pc \<longleftrightarrow> pc_state pc = PeerConnectionStateClosed \<or> pc_state pc = PeerConnectionStateFailed"

definition sigState :: "'p pion \<Rightarrow> 'p PeerConnection \<Rightarrow> SignalingState" where
  "sigState P pc = P_SignalingState P (pionPC pc)"

text \<open>\<open>NewPeerConnection\<close> around a pion connection on which the two publish transceivers have
  been created.\<close>

definition NewPeerConnection ::
  "'p \<Rightarrow> nat list \<Rightarrow> string \<Rightarrow> (pc_msg \<Rightarrow> gerror option) option \<Rightarrow> 'p PeerConnection" where
  "NewPeerConnection p slots participant sender =
     \<lparr>pionPC = p, pc_state = PeerConnectionStateNew, localTracks = [], remoteTracks = [],
      pc_participantID = participant, sendSignaling = sender, sentLog = [], isNegotiating = False,
      pendingNegotiation = False, pendingInboundOffer = None, negotiationsQueued = 0,
      nextEgressMID = 0, publishSlots = slots, negotiationGeneration = 0, lastOfferGeneration = 0,
      pendingICECandidates = [], pc_cancelled = False\<rparr>"

definition PC_UpdateSignalingSender ::
  "(pc_msg \<Rightarrow> gerror option) option \<Rightarrow> 'p PeerConnection \<Rightarrow> 'p PeerConnection" where
  "PC_UpdateSignalingSender s pc = pc\<lparr>sendSignaling := s\<rparr>"

definition PC_GetLocalTrack :: "string \<Rightarrow> 'p PeerConnection \<Rightarrow> WebRTCTrack option" where
  "PC_GetLocalTrack trackID pc = mget (localTracks pc) trackID"

definition PC_GetRemoteTrack :: "string \<Rightarrow> 'p PeerConnection \<Rightarrow> WebRTCTrack option" where
  "PC_GetRemoteTrack trackID pc = mget (remoteTracks pc) trackID"

definition PC_NeedsReconnect :: "'p PeerConnection \<Rightarrow> bool" where
  "PC_NeedsReconnect pc \<longleftrightarrow>
     pc_state pc = PeerConnectionStateDisconnected \<or> pc_state pc = PeerConnectionStateFailed"

text \<open>The state reported by pion is taken over.\<close>

definition PC_handleConnectionStateChange :: "PeerConnectionState \<Rightarrow> 'p PeerConnection \<Rightarrow> 'p PeerConnection" where
  "PC_handleConnectionStateChange s pc = pc\<lparr>pc_state := s\<rparr>"

definition PC_Close :: "'p pion \<Rightarrow> 'p PeerConnection \<Rightarrow> gerror option \<times> 'p PeerConnection" where
  "PC_Close P pc =
     (if pc_state pc = PeerConnectionStateClosed then (None, pc)
      else
        let pc1 = pc\<lparr>pc_cancelled := True,
              localTracks := map (\<lambda>(i, t). (i, WebRTCTrack_Close t)) (localTracks pc)\<rparr>
        in (case P_Close P (pionPC pc1) of
              (Some err, p) \<Rightarrow> (Some err, pc1\<lparr>pionPC := p\<rparr>)
            | (None, p) \<Rightarrow>
                (None, pc1\<lparr>pionPC := p, pc_state := PeerConnectionStateClosed, isNegotiating := False,
                   pendingNegotiation := False, negotiationsQueued := 0, pendingInboundOffer := None,
                   pendingICECandidates := []\<rparr>)))"

subsection \<open>ICE candidates\<close>

definition PC_AddICECandidate ::
  "'p pion \<Rightarrow> ICECandidate \<Rightarrow> 'p PeerConnection \<Rightarrow> gerror option \<times> 'p PeerConnection" where
  "PC_AddICECandidate P candidate pc =
     (if pc_dead pc then (Some (werr ErrPeerConnectionClosed), pc)
      else (case P_AddICECandidate P candidate (pionPC pc) of (e, p) \<Rightarrow> (e, pc\<lparr>pionPC := p\<rparr>)))"

definition PC_flushICECandidates :: "'p pion \<Rightarrow> 'p PeerConnection \<Rightarrow> 'p PeerConnection" where
  "PC_flushICECandidates P pc =
     fold (\<lambda>c x. snd (PC_AddICECandidate P c x)) (pendingICECandidates pc)
       (pc\<lparr>pendingICECandidates := []\<rparr>)"

definition defaultICERetryAttempts :: nat where "defaultICERetryAttempts = 3"

text \<open>The retry loop: the remaining attempts and the last error.\<close>

fun ice_retry ::
  "'p pion \<Rightarrow> ICECandidate \<Rightarrow> nat \<Rightarrow> gerror option \<Rightarrow> 'p PeerConnection \<Rightarrow> gerror option \<times> 'p PeerConnection" where
  "ice_retry P c 0 lastErr pc = (lastErr, pc)"
| "ice_retry P c (Suc n) lastErr pc =
     (case PC_AddICECandidate P c pc of
        (None, pc') \<Rightarrow> (None, pc')
      | (Some err, pc') \<Rightarrow> ice_retry P c n (Some err) pc')"

definition PC_AddICECandidateWithRetry ::
  "'p pion \<Rightarrow> ICECandidate \<Rightarrow> 'p PeerConnection \<Rightarrow> gerror option \<times> 'p PeerConnection" where
  "PC_AddICECandidateWithRetry P candidate pc =
     (if \<not> pc_dead pc \<and> P_RemoteDescription P (pionPC pc) = None
      then (None, pc\<lparr>pendingICECandidates := pendingICECandidates pc @ [candidate]\<rparr>)
      else (case ice_retry P candidate defaultICERetryAttempts None pc of
              (None, pc') \<Rightarrow> (None, pc')
            | (Some lastErr, pc') \<Rightarrow>
                (Some (Wrapf (error_text (werr ErrICEFailed) @ '': '' @ error_text lastErr)
                         [werr ErrICEFailed, lastErr]), pc')))"

subsection \<open>Egress tracks\<close>

definition isEgressMID :: "string \<Rightarrow> bool" where
  "isEgressMID mid \<longleftrightarrow> (case ParseUint mid of None \<Rightarrow> False | Some n \<Rightarrow> unat egressMIDBase \<le> n)"

text \<open>The first transceiver that carries the sender.\<close>

definition transceiver_of :: "'p pion \<Rightarrow> nat \<Rightarrow> 'p \<Rightarrow> nat option" where
  "transceiver_of P sender p = find (\<lambda>t. P_Sender P t p = sender) (P_GetTransceivers P p)"

definition ensureEgressTransceiverLocked ::
  "'p pion \<Rightarrow> nat list \<Rightarrow> nat \<Rightarrow> nat \<Rightarrow> string \<Rightarrow> 'p \<Rightarrow> (gerror + nat) \<times> 'p" where
  "ensureEgressTransceiverLocked P slots sender handle trackID p =
     (case transceiver_of P sender p of
        None \<Rightarrow> (Inr sender, p)
      | Some t \<Rightarrow>
          if (P_Mid P t p = '''' \<or> isEgressMID (P_Mid P t p)) \<and> t \<notin> set slots then (Inr sender, p)
          else (case P_RemoveTrack P sender p of
                  (Some err, p1) \<Rightarrow> (Inl err, p1)
                | (None, p1) \<Rightarrow>
                    (case P_AddTransceiverFromTrack P handle trackID p1 of
                       (Inl err, p2) \<Rightarrow> (Inl err, p2)
                     | (Inr t2, p2) \<Rightarrow> (Inr (P_Sender P t2 p2), p2))))"

definition reserveEgressMIDLocked :: "'p pion \<Rightarrow> nat \<Rightarrow> 'p PeerConnection \<Rightarrow> 'p PeerConnection" where
  "reserveEgressMIDLocked P sender pc =
     (case find (\<lambda>t. P_Sender P t (pionPC pc) = sender \<and> P_Mid P t (pionPC pc) = '''')
             (P_GetTransceivers P (pionPC pc)) of
        None \<Rightarrow> pc
      | Some t \<Rightarrow>
          let mid = (if nextEgressMID pc < egressMIDBase then egressMIDBase else nextEgressMID pc);
              pc1 = pc\<lparr>nextEgressMID := mid + 1\<rparr>
          in (case P_SetMid P t (FormatUint (unat mid)) (pionPC pc1) of
                (_, p) \<Rightarrow> pc1\<lparr>pionPC := p\<rparr>))"

definition PC_AddTrack ::
  "'p pion \<Rightarrow> WebRTCTrack \<Rightarrow> 'p PeerConnection \<Rightarrow> gerror option \<times> 'p PeerConnection" where
  "PC_AddTrack P track pc =
     (if pc_dead pc then (Some (werr ErrPeerConnectionClosed), pc)
      else (case wt_track track of
        Some (TrackLocal handle) \<Rightarrow>
          (case P_AddTrack P handle (wt_id track) (pionPC pc) of
             (Inl err, p) \<Rightarrow> (Some err, pc\<lparr>pionPC := p\<rparr>)
           | (Inr sender, p) \<Rightarrow>
               (case ensureEgressTransceiverLocked P (publishSlots pc) sender handle (wt_id track) p of
                  (Inl err, p1) \<Rightarrow> (Some err, pc\<lparr>pionPC := p1\<rparr>)
                | (Inr sender1, p1) \<Rightarrow>
                    (None, reserveEgressMIDLocked P sender1
                       (pc\<lparr>pionPC := p1, localTracks := mput (wt_id track) track (localTracks pc),
                           negotiationGeneration := negotiationGeneration pc + 1\<rparr>))))
      | _ \<Rightarrow> (Some (werr ErrTrackNotReady), pc)))"

definition PC_RemoveTrack ::
  "'p pion \<Rightarrow> string \<Rightarrow> 'p PeerConnection \<Rightarrow> gerror option \<times> 'p PeerConnection" where
  "PC_RemoveTrack P trackID pc =
     (if pc_dead pc then (Some (werr ErrPeerConnectionClosed), pc)
      else if mget (localTracks pc) trackID = None then (Some (werr WErrTrackNotFound), pc)
      else (case find (\<lambda>s. P_SenderTrackID P s (pionPC pc) = Some trackID) (P_GetSenders P (pionPC pc)) of
              None \<Rightarrow> (None, pc\<lparr>localTracks := mdel trackID (localTracks pc)\<rparr>)
            | Some sender \<Rightarrow>
                (case P_RemoveTrack P sender (pionPC pc) of
                   (Some err, p) \<Rightarrow> (Some err, pc\<lparr>pionPC := p\<rparr>)
                 | (None, p) \<Rightarrow>
                     (None, pc\<lparr>pionPC := p, negotiationGeneration := negotiationGeneration pc + 1,
                             localTracks := mdel trackID (localTracks pc)\<rparr>))))"

text \<open>The removal error (except a missing track) and the error of the addition.\<close>

definition PC_SwapEgressTrack ::
  "'p pion \<Rightarrow> string \<Rightarrow> WebRTCTrack \<Rightarrow> 'p PeerConnection \<Rightarrow>
     (gerror option \<times> gerror option) \<times> 'p PeerConnection" where
  "PC_SwapEgressTrack P trackID nxt pc =
     (case PC_RemoveTrack P trackID pc of (re, pc1) \<Rightarrow>
        (case PC_AddTrack P nxt pc1 of (ae, pc2) \<Rightarrow>
          ((case re of None \<Rightarrow> None
            | Some err \<Rightarrow> if errors_Is err (WebrtcE WErrTrackNotFound) then None else Some err, ae), pc2)))"

end
