(* ===== verification/Negotiation.thy ===== *)
theory Negotiation
  imports Peer_Connection
begin

text \<open>
  The negotiation gate of \<open>peer_connection.go\<close>: at most one SDP offer is outstanding on a
  connection, browser offers that arrive meanwhile are stored and answered first, server
  offers that are needed meanwhile are coalesced into one.
\<close>

subsection \<open>Operations\<close>

text \<open>A call of the configured sender; its error is only logged by the callers.\<close>

definition pc_send :: "pc_msg \<Rightarrow> 'p PeerConnection \<Rightarrow> 'p PeerConnection" where
  "pc_send m pc = (case sendSignaling pc of None \<Rightarrow> pc | Some _ \<Rightarrow> pc\<lparr>sentLog := sentLog pc @ [m]\<rparr>)"

definition pc_defer :: "'p PeerConnection \<Rightarrow> 'p PeerConnection" where
  "pc_defer pc = pc\<lparr>pendingNegotiation := True, negotiationsQueued := negotiationsQueued pc + 1\<rparr>"

definition serverOffer_fail :: "'p PeerConnection \<Rightarrow> 'p PeerConnection" where
  "serverOffer_fail pc = pc\<lparr>isNegotiating := False, pendingNegotiation := True\<rparr>"

definition serverOfferLocked :: "'p pion \<Rightarrow> 'p PeerConnection \<Rightarrow> gerror option \<times> 'p PeerConnection" where
  "serverOfferLocked P pc =
     (if pc_dead pc then (Some (werr ErrPeerConnectionClosed), pc)
      else if sendSignaling pc = None then (None, pc)
      else if sigState P pc \<noteq> SignalingStateStable then (None, pc_defer pc)
      else if lastOfferGeneration pc = negotiationGeneration pc
      then (None, pc\<lparr>pendingNegotiation := False, negotiationsQueued := 0\<rparr>)
      else
        let pc1 = pc\<lparr>pendingNegotiation := False, negotiationsQueued := 0, isNegotiating := True\<rparr>;
            offerGeneration = negotiationGeneration pc1
        in (case P_CreateOffer P (pionPC pc1) of
              (Inl err, p) \<Rightarrow> (Some err, serverOffer_fail (pc1\<lparr>pionPC := p\<rparr>))
            | (Inr offer, p) \<Rightarrow>
                (case P_SetLocalDescription P offer p of
                   (Some err, p') \<Rightarrow> (Some err, serverOffer_fail (pc1\<lparr>pionPC := p'\<rparr>))
                 | (None, p') \<Rightarrow>
                     let pc2 = pc1\<lparr>pionPC := p', lastOfferGeneration := offerGeneration\<rparr> in
                     if \<not> P_Gathered P p' then (Some (werr ErrPeerConnectionClosed), serverOffer_fail pc2)
                     else (case P_LocalDescription P p' of
                             None \<Rightarrow> (Some (werr ErrInvalidSDP), serverOffer_fail pc2)
                           | Some localDesc \<Rightarrow>
                               (None, pc_send (PcOffer (pc_participantID pc2) (sd_sdp localDesc)) pc2)))))"

definition answerExchangeLocked ::
  "'p pion \<Rightarrow> SessionDescription \<Rightarrow> 'p PeerConnection \<Rightarrow> (gerror + SessionDescription) \<times> 'p PeerConnection" where
  "answerExchangeLocked P offer pc =
     (case P_SetRemoteDescription P offer (pionPC pc) of
        (Some err, p) \<Rightarrow> (Inl err, pc\<lparr>pionPC := p\<rparr>)
      | (None, p) \<Rightarrow>
          let pc1 = PC_flushICECandidates P (pc\<lparr>pionPC := p\<rparr>) in
          (case P_CreateAnswer P (pionPC pc1) of
             (Inl err, p1) \<Rightarrow> (Inl err, pc1\<lparr>pionPC := p1\<rparr>)
           | (Inr answer, p1) \<Rightarrow>
               (case P_SetLocalDescription P answer p1 of
                  (Some err, p2) \<Rightarrow> (Inl err, pc1\<lparr>pionPC := p2\<rparr>)
                | (None, p2) \<Rightarrow>
                    let pc2 = pc1\<lparr>pionPC := p2\<rparr> in
                    if \<not> P_Gathered P p2 then (Inl (werr ErrPeerConnectionClosed), pc2)
                    else (case P_LocalDescription P p2 of
                            None \<Rightarrow> (Inl (werr ErrInvalidSDP), pc2)
                          | Some localDesc \<Rightarrow> (Inr localDesc, pc2)))))"

definition deliverAnswerLocked :: "SessionDescription \<Rightarrow> 'p PeerConnection \<Rightarrow> 'p PeerConnection" where
  "deliverAnswerLocked answer pc = pc_send (PcAnswer (pc_participantID pc) (sd_sdp answer)) pc"

text \<open>The second half of \<open>flushPendingLocked\<close>: the coalesced server offer.\<close>

definition flushServerOffer :: "'p pion \<Rightarrow> 'p PeerConnection \<Rightarrow> 'p PeerConnection" where
  "flushServerOffer P pc =
     (if \<not> pendingNegotiation pc then pc
      else if pc_dead pc then pc\<lparr>pendingNegotiation := False\<rparr>
      else if sigState P pc \<noteq> SignalingStateStable then pc
      else if isNegotiating pc then pc
      else snd (serverOfferLocked P pc))"

definition flushPendingLocked :: "'p pion \<Rightarrow> 'p PeerConnection \<Rightarrow> 'p PeerConnection" where
  "flushPendingLocked P pc =
     (let pc1 = pc\<lparr>pendingInboundOffer := None\<rparr> in
      case pendingInboundOffer pc of
        None \<Rightarrow> flushServerOffer P pc1
      | Some inbound \<Rightarrow>
          if sigState P pc1 \<noteq> SignalingStateStable then pc1\<lparr>pendingInboundOffer := Some inbound\<rparr>
          else (case answerExchangeLocked P inbound pc1 of
                  (Inl err, pc2) \<Rightarrow> pc2
                | (Inr answer, pc2) \<Rightarrow> flushServerOffer P (deliverAnswerLocked answer pc2)))"

definition RequestSubscriberOffer :: "'p pion \<Rightarrow> 'p PeerConnection \<Rightarrow> bool \<times> 'p PeerConnection" where
  "RequestSubscriberOffer P pc =
     (if pc_dead pc then (False, pc)
      else if sendSignaling pc = None then (False, pc)
      else if isNegotiating pc then (False, pc_defer pc)
      else if sigState P pc \<noteq> SignalingStateStable then (False, pc_defer pc)
      else (case serverOfferLocked P pc of (Some err, pc') \<Rightarrow> (False, pc') | (None, pc') \<Rightarrow> (True, pc')))"

text \<open>The result: the answer, whether the offer was deferred, the error.\<close>

definition ProcessBrowserOffer ::
  "'p pion \<Rightarrow> SessionDescription \<Rightarrow> 'p PeerConnection \<Rightarrow>
     (SessionDescription option \<times> bool \<times> gerror option) \<times> 'p PeerConnection" where
  "ProcessBrowserOffer P offer pc =
     (if pc_dead pc then ((None, False, Some (werr ErrPeerConnectionClosed)), pc)
      else if sigState P pc = SignalingStateStable
      then (case answerExchangeLocked P offer pc of
              (Inl err, pc') \<Rightarrow> ((None, False, Some err), pc')
            | (Inr answer, pc') \<Rightarrow> ((Some answer, False, None), pc'))
      else if sigState P pc = SignalingStateHaveLocalOffer
      then ((None, True, None), pc\<lparr>pendingInboundOffer := Some offer\<rparr>)
      else ((None, False,
             Some (Wrapf (error_text (werr ErrUnexpectedOffer) @ '': signaling_state='' @
                     SignalingState_String (sigState P pc)) [werr ErrUnexpectedOffer])), pc))"

definition ProcessBrowserAnswer ::
  "'p pion \<Rightarrow> SessionDescription \<Rightarrow> 'p PeerConnection \<Rightarrow> gerror option \<times> 'p PeerConnection" where
  "ProcessBrowserAnswer P answer pc =
     (if pc_dead pc then (Some (werr ErrPeerConnectionClosed), pc)
      else if sigState P pc \<noteq> SignalingStateHaveLocalOffer then (Some (werr ErrNoPendingOffer), pc)
      else (case P_SetRemoteDescription P answer (pionPC pc) of
              (Some err, p) \<Rightarrow> (Some err, pc\<lparr>pionPC := p\<rparr>)
            | (None, p) \<Rightarrow>
                let pc1 = PC_flushICECandidates P (pc\<lparr>pionPC := p\<rparr>)
                in (None, flushPendingLocked P (pc1\<lparr>isNegotiating := False\<rparr>))))"

definition FlushDeferredNegotiation :: "'p pion \<Rightarrow> 'p PeerConnection \<Rightarrow> 'p PeerConnection" where
  "FlushDeferredNegotiation P pc = (if pc_dead pc then pc else flushPendingLocked P pc)"

definition handleNegotiationNeeded :: "'p pion \<Rightarrow> 'p PeerConnection \<Rightarrow> 'p PeerConnection" where
  "handleNegotiationNeeded P pc =
     (if pc_dead pc then pc
      else if sendSignaling pc = None then pc
      else if isNegotiating pc then pc_defer pc
      else if sigState P pc \<noteq> SignalingStateStable then pc_defer pc
      else snd (serverOfferLocked P pc))"

subsection \<open>What the gate relies on in pion\<close>

text \<open>The signaling state machine of JSEP (RFC 8829, section 3.2) as pion documents it: offers
  and answers are created without a state change; applying a local offer in stable gives
  have-local-offer, applying its remote answer gives stable; applying a remote offer in
  stable gives have-remote-offer, applying the local answer gives stable; a failing call
  and the addition of a candidate leave the state alone.\<close>

definition jsep :: "'p pion \<Rightarrow> bool" where
  "jsep P \<longleftrightarrow>
     (\<forall>p r p'. P_CreateOffer P p = (r, p') \<longrightarrow> P_SignalingState P p' = P_SignalingState P p \<and>
        (\<forall>d. r = Inr d \<longrightarrow> sd_type d = SDPTypeOffer)) \<and>
     (\<forall>p r p'. P_CreateAnswer P p = (r, p') \<longrightarrow> P_SignalingState P p' = P_SignalingState P p \<and>
        (\<forall>d. r = Inr d \<longrightarrow> sd_type d = SDPTypeAnswer)) \<and>
     (\<forall>d p e p'. P_SetLocalDescription P d p = (e, p') \<longrightarrow>
        (if e \<noteq> None then P_SignalingState P p' = P_SignalingState P p
         else if sd_type d = SDPTypeOffer
         then P_SignalingState P p = SignalingStateStable \<longrightarrow> P_SignalingState P p' = SignalingStateHaveLocalOffer
         else P_SignalingState P p = SignalingStateHaveRemoteOffer \<longrightarrow> P_SignalingState P p' = SignalingStateStable)) \<and>
     (\<forall>d p e p'. P_SetRemoteDescription P d p = (e, p') \<longrightarrow>
        (if e \<noteq> None then P_SignalingState P p' = P_SignalingState P p
         else if sd_type d = SDPTypeOffer
         then P_SignalingState P p = SignalingStateStable \<longrightarrow> P_SignalingState P p' = SignalingStateHaveRemoteOffer
         else P_SignalingState P p = SignalingStateHaveLocalOffer \<longrightarrow> P_SignalingState P p' = SignalingStateStable)) \<and>
     (\<forall>c p. P_SignalingState P (snd (P_AddICECandidate P c p)) = P_SignalingState P p)"

lemma jsepD:
  assumes "jsep P"
  shows "P_CreateOffer P p = (r, p') \<Longrightarrow> P_SignalingState P p' = P_SignalingState P p"
    and "P_CreateOffer P p = (Inr d, p') \<Longrightarrow> sd_type d = SDPTypeOffer"
    and "P_CreateAnswer P p = (r1, p') \<Longrightarrow> P_SignalingState P p' = P_SignalingState P p"
    and "P_CreateAnswer P p = (Inr d, p') \<Longrightarrow> sd_type d = SDPTypeAnswer"
    and "P_SetLocalDescription P d p = (Some e, p') \<Longrightarrow> P_SignalingState P p' = P_SignalingState P p"
    and "P_SetRemoteDescription P d p = (Some e, p') \<Longrightarrow> P_SignalingState P p' = P_SignalingState P p"
    and "P_SetLocalDescription P d p = (None, p') \<Longrightarrow> sd_type d = SDPTypeOffer \<Longrightarrow>
      P_SignalingState P p = SignalingStateStable \<Longrightarrow> P_SignalingState P p' = SignalingStateHaveLocalOffer"
    and "P_SetLocalDescription P d p = (None, p') \<Longrightarrow> sd_type d = SDPTypeAnswer \<Longrightarrow>
      P_SignalingState P p = SignalingStateHaveRemoteOffer \<Longrightarrow> P_SignalingState P p' = SignalingStateStable"
    and "P_SetRemoteDescription P d p = (None, p') \<Longrightarrow> sd_type d = SDPTypeOffer \<Longrightarrow>
      P_SignalingState P p = SignalingStateStable \<Longrightarrow> P_SignalingState P p' = SignalingStateHaveRemoteOffer"
    and "P_SetRemoteDescription P d p = (None, p') \<Longrightarrow> sd_type d = SDPTypeAnswer \<Longrightarrow>
      P_SignalingState P p = SignalingStateHaveLocalOffer \<Longrightarrow> P_SignalingState P p' = SignalingStateStable"
    and "P_SignalingState P (snd (P_AddICECandidate P c p)) = P_SignalingState P p"
proof -
  note J = assms [unfolded jsep_def]
  show "P_CreateOffer P p = (r, p') \<Longrightarrow> P_SignalingState P p' = P_SignalingState P p" using J by blast
  show "P_CreateOffer P p = (Inr d, p') \<Longrightarrow> sd_type d = SDPTypeOffer" using J by blast
  show "P_CreateAnswer P p = (r1, p') \<Longrightarrow> P_SignalingState P p' = P_SignalingState P p" using J by blast
  show "P_CreateAnswer P p = (Inr d, p') \<Longrightarrow> sd_type d = SDPTypeAnswer" using J by blast
  show "P_SetLocalDescription P d p = (Some e, p') \<Longrightarrow> P_SignalingState P p' = P_SignalingState P p"
    using J by (metis option.distinct(1))
  show "P_SetRemoteDescription P d p = (Some e, p') \<Longrightarrow> P_SignalingState P p' = P_SignalingState P p"
    using J by (metis option.distinct(1))
  show "P_SetLocalDescription P d p = (None, p') \<Longrightarrow> sd_type d = SDPTypeOffer \<Longrightarrow>
      P_SignalingState P p = SignalingStateStable \<Longrightarrow> P_SignalingState P p' = SignalingStateHaveLocalOffer"
    using J by metis
  show "P_SetLocalDescription P d p = (None, p') \<Longrightarrow> sd_type d = SDPTypeAnswer \<Longrightarrow>
      P_SignalingState P p = SignalingStateHaveRemoteOffer \<Longrightarrow> P_SignalingState P p' = SignalingStateStable"
    using J by (metis SDPType.distinct(1))
  show "P_SetRemoteDescription P d p = (None, p') \<Longrightarrow> sd_type d = SDPTypeOffer \<Longrightarrow>
      P_SignalingState P p = SignalingStateStable \<Longrightarrow> P_SignalingState P p' = SignalingStateHaveRemoteOffer"
    using J by metis
  show "P_SetRemoteDescription P d p = (None, p') \<Longrightarrow> sd_type d = SDPTypeAnswer \<Longrightarrow>
      P_SignalingState P p = SignalingStateHaveLocalOffer \<Longrightarrow> P_SignalingState P p' = SignalingStateStable"
    using J by (metis SDPType.distinct(1))
  show "P_SignalingState P (snd (P_AddICECandidate P c p)) = P_SignalingState P p" using J by blast
qed

subsection \<open>Effects of the building blocks\<close>

lemma AddICE_shape:
  assumes "jsep P"
  shows "\<exists>p'. snd (PC_AddICECandidate P c pc) = pc\<lparr>pionPC := p'\<rparr> \<and>
    P_SignalingState P p' = P_SignalingState P (pionPC pc)"
proof (cases "pc_dead pc")
  case True
  then show ?thesis by (intro exI [of _ "pionPC pc"]) (simp add: PC_AddICECandidate_def)
next
  case False
  then show ?thesis
    using jsepD(11) [OF assms, of c "pionPC pc"]
    by (intro exI [of _ "snd (P_AddICECandidate P c (pionPC pc))"])
      (simp add: PC_AddICECandidate_def case_prod_beta)
qed

lemma AddICE_fold:
  assumes "jsep P"
  shows "\<exists>p'. fold (\<lambda>c x. snd (PC_AddICECandidate P c x)) cs pc = pc\<lparr>pionPC := p'\<rparr> \<and>
    P_SignalingState P p' = P_SignalingState P (pionPC pc)"
proof (induction cs arbitrary: pc)
  case Nil
  then show ?case by (intro exI [of _ "pionPC pc"]) simp
next
  case (Cons c cs)
  obtain p1 where p1: "snd (PC_AddICECandidate P c pc) = pc\<lparr>pionPC := p1\<rparr>"
    "P_SignalingState P p1 = P_SignalingState P (pionPC pc)" using AddICE_shape [OF assms] by blast
  obtain p2 where p2: "fold (\<lambda>c x. snd (PC_AddICECandidate P c x)) cs (pc\<lparr>pionPC := p1\<rparr>) = pc\<lparr>pionPC := p2\<rparr>"
    "P_SignalingState P p2 = P_SignalingState P p1" using Cons.IH [of "pc\<lparr>pionPC := p1\<rparr>"] by auto
  then show ?case using p1 by (intro exI [of _ p2]) simp
qed

lemma flushICE_shape:
  assumes "jsep P"
  obtains p' where "PC_flushICECandidates P pc = pc\<lparr>pendingICECandidates := [], pionPC := p'\<rparr>"
    and "P_SignalingState P p' = P_SignalingState P (pionPC pc)"
proof -
  obtain p' where "fold (\<lambda>c x. snd (PC_AddICECandidate P c x)) (pendingICECandidates pc)
      (pc\<lparr>pendingICECandidates := []\<rparr>) = (pc\<lparr>pendingICECandidates := []\<rparr>)\<lparr>pionPC := p'\<rparr>"
    and s: "P_SignalingState P p' = P_SignalingState P (pionPC pc)"
    using AddICE_fold [OF assms, of "pendingICECandidates pc" "pc\<lparr>pendingICECandidates := []\<rparr>"] by auto
  then have "PC_flushICECandidates P pc = pc\<lparr>pendingICECandidates := [], pionPC := p'\<rparr>"
    by (simp add: PC_flushICECandidates_def)
  then show ?thesis using s by (rule that)
qed

text \<open>The parts of a connection that an exchange may touch: the pion state and the queue of
  candidates.\<close>

definition same_gate :: "'p PeerConnection \<Rightarrow> 'p PeerConnection \<Rightarrow> bool" where
  "same_gate pc pc' \<longleftrightarrow> (\<exists>p q. pc' = pc\<lparr>pionPC := p, pendingICECandidates := q\<rparr>)"

lemma same_gateI: "same_gate pc (pc\<lparr>pionPC := p\<rparr>)"
    "same_gate pc (pc\<lparr>pendingICECandidates := q, pionPC := p\<rparr>)"
  unfolding same_gate_def
  by (intro exI [of _ p] exI [of _ "pendingICECandidates pc"], simp)
    (intro exI [of _ p] exI [of _ q], simp)

lemma same_gateD:
  assumes "same_gate pc pc'"
  shows "pc_state pc' = pc_state pc" "sendSignaling pc' = sendSignaling pc" "sentLog pc' = sentLog pc"
    "isNegotiating pc' = isNegotiating pc" "pendingNegotiation pc' = pendingNegotiation pc"
    "pendingInboundOffer pc' = pendingInboundOffer pc" "pc_participantID pc' = pc_participantID pc"
    "negotiationGeneration pc' = negotiationGeneration pc" "lastOfferGeneration pc' = lastOfferGeneration pc"
    "pc_dead pc' = pc_dead pc"
  using assms by (auto simp: same_gate_def pc_dead_def)

lemma answerExchange_effect:
  assumes J: "jsep P" and st: "sigState P pc = SignalingStateStable" and ty: "sd_type offer = SDPTypeOffer"
    and ex: "answerExchangeLocked P offer pc = (res, pc')"
  shows "same_gate pc pc'" and "res = Inr d \<Longrightarrow> sigState P pc' = SignalingStateStable"
    and "res = Inl e \<Longrightarrow> sigState P pc' = SignalingStateStable \<or> sigState P pc' = SignalingStateHaveRemoteOffer"
proof -
  have "same_gate pc pc' \<and> (\<forall>d. res = Inr d \<longrightarrow> sigState P pc' = SignalingStateStable) \<and>
    (sigState P pc' = SignalingStateStable \<or> sigState P pc' = SignalingStateHaveRemoteOffer)"
  proof (cases "P_SetRemoteDescription P offer (pionPC pc)")
    case (Pair e0 p)
    show ?thesis
    proof (cases e0)
      case (Some err)
      with Pair ex have "res = Inl err" "pc' = pc\<lparr>pionPC := p\<rparr>" by (auto simp: answerExchangeLocked_def)
      with jsepD(6) [OF J] Pair Some st show ?thesis by (simp add: same_gateI sigState_def)
    next
      case None
      with Pair have sr: "P_SetRemoteDescription P offer (pionPC pc) = (None, p)" by simp
      have hr: "P_SignalingState P p = SignalingStateHaveRemoteOffer"
        using jsepD(9) [OF J sr ty] st by (simp add: sigState_def)
      obtain p0 where fl: "PC_flushICECandidates P (pc\<lparr>pionPC := p\<rparr>) =
          (pc\<lparr>pionPC := p\<rparr>)\<lparr>pendingICECandidates := [], pionPC := p0\<rparr>"
        and s0: "P_SignalingState P p0 = SignalingStateHaveRemoteOffer"
        using flushICE_shape [OF J, of "pc\<lparr>pionPC := p\<rparr>"] hr by auto
      define pc1 where "pc1 = pc\<lparr>pendingICECandidates := [], pionPC := p0\<rparr>"
      have fl1: "PC_flushICECandidates P (pc\<lparr>pionPC := p\<rparr>) = pc1" by (simp add: fl pc1_def)
      have p0: "pionPC pc1 = p0" by (simp add: pc1_def)
      obtain r1 p1 where ca: "P_CreateAnswer P p0 = (r1, p1)" by fastforce
      have s1: "P_SignalingState P p1 = SignalingStateHaveRemoteOffer"
        using jsepD(3) [OF J ca] s0 by simp
      have sg: "same_gate pc (pc1\<lparr>pionPC := x\<rparr>)" for x
        by (simp add: pc1_def same_gateI)
      show ?thesis
      proof (cases r1)
        case (Inl err)
        with ex sr fl1 ca p0 have "res = Inl err" "pc' = pc1\<lparr>pionPC := p1\<rparr>"
          by (auto simp: answerExchangeLocked_def)
        with s1 sg show ?thesis by (simp add: sigState_def)
      next
        case (Inr ans)
        obtain e2 p2 where sl: "P_SetLocalDescription P ans p1 = (e2, p2)" by fastforce
        have ta: "sd_type ans = SDPTypeAnswer" using jsepD(4) [OF J] ca Inr by blast
        have pc': "pc' = pc1\<lparr>pionPC := p2\<rparr>"
          using ex sr fl1 ca p0 Inr sl
          by (auto simp: answerExchangeLocked_def Let_def split: option.splits if_splits)
        show ?thesis
        proof (cases e2)
          case None
          then have "P_SignalingState P p2 = SignalingStateStable"
            using jsepD(8) [OF J _ ta s1] sl by simp
          with pc' sg show ?thesis by (simp add: sigState_def)
        next
          case (Some err)
          then have "P_SignalingState P p2 = SignalingStateHaveRemoteOffer" and "res = Inl err"
            using jsepD(5) [OF J] sl s1 ex sr fl1 ca p0 Inr by (auto simp: answerExchangeLocked_def)
          with pc' sg show ?thesis by (simp add: sigState_def)
        qed
      qed
    qed
  qed
  then show "same_gate pc pc'" "res = Inr d \<Longrightarrow> sigState P pc' = SignalingStateStable"
    "res = Inl e \<Longrightarrow> sigState P pc' = SignalingStateStable \<or> sigState P pc' = SignalingStateHaveRemoteOffer"
    by blast+
qed

text \<open>The outcomes of a server offer.\<close>

lemma serverOffer_cases:
  assumes J: "jsep P" and so: "serverOfferLocked P pc = (e, pc')"
  obtains (dead) "pc_dead pc" "e = Some (werr ErrPeerConnectionClosed)" "pc' = pc"
  | (nosender) "\<not> pc_dead pc" "sendSignaling pc = None" "e = None" "pc' = pc"
  | (deferred) "\<not> pc_dead pc" "sigState P pc \<noteq> SignalingStateStable" "e = None" "pc' = pc_defer pc"
  | (nochange) "\<not> pc_dead pc" "sigState P pc = SignalingStateStable" "lastOfferGeneration pc = negotiationGeneration pc"
      "e = None" "pc' = pc\<lparr>pendingNegotiation := False, negotiationsQueued := 0\<rparr>"
  | (failed) p g err where "\<not> pc_dead pc" "sigState P pc = SignalingStateStable"
      "lastOfferGeneration pc \<noteq> negotiationGeneration pc" "e = Some err"
      "pc' = pc\<lparr>negotiationsQueued := 0, pionPC := p, lastOfferGeneration := g, isNegotiating := False,
                 pendingNegotiation := True\<rparr>"
      "P_SignalingState P p = SignalingStateStable \<or> P_SignalingState P p = SignalingStateHaveLocalOffer"
  | (sent) p d where "\<not> pc_dead pc" "sigState P pc = SignalingStateStable" "sendSignaling pc \<noteq> None"
      "lastOfferGeneration pc \<noteq> negotiationGeneration pc" "e = None"
      "pc' = pc\<lparr>pendingNegotiation := False, negotiationsQueued := 0, isNegotiating := True, pionPC := p,
                 lastOfferGeneration := negotiationGeneration pc,
                 sentLog := sentLog pc @ [PcOffer (pc_participantID pc) d]\<rparr>"
      "P_SignalingState P p = SignalingStateHaveLocalOffer"
proof -
  consider "pc_dead pc" | "\<not> pc_dead pc" "sendSignaling pc = None"
    | "\<not> pc_dead pc" "sendSignaling pc \<noteq> None" "sigState P pc \<noteq> SignalingStateStable"
    | "\<not> pc_dead pc" "sendSignaling pc \<noteq> None" "sigState P pc = SignalingStateStable"
      "lastOfferGeneration pc = negotiationGeneration pc"
    | (go) "\<not> pc_dead pc" "sendSignaling pc \<noteq> None" "sigState P pc = SignalingStateStable"
      "lastOfferGeneration pc \<noteq> negotiationGeneration pc" by blast
  then show ?thesis
  proof cases
    case 1 with so show ?thesis by (intro dead) (simp_all add: serverOfferLocked_def)
  next
    case 2 with so show ?thesis by (intro nosender) (simp_all add: serverOfferLocked_def)
  next
    case 3 with so show ?thesis by (intro deferred) (simp_all add: serverOfferLocked_def)
  next
    case 4 with so show ?thesis by (intro nochange) (simp_all add: serverOfferLocked_def)
  next
    case go
    have st: "P_SignalingState P (pionPC pc) = SignalingStateStable" using go(3) by (simp add: sigState_def)
    obtain r p where co: "P_CreateOffer P (pionPC pc) = (r, p)" by fastforce
    have sp: "P_SignalingState P p = SignalingStateStable" using jsepD(1) [OF J co] st by simp
    show ?thesis
    proof (cases r)
      case (Inl err)
      show ?thesis
        by (rule failed [where p = p and g = "lastOfferGeneration pc" and err = err, OF go(1,3,4)])
          (use so go co Inl sp in \<open>auto simp: serverOfferLocked_def serverOffer_fail_def\<close>)
    next
      case (Inr d)
      obtain e1 p1 where sl: "P_SetLocalDescription P d p = (e1, p1)" by fastforce
      have td: "sd_type d = SDPTypeOffer" using jsepD(2) [OF J] co Inr by blast
      show ?thesis
      proof (cases e1)
        case (Some err)
        have "P_SignalingState P p1 = SignalingStateStable" using jsepD(5) [OF J] sl Some sp by simp
        then show ?thesis
          by (intro failed [where p = p1 and g = "lastOfferGeneration pc" and err = err, OF go(1,3,4)])
            (use so go co Inr sl Some in \<open>auto simp: serverOfferLocked_def serverOffer_fail_def\<close>)
      next
        case None
        have hl: "P_SignalingState P p1 = SignalingStateHaveLocalOffer"
          using jsepD(7) [OF J _ td sp] sl None by simp
        show ?thesis
        proof (cases "P_Gathered P p1 \<and> P_LocalDescription P p1 \<noteq> None")
          case True
          then obtain ld where "P_LocalDescription P p1 = Some ld" "P_Gathered P p1" by blast
          then show ?thesis
            by (intro sent [where p = p1 and d = "sd_sdp ld", OF go(1,3,2,4) _ _ hl])
              (use so go co Inr sl None in
                \<open>auto simp: serverOfferLocked_def pc_send_def Let_def split: option.splits\<close>)
        next
          case False
          define err where "err = (if P_Gathered P p1 then werr ErrInvalidSDP else werr ErrPeerConnectionClosed)"
          show ?thesis
            by (rule failed [where p = p1 and g = "negotiationGeneration pc" and err = err, OF go(1,3,4)])
              (use so go co Inr sl None False hl in
                \<open>auto simp: serverOfferLocked_def serverOffer_fail_def err_def Let_def split: option.splits if_splits\<close>)
        qed
      qed
    qed
  qed
qed

subsection \<open>The gate invariant\<close>

text \<open>An outstanding server offer and a stored browser offer only exist in
  have-local-offer.\<close>

definition gate_inv :: "'p pion \<Rightarrow> 'p PeerConnection \<Rightarrow> bool" where
  "gate_inv P pc \<longleftrightarrow>
     (isNegotiating pc \<longrightarrow> sigState P pc = SignalingStateHaveLocalOffer) \<and>
     (pendingInboundOffer pc \<noteq> None \<longrightarrow>
        sigState P pc = SignalingStateHaveLocalOffer \<and> sd_type (the (pendingInboundOffer pc)) = SDPTypeOffer)"

text \<open>Before deferred work is flushed, the stored offer may also meet a stable connection.\<close>

definition flush_pre :: "'p pion \<Rightarrow> 'p PeerConnection \<Rightarrow> bool" where
  "flush_pre P pc \<longleftrightarrow>
     (isNegotiating pc \<longrightarrow> sigState P pc = SignalingStateHaveLocalOffer) \<and>
     (pendingInboundOffer pc \<noteq> None \<longrightarrow>
        (sigState P pc = SignalingStateHaveLocalOffer \<or> sigState P pc = SignalingStateStable) \<and>
        sd_type (the (pendingInboundOffer pc)) = SDPTypeOffer)"

lemma gate_flush_pre: "gate_inv P pc \<Longrightarrow> flush_pre P pc"
  by (auto simp: gate_inv_def flush_pre_def)

lemma serverOffer_gate:
  assumes J: "jsep P" and I: "gate_inv P pc" and so: "serverOfferLocked P pc = (e, pc')"
  shows "gate_inv P pc'"
  by (rule serverOffer_cases [OF J so]) (use I in \<open>auto simp: gate_inv_def sigState_def pc_defer_def\<close>)

lemma serverOffer_gate': "jsep P \<Longrightarrow> gate_inv P pc \<Longrightarrow> gate_inv P (snd (serverOfferLocked P pc))"
  by (metis serverOffer_gate prod.collapse)

lemma serverOffer_sent:
  assumes J: "jsep P" and so: "serverOfferLocked P pc = (e, pc')"
  shows "\<exists>ms. sentLog pc' = sentLog pc @ ms \<and> (ms = [] \<or> (\<exists>d. ms = [PcOffer (pc_participantID pc) d]))"
  by (rule serverOffer_cases [OF J so]) (auto simp: pc_defer_def)

lemma flushServerOffer_gate:
  "jsep P \<Longrightarrow> gate_inv P pc \<Longrightarrow> gate_inv P (flushServerOffer P pc)"
  by (auto simp: flushServerOffer_def serverOffer_gate' gate_inv_def [of P "pc\<lparr>pendingNegotiation := False\<rparr>"]
      gate_inv_def [of P pc] sigState_def)

lemma flushServerOffer_sent:
  assumes "jsep P"
  shows "\<exists>ms. sentLog (flushServerOffer P pc) = sentLog pc @ ms \<and>
    (ms = [] \<or> (\<exists>d. ms = [PcOffer (pc_participantID pc) d]))"
  using serverOffer_sent [OF assms, of pc "fst (serverOfferLocked P pc)" "snd (serverOfferLocked P pc)"]
  by (auto simp: flushServerOffer_def)

lemma deliver_sel [simp]:
  "pionPC (deliverAnswerLocked a pc) = pionPC pc" "isNegotiating (deliverAnswerLocked a pc) = isNegotiating pc"
  "pendingInboundOffer (deliverAnswerLocked a pc) = pendingInboundOffer pc"
  "pc_participantID (deliverAnswerLocked a pc) = pc_participantID pc"
  by (simp_all add: deliverAnswerLocked_def pc_send_def split: option.split)

lemma deliver_log:
  "sentLog (deliverAnswerLocked a pc) = sentLog pc @
     (if sendSignaling pc = None then [] else [PcAnswer (pc_participantID pc) (sd_sdp a)])"
  by (simp add: deliverAnswerLocked_def pc_send_def split: option.split)

text \<open>What one flush may send: the answer to the stored browser offer first, then at most one
  server offer.\<close>

definition flush_msgs :: "'p PeerConnection \<Rightarrow> pc_msg list \<Rightarrow> bool" where
  "flush_msgs pc ms \<longleftrightarrow>
     (\<exists>as os. ms = as @ os \<and>
        (as = [] \<or> pendingInboundOffer pc \<noteq> None \<and> (\<exists>d. as = [PcAnswer (pc_participantID pc) d])) \<and>
        (os = [] \<or> (\<exists>d. os = [PcOffer (pc_participantID pc) d])))"

lemma flushPending_effect:
  assumes J: "jsep P" and I: "flush_pre P pc"
  shows "gate_inv P (flushPendingLocked P pc)"
    and "\<exists>ms. sentLog (flushPendingLocked P pc) = sentLog pc @ ms \<and> flush_msgs pc ms"
proof -
  let ?pc1 = "pc\<lparr>pendingInboundOffer := None\<rparr>"
  have "gate_inv P (flushPendingLocked P pc) \<and>
    (\<exists>ms. sentLog (flushPendingLocked P pc) = sentLog pc @ ms \<and> flush_msgs pc ms)"
  proof (cases "pendingInboundOffer pc")
    case None
    then have eq: "flushPendingLocked P pc = flushServerOffer P ?pc1" by (simp add: flushPendingLocked_def)
    have "gate_inv P ?pc1" using I by (simp add: flush_pre_def gate_inv_def sigState_def)
    then have "gate_inv P (flushServerOffer P ?pc1)" by (rule flushServerOffer_gate [OF J])
    moreover obtain ms where "sentLog (flushServerOffer P ?pc1) = sentLog pc @ ms"
      "ms = [] \<or> (\<exists>d. ms = [PcOffer (pc_participantID pc) d])"
      using flushServerOffer_sent [OF J, of ?pc1] by auto
    moreover from this(2) have "flush_msgs pc ms" unfolding flush_msgs_def by (metis append_Nil)
    ultimately show ?thesis unfolding eq by blast
  next
    case (Some inb)
    show ?thesis
    proof (cases "sigState P pc = SignalingStateStable")
      case False
      then have eq: "flushPendingLocked P pc = ?pc1\<lparr>pendingInboundOffer := Some inb\<rparr>"
        using Some by (simp add: flushPendingLocked_def sigState_def)
      have "flush_msgs pc []" by (simp add: flush_msgs_def)
      moreover have "gate_inv P (?pc1\<lparr>pendingInboundOffer := Some inb\<rparr>)"
        using I Some False by (auto simp: flush_pre_def gate_inv_def sigState_def)
      ultimately show ?thesis unfolding eq by simp
    next
      case True
      have st1: "sigState P ?pc1 = SignalingStateStable" using True by (simp add: sigState_def)
      have ty: "sd_type inb = SDPTypeOffer" using I Some by (simp add: flush_pre_def)
      have nn: "\<not> isNegotiating pc" using I True by (auto simp: flush_pre_def)
      obtain res pc2 where ex: "answerExchangeLocked P inb ?pc1 = (res, pc2)" by fastforce
      note A = answerExchange_effect [OF J st1 ty ex] and S = same_gateD [OF answerExchange_effect(1) [OF J st1 ty ex]]
      have g2: "gate_inv P pc2" using nn S(4,6) by (simp add: gate_inv_def)
      show ?thesis
      proof (cases res)
        case (Inl err)
        then have eq: "flushPendingLocked P pc = pc2"
          using Some st1 ex by (simp add: flushPendingLocked_def)
        have "flush_msgs pc []" by (simp add: flush_msgs_def)
        then show ?thesis unfolding eq using g2 S(3) by (intro conjI exI [of _ "[]"]) simp_all
      next
        case (Inr ans)
        let ?pc3 = "deliverAnswerLocked ans pc2"
        have eq: "flushPendingLocked P pc = flushServerOffer P ?pc3"
          using Some st1 ex Inr by (simp add: flushPendingLocked_def)
        have "gate_inv P ?pc3" using g2 by (simp add: gate_inv_def sigState_def)
        then have g: "gate_inv P (flushServerOffer P ?pc3)" by (rule flushServerOffer_gate [OF J])
        obtain os where os: "sentLog (flushServerOffer P ?pc3) = sentLog ?pc3 @ os"
          "os = [] \<or> (\<exists>d. os = [PcOffer (pc_participantID ?pc3) d])"
          using flushServerOffer_sent [OF J, of ?pc3] by blast
        define as where "as = (if sendSignaling pc2 = None then [] else [PcAnswer (pc_participantID pc2) (sd_sdp ans)])"
        have "sentLog (flushServerOffer P ?pc3) = sentLog pc @ (as @ os)"
          using os(1) S(3) by (simp add: deliver_log as_def)
        moreover have "flush_msgs pc (as @ os)"
          unfolding flush_msgs_def using os(2) S(7) Some
          by (intro exI [of _ as] exI [of _ os]) (simp add: as_def)
        ultimately show ?thesis unfolding eq using g by blast
      qed
    qed
  qed
  then show "gate_inv P (flushPendingLocked P pc)"
    "\<exists>ms. sentLog (flushPendingLocked P pc) = sentLog pc @ ms \<and> flush_msgs pc ms" by blast+
qed

lemma answer_accepted:
  assumes J: "jsep P" and ty: "sd_type a = SDPTypeAnswer" and ok: "ProcessBrowserAnswer P a pc = (None, pc')"
  obtains pc1 where "same_gate pc pc1" and "sigState P pc1 = SignalingStateStable"
    and "pc' = flushPendingLocked P (pc1\<lparr>isNegotiating := False\<rparr>)"
    and "\<not> pc_dead pc" and "sigState P pc = SignalingStateHaveLocalOffer"
proof -
  have live: "\<not> pc_dead pc" "sigState P pc = SignalingStateHaveLocalOffer"
    using ok by (auto simp: ProcessBrowserAnswer_def split: if_splits)
  obtain e p where sr: "P_SetRemoteDescription P a (pionPC pc) = (e, p)" by fastforce
  have e: "e = None" using ok live sr by (auto simp: ProcessBrowserAnswer_def split: option.splits)
  have s: "P_SignalingState P p = SignalingStateStable"
    using jsepD(10) [OF J] sr e ty live(2) by (simp add: sigState_def)
  obtain p0 where fl: "PC_flushICECandidates P (pc\<lparr>pionPC := p\<rparr>) =
      (pc\<lparr>pionPC := p\<rparr>)\<lparr>pendingICECandidates := [], pionPC := p0\<rparr>" and s0: "P_SignalingState P p0 = SignalingStateStable"
    using flushICE_shape [OF J, of "pc\<lparr>pionPC := p\<rparr>"] s by auto
  let ?pc1 = "pc\<lparr>pendingICECandidates := [], pionPC := p0\<rparr>"
  show ?thesis
  proof (rule that [of ?pc1])
    show "same_gate pc ?pc1" by (rule same_gateI)
    show "sigState P ?pc1 = SignalingStateStable" using s0 by (simp add: sigState_def)
    show "pc' = flushPendingLocked P (?pc1\<lparr>isNegotiating := False\<rparr>)"
      using ok live sr e fl by (simp add: ProcessBrowserAnswer_def)
  qed (use live in simp_all)
qed

lemma answer_flush_pre:
  assumes I: "gate_inv P pc" and S: "same_gate pc pc1" and st: "sigState P pc1 = SignalingStateStable"
  shows "flush_pre P (pc1\<lparr>isNegotiating := False\<rparr>)"
  using I same_gateD(6) [OF S] st by (auto simp: flush_pre_def gate_inv_def sigState_def)

lemma answer_gate:
  assumes J: "jsep P" and I: "gate_inv P pc" and ty: "sd_type a = SDPTypeAnswer"
    and pa: "ProcessBrowserAnswer P a pc = (e, pc')"
  shows "gate_inv P pc'"
proof (cases e)
  case None
  then have ok: "ProcessBrowserAnswer P a pc = (None, pc')" using pa by simp
  obtain pc1 where "same_gate pc pc1" "sigState P pc1 = SignalingStateStable"
    "pc' = flushPendingLocked P (pc1\<lparr>isNegotiating := False\<rparr>)"
    by (rule answer_accepted [OF J ty ok])
  with flushPending_effect(1) [OF J answer_flush_pre [OF I]] show ?thesis by blast
next
  case (Some err)
  then show ?thesis
    using pa I jsepD(6) [OF J]
    by (auto simp: ProcessBrowserAnswer_def gate_inv_def sigState_def Let_def
        split: if_splits prod.splits option.splits)
qed

lemma offer_gate:
  assumes J: "jsep P" and I: "gate_inv P pc" and ty: "sd_type d = SDPTypeOffer"
    and po: "ProcessBrowserOffer P d pc = (res, pc')"
  shows "gate_inv P pc'"
proof -
  have eq: "pc' = snd (ProcessBrowserOffer P d pc)" using po by simp
  have "pc' = pc" if "pc_dead pc \<or> sigState P pc \<noteq> SignalingStateStable \<and>
      sigState P pc \<noteq> SignalingStateHaveLocalOffer"
    using that unfolding eq by (auto simp: ProcessBrowserOffer_def)
  moreover have "pc' = snd (answerExchangeLocked P d pc)"
    if "\<not> pc_dead pc" "sigState P pc = SignalingStateStable"
    using that unfolding eq by (simp add: ProcessBrowserOffer_def split: prod.split sum.split)
  moreover have "pc' = pc\<lparr>pendingInboundOffer := Some d\<rparr>"
    if "\<not> pc_dead pc" "sigState P pc = SignalingStateHaveLocalOffer"
    using that unfolding eq by (simp add: ProcessBrowserOffer_def)
  ultimately consider "pc' = pc"
    | (ex) "sigState P pc = SignalingStateStable" "pc' = snd (answerExchangeLocked P d pc)"
    | (store) "sigState P pc = SignalingStateHaveLocalOffer" "pc' = pc\<lparr>pendingInboundOffer := Some d\<rparr>"
    by blast
  then show ?thesis
  proof cases
    case ex
    note S = same_gateD [OF answerExchange_effect(1) [OF J ex(1) ty, of "fst (answerExchangeLocked P d pc)" pc']]
    have "isNegotiating pc' = isNegotiating pc" "pendingInboundOffer pc' = pendingInboundOffer pc"
      using S(4,6) ex(2) by simp_all
    with I ex(1) show ?thesis by (simp add: gate_inv_def)
  next
    case store
    then show ?thesis using I ty by (simp add: gate_inv_def sigState_def)
  qed (use I in simp)
qed

end
