(* ===== verification/Gate_Protocol.thy ===== *)
theory Gate_Protocol
  imports Negotiation Signaling_Message
begin

text \<open>
  The negotiation gate as a protocol: the steps of a connection, its invariant, and the
  guarantees of the gate. A concrete pion, a signaling state machine with scripted failures,
  is the instance at which the guarantees are evaluated.
\<close>

subsection \<open>Track changes do not disturb the gate\<close>

text \<open>Adding and removing tracks and setting a MID leave pion's signaling state alone.\<close>

definition tracks_quiet :: "'p pion \<Rightarrow> bool" where
  "tracks_quiet P \<longleftrightarrow>
     (\<forall>t i p. P_SignalingState P (snd (P_AddTrack P t i p)) = P_SignalingState P p) \<and>
     (\<forall>s p. P_SignalingState P (snd (P_RemoveTrack P s p)) = P_SignalingState P p) \<and>
     (\<forall>t i p. P_SignalingState P (snd (P_AddTransceiverFromTrack P t i p)) = P_SignalingState P p) \<and>
     (\<forall>t m p. P_SignalingState P (snd (P_SetMid P t m p)) = P_SignalingState P p)"

lemma tracks_quietD:
  assumes "tracks_quiet P"
  shows "P_AddTrack P t i p = (r, p') \<Longrightarrow> P_SignalingState P p' = P_SignalingState P p"
    and "P_RemoveTrack P s p = (e, p') \<Longrightarrow> P_SignalingState P p' = P_SignalingState P p"
    and "P_AddTransceiverFromTrack P t i p = (r, p') \<Longrightarrow> P_SignalingState P p' = P_SignalingState P p"
    and "P_SetMid P t m p = (e, p') \<Longrightarrow> P_SignalingState P p' = P_SignalingState P p"
  using assms unfolding tracks_quiet_def by (metis snd_conv)+

definition gate_view :: "'p PeerConnection \<Rightarrow> bool \<times> SessionDescription option \<times> pc_msg list" where
  "gate_view pc = (isNegotiating pc, pendingInboundOffer pc, sentLog pc)"

lemma gate_view_inv:
  "gate_view pc' = gate_view pc \<Longrightarrow> sigState P pc' = sigState P pc \<Longrightarrow> gate_inv P pc \<Longrightarrow> gate_inv P pc'"
  by (simp add: gate_view_def gate_inv_def)

lemma reserve_view:
  assumes "tracks_quiet P"
  shows "gate_view (reserveEgressMIDLocked P s pc) = gate_view pc \<and>
    sigState P (reserveEgressMIDLocked P s pc) = sigState P pc"
  using tracks_quietD(4) [OF assms]
  by (auto simp: reserveEgressMIDLocked_def gate_view_def sigState_def Let_def
      split: option.split prod.split)

lemma ensure_quiet:
  assumes Q: "tracks_quiet P" and e: "ensureEgressTransceiverLocked P slots s t i p = (r, p')"
  shows "P_SignalingState P p' = P_SignalingState P p"
  using e tracks_quietD(2,3) [OF Q]
  by (auto simp: ensureEgressTransceiverLocked_def split: option.splits if_splits prod.splits sum.splits)

lemma AddTrack_view:
  assumes Q: "tracks_quiet P"
  shows "gate_view (snd (PC_AddTrack P t pc)) = gate_view pc \<and>
    sigState P (snd (PC_AddTrack P t pc)) = sigState P pc"
proof (cases "\<exists>h. \<not> pc_dead pc \<and> wt_track t = Some (TrackLocal h)")
  case False
  then have "snd (PC_AddTrack P t pc) = pc"
    by (auto simp: PC_AddTrack_def split: option.splits pion_track.splits)
  then show ?thesis by simp
next
  case True
  then obtain h where h: "\<not> pc_dead pc" "wt_track t = Some (TrackLocal h)" by blast
  obtain r p where a: "P_AddTrack P h (wt_id t) (pionPC pc) = (r, p)" by fastforce
  note sp = tracks_quietD(1) [OF Q a]
  show ?thesis
  proof (cases r)
    case (Inl err)
    then show ?thesis using h a sp by (simp add: PC_AddTrack_def gate_view_def sigState_def)
  next
    case (Inr s)
    obtain r1 p1 where e: "ensureEgressTransceiverLocked P (publishSlots pc) s h (wt_id t) p = (r1, p1)"
      by fastforce
    note sp1 = ensure_quiet [OF Q e]
    show ?thesis
    proof (cases r1)
      case (Inl err)
      then show ?thesis using h a Inr e sp sp1 by (simp add: PC_AddTrack_def gate_view_def sigState_def)
    next
      case (Inr s1)
      let ?pc = "pc\<lparr>pionPC := p1, localTracks := mput (wt_id t) t (localTracks pc),
          negotiationGeneration := negotiationGeneration pc + 1\<rparr>"
      have "snd (PC_AddTrack P t pc) = reserveEgressMIDLocked P s1 ?pc"
        using h a \<open>r = Inr s\<close> e Inr by (simp add: PC_AddTrack_def)
      with reserve_view [OF Q, of s1 ?pc] sp sp1 show ?thesis by (simp add: gate_view_def sigState_def)
    qed
  qed
qed

lemma RemoveTrack_view:
  assumes Q: "tracks_quiet P"
  shows "gate_view (snd (PC_RemoveTrack P i pc)) = gate_view pc \<and>
    sigState P (snd (PC_RemoveTrack P i pc)) = sigState P pc"
  using tracks_quietD(2) [OF Q]
  by (auto simp: PC_RemoveTrack_def gate_view_def sigState_def split: option.split prod.split)

lemma ice_retry_view:
  assumes J: "jsep P"
  shows "gate_view (snd (ice_retry P c n e pc)) = gate_view pc \<and>
    sigState P (snd (ice_retry P c n e pc)) = sigState P pc"
proof (induction n arbitrary: e pc)
  case (Suc n)
  obtain p' where p': "snd (PC_AddICECandidate P c pc) = pc\<lparr>pionPC := p'\<rparr>"
    "P_SignalingState P p' = P_SignalingState P (pionPC pc)" using AddICE_shape [OF J] by blast
  then have v: "gate_view (snd (PC_AddICECandidate P c pc)) = gate_view pc"
    "sigState P (snd (PC_AddICECandidate P c pc)) = sigState P pc"
    by (simp_all add: gate_view_def sigState_def)
  show ?case
    using Suc.IH v by (cases "PC_AddICECandidate P c pc") (auto split: option.split)
qed simp

lemma retry_view:
  assumes J: "jsep P"
  shows "gate_view (snd (PC_AddICECandidateWithRetry P c pc)) = gate_view pc \<and>
    sigState P (snd (PC_AddICECandidateWithRetry P c pc)) = sigState P pc"
  using ice_retry_view [OF J, of c defaultICERetryAttempts None pc]
  by (auto simp: PC_AddICECandidateWithRetry_def gate_view_def sigState_def
      split: prod.splits option.splits)

subsection \<open>Steps\<close>

text \<open>The steps of one connection. Offers and answers of the browser carry the type the
  handler gives them. A failing \<open>Close\<close> is not a step: pion then leaves the connection half
  closed.\<close>

inductive gate_step :: "'p pion \<Rightarrow> 'p PeerConnection \<Rightarrow> 'p PeerConnection \<Rightarrow> bool" for P :: "'p pion" where
  request: "gate_step P pc (snd (RequestSubscriberOffer P pc))"
| needed: "gate_step P pc (handleNegotiationNeeded P pc)"
| browser_offer: "sd_type d = SDPTypeOffer \<Longrightarrow> gate_step P pc (snd (ProcessBrowserOffer P d pc))"
| browser_answer: "sd_type d = SDPTypeAnswer \<Longrightarrow> gate_step P pc (snd (ProcessBrowserAnswer P d pc))"
| flush: "gate_step P pc (FlushDeferredNegotiation P pc)"
| add_track: "gate_step P pc (snd (PC_AddTrack P t pc))"
| remove_track: "gate_step P pc (snd (PC_RemoveTrack P i pc))"
| candidate: "gate_step P pc (snd (PC_AddICECandidateWithRetry P c pc))"
| state: "gate_step P pc (PC_handleConnectionStateChange s pc)"
| sender: "gate_step P pc (PC_UpdateSignalingSender f pc)"
| close: "PC_Close P pc = (None, pc') \<Longrightarrow> gate_step P pc pc'"

lemma defer_gate: "gate_inv P (pc_defer pc) = gate_inv P pc"
  by (simp add: gate_inv_def pc_defer_def sigState_def)

lemma request_gate: "jsep P \<Longrightarrow> gate_inv P pc \<Longrightarrow> gate_inv P (snd (RequestSubscriberOffer P pc))"
  using serverOffer_gate' [of P pc]
  by (auto simp: RequestSubscriberOffer_def defer_gate split: prod.split option.split)

lemma needed_gate: "jsep P \<Longrightarrow> gate_inv P pc \<Longrightarrow> gate_inv P (handleNegotiationNeeded P pc)"
  using serverOffer_gate' [of P pc] by (simp add: handleNegotiationNeeded_def defer_gate)

lemma Close_gate:
  assumes "gate_inv P pc" and "PC_Close P pc = (None, pc')"
  shows "gate_inv P pc'"
  using assms by (auto simp: PC_Close_def gate_inv_def sigState_def Let_def split: if_splits prod.splits option.splits)

lemma gate_step_inv:
  assumes J: "jsep P" and Q: "tracks_quiet P" and s: "gate_step P pc pc'" and I: "gate_inv P pc"
  shows "gate_inv P pc'"
  using s I
proof (induction rule: gate_step.induct)
  case (browser_offer d pc)
  then show ?case using offer_gate [OF J] by (metis prod.collapse)
next
  case (browser_answer d pc)
  then show ?case using answer_gate [OF J] by (metis prod.collapse)
next
  case (flush pc)
  then show ?case
    using flushPending_effect(1) [OF J gate_flush_pre] by (simp add: FlushDeferredNegotiation_def)
next
  case (add_track pc t)
  then show ?case using AddTrack_view [OF Q, of t pc] gate_view_inv by blast
next
  case (remove_track pc i)
  then show ?case using RemoveTrack_view [OF Q, of i pc] gate_view_inv by blast
next
  case (candidate pc c)
  then show ?case using retry_view [OF J, of c pc] gate_view_inv by blast
next
  case (state pc s)
  then show ?case by (simp add: PC_handleConnectionStateChange_def gate_inv_def sigState_def)
next
  case (sender pc f)
  then show ?case by (simp add: PC_UpdateSignalingSender_def gate_inv_def sigState_def)
qed (use J request_gate needed_gate Close_gate in blast)+

definition gate_start :: "'p pion \<Rightarrow> 'p PeerConnection \<Rightarrow> bool" where
  "gate_start P pc \<longleftrightarrow> (\<exists>p slots i f. pc = NewPeerConnection p slots i f)"

interpretation gate: step_invariant "gate_start P" "gate_step P"
    "\<lambda>pc. jsep P \<and> tracks_quiet P \<longrightarrow> gate_inv P pc" for P
proof unfold_locales
  fix pc :: "'a PeerConnection"
  assume "gate_start P pc"
  then show "jsep P \<and> tracks_quiet P \<longrightarrow> gate_inv P pc"
    by (auto simp: gate_start_def NewPeerConnection_def gate_inv_def)
qed (blast intro: gate_step_inv)

subsection \<open>A concrete pion\<close>

text \<open>The signaling state, the descriptions and a script of failures: whether creating an answer
  fails, and whether the local description is missing after it has been set.\<close>

record demo_pion =
  dp_state :: SignalingState
  dp_local :: "SessionDescription option"
  dp_remote :: "SessionDescription option"
  dp_noAnswer :: bool
  dp_noLocal :: bool

definition demo_SetLocal :: "SessionDescription \<Rightarrow> demo_pion \<Rightarrow> gerror option \<times> demo_pion" where
  "demo_SetLocal d p =
     (let ld = (if dp_noLocal p then None else Some d) in
      if sd_type d = SDPTypeOffer \<and> dp_state p = SignalingStateStable
      then (None, p\<lparr>dp_state := SignalingStateHaveLocalOffer, dp_local := ld\<rparr>)
      else if sd_type d = SDPTypeAnswer \<and> dp_state p = SignalingStateHaveRemoteOffer
      then (None, p\<lparr>dp_state := SignalingStateStable, dp_local := ld\<rparr>)
      else (Some (Sent (OtherE ''InvalidModificationError'')), p))"

definition demo_SetRemote :: "SessionDescription \<Rightarrow> demo_pion \<Rightarrow> gerror option \<times> demo_pion" where
  "demo_SetRemote d p =
     (if sd_type d = SDPTypeOffer \<and> dp_state p = SignalingStateStable
      then (None, p\<lparr>dp_state := SignalingStateHaveRemoteOffer, dp_remote := Some d\<rparr>)
      else if sd_type d = SDPTypeAnswer \<and> dp_state p = SignalingStateHaveLocalOffer
      then (None, p\<lparr>dp_state := SignalingStateStable, dp_remote := Some d\<rparr>)
      else (Some (Sent (OtherE ''InvalidModificationError'')), p))"

definition demo_pion_ops :: "demo_pion pion" where
  "demo_pion_ops =
     \<lparr>P_SignalingState = dp_state,
      P_CreateOffer = (\<lambda>p. (Inr \<lparr>sd_type = SDPTypeOffer, sd_sdp = ''server-offer''\<rparr>, p)),
      P_CreateAnswer = (\<lambda>p. (if dp_noAnswer p then Inl (Sent (OtherE ''no codec''))
                             else Inr \<lparr>sd_type = SDPTypeAnswer, sd_sdp = ''server-answer''\<rparr>, p)),
      P_SetLocalDescription = demo_SetLocal, P_SetRemoteDescription = demo_SetRemote,
      P_LocalDescription = dp_local, P_RemoteDescription = dp_remote, P_Gathered = (\<lambda>_. True),
      P_AddICECandidate = (\<lambda>_ p. (None, p)),
      P_Close = (\<lambda>p. (None, p\<lparr>dp_state := SignalingStateClosed\<rparr>)),
      P_AddTrack = (\<lambda>t _ p. (Inr t, p)), P_RemoveTrack = (\<lambda>_ p. (None, p)),
      P_AddTransceiverFromTrack = (\<lambda>t _ p. (Inr t, p)), P_GetSenders = (\<lambda>_. []),
      P_SenderTrackID = (\<lambda>_ _. None), P_GetTransceivers = (\<lambda>_. [5]), P_Sender = (\<lambda>t _. t),
      P_Mid = (\<lambda>_ _. ''''), P_SetMid = (\<lambda>_ _ p. (None, p))\<rparr>"

definition demo_pc :: "bool \<Rightarrow> bool \<Rightarrow> demo_pion PeerConnection" where
  "demo_pc noAnswer noLocal = NewPeerConnection
     \<lparr>dp_state = SignalingStateStable, dp_local = None, dp_remote = None, dp_noAnswer = noAnswer,
      dp_noLocal = noLocal\<rparr> [] ''bob'' (Some (\<lambda>_. None))"

lemma demo_jsep: "jsep demo_pion_ops"
  by (auto simp: jsep_def demo_pion_ops_def demo_SetLocal_def demo_SetRemote_def Let_def split: if_splits)

lemma demo_quiet: "tracks_quiet demo_pion_ops"
  by (simp add: tracks_quiet_def demo_pion_ops_def)

definition demo_track :: WebRTCTrack where
  "demo_track = \<lparr>wt_domain = 0, wt_id = ''mic'', wt_kind = 0, wt_track = Some (TrackLocal 5),
     wt_codec = \<lparr>MimeType = ''audio/opus'', ClockRate = 48000, Channels = 2, SDPFmtpLine = ''''\<rparr>\<rparr>"

definition browser_sdp :: "SDPType \<Rightarrow> string \<Rightarrow> SessionDescription" where
  "browser_sdp t s = \<lparr>sd_type = t, sd_sdp = s\<rparr>"

text \<open>A pion on which every exchange works; on it a track has been added and the server's offer is
  out.\<close>

definition demo_ok_ops :: "demo_pion pion" where
  "demo_ok_ops = demo_pion_ops\<lparr>P_CreateAnswer := \<lambda>p. (Inr \<lparr>sd_type = SDPTypeAnswer, sd_sdp = ''answer''\<rparr>, p),
     P_LocalDescription := \<lambda>_. Some \<lparr>sd_type = SDPTypeOffer, sd_sdp = ''local''\<rparr>\<rparr>"

definition demo_offered :: "demo_pion PeerConnection" where
  "demo_offered = snd (RequestSubscriberOffer demo_ok_ops
     (snd (PC_AddTrack demo_ok_ops demo_track (demo_pc False False))))"

lemma demo_ok_jsep: "jsep demo_ok_ops"
  by (auto simp: demo_ok_ops_def jsep_def demo_pion_ops_def demo_SetLocal_def demo_SetRemote_def Let_def
      split: if_splits)

lemma demo_ok_quiet: "tracks_quiet demo_ok_ops"
  by (simp add: tracks_quiet_def demo_ok_ops_def demo_pion_ops_def)

lemmas demo_defs =
  demo_ok_ops_def demo_pion_ops_def demo_pc_def NewPeerConnection_def demo_track_def browser_sdp_def
  demo_SetLocal_def demo_SetRemote_def

lemma demo_offered_eq:
  "demo_offered =
     \<lparr>pionPC = \<lparr>dp_state = SignalingStateHaveLocalOffer,
        dp_local = Some \<lparr>sd_type = SDPTypeOffer, sd_sdp = ''server-offer''\<rparr>, dp_remote = None,
        dp_noAnswer = False, dp_noLocal = False\<rparr>,
      pc_state = PeerConnectionStateNew, localTracks = [(''mic'', demo_track)], remoteTracks = [],
      pc_participantID = ''bob'', sendSignaling = Some (\<lambda>_. None), sentLog = [PcOffer ''bob'' ''local''],
      isNegotiating = True, pendingNegotiation = False, pendingInboundOffer = None, negotiationsQueued = 0,
      nextEgressMID = 101, publishSlots = [], negotiationGeneration = 1, lastOfferGeneration = 1,
      pendingICECandidates = [], pc_cancelled = False\<rparr>"
  by (simp add: demo_offered_def demo_defs RequestSubscriberOffer_def PC_AddTrack_def
      ensureEgressTransceiverLocked_def transceiver_of_def reserveEgressMIDLocked_def pc_dead_def
      sigState_def serverOfferLocked_def pc_send_def egressMIDBase_def Let_def)

lemma demo_offered_steps: "(gate_step demo_ok_ops)\<^sup>*\<^sup>* (demo_pc False False) demo_offered"
  unfolding demo_offered_def
  by (meson gate_step.add_track gate_step.request rtranclp.rtrancl_refl rtranclp.rtrancl_into_rtrancl)

lemma demo_pc_start: "gate_start P (demo_pc a b)"
  unfolding gate_start_def demo_pc_def by blast

lemma demo_offered_live:
  "gate_inv demo_ok_ops demo_offered" "isNegotiating demo_offered" "\<not> pc_dead demo_offered"
  "sendSignaling demo_offered \<noteq> None" "pendingInboundOffer demo_offered = None"
  using gate.reachable_inv [OF demo_pc_start demo_offered_steps] demo_ok_jsep demo_ok_quiet
  by (simp_all add: demo_offered_eq pc_dead_def)

end
