(* ===== verification/Gate_Contracts.thy ===== *)
theory Gate_Contracts
  imports Gate_Protocol
begin

text \<open>
  The guarantees of the negotiation gate, of the egress MID partition and of the ICE
  candidate queue.
\<close>

subsection \<open>The invariant\<close>

text \<open>C23. In every reachable state of a connection, a server offer marked outstanding and a
  stored browser offer exist only while pion is in have-local-offer. pion is assumed to
  follow the JSEP signaling states and to keep them when tracks change.\<close>

theorem gate_invariant_reachable:
  assumes "jsep P" and "tracks_quiet P" and "gate_start P pc0" and "(gate_step P)\<^sup>*\<^sup>* pc0 pc"
  shows "(isNegotiating pc \<longrightarrow> sigState P pc = SignalingStateHaveLocalOffer) \<and>
    (pendingInboundOffer pc \<noteq> None \<longrightarrow> sigState P pc = SignalingStateHaveLocalOffer)"
  using gate.reachable_inv [OF assms(3,4)] assms(1,2) by (auto simp: gate_inv_def)

theorem gate_invariant_reachable_witness:
  "isNegotiating demo_offered \<and> sigState demo_ok_ops demo_offered = SignalingStateHaveLocalOffer"
  using gate_invariant_reachable [OF demo_ok_jsep demo_ok_quiet demo_pc_start demo_offered_steps]
    demo_offered_live(2) by blast

subsection \<open>One outstanding offer\<close>

lemma outstanding_not_stable:
  "gate_inv P pc \<Longrightarrow> isNegotiating pc \<Longrightarrow> sigState P pc = SignalingStateHaveLocalOffer"
  by (simp add: gate_inv_def)

lemma nothing_sent_aux:
  assumes "gate_inv P pc" and "isNegotiating pc" and "\<not> pc_dead pc" and "sendSignaling pc \<noteq> None"
  shows "RequestSubscriberOffer P pc = (False, pc_defer pc)"
  using assms by (auto simp: RequestSubscriberOffer_def)

text \<open>C24. While a server offer is outstanding nothing but the browser's answer can make the
  connection send anything: further triggers only arm the pending flag, and a browser offer
  is stored, replacing an older stored one, and reported as deferred, not as an error.\<close>

theorem nothing_sent_while_outstanding:
  assumes I: "gate_inv P pc" and n: "isNegotiating pc" and l: "\<not> pc_dead pc" and s: "sendSignaling pc \<noteq> None"
  shows "RequestSubscriberOffer P pc = (False, pc_defer pc) \<and>
    handleNegotiationNeeded P pc = pc_defer pc \<and>
    ProcessBrowserOffer P d pc = ((None, True, None), pc\<lparr>pendingInboundOffer := Some d\<rparr>) \<and>
    sentLog (FlushDeferredNegotiation P pc) = sentLog pc \<and> isNegotiating (FlushDeferredNegotiation P pc) \<and>
    sentLog (pc_defer pc) = sentLog pc \<and> isNegotiating (pc_defer pc) \<and> pendingNegotiation (pc_defer pc)"
proof -
  have h: "sigState P pc = SignalingStateHaveLocalOffer" by (rule outstanding_not_stable [OF I n])
  have h': "P_SignalingState P (pionPC pc) = SignalingStateHaveLocalOffer"
    using h by (simp add: sigState_def)
  have "sentLog (FlushDeferredNegotiation P pc) = sentLog pc \<and> isNegotiating (FlushDeferredNegotiation P pc)"
    using n l h' by (simp add: FlushDeferredNegotiation_def flushPendingLocked_def flushServerOffer_def
        sigState_def pc_dead_def Let_def split: option.split)
  then show ?thesis
    using n l s h
    by (auto simp: RequestSubscriberOffer_def handleNegotiationNeeded_def ProcessBrowserOffer_def pc_defer_def)
qed

theorem nothing_sent_while_outstanding_witness:
  "RequestSubscriberOffer demo_ok_ops demo_offered = (False, pc_defer demo_offered)"
  using nothing_sent_while_outstanding [OF demo_offered_live(1-4)] by blast

subsection \<open>Deferred work\<close>

text \<open>The exchange that answers a browser offer goes through when pion accepts the offer, creates
  and applies an answer, completes gathering and reports the local description.\<close>

definition exchange_works :: "'p pion \<Rightarrow> SessionDescription \<Rightarrow> bool" where
  "exchange_works P d \<longleftrightarrow>
     (\<forall>p. P_SignalingState P p = SignalingStateStable \<longrightarrow> fst (P_SetRemoteDescription P d p) = None) \<and>
     (\<forall>p. P_SignalingState P p = SignalingStateHaveRemoteOffer \<longrightarrow>
        (\<exists>a p1 p2 ld. P_CreateAnswer P p = (Inr a, p1) \<and> P_SetLocalDescription P a p1 = (None, p2) \<and>
           P_Gathered P p2 \<and> P_LocalDescription P p2 = Some ld))"

definition offer_works :: "'p pion \<Rightarrow> bool" where
  "offer_works P \<longleftrightarrow> (\<forall>p. P_SignalingState P p = SignalingStateStable \<longrightarrow>
     (\<exists>d p1 p2 ld. P_CreateOffer P p = (Inr d, p1) \<and> P_SetLocalDescription P d p1 = (None, p2) \<and>
        P_Gathered P p2 \<and> P_LocalDescription P p2 = Some ld))"

lemma exchange_ok:
  assumes J: "jsep P" and ty: "sd_type d = SDPTypeOffer" and st: "sigState P pc = SignalingStateStable"
    and ex: "exchange_works P d"
  obtains ans pc' where "answerExchangeLocked P d pc = (Inr ans, pc')"
proof -
  obtain p where sr: "P_SetRemoteDescription P d (pionPC pc) = (None, p)"
    using ex st unfolding exchange_works_def sigState_def by (metis prod.collapse)
  have hr: "P_SignalingState P p = SignalingStateHaveRemoteOffer"
    using jsepD(9) [OF J sr ty] st by (simp add: sigState_def)
  obtain p0 where fl: "PC_flushICECandidates P (pc\<lparr>pionPC := p\<rparr>) =
      (pc\<lparr>pionPC := p\<rparr>)\<lparr>pendingICECandidates := [], pionPC := p0\<rparr>"
    and s0: "P_SignalingState P p0 = SignalingStateHaveRemoteOffer"
    using flushICE_shape [OF J, of "pc\<lparr>pionPC := p\<rparr>"] hr by auto
  obtain a p1 p2 ld where "P_CreateAnswer P p0 = (Inr a, p1)" "P_SetLocalDescription P a p1 = (None, p2)"
    "P_Gathered P p2" "P_LocalDescription P p2 = Some ld"
    using ex s0 unfolding exchange_works_def by blast
  then have "answerExchangeLocked P d pc =
      (Inr ld, (pc\<lparr>pionPC := p\<rparr>)\<lparr>pendingICECandidates := [], pionPC := p2\<rparr>)"
    using sr fl by (simp add: answerExchangeLocked_def Let_def)
  then show ?thesis by (rule that)
qed

lemma demo_ok_exchange: "exchange_works demo_ok_ops (browser_sdp SDPTypeOffer s)"
  by (auto simp: exchange_works_def demo_defs Let_def)

lemma demo_ok_offers: "offer_works demo_ok_ops"
  by (auto simp: offer_works_def demo_defs Let_def)

text \<open>C25. A browser offer that arrives while the server's offer is outstanding is never lost
  and is answered first: once the browser has answered the server's offer, the stored offer
  is gone from the slot and its answer is the next message to the browser, before the one
  server offer that may follow. A newer browser offer takes the place of an older one. The
  exchange is assumed to go through in pion.\<close>

theorem deferred_offer_answered_first:
  assumes J: "jsep P" and I: "gate_inv P pc" and n: "isNegotiating pc" and l: "\<not> pc_dead pc"
    and s: "sendSignaling pc \<noteq> None"
    and ty: "sd_type d = SDPTypeOffer" and ta: "sd_type a = SDPTypeAnswer" and ex: "exchange_works P d"
    and po: "ProcessBrowserOffer P d (snd (ProcessBrowserOffer P older pc)) = (res, pc1)"
    and pa: "ProcessBrowserAnswer P a pc1 = (None, pc2)"
  shows "res = (None, True, None) \<and> pendingInboundOffer pc2 = None \<and>
    (\<exists>ans os. sentLog pc2 = sentLog pc @ PcAnswer (pc_participantID pc) ans # os \<and>
       (os = [] \<or> (\<exists>sdp. os = [PcOffer (pc_participantID pc) sdp])))"
proof -
  have h: "sigState P pc = SignalingStateHaveLocalOffer" by (rule outstanding_not_stable [OF I n])
  let ?po = "pc\<lparr>pendingInboundOffer := Some older\<rparr>"
  have o1: "snd (ProcessBrowserOffer P older pc) = ?po" using l h by (simp add: ProcessBrowserOffer_def)
  have pc1: "pc1 = pc\<lparr>pendingInboundOffer := Some d\<rparr>" and res: "res = (None, True, None)"
    using po l h by (auto simp: o1 ProcessBrowserOffer_def sigState_def pc_dead_def)
  obtain pcx where S: "same_gate pc1 pcx" and st: "sigState P pcx = SignalingStateStable"
    and pc2: "pc2 = flushPendingLocked P (pcx\<lparr>isNegotiating := False\<rparr>)"
    by (rule answer_accepted [OF J ta pa])
  note D = same_gateD [OF S]
  let ?y = "pcx\<lparr>isNegotiating := False, pendingInboundOffer := None\<rparr>"
  have sty: "sigState P ?y = SignalingStateStable" using st by (simp add: sigState_def)
  obtain ans pc3 where e: "answerExchangeLocked P d ?y = (Inr ans, pc3)"
    by (rule exchange_ok [OF J ty sty ex])
  note A = same_gateD [OF answerExchange_effect(1) [OF J sty ty e]]
  have inb: "pendingInboundOffer pcx = Some d" using D(6) pc1 by simp
  have eq: "pc2 = flushServerOffer P (deliverAnswerLocked ans pc3)"
    using inb sty e by (simp add: pc2 flushPendingLocked_def)
  obtain os where os: "sentLog pc2 = sentLog (deliverAnswerLocked ans pc3) @ os"
    "os = [] \<or> (\<exists>sdp. os = [PcOffer (pc_participantID (deliverAnswerLocked ans pc3)) sdp])"
    unfolding eq using flushServerOffer_sent [OF J, of "deliverAnswerLocked ans pc3"] by blast
  have same: "sendSignaling pc3 = sendSignaling pc" "sentLog pc3 = sentLog pc"
    "pc_participantID pc3 = pc_participantID pc"
    using A(2,3,7) D(2,3,7) by (simp_all add: pc1)
  have log: "sentLog pc2 = sentLog pc @ PcAnswer (pc_participantID pc) (sd_sdp ans) # os"
    using os(1) s by (simp add: deliver_log same)
  have "pendingInboundOffer pc2 = None"
  proof -
    have "pendingInboundOffer (deliverAnswerLocked ans pc3) = None" using A(6) by simp
    moreover have "pendingInboundOffer (flushServerOffer P x) = pendingInboundOffer x" for x
    proof (cases "serverOfferLocked P x")
      case (Pair e0 x')
      have "pendingInboundOffer x' = pendingInboundOffer x"
        by (rule serverOffer_cases [OF J Pair]) (auto simp: pc_defer_def)
      with Pair show ?thesis by (simp add: flushServerOffer_def)
    qed
    ultimately show ?thesis by (simp add: eq)
  qed
  with res log os(2) same(3) show ?thesis by auto
qed

theorem deferred_offer_answered_first_witness:
  "\<exists>pc1 pc2 ans os.
     ProcessBrowserOffer demo_ok_ops (browser_sdp SDPTypeOffer ''new'')
       (snd (ProcessBrowserOffer demo_ok_ops (browser_sdp SDPTypeOffer ''old'') demo_offered)) =
       ((None, True, None), pc1) \<and>
     ProcessBrowserAnswer demo_ok_ops (browser_sdp SDPTypeAnswer ''a'') pc1 = (None, pc2) \<and>
     sentLog pc2 = [PcOffer ''bob'' ''local'', PcAnswer ''bob'' ans] @ os"
proof -
  let ?P = demo_ok_ops and ?d = "browser_sdp SDPTypeOffer ''new''" and ?a = "browser_sdp SDPTypeAnswer ''a''"
  let ?x = "snd (ProcessBrowserOffer ?P (browser_sdp SDPTypeOffer ''old'') demo_offered)"
  let ?y = "demo_offered\<lparr>pendingInboundOffer := Some ?d\<rparr>"
  have po: "ProcessBrowserOffer ?P ?d ?x = ((None, True, None), ?y)"
    by (simp add: ProcessBrowserOffer_def demo_offered_eq demo_ok_ops_def demo_pion_ops_def sigState_def
        pc_dead_def)
  have "fst (ProcessBrowserAnswer ?P ?a ?y) = None"
    by (simp add: ProcessBrowserAnswer_def demo_offered_eq demo_defs sigState_def pc_dead_def Let_def)
  then have pa: "ProcessBrowserAnswer ?P ?a ?y = (None, snd (ProcessBrowserAnswer ?P ?a ?y))"
    by (metis prod.collapse)
  have "sd_type ?d = SDPTypeOffer" "sd_type ?a = SDPTypeAnswer" by (simp_all add: browser_sdp_def)
  from deferred_offer_answered_first [OF demo_ok_jsep demo_offered_live(1-4) this demo_ok_exchange po pa] po pa
  show ?thesis by (fastforce simp: demo_offered_eq)
qed

text \<open>Any number of triggers that arrive while the server's offer is outstanding is
  coalesced: they send nothing, and the browser's answer is followed by at most one further
  server offer.\<close>

theorem triggers_coalesce:
  assumes J: "jsep P" and I: "gate_inv P pc" and n: "isNegotiating pc" and l: "\<not> pc_dead pc"
    and s: "sendSignaling pc \<noteq> None" and none: "pendingInboundOffer pc = None"
    and ta: "sd_type a = SDPTypeAnswer"
    and many: "pc1 = ((\<lambda>x. snd (RequestSubscriberOffer P x)) ^^ k) pc"
    and pa: "ProcessBrowserAnswer P a pc1 = (None, pc2)"
  shows "sentLog pc1 = sentLog pc \<and> negotiationsQueued pc1 = negotiationsQueued pc + int k \<and>
    (\<exists>os. sentLog pc2 = sentLog pc @ os \<and> (os = [] \<or> (\<exists>sdp. os = [PcOffer (pc_participantID pc) sdp])))"
proof -
  have step: "((\<lambda>x. snd (RequestSubscriberOffer P x)) ^^ k) pc = (pc_defer ^^ k) pc \<and>
      gate_inv P ((pc_defer ^^ k) pc) \<and> isNegotiating ((pc_defer ^^ k) pc) \<and>
      \<not> pc_dead ((pc_defer ^^ k) pc) \<and> sendSignaling ((pc_defer ^^ k) pc) \<noteq> None \<and>
      sentLog ((pc_defer ^^ k) pc) = sentLog pc \<and> pendingInboundOffer ((pc_defer ^^ k) pc) = None \<and>
      pc_participantID ((pc_defer ^^ k) pc) = pc_participantID pc \<and>
      negotiationsQueued ((pc_defer ^^ k) pc) = negotiationsQueued pc + int k" for k
  proof (induction k)
    case (Suc k)
    let ?x = "(pc_defer ^^ k) pc"
    have "snd (RequestSubscriberOffer P ?x) = pc_defer ?x"
      using conjunct2 [OF Suc] by (auto simp: RequestSubscriberOffer_def)
    moreover have "gate_inv P (pc_defer ?x)" using Suc defer_gate by blast
    ultimately show ?case using Suc by (simp add: pc_defer_def [of ?x] pc_dead_def)
  qed (use I n l s none in simp)
  have pc1: "pc1 = (pc_defer ^^ k) pc" using many step by simp
  obtain pcx where S: "same_gate pc1 pcx" and st: "sigState P pcx = SignalingStateStable"
    and pc2: "pc2 = flushPendingLocked P (pcx\<lparr>isNegotiating := False\<rparr>)"
    by (rule answer_accepted [OF J ta pa])
  note D = same_gateD [OF S]
  have "pendingInboundOffer pcx = None" using D(6) step [of k] by (simp add: pc1)
  moreover obtain ms where "sentLog pc2 = sentLog pcx @ ms" "flush_msgs (pcx\<lparr>isNegotiating := False\<rparr>) ms"
    using flushPending_effect(2) [OF J answer_flush_pre [OF _ S st]] step [of k]
    by (auto simp: pc2 pc1)
  ultimately show ?thesis
    using D(3,7) step [of k] by (auto simp: pc1 flush_msgs_def)
qed

theorem triggers_coalesce_witness:
  "\<exists>pc2 os. ProcessBrowserAnswer demo_ok_ops (browser_sdp SDPTypeAnswer ''a'')
     (((\<lambda>x. snd (RequestSubscriberOffer demo_ok_ops x)) ^^ 1) demo_offered) = (None, pc2) \<and>
     sentLog pc2 = sentLog demo_offered @ os \<and> length os \<le> 1"
proof -
  let ?a = "browser_sdp SDPTypeAnswer ''a''"
  let ?x = "((\<lambda>x. snd (RequestSubscriberOffer demo_ok_ops x)) ^^ 1) demo_offered"
  have x: "?x = pc_defer demo_offered"
    using nothing_sent_aux [OF demo_offered_live(1-4)] by simp
  have "fst (ProcessBrowserAnswer demo_ok_ops ?a ?x) = None"
    unfolding x
    by (simp add: ProcessBrowserAnswer_def demo_offered_eq demo_defs sigState_def pc_dead_def pc_defer_def Let_def)
  then have pa: "ProcessBrowserAnswer demo_ok_ops ?a ?x = (None, snd (ProcessBrowserAnswer demo_ok_ops ?a ?x))"
    by (metis prod.collapse)
  have "sd_type ?a = SDPTypeAnswer" by (simp add: browser_sdp_def)
  from triggers_coalesce [OF demo_ok_jsep demo_offered_live this refl pa] pa show ?thesis by fastforce
qed

text \<open>A server offer is created only for a change: in a stable connection a request sends an
  offer exactly when a track was added or removed since the last created offer; after that
  offer the generations agree, so the same state is never offered twice. A request that
  sends nothing for lack of a change still reports success.\<close>

theorem offers_follow_changes:
  assumes J: "jsep P" and w: "offer_works P" and l: "\<not> pc_dead pc" and s: "sendSignaling pc \<noteq> None"
    and n: "\<not> isNegotiating pc" and st: "sigState P pc = SignalingStateStable"
    and r: "RequestSubscriberOffer P pc = (b, pc')"
  shows "b \<and> lastOfferGeneration pc' = negotiationGeneration pc' \<and>
    (if negotiationGeneration pc = lastOfferGeneration pc then sentLog pc' = sentLog pc
     else isNegotiating pc' \<and> (\<exists>d. sentLog pc' = sentLog pc @ [PcOffer (pc_participantID pc) d]))"
proof -
  obtain e x where so: "serverOfferLocked P pc = (e, x)" by fastforce
  have eN: "e = None"
  proof -
    obtain d p1 p2 ld where "P_CreateOffer P (pionPC pc) = (Inr d, p1)" "P_SetLocalDescription P d p1 = (None, p2)"
        "P_Gathered P p2" "P_LocalDescription P p2 = Some ld"
      using w st unfolding offer_works_def sigState_def by blast
    then show ?thesis using so l s st by (auto simp: serverOfferLocked_def Let_def split: if_splits)
  qed
  have rb: "b" "pc' = x" using r so eN l s n st by (auto simp: RequestSubscriberOffer_def)
  show ?thesis
    by (rule serverOffer_cases [OF J so]) (use rb eN l s st in auto)
qed

theorem offers_follow_changes_witness:
  "\<exists>pc'. RequestSubscriberOffer demo_ok_ops (demo_pc False False) = (True, pc') \<and> sentLog pc' = []"
proof -
  have live: "\<not> pc_dead (demo_pc False False)" "sendSignaling (demo_pc False False) \<noteq> None"
    "\<not> isNegotiating (demo_pc False False)" "sigState demo_ok_ops (demo_pc False False) = SignalingStateStable"
    by (simp_all add: demo_pc_def NewPeerConnection_def pc_dead_def sigState_def demo_ok_ops_def demo_pion_ops_def)
  obtain b pc' where r: "RequestSubscriberOffer demo_ok_ops (demo_pc False False) = (b, pc')" by fastforce
  have "negotiationGeneration (demo_pc False False) = lastOfferGeneration (demo_pc False False)"
    "sentLog (demo_pc False False) = []"
    by (simp_all add: demo_pc_def NewPeerConnection_def)
  with offers_follow_changes [OF demo_ok_jsep demo_ok_offers live r] r show ?thesis by auto
qed

subsection \<open>Failures inside an exchange\<close>

text \<open>C26. A browser offer can be rejected as unexpected through the gate itself: when pion accepts
  a browser offer but then cannot create the answer, the offer fails and pion stays in
  have-remote-offer; from then on every browser offer is rejected with \<open>ErrUnexpectedOffer\<close>
  and every server offer is only queued.\<close>

theorem failed_answer_wedges_gate:
  assumes J: "jsep P" and l: "\<not> pc_dead pc" and s: "sendSignaling pc \<noteq> None" and n: "\<not> isNegotiating pc"
    and st: "sigState P pc = SignalingStateStable" and ty: "sd_type d = SDPTypeOffer"
    and sr: "fst (P_SetRemoteDescription P d (pionPC pc)) = None"
    and ca: "\<forall>p. P_SignalingState P p = SignalingStateHaveRemoteOffer \<longrightarrow> isl (fst (P_CreateAnswer P p))"
    and po: "ProcessBrowserOffer P d pc = (res, pc1)"
  shows "snd (snd res) \<noteq> None \<and> sigState P pc1 = SignalingStateHaveRemoteOffer \<and>
    (\<exists>t. ProcessBrowserOffer P d' pc1 = ((None, False, Some (Wrapf t [werr ErrUnexpectedOffer])), pc1)) \<and>
    RequestSubscriberOffer P pc1 = (False, pc_defer pc1)"
proof -
  obtain p where sr': "P_SetRemoteDescription P d (pionPC pc) = (None, p)" using sr by (metis prod.collapse)
  have hr: "P_SignalingState P p = SignalingStateHaveRemoteOffer"
    using jsepD(9) [OF J sr' ty] st by (simp add: sigState_def)
  obtain p0 where fl: "PC_flushICECandidates P (pc\<lparr>pionPC := p\<rparr>) =
      (pc\<lparr>pionPC := p\<rparr>)\<lparr>pendingICECandidates := [], pionPC := p0\<rparr>"
    and s0: "P_SignalingState P p0 = SignalingStateHaveRemoteOffer"
    using flushICE_shape [OF J, of "pc\<lparr>pionPC := p\<rparr>"] hr by auto
  obtain err p1 where c: "P_CreateAnswer P p0 = (Inl err, p1)"
    using ca s0 by (metis isl_def prod.collapse)
  have s1: "P_SignalingState P p1 = SignalingStateHaveRemoteOffer" using jsepD(3) [OF J c] s0 by simp
  let ?pc1 = "(pc\<lparr>pionPC := p\<rparr>)\<lparr>pendingICECandidates := [], pionPC := p1\<rparr>"
  have ex: "answerExchangeLocked P d pc = (Inl err, ?pc1)"
    using sr' fl c by (simp add: answerExchangeLocked_def Let_def)
  have res: "res = (None, False, Some err)" "pc1 = ?pc1"
    using po l st ex by (auto simp: ProcessBrowserOffer_def)
  have "sigState P pc1 = SignalingStateHaveRemoteOffer" using s1 by (simp add: res sigState_def)
  moreover have "\<not> pc_dead pc1" "sendSignaling pc1 \<noteq> None" "\<not> isNegotiating pc1"
    using l s n by (simp_all add: res pc_dead_def)
  ultimately show ?thesis using res(1) by (auto simp: ProcessBrowserOffer_def RequestSubscriberOffer_def)
qed

definition demo_noanswer_ops :: "demo_pion pion" where
  "demo_noanswer_ops = demo_pion_ops\<lparr>P_CreateAnswer := \<lambda>p. (Inl (Sent (OtherE ''no codec'')), p)\<rparr>"

theorem failed_answer_wedges_gate_witness:
  "\<exists>res pc1 t. ProcessBrowserOffer demo_noanswer_ops (browser_sdp SDPTypeOffer ''a'') (demo_pc False False) = (res, pc1) \<and>
     ProcessBrowserOffer demo_noanswer_ops (browser_sdp SDPTypeOffer ''b'') pc1 =
       ((None, False, Some (Wrapf t [werr ErrUnexpectedOffer])), pc1)"
proof -
  let ?d = "browser_sdp SDPTypeOffer ''a''" and ?P = demo_noanswer_ops
  have J: "jsep ?P"
    by (auto simp: demo_noanswer_ops_def jsep_def demo_pion_ops_def demo_SetLocal_def demo_SetRemote_def Let_def
        split: if_splits)
  have live: "\<not> pc_dead (demo_pc False False)" "sendSignaling (demo_pc False False) \<noteq> None"
    "\<not> isNegotiating (demo_pc False False)" "sigState ?P (demo_pc False False) = SignalingStateStable"
    "sd_type ?d = SDPTypeOffer" "fst (P_SetRemoteDescription ?P ?d (pionPC (demo_pc False False))) = None"
    "\<forall>p. P_SignalingState ?P p = SignalingStateHaveRemoteOffer \<longrightarrow> isl (fst (P_CreateAnswer ?P p))"
    by (simp_all add: demo_noanswer_ops_def demo_defs pc_dead_def sigState_def)
  obtain res pc1 where po: "ProcessBrowserOffer ?P ?d (demo_pc False False) = (res, pc1)" by fastforce
  from failed_answer_wedges_gate [OF J live po, of "browser_sdp SDPTypeOffer ''b''"] po show ?thesis by blast
qed

text \<open>A server offer whose local description cannot be read back, after it was applied, is
  forgotten by the gate although it is live in pion: the connection is in have-local-offer
  while no offer is marked outstanding and nothing was sent to the browser.\<close>

theorem unread_offer_not_outstanding:
  assumes J: "jsep P" and l: "\<not> pc_dead pc" and s: "sendSignaling pc \<noteq> None"
    and st: "sigState P pc = SignalingStateStable" and g: "lastOfferGeneration pc \<noteq> negotiationGeneration pc"
    and co: "P_CreateOffer P (pionPC pc) = (Inr d, p)" and sl: "P_SetLocalDescription P d p = (None, p')"
    and ld: "P_Gathered P p'" "P_LocalDescription P p' = None"
    and so: "serverOfferLocked P pc = (e, pc')"
  shows "e = Some (werr ErrInvalidSDP) \<and> \<not> isNegotiating pc' \<and> pendingNegotiation pc' \<and>
    sigState P pc' = SignalingStateHaveLocalOffer \<and> sentLog pc' = sentLog pc"
proof -
  have "P_SignalingState P p = SignalingStateStable"
    using jsepD(1) [OF J co] st by (simp add: sigState_def)
  then have "P_SignalingState P p' = SignalingStateHaveLocalOffer"
    by (rule jsepD(7) [OF J sl jsepD(2) [OF J co]])
  then show ?thesis
    using so l s st g co sl ld
    by (auto simp: serverOfferLocked_def serverOffer_fail_def sigState_def Let_def)
qed

theorem unread_offer_not_outstanding_witness:
  "\<exists>pc'. serverOfferLocked demo_pion_ops ((demo_pc False True)\<lparr>negotiationGeneration := 1\<rparr>) =
      (Some (werr ErrInvalidSDP), pc') \<and> \<not> isNegotiating pc' \<and>
      sigState demo_pion_ops pc' = SignalingStateHaveLocalOffer"
proof -
  let ?pc = "(demo_pc False True)\<lparr>negotiationGeneration := 1\<rparr>" and ?P = demo_pion_ops
  let ?d = "\<lparr>sd_type = SDPTypeOffer, sd_sdp = ''server-offer''\<rparr>"
  have live: "\<not> pc_dead ?pc" "sendSignaling ?pc \<noteq> None" "sigState ?P ?pc = SignalingStateStable"
    "lastOfferGeneration ?pc \<noteq> negotiationGeneration ?pc"
    "P_CreateOffer ?P (pionPC ?pc) = (Inr ?d, pionPC ?pc)"
    "P_SetLocalDescription ?P ?d (pionPC ?pc) =
       (None, (pionPC ?pc)\<lparr>dp_state := SignalingStateHaveLocalOffer, dp_local := None\<rparr>)"
    "P_Gathered ?P ((pionPC ?pc)\<lparr>dp_state := SignalingStateHaveLocalOffer, dp_local := None\<rparr>)"
    "P_LocalDescription ?P ((pionPC ?pc)\<lparr>dp_state := SignalingStateHaveLocalOffer, dp_local := None\<rparr>) = None"
    by (simp_all add: demo_defs pc_dead_def sigState_def)
  obtain e pc' where so: "serverOfferLocked ?P ?pc = (e, pc')" by fastforce
  from unread_offer_not_outstanding [OF demo_jsep live so] so show ?thesis by blast
qed

subsection \<open>Egress MIDs\<close>



subsection \<open>ICE candidates\<close>

lemma ice_retry_dead:
  "pc_dead pc \<Longrightarrow> ice_retry P c (Suc n) e pc = (Some (werr ErrPeerConnectionClosed), pc)"
  by (induction n arbitrary: e) (simp_all add: PC_AddICECandidate_def)

text \<open>Trickled candidates are not lost and failures keep their code: before a remote
  description exists a candidate is appended to the queue, behind the earlier ones, without
  touching pion; accepting the answer hands the whole queue over, leaving it empty; and on a
  closed connection the bounded retry ends with an error that the protocol reports as
  \<open>ice_failed\<close>.\<close>

theorem ice_candidates_queued:
  "(if pc_dead pc
    then (\<exists>e. PC_AddICECandidateWithRetry P c pc = (Some e, pc) \<and>
            errorCodeFromError (Some e) = ErrorCodeICEFailed \<and> errors_Is e (WebrtcE ErrPeerConnectionClosed))
    else if P_RemoteDescription P (pionPC pc) = None
    then PC_AddICECandidateWithRetry P c pc =
           (None, pc\<lparr>pendingICECandidates := pendingICECandidates pc @ [c]\<rparr>)
    else fst (PC_AddICECandidateWithRetry P c pc) = None \<longleftrightarrow>
           fst (ice_retry P c 3 None pc) = None) \<and>
   pendingICECandidates (PC_flushICECandidates P pc) = []"
proof
  have "pendingICECandidates (fold (\<lambda>c x. snd (PC_AddICECandidate P c x)) cs x) = pendingICECandidates x" for cs x
    by (induction cs arbitrary: x) (auto simp: PC_AddICECandidate_def split: prod.split)
  then show "pendingICECandidates (PC_flushICECandidates P pc) = []" by (simp add: PC_flushICECandidates_def)
  show "if pc_dead pc
    then (\<exists>e. PC_AddICECandidateWithRetry P c pc = (Some e, pc) \<and>
            errorCodeFromError (Some e) = ErrorCodeICEFailed \<and> errors_Is e (WebrtcE ErrPeerConnectionClosed))
    else if P_RemoteDescription P (pionPC pc) = None
    then PC_AddICECandidateWithRetry P c pc =
           (None, pc\<lparr>pendingICECandidates := pendingICECandidates pc @ [c]\<rparr>)
    else fst (PC_AddICECandidateWithRetry P c pc) = None \<longleftrightarrow> fst (ice_retry P c 3 None pc) = None"
    using ice_retry_dead [of pc P c 2 None]
    by (simp add: PC_AddICECandidateWithRetry_def defaultICERetryAttempts_def errorCodeFromError_def
        numeral_3_eq_3 numeral_2_eq_2 split: prod.split option.split)
qed

end
