(* ===== verification/Forwarder.thy ===== *)
theory Forwarder
  imports Gate_Protocol
begin

text \<open>
  The track forwarder (\<open>internal/webrtc/track_forwarder.go\<close>): the fan-out of one publisher's RTP
  packets to the subscribers' peer connections through one bounded queue per subscriber, the
  swap of the publisher behind it, and its life cycle.

  Peer connections are shared by pointer: the operations take the store of connections and
  return it updated. \<open>mk\<close> stands for pion's \<open>NewTrackLocalStaticRTP\<close>. Each method is one step;
  the branches that undo work after losing a race with another goroutine do not arise. The
  writer goroutine of a subscriber is the step \<open>runWriter_step\<close>; joining it drains the queue.
\<close>

subsection \<open>State\<close>

definition DefaultQueueSize :: nat where "DefaultQueueSize = 64"

record rtp_packet =
  rtp_SequenceNumber :: "16 word"
  rtp_Timestamp :: "32 word"
  rtp_SSRC :: "32 word"
  rtp_PayloadType :: "8 word"
  rtp_Extensions :: "(8 word \<times> 8 word list) list"
  rtp_Payload :: "8 word list"

text \<open>\<open>e_out\<close> is what the writer has handed to the subscriber's transport.\<close>

record subscriberEntry =
  e_webTrack :: WebRTCTrack
  e_queue :: "rtp_packet list"
  e_cap :: nat
  e_dropped :: "64 word"
  e_out :: "rtp_packet list"

text \<open>The publisher is a pointer, \<open>f_pubPtr\<close>, to the track \<open>f_publisher\<close>; subscribers are keyed by
  the address of their peer connection.\<close>

record TrackForwarder =
  f_pubPtr :: nat
  f_publisher :: WebRTCTrack
  f_subscribers :: "(nat, subscriberEntry) gomap"
  f_running :: bool
  f_queueSize :: nat
  f_packetsReceived :: "64 word"
  f_packetsForwarded :: "64 word"
  f_packetsWritten :: "64 word"
  f_packetsDropped :: "64 word"
  f_bytesReceived :: "64 word"
  f_lastPacket :: "(16 word \<times> 32 word \<times> 32 word \<times> 8 word)"
  f_firSeq :: "32 word"

type_synonym 'p pc_store = "nat \<Rightarrow> 'p PeerConnection"
type_synonym local_track = "Codec \<Rightarrow> string \<Rightarrow> gerror + nat"

definition NewTrackForwarderWithConfig ::
  "(nat \<times> WebRTCTrack) option \<Rightarrow> int \<Rightarrow> gerror + TrackForwarder" where
  "NewTrackForwarderWithConfig publisher queueSize =
     (case publisher of
        None \<Rightarrow> Inl (Sent (OtherE ''publisher track is nil''))
      | Some (ptr, t) \<Rightarrow>
          Inr \<lparr>f_pubPtr = ptr, f_publisher = t, f_subscribers = [], f_running = False,
               f_queueSize = (if queueSize \<le> 0 then DefaultQueueSize else nat queueSize),
               f_packetsReceived = 0, f_packetsForwarded = 0, f_packetsWritten = 0,
               f_packetsDropped = 0, f_bytesReceived = 0, f_lastPacket = (0, 0, 0, 0), f_firSeq = 0\<rparr>)"

definition Forwarder_HasSubscriber :: "nat option \<Rightarrow> TrackForwarder \<Rightarrow> bool" where
  "Forwarder_HasSubscriber pc f \<longleftrightarrow>
     (case pc of None \<Rightarrow> False | Some a \<Rightarrow> mget (f_subscribers f) a \<noteq> None)"

definition Forwarder_SubscriberCount :: "TrackForwarder \<Rightarrow> nat" where
  "Forwarder_SubscriberCount f = length (f_subscribers f)"

definition Forwarder_DroppedCount :: "nat \<Rightarrow> TrackForwarder \<Rightarrow> 64 word" where
  "Forwarder_DroppedCount pc f =
     (case mget (f_subscribers f) pc of None \<Rightarrow> 0 | Some e \<Rightarrow> e_dropped e)"

definition Forwarder_QueueDepth :: "nat \<Rightarrow> TrackForwarder \<Rightarrow> nat" where
  "Forwarder_QueueDepth pc f =
     (case mget (f_subscribers f) pc of None \<Rightarrow> 0 | Some e \<Rightarrow> length (e_queue e))"

definition Forwarder_TotalDropped :: "TrackForwarder \<Rightarrow> 64 word" where
  "Forwarder_TotalDropped f = fold (\<lambda>(_, e) n. n + e_dropped e) (f_subscribers f) 0"

definition Forwarder_MaxQueueDepth :: "TrackForwarder \<Rightarrow> nat" where
  "Forwarder_MaxQueueDepth f =
     fold (\<lambda>(_, e) m. if length (e_queue e) > m then length (e_queue e) else m) (f_subscribers f) 0"

definition Forwarder_ResetDropped :: "TrackForwarder \<Rightarrow> TrackForwarder" where
  "Forwarder_ResetDropped f =
     f\<lparr>f_subscribers := map (\<lambda>(a, e). (a, e\<lparr>e_dropped := 0\<rparr>)) (f_subscribers f)\<rparr>"

definition NextFIRSequenceNumber :: "TrackForwarder \<Rightarrow> 8 word \<times> TrackForwarder" where
  "NextFIRSequenceNumber f =
     (let n = f_firSeq f + 1 in (ucast n, f\<lparr>f_firSeq := n\<rparr>))"

subsection \<open>Subscribers\<close>

text \<open>The codec of a subscriber's track: the publisher's, or one inferred from the kind while the
  publisher is a placeholder without a codec.\<close>

definition effective_codec :: "int \<Rightarrow> Codec \<Rightarrow> Codec" where
  "effective_codec kind codec =
     (if MimeType codec \<noteq> '''' then codec
      else if kind = 0
      then codec\<lparr>MimeType := ''audio/opus'',
             ClockRate := (if ClockRate codec = 0 then 48000 else ClockRate codec),
             Channels := (if Channels codec = 0 then 2 else Channels codec)\<rparr>
      else codec\<lparr>MimeType := ''video/VP8'',
             ClockRate := (if ClockRate codec = 0 then 90000 else ClockRate codec)\<rparr>)"

definition new_entry :: "WebRTCTrack \<Rightarrow> nat \<Rightarrow> subscriberEntry" where
  "new_entry t cap = \<lparr>e_webTrack = t, e_queue = [], e_cap = cap, e_dropped = 0, e_out = []\<rparr>"

definition Forwarder_AddSubscriber ::
  "'p pion \<Rightarrow> local_track \<Rightarrow> nat option \<Rightarrow> 'p pc_store \<Rightarrow> TrackForwarder \<Rightarrow>
     gerror option \<times> 'p pc_store \<times> TrackForwarder" where
  "Forwarder_AddSubscriber P mk pc pcs f =
     (case pc of
        None \<Rightarrow> (Some (Sent (OtherE ''peer connection is nil'')), pcs, f)
      | Some a \<Rightarrow>
          if pc_dead (pcs a) then (Some (werr ErrPeerConnectionClosed), pcs, f)
          else if mget (f_subscribers f) a \<noteq> None then (None, pcs, f)
          else
            let pub = f_publisher f;
                codec = effective_codec (wt_kind pub) (wt_codec pub)
            in (case mk codec (wt_id pub) of
                  Inl err \<Rightarrow> (Some err, pcs, f)
                | Inr handle \<Rightarrow>
                    let webTrack = \<lparr>wt_domain = wt_domain pub, wt_id = wt_id pub, wt_kind = wt_kind pub,
                          wt_track = Some (TrackLocal handle), wt_codec = codec\<rparr>
                    in (case PC_AddTrack P webTrack (pcs a) of
                          (Some err, pc') \<Rightarrow> (Some err, pcs(a := pc'), f)
                        | (None, pc') \<Rightarrow>
                            (None, pcs(a := pc'),
                             f\<lparr>f_subscribers := mput a (new_entry webTrack (f_queueSize f)) (f_subscribers f)\<rparr>))))"

text \<open>A cancelled writer writes what is left in its queue before it exits.\<close>

definition drain_writer :: "subscriberEntry \<Rightarrow> TrackForwarder \<Rightarrow> TrackForwarder" where
  "drain_writer e f = f\<lparr>f_packetsWritten := f_packetsWritten f + of_nat (length (e_queue e))\<rparr>"

definition Forwarder_RemoveSubscriber ::
  "'p pion \<Rightarrow> nat option \<Rightarrow> 'p pc_store \<Rightarrow> TrackForwarder \<Rightarrow> gerror option \<times> 'p pc_store \<times> TrackForwarder" where
  "Forwarder_RemoveSubscriber P pc pcs f =
     (case pc of
        None \<Rightarrow> (Some (Sent (OtherE ''peer connection is nil'')), pcs, f)
      | Some a \<Rightarrow>
          (case mget (f_subscribers f) a of
             None \<Rightarrow> (Some (werr WErrTrackNotFound), pcs, f)
           | Some entry \<Rightarrow>
               (None, pcs(a := snd (PC_RemoveTrack P (wt_id (f_publisher f)) (pcs a))),
                drain_writer entry (f\<lparr>f_subscribers := mdel a (f_subscribers f)\<rparr>))))"

subsection \<open>Packets\<close>

definition entry_offer :: "rtp_packet \<Rightarrow> subscriberEntry \<Rightarrow> bool \<times> subscriberEntry" where
  "entry_offer pkt e =
     (if length (e_queue e) \<ge> e_cap e then (False, e\<lparr>e_dropped := e_dropped e + 1\<rparr>)
      else (True, e\<lparr>e_queue := e_queue e @ [pkt]\<rparr>))"

definition entry_write :: "subscriberEntry \<Rightarrow> subscriberEntry" where
  "entry_write e =
     (case e_queue e of [] \<Rightarrow> e | p # ps \<Rightarrow> e\<lparr>e_queue := ps, e_out := e_out e @ [p]\<rparr>)"

text \<open>One round of the loop in \<open>WriteRTP\<close> for one subscriber.\<close>

definition write_one :: "rtp_packet \<Rightarrow> nat \<times> subscriberEntry \<Rightarrow> TrackForwarder \<Rightarrow> TrackForwarder" where
  "write_one pkt ae f =
     (case ae of (a, e) \<Rightarrow>
       (case entry_offer pkt e of (taken, e') \<Rightarrow>
         let f1 = f\<lparr>f_subscribers := map (\<lambda>(b, x). (b, if b = a then e' else x)) (f_subscribers f)\<rparr>
         in if taken
            then f1\<lparr>f_packetsForwarded := f_packetsForwarded f1 + 1,
                    f_lastPacket := (rtp_SequenceNumber pkt, rtp_Timestamp pkt, rtp_SSRC pkt, rtp_PayloadType pkt)\<rparr>
            else f1\<lparr>f_packetsDropped := f_packetsDropped f1 + 1\<rparr>))"

definition Forwarder_WriteRTP :: "rtp_packet option \<Rightarrow> TrackForwarder \<Rightarrow> gerror option \<times> TrackForwarder" where
  "Forwarder_WriteRTP pkt f =
     (case pkt of
        None \<Rightarrow> (Some (Sent (OtherE ''nil RTP packet'')), f)
      | Some p \<Rightarrow> (None, fold (write_one p) (f_subscribers f) f))"

definition runWriter_step :: "nat \<Rightarrow> TrackForwarder \<Rightarrow> TrackForwarder" where
  "runWriter_step a f =
     (case mget (f_subscribers f) a of
        None \<Rightarrow> f
      | Some e \<Rightarrow>
          if e_queue e = [] then f
          else f\<lparr>f_subscribers := map (\<lambda>(b, x). (b, if b = a then entry_write x else x)) (f_subscribers f),
                 f_packetsWritten := f_packetsWritten f + 1\<rparr>)"

text \<open>One iteration of the read loop: a read error ends it, an undecodable packet (\<open>Inr (n, None)\<close>)
  is skipped, a packet of \<open>n\<close> bytes is counted and forwarded.\<close>

definition run_step :: "gerror + nat \<times> rtp_packet option \<Rightarrow> TrackForwarder \<Rightarrow> TrackForwarder" where
  "run_step res f =
     (if \<not> f_running f then f
      else (case res of
              Inl err \<Rightarrow> f\<lparr>f_running := False\<rparr>
            | Inr (n, None) \<Rightarrow> f
            | Inr (n, Some pkt) \<Rightarrow>
                snd (Forwarder_WriteRTP (Some pkt)
                  (f\<lparr>f_packetsReceived := f_packetsReceived f + 1,
                     f_bytesReceived := f_bytesReceived f + of_nat n\<rparr>))))"

subsection \<open>Life cycle\<close>

definition Forwarder_Start :: "TrackForwarder \<Rightarrow> gerror option \<times> TrackForwarder" where
  "Forwarder_Start f =
     (if f_running f then (None, f)
      else if \<not> WebRTCTrack_IsRemote (f_publisher f) then (None, f\<lparr>f_running := False\<rparr>)
      else (None, f\<lparr>f_running := True\<rparr>))"

definition Forwarder_Stop ::
  "'p pion \<Rightarrow> 'p pc_store \<Rightarrow> TrackForwarder \<Rightarrow> gerror option \<times> 'p pc_store \<times> TrackForwarder" where
  "Forwarder_Stop P pcs f =
     (let subs = f_subscribers f;
          f1 = fold (\<lambda>(_, e). drain_writer e) subs (f\<lparr>f_running := False, f_subscribers := []\<rparr>);
          trackID = wt_id (f_publisher f);
          pcs1 = fold (\<lambda>(a, _) s. s(a := snd (PC_RemoveTrack P trackID (s a)))) subs pcs
      in (None, pcs1, f1))"

definition reconcileSubscriber ::
  "'p pion \<Rightarrow> local_track \<Rightarrow> string \<Rightarrow> WebRTCTrack \<Rightarrow> nat \<times> subscriberEntry \<Rightarrow>
     'p pc_store \<times> TrackForwarder \<Rightarrow> 'p pc_store \<times> TrackForwarder" where
  "reconcileSubscriber P mk trackID publisher old st =
     (case old of (a, e) \<Rightarrow> case st of (pcs, f) \<Rightarrow>
       let f1 = drain_writer e f;
           f2 = f1\<lparr>f_subscribers := mdel a (f_subscribers f1)\<rparr>
       in (case mk (wt_codec publisher) trackID of
             Inl err \<Rightarrow> (pcs, f2)
           | Inr handle \<Rightarrow>
               let newWebTrack = \<lparr>wt_domain = wt_domain publisher, wt_id = trackID, wt_kind = wt_kind publisher,
                     wt_track = Some (TrackLocal handle), wt_codec = wt_codec publisher\<rparr>
               in (case PC_SwapEgressTrack P trackID newWebTrack (pcs a) of
                     ((_, Some err), pc') \<Rightarrow> (pcs(a := pc'), f2)
                   | ((_, None), pc') \<Rightarrow>
                       (pcs(a := pc'),
                        f2\<lparr>f_subscribers := mput a (new_entry newWebTrack (f_queueSize f2)) (f_subscribers f2)\<rparr>))))"

definition needs_reconcile :: "string \<Rightarrow> nat \<times> subscriberEntry \<Rightarrow> bool" where
  "needs_reconcile mime s \<longleftrightarrow> MimeType (wt_codec (e_webTrack (snd s))) \<noteq> mime"

definition Forwarder_UpdatePublisher ::
  "'p pion \<Rightarrow> local_track \<Rightarrow> (nat \<times> WebRTCTrack) option \<Rightarrow> 'p pc_store \<Rightarrow> TrackForwarder \<Rightarrow>
     gerror option \<times> 'p pc_store \<times> TrackForwarder" where
  "Forwarder_UpdatePublisher P mk publisher pcs f =
     (case publisher of
        None \<Rightarrow> (Some (werr ErrTrackNotReady), pcs, f)
      | Some (ptr, pub) \<Rightarrow>
          if f_pubPtr f = ptr then (None, pcs, f)
          else
            let subs = f_subscribers f;
                isRemoteNew = WebRTCTrack_IsRemote pub;
                realMime = (if isRemoteNew then MimeType (wt_codec pub) else '''');
                f1 = f\<lparr>f_pubPtr := ptr, f_publisher := pub\<rparr>;
                (pcs1, f2) =
                  (if isRemoteNew \<and> realMime \<noteq> ''''
                   then fold (reconcileSubscriber P mk (wt_id pub) pub) (filter (needs_reconcile realMime) subs)
                          (pcs, f1)
                   else (pcs, f1))
            in (None, pcs1, f2\<lparr>f_running := isRemoteNew\<rparr>))"

text \<open>The number of subscribers that the codec check would report.\<close>

definition codec_mismatches :: "string \<Rightarrow> bool \<Rightarrow> TrackForwarder \<Rightarrow> nat" where
  "codec_mismatches realMime authoritative f =
     (if \<not> authoritative \<or> realMime = '''' then 0
      else length (filter (needs_reconcile realMime) (f_subscribers f)))"

end
