(* ===== verification/Forwarder_Contracts.thy ===== *)
theory Forwarder_Contracts
  imports Forwarder
begin

text \<open>
  The guarantees of the forwarder: isolation of the subscribers from each other, bounded
  first-in first-out queues, agreement of the subscribers' codecs with an authoritative
  publisher, and the life cycle.
\<close>

subsection \<open>Invariant\<close>

definition fwd_inv :: "TrackForwarder \<Rightarrow> bool" where
  "fwd_inv f \<longleftrightarrow> wf_map (f_subscribers f) \<and> 0 < f_queueSize f \<and>
     (\<forall>(a, e) \<in> set (f_subscribers f). e_cap e = f_queueSize f \<and> length (e_queue e) \<le> e_cap e) \<and>
     (f_running f \<longrightarrow> WebRTCTrack_IsRemote (f_publisher f))"

lemma fwd_invD:
  assumes "fwd_inv f"
  shows "wf_map (f_subscribers f)" "0 < f_queueSize f"
    "(a, e) \<in> set (f_subscribers f) \<Longrightarrow> e_cap e = f_queueSize f \<and> length (e_queue e) \<le> e_cap e"
    "f_running f \<Longrightarrow> WebRTCTrack_IsRemote (f_publisher f)"
  using assms by (auto simp: fwd_inv_def)

lemma fwd_invI:
  assumes "wf_map (f_subscribers f)" "0 < f_queueSize f"
    and "\<And>a e. (a, e) \<in> set (f_subscribers f) \<Longrightarrow> e_cap e = f_queueSize f \<and> length (e_queue e) \<le> f_queueSize f"
    and "f_running f \<Longrightarrow> WebRTCTrack_IsRemote (f_publisher f)"
  shows "fwd_inv f"
  using assms by (auto simp: fwd_inv_def)

subsection \<open>Fan-out\<close>

lemma entry_offer_sel [simp]:
  "e_cap (snd (entry_offer p e)) = e_cap e" "e_webTrack (snd (entry_offer p e)) = e_webTrack e"
  "e_out (snd (entry_offer p e)) = e_out e"
  by (simp_all add: entry_offer_def)

lemma map_key_set:
  assumes "wf_map (ys @ (a, e) # xs)"
  shows "map (\<lambda>(b, x). (b, if b = a then e' else x)) (ys @ (a, e) # xs) = ys @ (a, e') # xs"
proof -
  have "map (\<lambda>(b, x). (b, if b = a then e' else x)) zs = zs" if "a \<notin> fst ` set zs" for zs
    using that by (induction zs) auto
  with assms show ?thesis by auto
qed

lemma write_one_effect:
  assumes "f_subscribers f = ys @ (a, e) # xs" and "wf_map (ys @ (a, e) # xs)"
  shows "f_subscribers (write_one p (a, e) f) = ys @ (a, snd (entry_offer p e)) # xs"
    and "f_packetsForwarded (write_one p (a, e) f) =
      f_packetsForwarded f + (if fst (entry_offer p e) then 1 else 0)"
    and "f_packetsDropped (write_one p (a, e) f) =
      f_packetsDropped f + (if fst (entry_offer p e) then 0 else 1)"
    and "f_publisher (write_one p (a, e) f) = f_publisher f" "f_running (write_one p (a, e) f) = f_running f"
      "f_queueSize (write_one p (a, e) f) = f_queueSize f" "f_pubPtr (write_one p (a, e) f) = f_pubPtr f"
  using map_key_set [OF assms(2)]
  by (simp_all add: write_one_def assms(1) Let_def case_prod_beta)

lemma write_fold_effect:
  assumes "f_subscribers f = ys @ xs" and "wf_map (ys @ xs)"
  shows "f_subscribers (fold (write_one p) xs f) = ys @ map (\<lambda>(a, e). (a, snd (entry_offer p e))) xs \<and>
    f_packetsForwarded (fold (write_one p) xs f) + f_packetsDropped (fold (write_one p) xs f) =
      f_packetsForwarded f + f_packetsDropped f + of_nat (length xs) \<and>
    f_publisher (fold (write_one p) xs f) = f_publisher f \<and> f_running (fold (write_one p) xs f) = f_running f \<and>
    f_queueSize (fold (write_one p) xs f) = f_queueSize f"
  using assms
proof (induction xs arbitrary: f ys)
  case (Cons x xs)
  obtain a e where x: "x = (a, e)" by fastforce
  let ?e = "snd (entry_offer p e)" and ?f = "write_one p (a, e) f"
  note W = write_one_effect [of f ys a e xs p, OF Cons.prems(1) [unfolded x] Cons.prems(2) [unfolded x]]
  have "f_subscribers ?f = (ys @ [(a, ?e)]) @ xs" "wf_map ((ys @ [(a, ?e)]) @ xs)"
    using W(1) Cons.prems(2) x by simp_all
  from Cons.IH [OF this] W show ?case by (simp add: x)
qed simp

lemma WriteRTP_effect:
  assumes "wf_map (f_subscribers f)" and "Forwarder_WriteRTP (Some p) f = (err, f')"
  shows "err = None" "f_subscribers f' = map (\<lambda>(a, e). (a, snd (entry_offer p e))) (f_subscribers f)"
    "f_packetsForwarded f' + f_packetsDropped f' =
       f_packetsForwarded f + f_packetsDropped f + of_nat (length (f_subscribers f))"
    "f_publisher f' = f_publisher f" "f_running f' = f_running f" "f_queueSize f' = f_queueSize f"
  using write_fold_effect [of f "[]" "f_subscribers f" p] assms by (auto simp: Forwarder_WriteRTP_def)

lemma mget_map_entries:
  "mget (map (\<lambda>(a, e). (a, g e)) m) k = map_option g (mget m k)"
  by (induction m) auto


subsection \<open>An example forwarder\<close>

definition demo_packet :: "16 word \<Rightarrow> rtp_packet" where
  "demo_packet n = \<lparr>rtp_SequenceNumber = n, rtp_Timestamp = 0, rtp_SSRC = 7, rtp_PayloadType = 111,
     rtp_Extensions = [], rtp_Payload = [1, 2]\<rparr>"

definition demo_remote :: "string \<Rightarrow> WebRTCTrack" where
  "demo_remote mime = \<lparr>wt_domain = 0, wt_id = ''mic'', wt_kind = 0, wt_track = Some (TrackRemote 7),
     wt_codec = \<lparr>MimeType = mime, ClockRate = 48000, Channels = 2, SDPFmtpLine = ''''\<rparr>\<rparr>"

text \<open>One slow subscriber, its queue of one packet full, and one with room.\<close>

definition demo_fwd :: TrackForwarder where
  "demo_fwd = \<lparr>f_pubPtr = 0, f_publisher = demo_track,
     f_subscribers = [(1, (new_entry demo_track 1)\<lparr>e_queue := [demo_packet 1]\<rparr>), (2, new_entry demo_track 1)],
     f_running = False, f_queueSize = 1, f_packetsReceived = 0, f_packetsForwarded = 0, f_packetsWritten = 0,
     f_packetsDropped = 0, f_bytesReceived = 0, f_lastPacket = (0, 0, 0, 0), f_firSeq = 0\<rparr>"

lemma demo_fwd_inv: "fwd_inv demo_fwd"
  by (simp add: fwd_inv_def demo_fwd_def new_entry_def)


subsection \<open>Queues\<close>

interpretation entry: bounded_buffer e_queue e_out e_cap entry_offer entry_write
  by unfold_locales (auto simp: entry_offer_def entry_write_def split: if_splits list.split)

text \<open>C30. Delivery to one subscriber is in order and bounded: for every interleaving of offered
  packets and writer rounds, what has been written to the transport followed by what is
  still queued is exactly the sequence of packets that were not dropped, and the queue never
  exceeds its capacity.\<close>

theorem subscriber_queue_fifo:
  assumes "entry.drive es (new_entry t cap) = (taken, e)"
  shows "e_out e @ e_queue e = taken \<and> length (e_queue e) \<le> cap \<and>
    length taken \<le> length (filter (\<lambda>x. x \<noteq> None) es)"
  using entry.drive_fifo [OF _ assms] by (simp add: new_entry_def)

theorem subscriber_queue_fifo_witness:
  "\<exists>e. entry.drive [Some (demo_packet 1), Some (demo_packet 2), None, Some (demo_packet 3)]
      (new_entry demo_track 1) = ([demo_packet 1, demo_packet 3], e) \<and>
    e_out e @ e_queue e = [demo_packet 1, demo_packet 3]"
proof -
  let ?es = "[Some (demo_packet 1), Some (demo_packet 2), None, Some (demo_packet 3)]"
  have "entry.drive ?es (new_entry demo_track 1) =
      ([demo_packet 1, demo_packet 3],
       (new_entry demo_track 1)\<lparr>e_dropped := 1, e_queue := [demo_packet 3], e_out := [demo_packet 1]\<rparr>)"
    by (simp add: new_entry_def entry_offer_def entry_write_def)
  with subscriber_queue_fifo [OF this] show ?thesis by blast
qed

subsection \<open>Swapping the publisher\<close>

text \<open>What reconciling one subscriber does to the table: the subscriber is dropped or gets a fresh
  track with the publisher's codec; the others keep theirs.\<close>

definition reconciled :: "WebRTCTrack \<Rightarrow> nat \<Rightarrow> TrackForwarder \<Rightarrow> TrackForwarder \<Rightarrow> bool" where
  "reconciled pub a f f' \<longleftrightarrow>
     (wf_map (f_subscribers f) \<longrightarrow> wf_map (f_subscribers f')) \<and> f_queueSize f' = f_queueSize f \<and>
     f_publisher f' = f_publisher f \<and> f_pubPtr f' = f_pubPtr f \<and>
     (\<forall>b. b \<noteq> a \<longrightarrow> mget (f_subscribers f') b = mget (f_subscribers f) b) \<and>
     (\<forall>e. mget (f_subscribers f') a = Some e \<longrightarrow>
        wt_codec (e_webTrack e) = wt_codec pub \<and> e_cap e = f_queueSize f \<and> e_queue e = [])"

lemma drain_writer_sel [simp]:
  "f_subscribers (drain_writer e f) = f_subscribers f" "f_queueSize (drain_writer e f) = f_queueSize f"
  "f_publisher (drain_writer e f) = f_publisher f" "f_pubPtr (drain_writer e f) = f_pubPtr f"
  "f_running (drain_writer e f) = f_running f"
  by (simp_all add: drain_writer_def)

lemma reconcileSubscriber_effect:
  "reconciled pub a f (snd (reconcileSubscriber P mk i pub (a, e) (pcs, f)))"
  by (auto simp: reconcileSubscriber_def reconciled_def new_entry_def Let_def
      split: sum.split prod.split option.split)

lemma reconcile_fold:
  assumes "wf_map (f_subscribers f)" and "distinct (map fst xs)"
  shows "let f' = snd (fold (reconcileSubscriber P mk i pub) xs (pcs, f)) in
    wf_map (f_subscribers f') \<and> f_queueSize f' = f_queueSize f \<and> f_publisher f' = f_publisher f \<and>
    f_pubPtr f' = f_pubPtr f \<and>
    (\<forall>b. b \<notin> fst ` set xs \<longrightarrow> mget (f_subscribers f') b = mget (f_subscribers f) b) \<and>
    (\<forall>b e. b \<in> fst ` set xs \<longrightarrow> mget (f_subscribers f') b = Some e \<longrightarrow>
       wt_codec (e_webTrack e) = wt_codec pub \<and> e_cap e = f_queueSize f \<and> e_queue e = [])"
  using assms
proof (induction xs arbitrary: pcs f)
  case (Cons x xs)
  obtain a e where x: "x = (a, e)" by fastforce
  obtain pcs1 f1 where r: "reconcileSubscriber P mk i pub (a, e) (pcs, f) = (pcs1, f1)" by fastforce
  have R: "reconciled pub a f f1" using reconcileSubscriber_effect [of pub a f P mk i e pcs] r by simp
  then have "wf_map (f_subscribers f1)" using Cons.prems(1) by (simp add: reconciled_def)
  from Cons.IH [OF this, of pcs1] Cons.prems(2) R show ?case
    by (auto simp: Let_def x r reconciled_def)
qed simp



subsection \<open>Subscribing and life cycle\<close>

lemma AddSubscriber_cases:
  assumes "Forwarder_AddSubscriber P mk (Some a) pcs f = (err, pcs', f')"
  shows "(f' = f \<and> (err = None \<longrightarrow> pcs' = pcs \<and> Forwarder_HasSubscriber (Some a) f)) \<or>
    (\<exists>t. err = None \<and> mget (f_subscribers f) a = None \<and>
       wt_codec t = effective_codec (wt_kind (f_publisher f)) (wt_codec (f_publisher f)) \<and>
       f' = f\<lparr>f_subscribers := mput a (new_entry t (f_queueSize f)) (f_subscribers f)\<rparr>)"
  using assms
  by (auto simp: Forwarder_AddSubscriber_def Let_def Forwarder_HasSubscriber_def
      split: if_splits sum.splits prod.splits option.splits)
    (rule exI, rule conjI [rotated], rule refl, simp)

lemma AddSubscriber_inv:
  assumes I: "fwd_inv f" and a: "Forwarder_AddSubscriber P mk (Some a) pcs f = (err, pcs', f')"
  shows "fwd_inv f'"
proof -
  from AddSubscriber_cases [OF a] consider "f' = f"
    | t where "f' = f\<lparr>f_subscribers := mput a (new_entry t (f_queueSize f)) (f_subscribers f)\<rparr>" by blast
  then show ?thesis
  proof cases
    case 2
    have wf: "wf_map (mput a (new_entry t (f_queueSize f)) (f_subscribers f))"
      using fwd_invD(1) [OF I] by (rule wf_map_mput)
    have "e_cap e = f_queueSize f \<and> length (e_queue e) \<le> f_queueSize f"
      if "(b, e) \<in> set (mput a (new_entry t (f_queueSize f)) (f_subscribers f))" for b e
      using that fwd_invD(3) [OF I, of b e] mget_entry [OF wf] mget_entry [OF fwd_invD(1) [OF I]]
      by (auto simp: new_entry_def split: if_splits)
    with wf fwd_invD(2,4) [OF I] 2 show ?thesis by (auto intro!: fwd_invI)
  qed (use I in simp)
qed

text \<open>\<open>AddSubscriber\<close> registers the peer connection with an empty queue of the configured
  capacity and a track with the codec derived from the publisher, or reports an error and
  leaves the forwarder as it was; on a registered connection it changes nothing.
  \<open>RemoveSubscriber\<close> of a freshly added subscriber gives back the table as it was, and a
  second removal reports that the track is not found.\<close>

theorem AddSubscriber_contract:
  assumes I: "fwd_inv f" and a: "Forwarder_AddSubscriber P mk (Some a) pcs f = (err, pcs', f')"
  shows "fwd_inv f' \<and> (err = None \<longleftrightarrow> Forwarder_HasSubscriber (Some a) f' \<and> \<not> pc_dead (pcs a)) \<and>
    (err \<noteq> None \<longrightarrow> f' = f) \<and>
    (err = None \<and> \<not> pc_dead (pcs' a) \<longrightarrow> Forwarder_AddSubscriber P mk (Some a) pcs' f' = (None, pcs', f')) \<and>
    (err = None \<and> \<not> Forwarder_HasSubscriber (Some a) f \<longrightarrow>
       Forwarder_QueueDepth a f' = 0 \<and> Forwarder_DroppedCount a f' = 0 \<and>
       (\<exists>pcs2. Forwarder_RemoveSubscriber P (Some a) pcs' f' = (None, pcs2, f) \<and>
          fst (Forwarder_RemoveSubscriber P (Some a) pcs2 f) = Some (werr WErrTrackNotFound)))"
proof (intro conjI impI)
  show "fwd_inv f'" by (rule AddSubscriber_inv [OF assms])
  note C = AddSubscriber_cases [OF a]
  show "err = None \<longleftrightarrow> Forwarder_HasSubscriber (Some a) f' \<and> \<not> pc_dead (pcs a)"
    using a by (auto simp: Forwarder_AddSubscriber_def Let_def Forwarder_HasSubscriber_def
      split: if_splits sum.splits prod.splits option.splits)
  show "f' = f" if "err \<noteq> None" using C that by blast
  show "Forwarder_AddSubscriber P mk (Some a) pcs' f' = (None, pcs', f')" if "err = None \<and> \<not> pc_dead (pcs' a)"
    using C that by (auto simp: Forwarder_AddSubscriber_def Forwarder_HasSubscriber_def)
  assume new: "err = None \<and> \<not> Forwarder_HasSubscriber (Some a) f"
  then obtain t where g: "mget (f_subscribers f) a = None"
    and f': "f' = f\<lparr>f_subscribers := mput a (new_entry t (f_queueSize f)) (f_subscribers f)\<rparr>"
    using C by blast
  show "Forwarder_QueueDepth a f' = 0" "Forwarder_DroppedCount a f' = 0"
    by (simp_all add: f' Forwarder_QueueDepth_def Forwarder_DroppedCount_def new_entry_def)
  show "\<exists>pcs2. Forwarder_RemoveSubscriber P (Some a) pcs' f' = (None, pcs2, f) \<and>
          fst (Forwarder_RemoveSubscriber P (Some a) pcs2 f) = Some (werr WErrTrackNotFound)"
    by (simp add: Forwarder_RemoveSubscriber_def f' g drain_writer_def new_entry_def mdel_mput_absent)
qed

theorem AddSubscriber_contract_witness:
  "\<exists>pcs' f'. Forwarder_AddSubscriber demo_ok_ops (\<lambda>c i. Inr 9) (Some 3) (\<lambda>_. demo_pc False False) demo_fwd =
       (None, pcs', f') \<and> Forwarder_HasSubscriber (Some 3) f' \<and> Forwarder_QueueDepth 3 f' = 0"
proof -
  obtain err pcs' f' where a: "Forwarder_AddSubscriber demo_ok_ops (\<lambda>c i. Inr 9) (Some 3)
      (\<lambda>_. demo_pc False False) demo_fwd = (err, pcs', f')" by (metis prod_cases3)
  have "err = None"
    using a by (simp add: Forwarder_AddSubscriber_def demo_fwd_def demo_defs PC_AddTrack_def pc_dead_def Let_def
        ensureEgressTransceiverLocked_def transceiver_of_def reserveEgressMIDLocked_def
        split: prod.splits option.splits sum.splits if_splits)
  moreover have "\<not> Forwarder_HasSubscriber (Some 3) demo_fwd" by (simp add: Forwarder_HasSubscriber_def demo_fwd_def)
  ultimately show ?thesis using AddSubscriber_contract [OF demo_fwd_inv a] a by blast
qed

lemma Stop_effect:
  "snd (snd (Forwarder_Stop P pcs f)) =
     f\<lparr>f_running := False, f_subscribers := [],
       f_packetsWritten := f_packetsWritten f + of_nat (\<Sum>(_, e) \<leftarrow> f_subscribers f. length (e_queue e))\<rparr>"
proof -
  have "fold (\<lambda>(_, e). drain_writer e) xs g =
      g\<lparr>f_packetsWritten := f_packetsWritten g + of_nat (\<Sum>(_, e) \<leftarrow> xs. length (e_queue e))\<rparr>" for xs :: "(nat \<times> subscriberEntry) list" and g
    by (induction xs arbitrary: g) (auto simp: drain_writer_def add.assoc)
  then show ?thesis by (simp add: Forwarder_Stop_def Let_def)
qed

text \<open>\<open>Stop\<close> never fails, leaves a forwarder that is not running and has no subscribers, and
  loses nothing that was queued: every queued packet is counted as written. Stopping again
  changes nothing. After it a packet reaches nobody, and \<open>Start\<close> runs the forwarder again
  exactly when its publisher is a remote track.\<close>

theorem Stop_contract:
  "\<exists>pcs' f'. Forwarder_Stop P pcs f = (None, pcs', f') \<and> \<not> f_running f' \<and> Forwarder_SubscriberCount f' = 0 \<and>
     f_packetsWritten f' =
       f_packetsWritten f + of_nat (\<Sum>(_, e) \<leftarrow> f_subscribers f. length (e_queue e)) \<and>
     Forwarder_Stop P pcs' f' = (None, pcs', f') \<and>
     Forwarder_WriteRTP (Some pkt) f' = (None, f') \<and>
     (f_running (snd (Forwarder_Start f')) \<longleftrightarrow> WebRTCTrack_IsRemote (f_publisher f))"
proof -
  obtain pcs' f' where s: "Forwarder_Stop P pcs f = (None, pcs', f')"
    using prod.collapse [of "Forwarder_Stop P pcs f"] prod.collapse [of "snd (Forwarder_Stop P pcs f)"]
    by (simp add: Forwarder_Stop_def Let_def)
  from Stop_effect [of P pcs f] s have f': "f' = f\<lparr>f_running := False, f_subscribers := [],
       f_packetsWritten := f_packetsWritten f + of_nat (\<Sum>(_, e) \<leftarrow> f_subscribers f. length (e_queue e))\<rparr>" by simp
  have "Forwarder_Stop P pcs' f' = (None, pcs', f')" by (simp add: Forwarder_Stop_def f' Let_def)
  then show ?thesis using s
    by (auto simp: f' Forwarder_SubscriberCount_def Forwarder_WriteRTP_def Forwarder_Start_def)
qed

lemma ucast_of_nat_8: "ucast (of_nat n :: 32 word) = (of_nat n :: 8 word)"
proof -
  have "(of_nat (take_bit 32 n) :: 8 word) = of_nat n"
    by (rule bit_word_eqI) (simp add: bit_simps)
  then show ?thesis by (simp add: unsigned_of_nat)
qed

lemma of_nat_mod_8: "(of_nat m :: 8 word) = of_nat (m mod 256)"
  by (simp add: word_unat_eq_iff unat_of_nat)

text \<open>The FIR command numbers count every request and wrap at eight bits: the \<open>n\<close>-th call
  after creation returns \<open>n mod 256\<close>.\<close>

theorem FIR_sequence_wraps:
  "fst (NextFIRSequenceNumber (((\<lambda>g. snd (NextFIRSequenceNumber g)) ^^ n) (f\<lparr>f_firSeq := 0\<rparr>))) =
     (of_nat (Suc n mod 256) :: 8 word)"
proof -
  have "f_firSeq (((\<lambda>g. snd (NextFIRSequenceNumber g)) ^^ n) (f\<lparr>f_firSeq := 0\<rparr>)) = of_nat n"
    by (induction n) (simp_all add: NextFIRSequenceNumber_def Let_def)
  then have "fst (NextFIRSequenceNumber (((\<lambda>g. snd (NextFIRSequenceNumber g)) ^^ n) (f\<lparr>f_firSeq := 0\<rparr>))) =
      ucast (of_nat (Suc n) :: 32 word)"
    by (simp add: NextFIRSequenceNumber_def Let_def add.commute)
  also have "\<dots> = (of_nat (Suc n) :: 8 word)" by (rule ucast_of_nat_8)
  also have "\<dots> = of_nat (Suc n mod 256)" by (rule of_nat_mod_8)
  finally show ?thesis .
qed

end
