(* ===== verification/Handler.thy ===== *)
theory Handler
  imports Signaling_Managers Forwarder_Contracts
begin

text \<open>
  The signaling handler (\<open>internal/signaling/handler.go\<close>), first part: its state, the registries
  of peer connections and track forwarders, the ghost timers, the keyframe requests and the
  broadcasts. The requests of the clients are in the theory \<open>Handler_Requests\<close>.

  The handler shares objects by pointer with everything else. Its state is therefore the
  store of all objects (the domain heap, the connections, the peer connections and the
  forwarders) together with its registries. What the repository does not contain, pion, is
  the record \<open>env\<close>. Goroutines that a method starts are recorded as tasks, to be run as
  steps of their own. Logging is left out.
\<close>

subsection \<open>State\<close>

datatype rtcp_packet =
    PictureLossIndication (rtcp_SenderSSRC: "32 word") (rtcp_MediaSSRC: "32 word")
  | FullIntraRequest (rtcp_SenderSSRC: "32 word") (rtcp_MediaSSRC: "32 word") "(32 word \<times> 8 word) list"
  | TransportLayerNack (rtcp_SenderSSRC: "32 word") (rtcp_MediaSSRC: "32 word")
  | OtherRTCP

text \<open>\<open>E_newPC n\<close> is what pion gives when the \<open>n\<close>-th peer connection is created, with its two
  publish transceivers; \<open>E_local\<close> creates a local track; \<open>E_Encodings\<close> are the SSRCs of a
  sender's encodings; \<open>E_WriteRTCP\<close> is the result of sending an RTCP packet.\<close>

record 'p env =
  E_pion :: "'p pion"
  E_newPC :: "nat \<Rightarrow> gerror + 'p \<times> nat list"
  E_local :: local_track
  E_Encodings :: "nat \<Rightarrow> 'p \<Rightarrow> 32 word list"
  E_WriteRTCP :: "rtcp_packet \<Rightarrow> 'p \<Rightarrow> gerror option"

text \<open>Goroutines: \<open>go pc.RequestSubscriberOffer()\<close>, and the callback that \<open>AddTrack\<close> starts for a
  local track.\<close>

datatype task = TaskOffer nat | TaskLocalTrackAdded WebRTCTrack

text \<open>\<open>h_pcOwner\<close> is the participant of a peer connection, \<open>h_pcSender\<close> the connection that its
  signaling sender is bound to. A ghost timer is the room identifier that its closure has
  captured. \<open>h_rtcp\<close> records the RTCP packets handed to peer connections.\<close>

record 'p Handler =
  h_dom :: dheap
  h_roomManager :: RoomManager
  h_connectionManager :: ConnectionManager
  h_conn :: conn_store
  h_peerConnections :: "(string, nat) gomap"
  h_pc :: "'p pc_store"
  h_npc :: nat
  h_pcOwner :: "nat \<Rightarrow> paddr"
  h_pcSender :: "nat \<Rightarrow> caddr"
  h_trackForwarders :: "(string, nat) gomap"
  h_fw :: "nat \<Rightarrow> TrackForwarder"
  h_nfw :: nat
  h_nwt :: nat
  h_forwarderQueue :: int
  h_gcTTL :: int
  h_ghostTimers :: "(string, string) gomap"
  h_gcReapedCount :: "64 word"
  h_tasks :: "task list"
  h_rtcp :: "(nat \<times> rtcp_packet) list"

definition NewHandler :: "RoomManager \<Rightarrow> dheap \<Rightarrow> conn_store \<Rightarrow> 'p pc_store \<Rightarrow> (nat \<Rightarrow> TrackForwarder) \<Rightarrow>
    int \<Rightarrow> int \<Rightarrow> 'p Handler" where
  "NewHandler rm heap conns pcs fws ttl queueSize =
     \<lparr>h_dom = heap, h_roomManager = rm, h_connectionManager = NewConnectionManager, h_conn = conns,
      h_peerConnections = [], h_pc = pcs, h_npc = 0, h_pcOwner = \<lambda>_. 0, h_pcSender = \<lambda>_. 0,
      h_trackForwarders = [], h_fw = fws, h_nfw = 0, h_nwt = 0, h_forwarderQueue = queueSize,
      h_gcTTL = ttl, h_ghostTimers = [], h_gcReapedCount = 0, h_tasks = [], h_rtcp = []\<rparr>"

subsection \<open>Sending\<close>

definition conn_Send :: "caddr \<Rightarrow> MessageType \<Rightarrow> payload \<Rightarrow> 'p Handler \<Rightarrow> gerror option \<times> 'p Handler" where
  "conn_Send c t d h =
     (case Connection_Send t d (h_conn h c) of (e, x) \<Rightarrow> (e, h\<lparr>h_conn := (h_conn h)(c := x)\<rparr>))"

text \<open>The messages of a peer connection as the sender passes them to the connection. The
  struct of an offer has no track identifiers, so that its JSON is that of an answer.\<close>

fun pc_msg_payload :: "pc_msg \<Rightarrow> MessageType \<times> payload" where
  "pc_msg_payload (PcOffer i sdp) = (MessageTypeOffer, AnswerNotification i sdp)"
| "pc_msg_payload (PcAnswer i sdp) = (MessageTypeAnswer, AnswerNotification i sdp)"
| "pc_msg_payload (PcCandidate i c mid line) = (MessageTypeICECandidate, ICECandidateNotification i c mid line)"

text \<open>What a method of the peer connection has handed to its sender goes to the connection.\<close>

definition flush_sent :: "nat \<Rightarrow> 'p Handler \<Rightarrow> 'p Handler" where
  "flush_sent a h =
     fold (\<lambda>m g. case pc_msg_payload m of (t, d) \<Rightarrow> snd (conn_Send (h_pcSender g a) t d g))
       (sentLog (h_pc h a)) (h\<lparr>h_pc := (h_pc h)(a := (h_pc h a)\<lparr>sentLog := []\<rparr>)\<rparr>)"

definition set_pc :: "nat \<Rightarrow> 'p PeerConnection \<Rightarrow> 'p Handler \<Rightarrow> 'p Handler" where
  "set_pc a pc h = h\<lparr>h_pc := (h_pc h)(a := pc)\<rparr>"

definition set_dom :: "dheap \<Rightarrow> 'p Handler \<Rightarrow> 'p Handler" where
  "set_dom d h = h\<lparr>h_dom := d\<rparr>"

definition broadcast_one ::
  "MessageType \<Rightarrow> payload \<Rightarrow> string \<Rightarrow> string \<Rightarrow> 'p Handler \<Rightarrow> 'p Handler" where
  "broadcast_one msgType d excludeParticipantID pID h =
     (if pID = excludeParticipantID then h
      else (case ConnectionManager_Get (h_connectionManager h) pID of
              None \<Rightarrow> h
            | Some c \<Rightarrow> snd (conn_Send c msgType d h)))"

definition broadcastToRoom :: "raddr \<Rightarrow> MessageType \<Rightarrow> payload \<Rightarrow> string \<Rightarrow> 'p Handler \<Rightarrow> 'p Handler" where
  "broadcastToRoom room msgType d excludeParticipantID h =
     fold (broadcast_one msgType d excludeParticipantID) (Room_Participants room (h_dom h)) h"

definition participantInfo :: "paddr \<Rightarrow> dheap \<Rightarrow> ParticipantInfo" where
  "participantInfo p d = ParticipantInfo (p_id (par d p)) (p_name (par d p))"

definition trackInfo :: "taddr \<Rightarrow> dheap \<Rightarrow> TrackInfo" where
  "trackInfo t d = \<lparr>ti_ID = t_id (trk d t), ti_Kind = TrackKind_String (t_kind (trk d t)),
     ti_Source = TrackSource_String (t_source (trk d t))\<rparr>"

definition broadcastParticipantJoined :: "raddr \<Rightarrow> paddr \<Rightarrow> 'p Handler \<Rightarrow> 'p Handler" where
  "broadcastParticipantJoined room p h =
     broadcastToRoom room MessageTypeParticipantJoined
       (ParticipantJoinedNotification (participantInfo p (h_dom h))) (p_id (par (h_dom h) p)) h"

definition broadcastParticipantLeft :: "raddr \<Rightarrow> paddr \<Rightarrow> 'p Handler \<Rightarrow> 'p Handler" where
  "broadcastParticipantLeft room p h =
     broadcastToRoom room MessageTypeParticipantLeft
       (ParticipantLeftNotification (p_id (par (h_dom h) p))) (p_id (par (h_dom h) p)) h"

definition broadcastTrackAvailable :: "raddr \<Rightarrow> paddr \<Rightarrow> taddr \<Rightarrow> 'p Handler \<Rightarrow> 'p Handler" where
  "broadcastTrackAvailable room p track h =
     broadcastToRoom room MessageTypeTrackAvailable
       (TrackAvailableNotification (p_id (par (h_dom h) p)) (trackInfo track (h_dom h)))
       (p_id (par (h_dom h) p)) h"

definition broadcastTrackUnavailable :: "raddr \<Rightarrow> paddr \<Rightarrow> string \<Rightarrow> 'p Handler \<Rightarrow> 'p Handler" where
  "broadcastTrackUnavailable room p trackID h =
     broadcastToRoom room MessageTypeTrackUnavailable
       (TrackUnavailableNotification (p_id (par (h_dom h) p)) trackID) (p_id (par (h_dom h) p)) h"

subsection \<open>Peer connections\<close>

definition getPeerConnection :: "string \<Rightarrow> 'p Handler \<Rightarrow> nat option" where
  "getPeerConnection participantID h = mget (h_peerConnections h) participantID"

text \<open>The closure that sends over a WebSocket connection; \<open>h_pcSender\<close> says which.\<close>

definition ws_sender :: "(pc_msg \<Rightarrow> gerror option) option" where
  "ws_sender = Some (\<lambda>_. None)"

definition createPeerConnection ::
  "'p env \<Rightarrow> paddr \<Rightarrow> caddr \<Rightarrow> nat option \<Rightarrow> 'p Handler \<Rightarrow> (gerror + nat) \<times> 'p Handler" where
  "createPeerConnection E p c existing h =
     (let n = h_npc h; i = p_id (par (h_dom h) p); h1 = h\<lparr>h_npc := Suc n\<rparr>
      in case E_newPC E n of
           Inl err \<Rightarrow> (Inl err, h1)
         | Inr (pion, slots) \<Rightarrow>
             let h2 = (case existing of
                         None \<Rightarrow> h1
                       | Some a \<Rightarrow> set_pc a (snd (PC_Close (E_pion E) (h_pc h1 a))) h1);
                 h3 = set_pc n (NewPeerConnection pion slots i ws_sender) h2
             in (Inr n, h3\<lparr>h_peerConnections := mput i n (h_peerConnections h3),
                   h_pcOwner := (h_pcOwner h3)(n := p), h_pcSender := (h_pcSender h3)(n := c)\<rparr>))"

definition ensurePeerConnection ::
  "'p env \<Rightarrow> paddr \<Rightarrow> caddr \<Rightarrow> 'p Handler \<Rightarrow> (gerror + nat) \<times> 'p Handler" where
  "ensurePeerConnection E p c h =
     (case getPeerConnection (p_id (par (h_dom h) p)) h of
        Some a \<Rightarrow>
          if PeerConnectionState_Usable (pc_state (h_pc h a))
          then (Inr a, (set_pc a (PC_UpdateSignalingSender ws_sender (h_pc h a)) h)
                  \<lparr>h_pcSender := (h_pcSender h)(a := c)\<rparr>)
          else createPeerConnection E p c (Some a) h
      | None \<Rightarrow> createPeerConnection E p c None h)"

definition closePeerConnection :: "'p env \<Rightarrow> string \<Rightarrow> 'p Handler \<Rightarrow> 'p Handler" where
  "closePeerConnection E participantID h =
     (case mget (h_peerConnections h) participantID of
        None \<Rightarrow> h
      | Some a \<Rightarrow>
          let h1 = h\<lparr>h_peerConnections := mdel participantID (h_peerConnections h)\<rparr>
          in set_pc a (snd (PC_Close (E_pion E) (h_pc h1 a))) h1)"

definition PC_WriteRTCP :: "'p env \<Rightarrow> nat \<Rightarrow> rtcp_packet \<Rightarrow> 'p Handler \<Rightarrow> gerror option \<times> 'p Handler" where
  "PC_WriteRTCP E a pkt h =
     (if pc_dead (h_pc h a) then (Some (werr ErrPeerConnectionClosed), h)
      else (E_WriteRTCP E pkt (pionPC (h_pc h a)), h\<lparr>h_rtcp := h_rtcp h @ [(a, pkt)]\<rparr>))"

definition sender_ssrcs :: "'p env \<Rightarrow> 'p \<Rightarrow> nat \<Rightarrow> (32 word, string) gomap \<Rightarrow> (32 word, string) gomap" where
  "sender_ssrcs E p sender out =
     (case P_SenderTrackID (E_pion E) sender p of
        None \<Rightarrow> out
      | Some trackID \<Rightarrow>
          fold (\<lambda>ssrc m. if ssrc \<noteq> 0 then mput ssrc trackID m else m) (E_Encodings E sender p) out)"

definition PC_EgressSSRCMap :: "'p env \<Rightarrow> 'p PeerConnection \<Rightarrow> (32 word, string) gomap" where
  "PC_EgressSSRCMap E pc =
     fold (sender_ssrcs E (pionPC pc)) (P_GetSenders (E_pion E) (pionPC pc)) []"

subsection \<open>Keyframe requests\<close>

definition getForwarder :: "string \<Rightarrow> 'p Handler \<Rightarrow> nat option" where
  "getForwarder trackID h = mget (h_trackForwarders h) trackID"

definition publisherIDForTrack :: "string \<Rightarrow> 'p Handler \<Rightarrow> string" where
  "publisherIDForTrack trackID h =
     (case getForwarder trackID h of
        None \<Rightarrow> ''''
      | Some i \<Rightarrow>
          (case publisher (trk (h_dom h) (wt_domain (f_publisher (h_fw h i)))) of
             None \<Rightarrow> ''''
           | Some pub \<Rightarrow> p_id (par (h_dom h) pub)))"

definition rtcpFeedbackIdentity :: "rtcp_packet \<Rightarrow> (string \<times> 32 word \<times> 32 word) option" where
  "rtcpFeedbackIdentity pkt =
     (case pkt of
        PictureLossIndication s m \<Rightarrow> Some (''PLI'', s, m)
      | FullIntraRequest s m _ \<Rightarrow> Some (''FIR'', s, m)
      | TransportLayerNack s m \<Rightarrow> Some (''NACK'', s, m)
      | OtherRTCP \<Rightarrow> None)"

text \<open>The packet sent upstream; a FIR draws its number from the forwarder.\<close>

definition upstream_packet ::
  "string \<Rightarrow> 32 word \<Rightarrow> 32 word \<Rightarrow> nat \<Rightarrow> 'p Handler \<Rightarrow> (rtcp_packet \<times> 'p Handler) option" where
  "upstream_packet kind senderSSRC publisherSSRC i h =
     (if kind = ''PLI'' then Some (PictureLossIndication senderSSRC publisherSSRC, h)
      else if kind = ''FIR''
      then (case NextFIRSequenceNumber (h_fw h i) of (n, f) \<Rightarrow>
              Some (FullIntraRequest senderSSRC publisherSSRC [(publisherSSRC, n)],
                    h\<lparr>h_fw := (h_fw h)(i := f)\<rparr>))
      else None)"

definition relayKeyframeRequest ::
  "'p env \<Rightarrow> nat option \<Rightarrow> string \<Rightarrow> string \<Rightarrow> 32 word \<Rightarrow> 32 word \<Rightarrow> 'p Handler \<Rightarrow>
     (bool \<times> string) \<times> 'p Handler" where
  "relayKeyframeRequest E subPC trackID kind senderSSRC mediaSSRC h =
     (case subPC of
        None \<Rightarrow> ((False, ''''), h)
      | Some s \<Rightarrow>
          (case getForwarder trackID h of
             None \<Rightarrow> ((False, ''''), h)
           | Some i \<Rightarrow>
               if mget (PC_EgressSSRCMap E (h_pc h s)) mediaSSRC \<noteq> Some trackID
               then ((False, publisherIDForTrack trackID h), h)
               else
                 let publisherID = publisherIDForTrack trackID h in
                 if publisherID = '''' then ((False, ''''), h)
                 else (case getPeerConnection publisherID h of
                         None \<Rightarrow> ((False, publisherID), h)
                       | Some pubPC \<Rightarrow>
                           (case WebRTCTrack_RemoteSSRC (f_publisher (h_fw h i)) of (publisherSSRC, ok) \<Rightarrow>
                              if \<not> ok then ((False, publisherID), h)
                              else (case upstream_packet kind senderSSRC publisherSSRC i h of
                                      None \<Rightarrow> ((False, publisherID), h)
                                    | Some (pkt, h1) \<Rightarrow>
                                        (case PC_WriteRTCP E pubPC pkt h1 of
                                           (Some err, h2) \<Rightarrow> ((False, publisherID), h2)
                                         | (None, h2) \<Rightarrow> ((True, publisherID), h2)))))))"

text \<open>The observer installed on every peer connection: only PLI and FIR are relayed.\<close>

definition rtcpObserver :: "'p env \<Rightarrow> nat \<Rightarrow> string \<Rightarrow> rtcp_packet \<Rightarrow> 'p Handler \<Rightarrow> 'p Handler" where
  "rtcpObserver E a trackID pkt h =
     (case rtcpFeedbackIdentity pkt of
        None \<Rightarrow> h
      | Some (kind, senderSSRC, mediaSSRC) \<Rightarrow>
          if kind = ''PLI'' \<or> kind = ''FIR''
          then snd (relayKeyframeRequest E (Some a) trackID kind senderSSRC mediaSSRC h)
          else h)"

definition requestUpstreamKeyframe :: "'p env \<Rightarrow> string \<Rightarrow> 'p Handler \<Rightarrow> 'p Handler" where
  "requestUpstreamKeyframe E trackID h =
     (case getForwarder trackID h of
        None \<Rightarrow> h
      | Some i \<Rightarrow>
          if \<not> WebRTCTrack_IsRemote (f_publisher (h_fw h i)) then h
          else (case WebRTCTrack_RemoteSSRC (f_publisher (h_fw h i)) of (pubSSRC, ok) \<Rightarrow>
                  if \<not> ok \<or> pubSSRC = 0 then h
                  else
                    let publisherID = publisherIDForTrack trackID h in
                    if publisherID = '''' then h
                    else (case getPeerConnection publisherID h of
                            None \<Rightarrow> h
                          | Some pubPC \<Rightarrow>
                              snd (PC_WriteRTCP E pubPC (PictureLossIndication pubSSRC pubSSRC) h))))"

subsection \<open>Forwarders\<close>

text \<open>The local tracks that an operation on a forwarder has added to peer connections: each starts
  the callback of \<open>OnLocalTrackAdded\<close>.\<close>

definition added_tracks :: "TrackForwarder \<Rightarrow> TrackForwarder \<Rightarrow> task list" where
  "added_tracks f f' =
     map (\<lambda>(_, e). TaskLocalTrackAdded (e_webTrack e))
       (filter (\<lambda>(a, e). map_option e_webTrack (mget (f_subscribers f) a) \<noteq> Some (e_webTrack e))
          (f_subscribers f'))"

definition set_fw :: "nat \<Rightarrow> 'p pc_store \<times> TrackForwarder \<Rightarrow> 'p Handler \<Rightarrow> 'p Handler" where
  "set_fw i st h =
     (case st of (pcs, f) \<Rightarrow>
        h\<lparr>h_pc := pcs, h_fw := (h_fw h)(i := f), h_tasks := h_tasks h @ added_tracks (h_fw h i) f\<rparr>)"

definition fw_AddSubscriber :: "'p env \<Rightarrow> nat \<Rightarrow> nat \<Rightarrow> 'p Handler \<Rightarrow> gerror option \<times> 'p Handler" where
  "fw_AddSubscriber E i a h =
     (case Forwarder_AddSubscriber (E_pion E) (E_local E) (Some a) (h_pc h) (h_fw h i) of
        (e, st) \<Rightarrow> (e, set_fw i st h))"

definition fw_RemoveSubscriber :: "'p env \<Rightarrow> nat \<Rightarrow> nat \<Rightarrow> 'p Handler \<Rightarrow> 'p Handler" where
  "fw_RemoveSubscriber E i a h =
     set_fw i (snd (Forwarder_RemoveSubscriber (E_pion E) (Some a) (h_pc h) (h_fw h i))) h"

definition fw_Stop :: "'p env \<Rightarrow> nat \<Rightarrow> 'p Handler \<Rightarrow> 'p Handler" where
  "fw_Stop E i h = set_fw i (snd (Forwarder_Stop (E_pion E) (h_pc h) (h_fw h i))) h"

definition swapPublisher :: "'p env \<Rightarrow> string \<Rightarrow> nat \<Rightarrow> WebRTCTrack \<Rightarrow> 'p Handler \<Rightarrow> (gerror + nat) \<times> 'p Handler" where
  "swapPublisher E trackID i publisherTrack h =
     (case Forwarder_UpdatePublisher (E_pion E) (E_local E) (Some (h_nwt h, publisherTrack)) (h_pc h) (h_fw h i) of
        (Some err, st) \<Rightarrow> (Inl err, set_fw i st h)
      | (None, st) \<Rightarrow>
          let h1 = (set_fw i st h)\<lparr>h_nwt := Suc (h_nwt h)\<rparr>
          in (Inr i, if Forwarder_SubscriberCount (h_fw h1 i) > 0 then requestUpstreamKeyframe E trackID h1 else h1))"

definition createForwarder :: "string \<Rightarrow> WebRTCTrack \<Rightarrow> 'p Handler \<Rightarrow> (gerror + nat) \<times> 'p Handler" where
  "createForwarder trackID publisherTrack h =
     (case NewTrackForwarderWithConfig (Some (h_nwt h, publisherTrack)) (h_forwarderQueue h) of
        Inl err \<Rightarrow> (Inl err, h)
      | Inr fw \<Rightarrow>
          (case Forwarder_Start fw of
             (Some err, _) \<Rightarrow> (Inl err, h)
           | (None, fw1) \<Rightarrow>
               (Inr (h_nfw h),
                h\<lparr>h_fw := (h_fw h)(h_nfw h := fw1), h_nfw := Suc (h_nfw h), h_nwt := Suc (h_nwt h),
                  h_trackForwarders := mput trackID (h_nfw h) (h_trackForwarders h)\<rparr>)))"

definition getOrCreateForwarder ::
  "'p env \<Rightarrow> string \<Rightarrow> WebRTCTrack option \<Rightarrow> 'p Handler \<Rightarrow> (gerror + nat) \<times> 'p Handler" where
  "getOrCreateForwarder E trackID publisherTrack h =
     (case publisherTrack of
        None \<Rightarrow> (Inl (werr ErrTrackNotReady), h)
      | Some t \<Rightarrow>
          (case mget (h_trackForwarders h) trackID of
             Some i \<Rightarrow>
               if WebRTCTrack_IsRemote t \<and> \<not> WebRTCTrack_IsRemote (f_publisher (h_fw h i))
               then swapPublisher E trackID i t h
               else (Inr i, h)
           | None \<Rightarrow> createForwarder trackID t h))"

definition removeForwarder :: "'p env \<Rightarrow> string \<Rightarrow> 'p Handler \<Rightarrow> 'p Handler" where
  "removeForwarder E trackID h =
     (case mget (h_trackForwarders h) trackID of
        None \<Rightarrow> h
      | Some i \<Rightarrow> fw_Stop E i (h\<lparr>h_trackForwarders := mdel trackID (h_trackForwarders h)\<rparr>))"

definition detachSubscriber :: "'p env \<Rightarrow> nat \<Rightarrow> string \<times> nat \<Rightarrow> 'p Handler \<Rightarrow> 'p Handler" where
  "detachSubscriber E a fw h =
     (case fw of (trackID, i) \<Rightarrow>
        let h1 = fw_RemoveSubscriber E i a h
        in if Forwarder_SubscriberCount (h_fw h1 i) = 0 \<and> mget (h_trackForwarders h1) trackID = Some i
           then fw_Stop E i (h1\<lparr>h_trackForwarders := mdel trackID (h_trackForwarders h1)\<rparr>)
           else h1)"

definition removeSubscriberFromForwarder :: "'p env \<Rightarrow> string \<Rightarrow> nat option \<Rightarrow> 'p Handler \<Rightarrow> 'p Handler" where
  "removeSubscriberFromForwarder E trackID pc h =
     (case pc of
        None \<Rightarrow> h
      | Some a \<Rightarrow>
          (case mget (h_trackForwarders h) trackID of
             None \<Rightarrow> h
           | Some i \<Rightarrow> detachSubscriber E a (trackID, i) h))"

definition removeSubscriberFromAllForwarders :: "'p env \<Rightarrow> nat option \<Rightarrow> 'p Handler \<Rightarrow> 'p Handler" where
  "removeSubscriberFromAllForwarders E pc h =
     (case pc of
        None \<Rightarrow> h
      | Some a \<Rightarrow> fold (detachSubscriber E a) (h_trackForwarders h) h)"

definition zero_codec :: Codec where
  "zero_codec = \<lparr>MimeType = '''', ClockRate = 0, Channels = 0, SDPFmtpLine = ''''\<rparr>"

definition createPublisherWebRTCTrack :: "'p env \<Rightarrow> taddr \<Rightarrow> 'p Handler \<Rightarrow> gerror + WebRTCTrack" where
  "createPublisherWebRTCTrack E t h =
     (case E_local E zero_codec (t_id (trk (h_dom h) t)) of
        Inl err \<Rightarrow> Inl err
      | Inr handle \<Rightarrow>
          Inr \<lparr>wt_domain = t, wt_id = t_id (trk (h_dom h) t), wt_kind = t_kind (trk (h_dom h) t),
               wt_track = Some (TrackLocal handle), wt_codec = zero_codec\<rparr>)"

text \<open>A forwarder under another identifier that carries a remote track of the same kind and
  participant and whose identifier is not registered in the room.\<close>

definition is_orphan :: "raddr \<Rightarrow> taddr \<Rightarrow> paddr \<Rightarrow> 'p Handler \<Rightarrow> string \<times> nat \<Rightarrow> bool" where
  "is_orphan room sigTrack p h fw =
     (case fw of (i, a) \<Rightarrow>
        let d = h_dom h; pt = f_publisher (h_fw h a)
        in i \<noteq> t_id (trk d sigTrack) \<and> WebRTCTrack_IsRemote pt \<and>
           t_kind (trk d (wt_domain pt)) = t_kind (trk d sigTrack) \<and>
           (case publisher (trk d (wt_domain pt)) of
              None \<Rightarrow> False | Some pub \<Rightarrow> p_id (par d pub) = p_id (par d p)) \<and>
           Room_GetTrack room i d = None)"

definition adoptOrphanForwarder :: "'p env \<Rightarrow> raddr \<Rightarrow> taddr \<Rightarrow> paddr \<Rightarrow> 'p Handler \<Rightarrow> bool \<times> 'p Handler" where
  "adoptOrphanForwarder E room sigTrack p h =
     (case find (is_orphan room sigTrack p h) (h_trackForwarders h) of
        None \<Rightarrow> (False, h)
      | Some (orphanID, a) \<Rightarrow>
          (case wt_track (f_publisher (h_fw h a)) of
             Some (TrackRemote ssrc) \<Rightarrow>
               let sigID = t_id (trk (h_dom h) sigTrack);
                   adopted = \<lparr>wt_domain = sigTrack, wt_id = sigID, wt_kind = t_kind (trk (h_dom h) sigTrack),
                     wt_track = Some (TrackRemote ssrc), wt_codec = wt_codec (f_publisher (h_fw h a))\<rparr>;
                   h1 = removeForwarder E orphanID h
               in (case getOrCreateForwarder E sigID (Some adopted) h1 of
                     (Inl err, h2) \<Rightarrow> (False, h2)
                   | (Inr _, h2) \<Rightarrow> (True, h2))
           | _ \<Rightarrow> (False, h)))"

subsection \<open>Ghost timers\<close>

definition armGhostTimer :: "string \<Rightarrow> string \<Rightarrow> 'p Handler \<Rightarrow> 'p Handler" where
  "armGhostTimer roomID participantID h =
     (if h_gcTTL h \<le> 0 then h
      else h\<lparr>h_ghostTimers := mput participantID roomID (mdel participantID (h_ghostTimers h))\<rparr>)"

definition cancelGhostTimer :: "string \<Rightarrow> 'p Handler \<Rightarrow> 'p Handler" where
  "cancelGhostTimer participantID h = h\<lparr>h_ghostTimers := mdel participantID (h_ghostTimers h)\<rparr>"

text \<open>The teardown of a participant's media that leaving and reaping share: the forwarders of its
  published tracks, its own subscriptions, its peer connection.\<close>

definition teardown_media :: "'p env \<Rightarrow> string list \<Rightarrow> nat option \<Rightarrow> string \<Rightarrow> 'p Handler \<Rightarrow> 'p Handler" where
  "teardown_media E publishedTracks leaverPC participantID h =
     closePeerConnection E participantID
       (removeSubscriberFromAllForwarders E leaverPC (fold (removeForwarder E) publishedTracks h))"

definition reapGhost :: "'p env \<Rightarrow> string \<Rightarrow> string \<Rightarrow> 'p Handler \<Rightarrow> 'p Handler" where
  "reapGhost E roomID participantID h =
     (let h1 = h\<lparr>h_ghostTimers := mdel participantID (h_ghostTimers h)\<rparr>;
          room = RoomManager_GetRoom (h_roomManager h1) roomID;
          publishedTracks =
            (case room of
               None \<Rightarrow> []
             | Some r \<Rightarrow> (case Room_GetParticipant r participantID (h_dom h1) of
                           None \<Rightarrow> [] | Some p \<Rightarrow> Participant_PublishedTracks p (h_dom h1)));
          leaverPC = getPeerConnection participantID h1;
          h2 = (case room of None \<Rightarrow> h1 | Some r \<Rightarrow> set_dom (snd (Room_Leave r participantID (h_dom h1))) h1);
          h3 = teardown_media E publishedTracks leaverPC participantID h2
      in h3\<lparr>h_gcReapedCount := h_gcReapedCount h3 + 1\<rparr>)"

subsection \<open>Closing a room, shutdown\<close>

definition close_member :: "'p env \<Rightarrow> string \<Rightarrow> 'p Handler \<Rightarrow> 'p Handler" where
  "close_member E pid h =
     cancelGhostTimer pid (closePeerConnection E pid
       (removeSubscriberFromAllForwarders E (getPeerConnection pid h) h))"

definition Handler_CloseRoom :: "'p env \<Rightarrow> string \<Rightarrow> 'p Handler \<Rightarrow> gerror option \<times> 'p Handler" where
  "Handler_CloseRoom E roomID h =
     (case RoomManager_GetRoom (h_roomManager h) roomID of
        None \<Rightarrow> (Some RM_ErrRoomNotFound, h)
      | Some r \<Rightarrow>
          let participantIDs = Room_Participants r (h_dom h);
              trackIDs = Room_Tracks r (h_dom h);
              h2 = fold (close_member E) participantIDs (fold (removeForwarder E) trackIDs h)
          in (case RoomManager_CloseRoom roomID (h_roomManager h2) (h_dom h2) of
                (e, rm, d) \<Rightarrow> (e, h2\<lparr>h_roomManager := rm, h_dom := d\<rparr>)))"

definition Handler_Shutdown :: "'p env \<Rightarrow> 'p Handler \<Rightarrow> 'p Handler" where
  "Handler_Shutdown E h =
     (case ConnectionManager_CloseAll (h_conn h) (h_connectionManager h) of
        (conns, cm) \<Rightarrow>
          let h1 = h\<lparr>h_ghostTimers := [], h_conn := conns, h_connectionManager := cm\<rparr>;
              h2 = fold (\<lambda>(i, a) g. (fw_Stop E a g)\<lparr>h_trackForwarders := mdel i (h_trackForwarders g)\<rparr>)
                     (h_trackForwarders h1) h1
          in fold (\<lambda>(i, a) g. (set_pc a (snd (PC_Close (E_pion E) (h_pc g a))) g)
                      \<lparr>h_peerConnections := mdel i (h_peerConnections g)\<rparr>)
               (h_peerConnections h2) h2)"

end
