(* ===== verification/Handler_Requests.thy ===== *)
theory Handler_Requests
  imports Handler
begin

text \<open>
  The signaling handler, second part: one definition per request of a client, the dispatch,
  the life of a connection, and the events that come from pion. A request handler returns
  the error that the message loop reports, and the new state.
\<close>

subsection \<open>Joining a room\<close>

text \<open>One entry of the list that a joining participant gets of the tracks of the others.\<close>

definition joiner_entry :: "raddr \<Rightarrow> string \<Rightarrow> dheap \<Rightarrow> string \<Rightarrow> PublishedTrackInfo list" where
  "joiner_entry room joinerID d trackID =
     (case Room_GetTrack room trackID d of
        None \<Rightarrow> []
      | Some t \<Rightarrow>
          if t_state (trk d t) \<noteq> TrackStatePublished then []
          else (case publisher (trk d t) of
                  None \<Rightarrow> []
                | Some pub \<Rightarrow>
                    if p_id (par d pub) = '''' \<or> p_id (par d pub) = joinerID then []
                    else [PublishedTrackInfo (p_id (par d pub)) (trackInfo t d)]))"

definition publishedTracksForJoiner :: "raddr \<Rightarrow> string \<Rightarrow> dheap \<Rightarrow> PublishedTrackInfo list" where
  "publishedTracksForJoiner room joinerID d = concat (map (joiner_entry room joinerID d) (Room_Tracks room d))"

definition sendRoomJoined :: "caddr \<Rightarrow> raddr \<Rightarrow> paddr \<Rightarrow> 'p Handler \<Rightarrow> gerror option \<times> 'p Handler" where
  "sendRoomJoined c room p h =
     (let d = h_dom h;
          ps = concat (map (\<lambda>pID. case Room_GetParticipant room pID d of
                 None \<Rightarrow> [] | Some q \<Rightarrow> [participantInfo q d]) (Room_Participants room d))
      in conn_Send c MessageTypeRoomJoined
           (RoomJoinedResponse (r_id (rom d room)) (p_id (par d p)) ps
              (publishedTracksForJoiner room (p_id (par d p)) d) ''success'') h)"

definition handleCreateRoom :: "'p env \<Rightarrow> caddr \<Rightarrow> Message \<Rightarrow> 'p Handler \<Rightarrow> gerror option \<times> 'p Handler" where
  "handleCreateRoom E c msg h =
     (case UnmarshalData dec_CreateRoomRequest msg of
        Inl err \<Rightarrow> (Some err, h)
      | Inr req \<Rightarrow>
          let i = cr_ParticipantID req;
              resp = RoomCreatedResponse (cr_RoomID req) i ''success''
          in (case RoomManager_GetOrCreateRoom (cr_RoomID req) (h_roomManager h) (h_dom h) of
                (Inl err, rm, d) \<Rightarrow> (Some err, h\<lparr>h_roomManager := rm, h_dom := d\<rparr>)
              | (Inr room, rm, d) \<Rightarrow>
                  let h1 = h\<lparr>h_roomManager := rm, h_dom := d\<rparr>
                  in if Room_GetParticipant room i d \<noteq> None
                     then conn_Send c MessageTypeRoomCreated resp h1
                     else (case join_new room i (cr_ParticipantName req) d of
                             (Inl err, d1) \<Rightarrow>
                               if Room_GetParticipant room i d1 \<noteq> None
                               then conn_Send c MessageTypeRoomCreated resp (set_dom d1 h1)
                               else (Some err, set_dom d1 h1)
                           | (Inr p, d1) \<Rightarrow>
                               let h2 = set_dom d1 h1;
                                   h3 = (if c_participantID (h_conn h2 c) = i \<and> c_roomID (h_conn h2 c) = cr_RoomID req
                                         then (case ensurePeerConnection E p c h2 of
                                                 (Inl err, h') \<Rightarrow> h'
                                               | (Inr _, h') \<Rightarrow> broadcastParticipantJoined room p h')
                                         else h2)
                               in conn_Send c MessageTypeRoomCreated resp h3)))"

definition handleJoinRoom ::
  "caddr \<Rightarrow> raddr \<Rightarrow> paddr \<Rightarrow> Message \<Rightarrow> 'p Handler \<Rightarrow> gerror option \<times> 'p Handler" where
  "handleJoinRoom c room p msg h =
     (case UnmarshalData dec_JoinRoomRequest msg of
        Inl err \<Rightarrow> (Some err, h)
      | Inr req \<Rightarrow> sendRoomJoined c room p h)"

definition handleLeaveRoom ::
  "'p env \<Rightarrow> caddr \<Rightarrow> raddr \<Rightarrow> paddr \<Rightarrow> Message \<Rightarrow> 'p Handler \<Rightarrow> gerror option \<times> 'p Handler" where
  "handleLeaveRoom E c room p msg h =
     (case UnmarshalData dec_LeaveRoomRequest msg of
        Inl err \<Rightarrow> (Some err, h)
      | Inr req \<Rightarrow>
          let i = lr_ParticipantID req;
              h1 = cancelGhostTimer i h;
              publishedTracks = Participant_PublishedTracks p (h_dom h1);
              leaverPC = getPeerConnection i h1
          in (case Room_Leave room i (h_dom h1) of
                (Some err, d) \<Rightarrow> (Some err, set_dom d h1)
              | (None, d) \<Rightarrow>
                  let h2 = teardown_media E publishedTracks leaverPC i (set_dom d h1)
                  in (case conn_Send c MessageTypeRoomLeft (RoomLeftResponse (lr_RoomID req) i ''success'') h2 of
                        (Some err, h3) \<Rightarrow> (Some err, h3)
                      | (None, h3) \<Rightarrow> (None, broadcastParticipantLeft room p h3))))"

subsection \<open>Attaching subscribers\<close>

definition subscriberReadyForAutomaticAttach :: "'p env \<Rightarrow> nat option \<Rightarrow> 'p Handler \<Rightarrow> bool" where
  "subscriberReadyForAutomaticAttach E pc h =
     (case pc of
        None \<Rightarrow> False
      | Some a \<Rightarrow>
          if pc_state (h_pc h a) = PeerConnectionStateConnected then True
          else if pc_dead (h_pc h a) then False
          else P_RemoteDescription (E_pion E) (pionPC (h_pc h a)) \<noteq> None \<and>
               sigState (E_pion E) (h_pc h a) = SignalingStateStable)"

text \<open>Attach a peer connection to a forwarder and, when it was not attached, start an offer.\<close>

definition attach_subscriber :: "'p env \<Rightarrow> nat \<Rightarrow> nat \<Rightarrow> 'p Handler \<Rightarrow> gerror option \<times> 'p Handler" where
  "attach_subscriber E fw a h =
     (let alreadyAttached = Forwarder_HasSubscriber (Some a) (h_fw h fw)
      in case fw_AddSubscriber E fw a h of
           (Some err, h1) \<Rightarrow> (Some err, h1)
         | (None, h1) \<Rightarrow> (None, if alreadyAttached then h1 else h1\<lparr>h_tasks := h_tasks h1 @ [TaskOffer a]\<rparr>))"

definition auto_attach :: "'p env \<Rightarrow> nat \<Rightarrow> string \<Rightarrow> string \<Rightarrow> 'p Handler \<Rightarrow> 'p Handler" where
  "auto_attach E fw publisherID participantID h =
     (if participantID = publisherID then h
      else (case getPeerConnection participantID h of
              None \<Rightarrow> h
            | Some a \<Rightarrow>
                if \<not> subscriberReadyForAutomaticAttach E (Some a) h then h
                else snd (attach_subscriber E fw a h)))"

definition autoSubscribeExistingParticipants ::
  "'p env \<Rightarrow> raddr \<Rightarrow> paddr \<Rightarrow> string \<Rightarrow> 'p Handler \<Rightarrow> 'p Handler" where
  "autoSubscribeExistingParticipants E room pub trackID h =
     (case getForwarder trackID h of
        None \<Rightarrow> h
      | Some fw \<Rightarrow>
          fold (auto_attach E fw (p_id (par (h_dom h) pub))) (Room_Participants room (h_dom h)) h)"

definition attach_subscribed :: "'p env \<Rightarrow> raddr \<Rightarrow> paddr \<Rightarrow> nat \<Rightarrow> string \<Rightarrow> 'p Handler \<Rightarrow> 'p Handler" where
  "attach_subscribed E room subscriber a trackID h =
     (case Room_GetTrack room trackID (h_dom h) of
        None \<Rightarrow> h
      | Some t \<Rightarrow>
          (case publisher (trk (h_dom h) t) of
             None \<Rightarrow> h
           | Some pub \<Rightarrow>
               if p_id (par (h_dom h) pub) = p_id (par (h_dom h) subscriber) then h
               else (case getForwarder trackID h of
                       None \<Rightarrow> h
                     | Some fw \<Rightarrow>
                         if \<not> WebRTCTrack_IsRemote (f_publisher (h_fw h fw)) then h
                         else snd (attach_subscriber E fw a h))))"

definition attachSubscribedReadyTracks ::
  "'p env \<Rightarrow> raddr \<Rightarrow> paddr option \<Rightarrow> 'p Handler \<Rightarrow> 'p Handler" where
  "attachSubscribedReadyTracks E room subscriber h =
     (case subscriber of
        None \<Rightarrow> h
      | Some q \<Rightarrow>
          (case getPeerConnection (p_id (par (h_dom h) q)) h of
             None \<Rightarrow> h
           | Some a \<Rightarrow>
               if \<not> subscriberReadyForAutomaticAttach E (Some a) h then h
               else fold (attach_subscribed E room q a) (Participant_SubscribedTracks q (h_dom h)) h))"

subsection \<open>Publishing\<close>

definition request_kind :: "string \<Rightarrow> TrackKind" where
  "request_kind s = (if s = ''video'' then TrackKindVideo else TrackKindAudio)"

definition request_source :: "string \<Rightarrow> TrackSource" where
  "request_source s =
     (if s = ''camera'' then TrackSourceCamera
      else if s = ''screen_share'' then TrackSourceScreenShare
      else TrackSourceMicrophone)"

text \<open>The forwarder of a newly published track: adopted, or made from the local track of the
  publisher's peer connection, or from a placeholder.\<close>

definition wire_forwarder :: "'p env \<Rightarrow> raddr \<Rightarrow> paddr \<Rightarrow> taddr \<Rightarrow> 'p Handler \<Rightarrow> 'p Handler" where
  "wire_forwarder E room p t h =
     (let trackID = t_id (trk (h_dom h) t)
      in if getForwarder trackID h \<noteq> None then h
         else (case adoptOrphanForwarder E room t p h of
                 (True, h1) \<Rightarrow> h1
               | (False, h1) \<Rightarrow>
                   let localTrack = (case getPeerConnection (p_id (par (h_dom h1) p)) h1 of
                                       None \<Rightarrow> None
                                     | Some a \<Rightarrow> PC_GetLocalTrack trackID (h_pc h1 a))
                   in (case localTrack of
                         Some w \<Rightarrow> snd (getOrCreateForwarder E trackID (Some w) h1)
                       | None \<Rightarrow>
                           (case createPublisherWebRTCTrack E t h1 of
                              Inl err \<Rightarrow> h1
                            | Inr w \<Rightarrow> snd (getOrCreateForwarder E trackID (Some w) h1)))))"

definition handlePublishTrack ::
  "'p env \<Rightarrow> caddr \<Rightarrow> raddr \<Rightarrow> paddr \<Rightarrow> Message \<Rightarrow> 'p Handler \<Rightarrow> gerror option \<times> 'p Handler" where
  "handlePublishTrack E c room p msg h =
     (case UnmarshalData dec_PublishTrackRequest msg of
        Inl err \<Rightarrow> (Some err, h)
      | Inr req \<Rightarrow>
          let info = pr_Track req
          in (case NewTrack (ti_ID info) (request_kind (ti_Kind info)) (request_source (ti_Source info)) (h_dom h) of
                (Inl err, d1) \<Rightarrow> (Some err, set_dom d1 h)
              | (Inr t, d1) \<Rightarrow>
                  (case Participant_PublishTrack p t d1 of
                     (Some err, d2) \<Rightarrow> (Some err, set_dom d2 h)
                   | (None, d2) \<Rightarrow>
                       (case Room_PublishTrack room t d2 of (e, d3) \<Rightarrow>
                          if e \<noteq> None \<and> e \<noteq> Some (derr ErrTrackAlreadyPublished) then (e, set_dom d3 h)
                          else
                            let trackID = t_id (trk d3 t);
                                h1 = wire_forwarder E room p t (set_dom d3 h);
                                h2 = (case getForwarder trackID h1 of
                                        None \<Rightarrow> h1
                                      | Some fw \<Rightarrow>
                                          if WebRTCTrack_IsRemote (f_publisher (h_fw h1 fw))
                                          then autoSubscribeExistingParticipants E room p trackID h1
                                          else h1)
                            in (case conn_Send c MessageTypeTrackPublished
                                       (TrackPublishedResponse (ti_ID info) (pr_ParticipantID req) ''success'') h2 of
                                  (Some err, h3) \<Rightarrow> (Some err, h3)
                                | (None, h3) \<Rightarrow> (None, broadcastTrackAvailable room p t h3))))))"

definition handleUnpublishTrack ::
  "'p env \<Rightarrow> caddr \<Rightarrow> raddr \<Rightarrow> paddr \<Rightarrow> Message \<Rightarrow> 'p Handler \<Rightarrow> gerror option \<times> 'p Handler" where
  "handleUnpublishTrack E c room p msg h =
     (case UnmarshalData dec_TrackRequest msg of
        Inl err \<Rightarrow> (Some err, h)
      | Inr req \<Rightarrow>
          (case Participant_UnpublishTrack p (tr_TrackID req) (h_dom h) of
             (Some err, d1) \<Rightarrow> (Some err, set_dom d1 h)
           | (None, d1) \<Rightarrow>
               (case Room_UnpublishTrack room (tr_TrackID req) d1 of (e, d2) \<Rightarrow>
                  if e \<noteq> None \<and> e \<noteq> Some (derr ErrTrackNotFound) then (e, set_dom d2 h)
                  else
                    let h1 = removeForwarder E (tr_TrackID req) (set_dom d2 h);
                        h2 = (case getPeerConnection (p_id (par (h_dom h1) p)) h1 of
                                None \<Rightarrow> h1
                              | Some a \<Rightarrow>
                                  set_pc a (snd (PC_RemoveTrack (E_pion E) (tr_TrackID req) (h_pc h1 a))) h1)
                    in (case conn_Send c MessageTypeTrackUnpublished
                               (TrackUnpublishedResponse (tr_TrackID req) (tr_ParticipantID req) ''success'') h2 of
                          (Some err, h3) \<Rightarrow> (Some err, h3)
                        | (None, h3) \<Rightarrow> (None, broadcastTrackUnavailable room p (tr_TrackID req) h3)))))"

subsection \<open>Subscribing\<close>

text \<open>The forwarder that a subscription makes when there is none: from the local track of the
  publisher's peer connection, or else around a placeholder. The result is the error that
  refuses the subscription, or the forwarder if there is one.\<close>

definition lazy_forwarder ::
  "'p env \<Rightarrow> raddr \<Rightarrow> string \<Rightarrow> 'p Handler \<Rightarrow> (gerror + nat option) \<times> 'p Handler" where
  "lazy_forwarder E room trackID h =
     (case Room_GetTrack room trackID (h_dom h) of
        None \<Rightarrow> (Inr None, h)
      | Some t \<Rightarrow>
          (case publisher (trk (h_dom h) t) of
             None \<Rightarrow> (Inr None, h)
           | Some pub \<Rightarrow>
               let localTrack = (case getPeerConnection (p_id (par (h_dom h) pub)) h of
                                   None \<Rightarrow> None
                                 | Some a \<Rightarrow> PC_GetLocalTrack trackID (h_pc h a))
               in (case localTrack of
                     Some w \<Rightarrow>
                       (case getOrCreateForwarder E trackID (Some w) h of
                          (Inl err, h1) \<Rightarrow> (Inl err, h1)
                        | (Inr fw, h1) \<Rightarrow> (Inr (Some fw), h1))
                   | None \<Rightarrow>
                       (case createPublisherWebRTCTrack E t h of
                          Inl err \<Rightarrow> (Inr None, h)
                        | Inr w \<Rightarrow>
                            (case getOrCreateForwarder E trackID (Some w) h of
                               (Inl err, h1) \<Rightarrow> (Inr None, h1)
                             | (Inr fw, h1) \<Rightarrow> (Inr (Some fw), h1))))))"

definition shouldDeferProvisionalSubscription ::
  "'p env \<Rightarrow> string \<Rightarrow> nat \<Rightarrow> nat \<Rightarrow> 'p Handler \<Rightarrow> bool \<times> string" where
  "shouldDeferProvisionalSubscription E trackID fw subPC h =
     (let sub = h_pc h subPC; pt = f_publisher (h_fw h fw)
      in if \<not> PeerConnectionState_Usable (pc_state sub) then (False, '''')
         else if pc_state sub \<noteq> PeerConnectionStateConnected \<and>
                 P_RemoteDescription (E_pion E) (pionPC sub) = None then (False, '''')
         else if WebRTCTrack_IsRemote pt then (False, '''')
         else (case publisher (trk (h_dom h) (wt_domain pt)) of
                 None \<Rightarrow> (False, '''')
               | Some pub \<Rightarrow>
                   (case getPeerConnection (p_id (par (h_dom h) pub)) h of
                      None \<Rightarrow> (False, '''')
                    | Some a \<Rightarrow>
                        let pubPC = h_pc h a in
                        if PC_GetLocalTrack trackID pubPC \<noteq> None then (False, ''publisher_local_track'')
                        else if P_LocalDescription (E_pion E) (pionPC pubPC) \<noteq> None \<or>
                                P_RemoteDescription (E_pion E) (pionPC pubPC) \<noteq> None
                        then (True, ''publisher_description_set'')
                        else if sigState (E_pion E) pubPC \<noteq> SignalingStateStable
                        then (True, ''publisher_signaling_not_stable'')
                        else (False, ''''))))"

text \<open>The domain subscription is taken back when the media side refuses.\<close>

definition undo_subscription :: "paddr \<Rightarrow> string \<Rightarrow> 'p Handler \<Rightarrow> 'p Handler" where
  "undo_subscription p trackID h = set_dom (snd (Participant_UnsubscribeTrack p trackID (h_dom h))) h"

definition track_publisherID :: "paddr \<Rightarrow> string \<Rightarrow> dheap \<Rightarrow> string" where
  "track_publisherID p trackID d =
     (case Participant_GetSubscribedTrack p trackID d of
        None \<Rightarrow> ''''
      | Some t \<Rightarrow> (case publisher (trk d t) of None \<Rightarrow> '''' | Some pub \<Rightarrow> p_id (par d pub)))"

definition subscribe_media ::
  "'p env \<Rightarrow> caddr \<Rightarrow> paddr \<Rightarrow> string \<Rightarrow> string \<Rightarrow> nat \<Rightarrow> nat \<Rightarrow> 'p Handler \<Rightarrow> gerror option \<times> 'p Handler" where
  "subscribe_media E c p trackID publisherID subPC fw h =
     (let resp = TrackSubscribedResponse trackID publisherID ''success''
      in if fst (shouldDeferProvisionalSubscription E trackID fw subPC h)
         then conn_Send c MessageTypeTrackSubscribed resp h
         else (case attach_subscriber E fw subPC h of
                 (Some err, h1) \<Rightarrow> (Some err, undo_subscription p trackID h1)
               | (None, h1) \<Rightarrow>
                   conn_Send c MessageTypeTrackSubscribed resp (requestUpstreamKeyframe E trackID h1)))"

definition handleSubscribeTrack ::
  "'p env \<Rightarrow> caddr \<Rightarrow> raddr \<Rightarrow> paddr \<Rightarrow> Message \<Rightarrow> 'p Handler \<Rightarrow> gerror option \<times> 'p Handler" where
  "handleSubscribeTrack E c room p msg h =
     (case UnmarshalData dec_TrackRequest msg of
        Inl err \<Rightarrow> (Some err, h)
      | Inr req \<Rightarrow>
          let trackID = tr_TrackID req
          in (case Room_SubscribeToTrack room p trackID (h_dom h) of
                (Some err, d) \<Rightarrow> (Some err, set_dom d h)
              | (None, d) \<Rightarrow>
                  let h1 = set_dom d h;
                      publisherID = track_publisherID p trackID d
                  in (case getPeerConnection (p_id (par d p)) h1 of
                        None \<Rightarrow> (Some (werr ErrNoPeerConnection), undo_subscription p trackID h1)
                      | Some subPC \<Rightarrow>
                          (case (case getForwarder trackID h1 of
                                   Some fw \<Rightarrow> (Inr (Some fw), h1)
                                 | None \<Rightarrow> lazy_forwarder E room trackID h1) of
                             (Inl err, h2) \<Rightarrow> (Some err, undo_subscription p trackID h2)
                           | (Inr None, h2) \<Rightarrow> (Some (werr ErrTrackNotReady), undo_subscription p trackID h2)
                           | (Inr (Some fw), h2) \<Rightarrow>
                               subscribe_media E c p trackID publisherID subPC fw h2))))"

definition handleUnsubscribeTrack ::
  "'p env \<Rightarrow> caddr \<Rightarrow> raddr \<Rightarrow> paddr \<Rightarrow> Message \<Rightarrow> 'p Handler \<Rightarrow> gerror option \<times> 'p Handler" where
  "handleUnsubscribeTrack E c room p msg h =
     (case UnmarshalData dec_TrackRequest msg of
        Inl err \<Rightarrow> (Some err, h)
      | Inr req \<Rightarrow>
          (case Room_UnsubscribeFromTrack room p (tr_TrackID req) (h_dom h) of
             (Some err, d) \<Rightarrow> (Some err, set_dom d h)
           | (None, d) \<Rightarrow>
               let h1 = set_dom d h;
                   h2 = (case getPeerConnection (p_id (par d p)) h1 of
                           None \<Rightarrow> h1
                         | Some a \<Rightarrow> removeSubscriberFromForwarder E (tr_TrackID req) (Some a) h1)
               in conn_Send c MessageTypeTrackUnsubscribed
                    (TrackUnsubscribedResponse (tr_TrackID req) (tr_ParticipantID req) ''success'') h2))"

subsection \<open>Negotiation\<close>

definition sendWebRTCError :: "caddr \<Rightarrow> MessageType \<Rightarrow> gerror \<Rightarrow> 'p Handler \<Rightarrow> 'p Handler" where
  "sendWebRTCError c requestType err h =
     snd (conn_Send c MessageTypeError
       (ErrorResponse (error_text err) (errorCodeFromError (Some err)) requestType) h)"

definition handleOffer ::
  "'p env \<Rightarrow> caddr \<Rightarrow> raddr \<Rightarrow> paddr \<Rightarrow> Message \<Rightarrow> 'p Handler \<Rightarrow> gerror option \<times> 'p Handler" where
  "handleOffer E c room p msg h =
     (case UnmarshalData dec_OfferRequest msg of
        Inl err \<Rightarrow> (None, sendWebRTCError c (msg_Type msg) err h)
      | Inr req \<Rightarrow>
          (case ValidateOfferRequest (Some req) of
             Some err \<Rightarrow> (None, sendWebRTCError c (msg_Type msg) err h)
           | None \<Rightarrow>
               (case Room_GetParticipant room (or_TargetParticipantID req) (h_dom h) of
                  None \<Rightarrow> (None, sendWebRTCError c (msg_Type msg) (derr ErrParticipantNotFound) h)
                | Some target \<Rightarrow>
                    (case getPeerConnection (or_TargetParticipantID req) h of
                       None \<Rightarrow> (None, sendWebRTCError c (msg_Type msg) (serr ErrConnectionNotFound) h)
                     | Some a \<Rightarrow>
                         let offer = \<lparr>sd_type = SDPTypeOffer, sd_sdp = or_SDP req\<rparr>
                         in (case ProcessBrowserOffer (E_pion E) offer (h_pc h a) of
                               ((answer, deferred, err), pc1) \<Rightarrow>
                                 let h1 = set_pc a pc1 h
                                 in (case (err, answer) of
                                       (Some e, _) \<Rightarrow> (None, sendWebRTCError c (msg_Type msg) e h1)
                                     | (None, None) \<Rightarrow> (None, h1)
                                     | (None, Some ans) \<Rightarrow>
                                         (case conn_Send c MessageTypeAnswer
                                                 (AnswerNotification (or_TargetParticipantID req) (sd_sdp ans)) h1 of
                                            (Some e, h2) \<Rightarrow> (Some e, h2)
                                          | (None, h2) \<Rightarrow>
                                              let h3 = attachSubscribedReadyTracks E room (Some target) h2
                                              in (None, flush_sent a (set_pc a
                                                    (FlushDeferredNegotiation (E_pion E) (h_pc h3 a)) h3)))))))))"

definition handleAnswer ::
  "'p env \<Rightarrow> caddr \<Rightarrow> raddr \<Rightarrow> paddr \<Rightarrow> Message \<Rightarrow> 'p Handler \<Rightarrow> gerror option \<times> 'p Handler" where
  "handleAnswer E c room p msg h =
     (case UnmarshalData dec_AnswerRequest msg of
        Inl err \<Rightarrow> (None, sendWebRTCError c (msg_Type msg) err h)
      | Inr req \<Rightarrow>
          (case ValidateAnswerRequest (Some req) of
             Some err \<Rightarrow> (None, sendWebRTCError c (msg_Type msg) err h)
           | None \<Rightarrow>
               (case getPeerConnection (ar_TargetParticipantID req) h of
                  None \<Rightarrow> (None, sendWebRTCError c (msg_Type msg) (serr ErrConnectionNotFound) h)
                | Some a \<Rightarrow>
                    let answer = \<lparr>sd_type = SDPTypeAnswer, sd_sdp = ar_SDP req\<rparr>
                    in (case ProcessBrowserAnswer (E_pion E) answer (h_pc h a) of (err, pc1) \<Rightarrow>
                          let h1 = flush_sent a (set_pc a pc1 h)
                          in (case err of
                                Some e \<Rightarrow>
                                  if errors_Is e (WebrtcE ErrNoPendingOffer) then (None, h1)
                                  else (None, sendWebRTCError c (msg_Type msg) e h1)
                              | None \<Rightarrow>
                                  (None, attachSubscribedReadyTracks E room
                                     (Room_GetParticipant room (ar_TargetParticipantID req) (h_dom h1)) h1))))))"

definition handleICECandidate ::
  "'p env \<Rightarrow> caddr \<Rightarrow> raddr \<Rightarrow> paddr \<Rightarrow> Message \<Rightarrow> 'p Handler \<Rightarrow> gerror option \<times> 'p Handler" where
  "handleICECandidate E c room p msg h =
     (case UnmarshalData dec_ICECandidateRequest msg of
        Inl err \<Rightarrow> (None, sendWebRTCError c (msg_Type msg) err h)
      | Inr req \<Rightarrow>
          (case ValidateICECandidateRequest (Some req) of
             Some err \<Rightarrow> (None, sendWebRTCError c (msg_Type msg) err h)
           | None \<Rightarrow>
               (case getPeerConnection (ic_TargetParticipantID req) h of
                  None \<Rightarrow> (None, sendWebRTCError c (msg_Type msg) (serr ErrConnectionNotFound) h)
                | Some a \<Rightarrow>
                    let candidate = \<lparr>ice_Candidate = ic_Candidate req, ice_SDPMid = Some (ic_SDPMid req),
                          ice_SDPMLineIndex = Some (word_of_int (ic_SDPMLineIndex req))\<rparr>
                    in (case PC_AddICECandidateWithRetry (E_pion E) candidate (h_pc h a) of
                          (Some err, pc1) \<Rightarrow> (None, sendWebRTCError c (msg_Type msg) err (set_pc a pc1 h))
                        | (None, pc1) \<Rightarrow> (None, set_pc a pc1 h)))))"

subsection \<open>Dispatch\<close>

definition handleMessage ::
  "'p env \<Rightarrow> caddr \<Rightarrow> raddr \<Rightarrow> paddr \<Rightarrow> Message \<Rightarrow> 'p Handler \<Rightarrow> gerror option \<times> 'p Handler" where
  "handleMessage E c room p msg h =
     (let t = msg_Type msg in
      if t = MessageTypeCreateRoom then handleCreateRoom E c msg h
      else if t = MessageTypeJoinRoom then handleJoinRoom c room p msg h
      else if t = MessageTypeLeaveRoom then handleLeaveRoom E c room p msg h
      else if t = MessageTypePublishTrack then handlePublishTrack E c room p msg h
      else if t = MessageTypeUnpublishTrack then handleUnpublishTrack E c room p msg h
      else if t = MessageTypeSubscribeTrack then handleSubscribeTrack E c room p msg h
      else if t = MessageTypeUnsubscribeTrack then handleUnsubscribeTrack E c room p msg h
      else if t = MessageTypeOffer then handleOffer E c room p msg h
      else if t = MessageTypeAnswer then handleAnswer E c room p msg h
      else if t = MessageTypeICECandidate then handleICECandidate E c room p msg h
      else (None, h))"

subsection \<open>The life of a connection\<close>

text \<open>\<open>ServeHTTP\<close> after the upgrade: the connection is registered and its goroutine started.\<close>

definition ServeHTTP :: "string \<Rightarrow> string \<Rightarrow> caddr \<Rightarrow> 'p Handler \<Rightarrow> bool \<times> 'p Handler" where
  "ServeHTTP roomID participantID c h =
     (if roomID = '''' \<or> participantID = '''' then (False, h)
      else (True, h\<lparr>h_connectionManager := ConnectionManager_Add (h_conn h) c (h_connectionManager h)\<rparr>))"

text \<open>The deferred calls of \<open>handleConnection\<close>.\<close>

definition end_connection :: "caddr \<Rightarrow> 'p Handler \<Rightarrow> 'p Handler" where
  "end_connection c h =
     h\<lparr>h_connectionManager := snd (ConnectionManager_RemoveIf (c_participantID (h_conn h c)) c (h_connectionManager h)),
       h_conn := (h_conn h)(c := Connection_Close (h_conn h c))\<rparr>"

definition refuse_connection :: "caddr \<Rightarrow> string \<Rightarrow> string \<Rightarrow> 'p Handler \<Rightarrow> 'p Handler" where
  "refuse_connection c text code h =
     end_connection c (snd (conn_Send c MessageTypeError (ErrorResponse text code MessageTypeJoinRoom) h))"

text \<open>The part before the message loop: the room and participant of the connection, or nothing
  when the connection is given up.\<close>

definition enter_room :: "'p env \<Rightarrow> caddr \<Rightarrow> raddr \<Rightarrow> string \<Rightarrow> 'p Handler \<Rightarrow> paddr option \<times> 'p Handler" where
  "enter_room E c room i h =
     (case Room_GetParticipant room i (h_dom h) of
        Some p \<Rightarrow>
          (Some p, snd (ensurePeerConnection E p c
             (set_dom (Participant_SetRoom p (Some room) (h_dom h)) (cancelGhostTimer i h))))
      | None \<Rightarrow>
          (case join_new room i (''Participant '' @ i) (h_dom h) of
             (Inl err, d) \<Rightarrow>
               (None, refuse_connection c ''Failed to join room'' (errorCodeFromDomainError (Some err)) (set_dom d h))
           | (Inr p, d) \<Rightarrow>
               (case ensurePeerConnection E p c (set_dom d h) of
                  (Inl err, h1) \<Rightarrow>
                    (None, refuse_connection c ''Failed to create peer connection'' ErrorCodeInternalError h1)
                | (Inr _, h1) \<Rightarrow> (Some p, broadcastParticipantJoined room p h1))))"

definition handleConnection_open ::
  "'p env \<Rightarrow> caddr \<Rightarrow> 'p Handler \<Rightarrow> (raddr \<times> paddr) option \<times> 'p Handler" where
  "handleConnection_open E c h =
     (case RoomManager_GetOrCreateRoom (c_roomID (h_conn h c)) (h_roomManager h) (h_dom h) of
        (Inl err, rm, d) \<Rightarrow>
          (None, refuse_connection c ''Failed to get or create room'' ErrorCodeInternalError
             (h\<lparr>h_roomManager := rm, h_dom := d\<rparr>))
      | (Inr room, rm, d) \<Rightarrow>
          (case enter_room E c room (c_participantID (h_conn h c)) (h\<lparr>h_roomManager := rm, h_dom := d\<rparr>) of
             (None, h1) \<Rightarrow> (None, h1)
           | (Some p, h1) \<Rightarrow>
               (case sendRoomJoined c room p h1 of
                  (Some err, h2) \<Rightarrow> (None, end_connection c h2)
                | (None, h2) \<Rightarrow> (Some (room, p), h2))))"

definition handleConnectionClosed :: "raddr \<Rightarrow> paddr \<Rightarrow> 'p Handler \<Rightarrow> 'p Handler" where
  "handleConnectionClosed room p h = armGhostTimer (r_id (rom (h_dom h) room)) (p_id (par (h_dom h) p)) h"

text \<open>One round of the message loop: \<open>None\<close> while there is nothing to receive, otherwise whether
  the loop goes on.\<close>

definition handleConnection_step ::
  "'p env \<Rightarrow> caddr \<Rightarrow> raddr \<Rightarrow> paddr \<Rightarrow> 'p Handler \<Rightarrow> (bool \<times> 'p Handler) option" where
  "handleConnection_step E c room p h =
     (case Connection_Receive (h_conn h c) of
        None \<Rightarrow> None
      | Some (Inl err, x) \<Rightarrow>
          Some (False, end_connection c (handleConnectionClosed room p (h\<lparr>h_conn := (h_conn h)(c := x)\<rparr>)))
      | Some (Inr msg, x) \<Rightarrow>
          Some (True,
            case handleMessage E c room p msg (h\<lparr>h_conn := (h_conn h)(c := x)\<rparr>) of
              (None, h1) \<Rightarrow> h1
            | (Some err, h1) \<Rightarrow>
                snd (conn_Send c MessageTypeError
                  (ErrorResponse (error_text err) (errorCodeFromError (Some err)) (msg_Type msg)) h1)))"

subsection \<open>Events from pion and started goroutines\<close>

text \<open>\<open>handleTrack\<close> of the peer connection: a remote track has arrived with its identifier on the
  wire. The domain track is the registered one of that identifier, or the first published
  track of the participant with that kind, or a new one.\<close>

definition remote_kind :: "bool \<Rightarrow> TrackKind" where
  "remote_kind video = (if video then TrackKindVideo else TrackKindAudio)"

definition remote_source :: "bool \<Rightarrow> TrackSource" where
  "remote_source video = (if video then TrackSourceCamera else TrackSourceMicrophone)"

definition match_published :: "paddr \<Rightarrow> string \<Rightarrow> TrackKind \<Rightarrow> dheap \<Rightarrow> taddr option" where
  "match_published p wireID kind d =
     (case p_room (par d p) of
        None \<Rightarrow> None
      | Some r \<Rightarrow>
          (case Room_GetTrack r wireID d of
             Some t \<Rightarrow> Some t
           | None \<Rightarrow>
               (case find (\<lambda>i. case Room_GetTrack r i d of None \<Rightarrow> False | Some t \<Rightarrow> t_kind (trk d t) = kind)
                       (Participant_PublishedTracks p d) of
                  None \<Rightarrow> None
                | Some i \<Rightarrow> Room_GetTrack r i d)))"

definition remote_domain_track :: "paddr \<Rightarrow> string \<Rightarrow> bool \<Rightarrow> dheap \<Rightarrow> (gerror + taddr) \<times> dheap" where
  "remote_domain_track p wireID video d =
     (case match_published p wireID (remote_kind video) d of
        Some t \<Rightarrow> (Inr t, d)
      | None \<Rightarrow>
          (case NewTrack wireID (remote_kind video) (remote_source video) d of
             (Inl err, d1) \<Rightarrow> (Inl err, d1)
           | (Inr t, d1) \<Rightarrow> (Inr t, Track_Publish t (Track_SetPublisher t (Some p) d1))))"

definition onTrack :: "'p env \<Rightarrow> paddr \<Rightarrow> WebRTCTrack \<Rightarrow> 'p Handler \<Rightarrow> 'p Handler" where
  "onTrack E p track h =
     (case getOrCreateForwarder E (wt_id track) (Some track) h of
        (Inl err, h1) \<Rightarrow> h1
      | (Inr _, h1) \<Rightarrow>
          (case p_room (par (h_dom h1) p) of
             None \<Rightarrow> h1
           | Some r \<Rightarrow>
               if Room_GetTrack r (wt_id track) (h_dom h1) = None then h1
               else autoSubscribeExistingParticipants E r p (wt_id track) h1))"

definition PC_handleTrack ::
  "'p env \<Rightarrow> nat \<Rightarrow> string \<Rightarrow> bool \<Rightarrow> 32 word \<Rightarrow> Codec \<Rightarrow> 'p Handler \<Rightarrow> 'p Handler" where
  "PC_handleTrack E a wireID video ssrc codec h =
     (let p = h_pcOwner h a
      in case remote_domain_track p wireID video (h_dom h) of
           (Inl err, d) \<Rightarrow> set_dom d h
         | (Inr t, d) \<Rightarrow>
             let h1 = set_dom d h;
                 w = \<lparr>wt_domain = t, wt_id = t_id (trk d t), wt_kind = t_kind (trk d t),
                      wt_track = Some (TrackRemote ssrc), wt_codec = codec\<rparr>;
                 pc = h_pc h1 a;
                 tracks1 = mput (wt_id w) w (remoteTracks pc);
                 tracks2 = (if wireID \<noteq> wt_id w then mput wireID w tracks1 else tracks1)
             in onTrack E p w (set_pc a (pc\<lparr>remoteTracks := tracks2\<rparr>) h1))"

definition run_task :: "'p env \<Rightarrow> task \<Rightarrow> 'p Handler \<Rightarrow> 'p Handler" where
  "run_task E t h =
     (case t of
        TaskOffer a \<Rightarrow> flush_sent a (set_pc a (snd (RequestSubscriberOffer (E_pion E) (h_pc h a))) h)
      | TaskLocalTrackAdded w \<Rightarrow> snd (getOrCreateForwarder E (wt_id w) (Some w) h))"

text \<open>Some started goroutine runs.\<close>

definition run_nth_task :: "'p env \<Rightarrow> nat \<Rightarrow> 'p Handler \<Rightarrow> 'p Handler" where
  "run_nth_task E n h =
     (if n < length (h_tasks h)
      then run_task E (h_tasks h ! n) (h\<lparr>h_tasks := take n (h_tasks h) @ drop (Suc n) (h_tasks h)\<rparr>)
      else h)"

definition negotiationNeeded :: "'p env \<Rightarrow> nat \<Rightarrow> 'p Handler \<Rightarrow> 'p Handler" where
  "negotiationNeeded E a h = flush_sent a (set_pc a (handleNegotiationNeeded (E_pion E) (h_pc h a)) h)"

definition dispatchICECandidate :: "nat \<Rightarrow> ICECandidate \<Rightarrow> 'p Handler \<Rightarrow> 'p Handler" where
  "dispatchICECandidate a cand h =
     flush_sent a (set_pc a (pc_send (PcCandidate (pc_participantID (h_pc h a)) (ice_Candidate cand)
       (ICECandidate_SDPMid cand) (uint (ICECandidate_SDPMLineIndex cand))) (h_pc h a)) h)"

text \<open>The timer of a participant fires.\<close>

definition ghostTimer_fires :: "'p env \<Rightarrow> string \<Rightarrow> 'p Handler \<Rightarrow> 'p Handler" where
  "ghostTimer_fires E participantID h =
     (case mget (h_ghostTimers h) participantID of
        None \<Rightarrow> h
      | Some roomID \<Rightarrow> reapGhost E roomID participantID h)"

end
