(* ===== verification/Handler_Frames.thy ===== *)
theory Handler_Frames
  imports Handler_Requests
begin

text \<open>
  What the steps of the handler leave alone. The media side never touches the domain heap or
  the registries of connections and timers; sending changes nothing but connections; the
  teardown of forwarders only shrinks the registry. The facts are collected in
  \<open>handler_frame\<close>.
\<close>

named_theorems handler_frame \<open>fields of the handler that an operation leaves alone\<close>

text \<open>The part of the state that concerns rooms, connections and timers is the same.\<close>

definition same_session :: "'p Handler \<Rightarrow> 'p Handler \<Rightarrow> bool" where
  "same_session h h' \<longleftrightarrow> h_dom h' = h_dom h \<and> h_roomManager h' = h_roomManager h \<and>
     h_connectionManager h' = h_connectionManager h \<and> h_conn h' = h_conn h \<and> h_ghostTimers h' = h_ghostTimers h \<and>
     h_gcTTL h' = h_gcTTL h \<and> h_gcReapedCount h' = h_gcReapedCount h"

text \<open>Only connections differ.\<close>

definition only_sent :: "'p Handler \<Rightarrow> 'p Handler \<Rightarrow> bool" where
  "only_sent h h' \<longleftrightarrow> (\<exists>conns. h' = h\<lparr>h_conn := conns\<rparr>)"

lemma same_session_refl [simp, intro]: "same_session h h"
  by (simp add: same_session_def)

lemma same_session_trans [trans]: "same_session h h' \<Longrightarrow> same_session h' h'' \<Longrightarrow> same_session h h''"
  by (simp add: same_session_def)

lemma same_session_dom: "same_session h h' \<Longrightarrow> h_dom h' = h_dom h"
  by (simp add: same_session_def)

lemma same_session_fold:
  assumes "\<And>x g. x \<in> set xs \<Longrightarrow> same_session g (f x g)"
  shows "same_session h (fold f xs h)"
  using assms
proof (induction xs arbitrary: h)
  case (Cons x xs)
  have "same_session (f x h) (fold f xs (f x h))" by (rule Cons.IH) (simp add: Cons.prems)
  then show ?case using Cons.prems [of x h] by (auto intro: same_session_trans)
qed simp

lemma only_sent_refl [simp, intro]: "only_sent h h"
  unfolding only_sent_def by (rule exI [of _ "h_conn h"]) simp

lemma only_sent_trans [trans]: "only_sent h h' \<Longrightarrow> only_sent h' h'' \<Longrightarrow> only_sent h h''"
  by (force simp: only_sent_def)

lemma only_sent_fold:
  assumes "\<And>x g. only_sent g (f x g)"
  shows "only_sent h (fold f xs h)"
proof (induction xs arbitrary: h)
  case (Cons x xs)
  show ?case using only_sent_trans [OF assms Cons.IH] by simp
qed simp

lemma only_sentD:
  assumes "only_sent h h'"
  shows "h_dom h' = h_dom h" "h_roomManager h' = h_roomManager h"
    "h_connectionManager h' = h_connectionManager h" "h_ghostTimers h' = h_ghostTimers h"
    "h_peerConnections h' = h_peerConnections h" "h_pc h' = h_pc h"
    "h_trackForwarders h' = h_trackForwarders h" "h_fw h' = h_fw h" "h_npc h' = h_npc h" "h_nfw h' = h_nfw h"
    "h_pcSender h' = h_pcSender h"
  using assms by (auto simp: only_sent_def)

subsection \<open>Sending\<close>

lemma conn_Send_only [handler_frame]: "only_sent h (snd (conn_Send c t d h))"
  by (auto simp: conn_Send_def only_sent_def split: prod.split)

lemma conn_Send_onlyD: "conn_Send c t d h = (e, h') \<Longrightarrow> only_sent h h'"
  using conn_Send_only [of h c t d] by simp

lemma broadcast_one_only: "only_sent h (broadcast_one t d ex i h)"
  by (simp add: broadcast_one_def conn_Send_only split: option.split)

lemma broadcastToRoom_only [handler_frame]: "only_sent h (broadcastToRoom r t d ex h)"
  by (simp add: broadcastToRoom_def only_sent_fold broadcast_one_only)

lemma broadcasts_only [handler_frame]:
  "only_sent h (broadcastParticipantJoined r p h)" "only_sent h (broadcastParticipantLeft r p h)"
  "only_sent h (broadcastTrackAvailable r p t h)" "only_sent h (broadcastTrackUnavailable r p k h)"
  by (simp_all add: broadcastParticipantJoined_def broadcastParticipantLeft_def
      broadcastTrackAvailable_def broadcastTrackUnavailable_def broadcastToRoom_only)

lemma sendWebRTCError_only [handler_frame]: "only_sent h (sendWebRTCError c t e h)"
  by (simp add: sendWebRTCError_def conn_Send_only)

lemma sendRoomJoined_only: "sendRoomJoined c r p h = (e, h') \<Longrightarrow> only_sent h h'"
  by (auto simp: sendRoomJoined_def Let_def dest: conn_Send_onlyD)

lemma set_pc_session [simp, handler_frame]: "same_session h (set_pc a pc h)"
  by (simp add: set_pc_def same_session_def)

lemma set_fw_session [simp, handler_frame]: "same_session h (set_fw i st h)"
  by (simp add: set_fw_def same_session_def split: prod.split)

lemma flush_sent_only [handler_frame]: "only_sent (set_pc a ((h_pc h a)\<lparr>sentLog := []\<rparr>) h) (flush_sent a h)"
  unfolding flush_sent_def set_pc_def
  by (rule only_sent_fold) (simp add: case_prod_beta conn_Send_only)

lemma flush_sent_dom [simp]: "h_dom (flush_sent a h) = h_dom h"
  using only_sentD(1) [OF flush_sent_only] by (simp add: set_pc_def)

subsection \<open>The media side\<close>

lemma closePeerConnection_session [handler_frame]: "same_session h (closePeerConnection E i h)"
  by (simp add: closePeerConnection_def Let_def set_pc_def same_session_def split: option.split)

lemma PC_WriteRTCP_session: "same_session h (snd (PC_WriteRTCP E a pkt h))"
  by (simp add: PC_WriteRTCP_def same_session_def)

lemma requestUpstreamKeyframe_session [handler_frame]: "same_session h (requestUpstreamKeyframe E k h)"
  by (simp add: requestUpstreamKeyframe_def Let_def PC_WriteRTCP_session split: option.split prod.split)

lemma fw_ops_session [handler_frame]:
  "same_session h (snd (fw_AddSubscriber E i a h))" "same_session h (fw_RemoveSubscriber E i a h)"
  "same_session h (fw_Stop E i h)"
  by (simp_all add: fw_AddSubscriber_def fw_RemoveSubscriber_def fw_Stop_def split: prod.split)

lemma removeForwarder_session [handler_frame]: "same_session h (removeForwarder E k h)"
proof -
  have "same_session h (fw_Stop E i (h\<lparr>h_trackForwarders := m\<rparr>))" for i m
    by (rule same_session_trans [OF _ fw_ops_session(3)]) (simp add: same_session_def)
  then show ?thesis by (simp add: removeForwarder_def split: option.split)
qed

lemma detachSubscriber_session [handler_frame]: "same_session h (detachSubscriber E a x h)"
proof -
  have "same_session g (fw_Stop E i (g\<lparr>h_trackForwarders := m\<rparr>))" for i m g
    by (rule same_session_trans [OF _ fw_ops_session(3)]) (simp add: same_session_def)
  then show ?thesis
    by (auto simp: detachSubscriber_def Let_def fw_ops_session intro: same_session_trans [OF fw_ops_session(2)]
        split: prod.split)
qed

lemma removeSubscriber_session [handler_frame]:
  "same_session h (removeSubscriberFromForwarder E k pc h)"
  "same_session h (removeSubscriberFromAllForwarders E pc h)"
  by (simp_all add: removeSubscriberFromForwarder_def removeSubscriberFromAllForwarders_def
      detachSubscriber_session same_session_fold split: option.split)

lemma teardown_media_session [handler_frame]: "same_session h (teardown_media E ks pc i h)"
  unfolding teardown_media_def
  by (rule same_session_trans [OF same_session_trans [OF same_session_fold removeSubscriber_session(2)]
        closePeerConnection_session]) (rule removeForwarder_session)

lemma swapPublisher_session [handler_frame]: "same_session h (snd (swapPublisher E k i w h))"
proof -
  have "same_session h ((set_fw i st h)\<lparr>h_nwt := n\<rparr>)" for st n
    by (simp add: set_fw_def same_session_def split: prod.split)
  then show ?thesis
    by (auto simp: swapPublisher_def Let_def intro: same_session_trans [OF _ requestUpstreamKeyframe_session]
        split: prod.split option.split)
qed

lemma createForwarder_session [handler_frame]: "same_session h (snd (createForwarder k w h))"
  by (auto simp: createForwarder_def same_session_def split: sum.split option.split prod.split)

lemma getOrCreateForwarder_session [handler_frame]: "same_session h (snd (getOrCreateForwarder E k w h))"
  by (simp add: getOrCreateForwarder_def swapPublisher_session createForwarder_session split: option.split)

lemma getOrCreateForwarder_sessionD:
  "getOrCreateForwarder E k w h = (res, h') \<Longrightarrow> same_session h h'"
  using getOrCreateForwarder_session [of h E k w] by simp

lemma adoptOrphanForwarder_session [handler_frame]: "same_session h (snd (adoptOrphanForwarder E r t p h))"
proof -
  have "same_session h h2" if "getOrCreateForwarder E k w (removeForwarder E i h) = (res, h2)" for k w i res h2
    by (rule same_session_trans [OF removeForwarder_session getOrCreateForwarder_sessionD [OF that]])
  then show ?thesis
    by (auto simp: adoptOrphanForwarder_def Let_def
        split: option.split prod.split pion_track.split sum.split)
qed

lemma wire_forwarder_session [handler_frame]: "same_session h (wire_forwarder E r p t h)"
proof -
  obtain b h1 where a: "adoptOrphanForwarder E r t p h = (b, h1)" by fastforce
  have "same_session h h1" using adoptOrphanForwarder_session [of h E r t p] a by simp
  then have "same_session h (snd (getOrCreateForwarder E k w h1))" "same_session h h1" for k w
    by (blast intro: same_session_trans getOrCreateForwarder_session)+
  then show ?thesis
    by (simp add: wire_forwarder_def Let_def a split: option.split sum.split bool.split)
qed

lemma attach_subscriber_session [handler_frame]: "same_session h (snd (attach_subscriber E i a h))"
proof -
  have "same_session h (g\<lparr>h_tasks := ts\<rparr>)" if "same_session h g" for g ts
    using that by (simp add: same_session_def)
  then show ?thesis
    using fw_ops_session(1) [of h E i a]
    by (auto simp: attach_subscriber_def Let_def split: prod.split option.split)
qed

lemma attach_subscriber_sessionD: "attach_subscriber E i a h = (e, h') \<Longrightarrow> same_session h h'"
  using attach_subscriber_session [of h E i a] by simp

lemma autoSubscribe_session [handler_frame]:
  "same_session h (autoSubscribeExistingParticipants E r p k h)"
  by (auto simp: autoSubscribeExistingParticipants_def auto_attach_def attach_subscriber_session
      intro!: same_session_fold split: option.split)

lemma attachSubscribedReadyTracks_session [handler_frame]:
  "same_session h (attachSubscribedReadyTracks E r q h)"
  by (auto simp: attachSubscribedReadyTracks_def attach_subscribed_def attach_subscriber_session
      intro!: same_session_fold split: option.split)

lemma lazy_forwarder_session: "lazy_forwarder E r k h = (res, h') \<Longrightarrow> same_session h h'"
  by (auto simp: lazy_forwarder_def Let_def dest: getOrCreateForwarder_sessionD
      split: option.splits sum.splits prod.splits)

subsection \<open>The domain heap\<close>

lemmas handler_dom [simp] =
  only_sentD(1) [OF conn_Send_only] only_sentD(1) [OF broadcasts_only(1)]
  only_sentD(1) [OF broadcasts_only(2)] only_sentD(1) [OF broadcasts_only(3)]
  only_sentD(1) [OF broadcasts_only(4)] only_sentD(1) [OF sendWebRTCError_only]
  same_session_dom [OF set_pc_session]
  same_session_dom [OF closePeerConnection_session] same_session_dom [OF requestUpstreamKeyframe_session]
  same_session_dom [OF removeForwarder_session] same_session_dom [OF removeSubscriber_session(1)]
  same_session_dom [OF removeSubscriber_session(2)] same_session_dom [OF teardown_media_session]
  same_session_dom [OF wire_forwarder_session] same_session_dom [OF autoSubscribe_session]
  same_session_dom [OF attachSubscribedReadyTracks_session]

lemma conn_Send_dom: "conn_Send c t d h = (e, h') \<Longrightarrow> h_dom h' = h_dom h"
  by (blast dest: conn_Send_onlyD only_sentD(1))

end
