(* ===== verification/Handler_Refinement.thy ===== *)
theory Handler_Refinement
  imports Handler_Frames
begin

text \<open>
  The requests of a member drive its room only by the steps of the room protocol: the handler
  refines the room protocol of the theory \<open>Room_Protocol\<close>, request by request, and inherits
  its invariant. Requests that fail on the media side take their domain part back.
\<close>

lemma set_dom_sel [simp]:
  "h_dom (set_dom d h) = d" "h_peerConnections (set_dom d h) = h_peerConnections h"
  "h_trackForwarders (set_dom d h) = h_trackForwarders h" "h_ghostTimers (set_dom d h) = h_ghostTimers h"
  "h_connectionManager (set_dom d h) = h_connectionManager h" "h_conn (set_dom d h) = h_conn h"
  "h_fw (set_dom d h) = h_fw h" "h_pc (set_dom d h) = h_pc h"
  by (simp_all add: set_dom_def)

lemma cancelGhostTimer_dom [simp]: "h_dom (cancelGhostTimer i h) = h_dom h"
  by (simp add: cancelGhostTimer_def)

abbreviation room_steps :: "raddr \<Rightarrow> dheap \<Rightarrow> dheap \<Rightarrow> bool" where
  "room_steps r \<equiv> (room_step r)\<^sup>*\<^sup>*"

lemmas session_dom = same_session_dom only_sentD(1)

subsection \<open>Request by request\<close>

lemma undo_restores:
  assumes "room_ok r d" and "is_member r d i p" and "Room_SubscribeToTrack r p k d = (None, d1)"
    and "same_session (set_dom d1 h) g"
  shows "h_dom (undo_subscription p k g) = d"
proof -
  have "Participant_UnsubscribeTrack p k d1 = (None, d)"
    by (rule Unsubscribe_ok_participant [OF unsubscribe_restores [OF assms(1-3)]])
  then show ?thesis using assms(4) by (simp add: undo_subscription_def same_session_def)
qed

lemma handleJoinRoom_dom: "handleJoinRoom c r p msg h = (e, h') \<Longrightarrow> h_dom h' = h_dom h"
  by (auto simp: handleJoinRoom_def dest!: sendRoomJoined_only only_sentD(1) split: sum.splits)

lemma handleLeaveRoom_dom:
  assumes "handleLeaveRoom E c r p msg h = (e, h')"
  shows "h_dom h' = h_dom h \<or> (\<exists>i e. Room_Leave r i (h_dom h) = (e, h_dom h'))"
proof (cases "UnmarshalData dec_LeaveRoomRequest msg")
  case (Inl err)
  then show ?thesis using assms by (simp add: handleLeaveRoom_def)
next
  case (Inr req)
  obtain e1 d where l: "Room_Leave r (lr_ParticipantID req) (h_dom h) = (e1, d)" by fastforce
  then have "h_dom h' = d"
    using assms Inr
    by (auto simp: handleLeaveRoom_def Let_def dest!: conn_Send_dom split: prod.splits option.splits)
  with l show ?thesis by blast
qed

lemma request_valid:
  "isValidTrackKind (request_kind s)" "isValidTrackSource (request_source s)"
  by (simp_all add: isValidTrackKind_def isValidTrackSource_def request_kind_def request_source_def)

lemma handlePublishTrack_dom:
  assumes m: "is_member r (h_dom h) i p" and "handlePublishTrack E c r p msg h = (e, h')"
  shows "room_steps r (h_dom h) (h_dom h')"
proof (cases "UnmarshalData dec_PublishTrackRequest msg")
  case (Inl err)
  then show ?thesis using assms by (simp add: handlePublishTrack_def)
next
  case (Inr req)
  let ?i = "pr_Track req"
  obtain t d1 where n: "NewTrack (ti_ID ?i) (request_kind (ti_Kind ?i)) (request_source (ti_Source ?i)) (h_dom h) =
      (Inr t, d1)"
    by (simp add: NewTrack_def request_valid)
  obtain e2 d2 where pt: "Participant_PublishTrack p t d1 = (e2, d2)" by fastforce
  show ?thesis
  proof (cases e2)
    case (Some err)
    then have "h_dom h' = d2" using assms(2) Inr n pt by (auto simp: handlePublishTrack_def Let_def)
    then show ?thesis using room_step.publish_refused [OF m n] pt Some by blast
  next
    case None
    obtain e3 d3 where rp: "Room_PublishTrack r t d2 = (e3, d3)" by fastforce
    have "h_dom h' = d3"
      using assms(2) Inr n pt None rp
      by (auto simp: handlePublishTrack_def Let_def dest!: conn_Send_dom
          split: if_splits prod.splits option.splits)
    then show ?thesis using room_step.publish [OF m n] pt None rp by blast
  qed
qed

lemma handleUnpublishTrack_dom:
  assumes m: "is_member r (h_dom h) i p" and "handleUnpublishTrack E c r p msg h = (e, h')"
  shows "room_steps r (h_dom h) (h_dom h')"
proof (cases "UnmarshalData dec_TrackRequest msg")
  case (Inl err)
  then show ?thesis using assms by (simp add: handleUnpublishTrack_def)
next
  case (Inr req)
  obtain e1 d1 where u: "Participant_UnpublishTrack p (tr_TrackID req) (h_dom h) = (e1, d1)" by fastforce
  obtain e2 d2 where ru: "Room_UnpublishTrack r (tr_TrackID req) d1 = (e2, d2)" by fastforce
  show ?thesis
  proof (cases e1)
    case (Some err)
    then have "h_dom h' = h_dom h"
      using assms(2) Inr u UnpublishTrack_error [of p "tr_TrackID req" "h_dom h" err d1]
      by (auto simp: handleUnpublishTrack_def)
    then show ?thesis by simp
  next
    case None
    have "h_dom h' = d2"
      using assms(2) Inr u ru None
      by (auto simp: handleUnpublishTrack_def Let_def dest!: conn_Send_dom
          split: if_splits prod.splits option.splits)
    then show ?thesis using room_step.unpublish [OF m] u ru None by blast
  qed
qed

lemma subscribe_media_dom:
  assumes "room_ok r d" and "is_member r d i p" and "Room_SubscribeToTrack r p k d = (None, d1)"
    and "same_session (set_dom d1 h) g" and s: "subscribe_media E c p k j a fw g = (e, h')"
  shows "h_dom h' = d1 \<and> (e = None \<or> e = Some (serr ErrConnectionClosed)) \<or> h_dom h' = d \<and> e \<noteq> None"
proof -
  have g: "h_dom g = d1" using assms(4) by (simp add: same_session_def)
  have sent: "h_dom h' = h_dom x \<and> (e = None \<or> e = Some (serr ErrConnectionClosed))"
    if "conn_Send c t y x = (e, h')" for t y x
    using that conn_Send_dom [OF that]
    by (auto simp: conn_Send_def Connection_Send_def Let_def split: if_splits prod.splits)
  show ?thesis
  proof (cases "fst (shouldDeferProvisionalSubscription E k fw a g)")
    case True
    then show ?thesis using s sent g by (simp add: subscribe_media_def Let_def)
  next
    case False
    obtain e1 h1 where at: "attach_subscriber E fw a g = (e1, h1)" by fastforce
    have ss: "same_session (set_dom d1 h) h1"
      by (rule same_session_trans [OF assms(4) attach_subscriber_sessionD [OF at]])
    show ?thesis
    proof (cases e1)
      case None
      then show ?thesis
        using s sent at False same_session_dom [OF ss] by (simp add: subscribe_media_def Let_def)
    next
      case (Some err)
      then show ?thesis
        using s at False undo_restores [OF assms(1-3) ss] by (auto simp: subscribe_media_def Let_def)
    qed
  qed
qed

lemma handleSubscribeTrack_outcome:
  assumes ok: "room_ok r (h_dom h)" and m: "is_member r (h_dom h) i p"
    and s: "handleSubscribeTrack E c r p msg h = (e, h')"
  shows "(\<exists>k. Room_SubscribeToTrack r p k (h_dom h) = (None, h_dom h') \<and>
      (e = None \<or> e = Some (serr ErrConnectionClosed))) \<or> h_dom h' = h_dom h \<and> e \<noteq> None"
proof (cases "UnmarshalData dec_TrackRequest msg")
  case (Inl err)
  then show ?thesis using s by (auto simp: handleSubscribeTrack_def)
next
  case (Inr req)
  let ?k = "tr_TrackID req"
  obtain e1 d1 where sub: "Room_SubscribeToTrack r p ?k (h_dom h) = (e1, d1)" by fastforce
  show ?thesis
  proof (cases e1)
    case (Some err)
    then show ?thesis
      using s Inr sub Subscribe_error [of r p ?k "h_dom h" err d1]
      by (auto simp: handleSubscribeTrack_def Let_def)
  next
    case None
    note S = sub [unfolded None]
    let ?h1 = "set_dom d1 h"
    show ?thesis
    proof (cases "getPeerConnection (p_id (par d1 p)) ?h1")
      case None
      then show ?thesis
        using s Inr S undo_restores [OF ok m S, of h ?h1] by (auto simp: handleSubscribeTrack_def Let_def)
    next
      case (Some a)
      obtain res h2 where f: "(case getForwarder ?k ?h1 of
           Some fw \<Rightarrow> (Inr (Some fw), ?h1) | None \<Rightarrow> lazy_forwarder E r ?k ?h1) = (res, h2)" by fastforce
      then have ss: "same_session ?h1 h2" by (auto dest: lazy_forwarder_session split: option.splits)
      note U = undo_restores [OF ok m S ss]
      consider (err) err where "res = Inl err" | (none) "res = Inr None" | (fw) fw where "res = Inr (Some fw)"
        by (metis option.exhaust sum.exhaust)
      then show ?thesis
      proof cases
        case fw
        then have "subscribe_media E c p ?k (track_publisherID p ?k d1) a fw h2 = (e, h')"
          using s Inr S Some f by (simp add: handleSubscribeTrack_def Let_def)
        from subscribe_media_dom [OF ok m S ss this] S show ?thesis by blast
      qed (use s Inr S Some f U in \<open>auto simp: handleSubscribeTrack_def Let_def\<close>)
    qed
  qed
qed

lemma handleUnsubscribeTrack_dom:
  assumes m: "is_member r (h_dom h) i p" and "handleUnsubscribeTrack E c r p msg h = (e, h')"
  shows "room_steps r (h_dom h) (h_dom h')"
proof (cases "UnmarshalData dec_TrackRequest msg")
  case (Inl err)
  then show ?thesis using assms by (simp add: handleUnsubscribeTrack_def)
next
  case (Inr req)
  obtain e1 d where u: "Room_UnsubscribeFromTrack r p (tr_TrackID req) (h_dom h) = (e1, d)" by fastforce
  have "h_dom h' = d"
    using assms(2) Inr u
    by (auto simp: handleUnsubscribeTrack_def Let_def dest!: conn_Send_dom split: prod.splits option.splits)
  then show ?thesis using room_step.unsubscribe [OF m u] by blast
qed

lemma negotiation_dom:
  "handleOffer E c r p msg h = (e, h') \<Longrightarrow> h_dom h' = h_dom h"
  "handleAnswer E c r p msg h = (e, h') \<Longrightarrow> h_dom h' = h_dom h"
  "handleICECandidate E c r p msg h = (e, h') \<Longrightarrow> h_dom h' = h_dom h"
  by (auto simp: handleOffer_def handleAnswer_def handleICECandidate_def Let_def dest!: conn_Send_dom
      split: sum.splits option.splits prod.splits if_splits)

text \<open>A request other than \<open>create_room\<close>, which may concern another room, moves the room of the
  connection by steps of the room protocol.\<close>

lemma handleMessage_steps:
  assumes ok: "room_ok r (h_dom h)" and m: "is_member r (h_dom h) i p"
    and t: "msg_Type msg \<noteq> MessageTypeCreateRoom" and hm: "handleMessage E c r p msg h = (e, h')"
  shows "room_steps r (h_dom h) (h_dom h')"
proof -
  have sub: "room_steps r (h_dom h) (h_dom h')" if "handleSubscribeTrack E c r p msg h = (e, h')"
    using handleSubscribeTrack_outcome [OF ok m that] room_step.subscribe [OF m] by auto
  have lv: "room_steps r (h_dom h) (h_dom h')" if "handleLeaveRoom E c r p msg h = (e, h')"
    using handleLeaveRoom_dom [OF that] by (auto intro: room_step.leave)
  have quiet: "room_steps r (h_dom h) (h_dom h')" if "h_dom h' = h_dom h" using that by simp
  from hm t show ?thesis
    unfolding handleMessage_def Let_def
    by (auto intro: sub lv quiet handleJoinRoom_dom negotiation_dom handlePublishTrack_dom [OF m]
        handleUnpublishTrack_dom [OF m] handleUnsubscribeTrack_dom [OF m] split: if_splits)
qed

end
