(* ===== verification/Handler_Teardown.thy ===== *)
theory Handler_Teardown
  imports Handler_Refinement
begin

text \<open>
  The teardown of a participant's media: the forwarders of its tracks disappear, its peer
  connection is closed, deregistered and detached from every remaining forwarder, and the
  media of the others stays.
\<close>

abbreviation detached :: "nat \<Rightarrow> nat \<Rightarrow> 'p Handler \<Rightarrow> bool" where
  "detached a i h \<equiv> mget (f_subscribers (h_fw h i)) a = None"

subsection \<open>Forwarders\<close>

lemma set_fw_sel [simp]:
  "h_fw (set_fw i st h) = (h_fw h)(i := snd st)" "h_trackForwarders (set_fw i st h) = h_trackForwarders h"
  "h_peerConnections (set_fw i st h) = h_peerConnections h" "h_pcSender (set_fw i st h) = h_pcSender h"
  "h_nfw (set_fw i st h) = h_nfw h" "h_pc (set_fw i st h) = fst st"
  by (simp_all add: set_fw_def split: prod.split)

lemma set_pc_sel [simp]:
  "h_fw (set_pc a pc h) = h_fw h" "h_trackForwarders (set_pc a pc h) = h_trackForwarders h"
  "h_peerConnections (set_pc a pc h) = h_peerConnections h" "h_pc (set_pc a pc h) = (h_pc h)(a := pc)"
  "h_conn (set_pc a pc h) = h_conn h" "h_pcSender (set_pc a pc h) = h_pcSender h"
  "h_npc (set_pc a pc h) = h_npc h" "h_nfw (set_pc a pc h) = h_nfw h"
  by (simp_all add: set_pc_def)

lemma fw_Stop_sel [simp]:
  "f_subscribers (h_fw (fw_Stop E i h) i) = []" "j \<noteq> i \<Longrightarrow> h_fw (fw_Stop E i h) j = h_fw h j"
  "h_trackForwarders (fw_Stop E i h) = h_trackForwarders h"
  "h_peerConnections (fw_Stop E i h) = h_peerConnections h"
  by (simp_all add: fw_Stop_def Stop_effect)

lemma fw_RemoveSubscriber_sel [simp]:
  "f_subscribers (h_fw (fw_RemoveSubscriber E i a h) i) = mdel a (f_subscribers (h_fw h i))"
  "j \<noteq> i \<Longrightarrow> h_fw (fw_RemoveSubscriber E i a h) j = h_fw h j"
  "h_trackForwarders (fw_RemoveSubscriber E i a h) = h_trackForwarders h"
  "h_peerConnections (fw_RemoveSubscriber E i a h) = h_peerConnections h"
  by (simp_all add: fw_RemoveSubscriber_def Forwarder_RemoveSubscriber_def delete_idem
      map_of_eq_None_iff split: option.split)

lemma removeForwarder_registry [simp]:
  "h_trackForwarders (removeForwarder E k h) = mdel k (h_trackForwarders h)"
  "h_peerConnections (removeForwarder E k h) = h_peerConnections h"
  by (simp_all add: removeForwarder_def delete_idem map_of_eq_None_iff split: option.split)

lemma removeForwarder_detached: "detached a i h \<Longrightarrow> detached a i (removeForwarder E k h)"
  by (cases "mget (h_trackForwarders h) k = Some i")
    (auto simp: removeForwarder_def fw_Stop_def Stop_effect split: option.split)

lemma removeForwarders_registry:
  "mget (h_trackForwarders (fold (removeForwarder E) ks h)) k =
     (if k \<in> set ks then None else mget (h_trackForwarders h) k)"
  "h_peerConnections (fold (removeForwarder E) ks h) = h_peerConnections h"
  by (induction ks arbitrary: h) auto

lemma detachSubscriber_effect:
  shows "detached a i (detachSubscriber E a (k, i) h)"
    and "detached a j h \<Longrightarrow> detached a j (detachSubscriber E a x h)"
    and "mget (h_trackForwarders (detachSubscriber E a x h)) \<subseteq>\<^sub>m mget (h_trackForwarders h)"
    and "h_peerConnections (detachSubscriber E a x h) = h_peerConnections h"
proof -
  have stop: "detached a j (fw_Stop E i g) \<longleftrightarrow> j = i \<or> detached a j g" for j i g
    by (cases "j = i") simp_all
  have rem: "detached a j (fw_RemoveSubscriber E i a g) \<longleftrightarrow> j = i \<or> detached a j g" for j i g
    by (cases "j = i") simp_all
  have upd: "detached a j (g\<lparr>h_trackForwarders := m\<rparr>) \<longleftrightarrow> detached a j g" for j g m by simp
  show "detached a i (detachSubscriber E a (k, i) h)"
    by (simp add: detachSubscriber_def Let_def stop rem upd)
  show "detached a j h \<Longrightarrow> detached a j (detachSubscriber E a x h)"
    by (simp add: detachSubscriber_def Let_def stop rem upd split: prod.split)
  show "mget (h_trackForwarders (detachSubscriber E a x h)) \<subseteq>\<^sub>m mget (h_trackForwarders h)"
    "h_peerConnections (detachSubscriber E a x h) = h_peerConnections h"
    by (auto simp: detachSubscriber_def Let_def map_le_def split: prod.split)
qed

lemma detach_all_fold:
  "(\<forall>k i. (k, i) \<in> set xs \<longrightarrow> detached a i (fold (detachSubscriber E a) xs h)) \<and>
   (\<forall>j. detached a j h \<longrightarrow> detached a j (fold (detachSubscriber E a) xs h)) \<and>
   mget (h_trackForwarders (fold (detachSubscriber E a) xs h)) \<subseteq>\<^sub>m mget (h_trackForwarders h) \<and>
   h_peerConnections (fold (detachSubscriber E a) xs h) = h_peerConnections h"
proof (induction xs arbitrary: h)
  case (Cons x xs)
  note D = detachSubscriber_effect [where a = a and E = E and h = h] and IH = Cons.IH [of "detachSubscriber E a x h"]
  have "detached a i (fold (detachSubscriber E a) (x # xs) h)" if "(k, i) \<in> set (x # xs)" for k i
    using that D(1) IH by auto
  moreover have "detached a j (fold (detachSubscriber E a) (x # xs) h)" if "detached a j h" for j
    using that D(2) IH by simp
  moreover have "mget (h_trackForwarders (fold (detachSubscriber E a) (x # xs) h)) \<subseteq>\<^sub>m mget (h_trackForwarders h)"
    using map_le_trans [OF _ D(3) [of x]] IH by simp
  ultimately show ?case using IH D(4) by simp
qed simp

lemma removeSubscriberFromAll_effect:
  shows "pc = Some a \<Longrightarrow> mget (h_trackForwarders (removeSubscriberFromAllForwarders E pc h)) k = Some i \<Longrightarrow>
      detached a i (removeSubscriberFromAllForwarders E pc h)"
    and "mget (h_trackForwarders (removeSubscriberFromAllForwarders E pc h)) \<subseteq>\<^sub>m mget (h_trackForwarders h)"
    and "h_peerConnections (removeSubscriberFromAllForwarders E pc h) = h_peerConnections h"
proof -
  show "detached a i (removeSubscriberFromAllForwarders E pc h)"
    if "pc = Some a" "mget (h_trackForwarders (removeSubscriberFromAllForwarders E pc h)) k = Some i"
  proof -
    have "mget (h_trackForwarders h) k = Some i"
      using that detach_all_fold [where xs = "h_trackForwarders h" and a = a and E = E and h = h] map_leD
      by (fastforce simp: removeSubscriberFromAllForwarders_def)
    then have "(k, i) \<in> set (h_trackForwarders h)" by (rule map_of_SomeD)
    then show ?thesis
      using that(1) detach_all_fold [where xs = "h_trackForwarders h" and a = a and E = E and h = h]
      by (simp add: removeSubscriberFromAllForwarders_def)
  qed
  show "mget (h_trackForwarders (removeSubscriberFromAllForwarders E pc h)) \<subseteq>\<^sub>m mget (h_trackForwarders h)"
    "h_peerConnections (removeSubscriberFromAllForwarders E pc h) = h_peerConnections h"
    using detach_all_fold by (auto simp: removeSubscriberFromAllForwarders_def split: option.split)
qed

subsection \<open>The whole teardown\<close>

definition pc_shut :: "'p PeerConnection \<Rightarrow> bool" where
  "pc_shut pc \<longleftrightarrow> pc_state pc = PeerConnectionStateClosed \<or> pc_cancelled pc"

lemma PC_Close_shut: "pc_shut (snd (PC_Close P pc))"
  by (auto simp: PC_Close_def pc_shut_def Let_def split: prod.split option.split)

lemma closePeerConnection_sel [simp]:
  "h_fw (closePeerConnection E i h) = h_fw h"
  "h_trackForwarders (closePeerConnection E i h) = h_trackForwarders h"
  "h_peerConnections (closePeerConnection E i h) = mdel i (h_peerConnections h)"
  by (simp_all add: closePeerConnection_def Let_def delete_idem map_of_eq_None_iff split: option.split)

text \<open>What is gone, and what stays.\<close>

definition media_gone :: "string list \<Rightarrow> string \<Rightarrow> 'p Handler \<Rightarrow> 'p Handler \<Rightarrow> bool" where
  "media_gone ks i h h' \<longleftrightarrow>
     getPeerConnection i h' = None \<and> (\<forall>j. j \<noteq> i \<longrightarrow> getPeerConnection j h' = getPeerConnection j h) \<and>
     (\<forall>k. k \<in> set ks \<longrightarrow> getForwarder k h' = None) \<and>
     (\<forall>k f. getForwarder k h' = Some f \<longrightarrow> getForwarder k h = Some f) \<and>
     (\<forall>a. getPeerConnection i h = Some a \<longrightarrow> pc_shut (h_pc h' a) \<and>
        (\<forall>k f. getForwarder k h' = Some f \<longrightarrow> \<not> Forwarder_HasSubscriber (Some a) (h_fw h' f)))"

lemma teardown_media_gone:
  "media_gone ks i h (teardown_media E ks (getPeerConnection i h) i h)"
proof -
  let ?h1 = "fold (removeForwarder E) ks h"
  let ?h2 = "removeSubscriberFromAllForwarders E (getPeerConnection i h) ?h1"
  let ?h' = "closePeerConnection E i ?h2"
  have pcs: "h_peerConnections ?h2 = h_peerConnections h"
    by (simp add: removeSubscriberFromAll_effect(3) removeForwarders_registry(2))
  have reg: "mget (h_trackForwarders ?h2) k = Some f \<Longrightarrow> k \<notin> set ks \<and> mget (h_trackForwarders h) k = Some f" for k f
    using map_leD [OF removeSubscriberFromAll_effect(2)] removeForwarders_registry(1) [of E ks h k]
    by (metis option.distinct(1))
  have "pc_shut (h_pc ?h' a)" if "getPeerConnection i h = Some a" for a
    using that pcs by (simp add: closePeerConnection_def getPeerConnection_def Let_def PC_Close_shut)
  moreover have "\<not> Forwarder_HasSubscriber (Some a) (h_fw ?h' f)"
    if "getPeerConnection i h = Some a" "getForwarder k ?h' = Some f" for a k f
    using that removeSubscriberFromAll_effect(1) [OF that(1), of E ?h1 k f]
    by (simp add: Forwarder_HasSubscriber_def getForwarder_def)
  moreover have "getForwarder k ?h' = None" if "k \<in> set ks" for k
    using that by (cases "getForwarder k ?h'") (auto simp: getForwarder_def dest: reg)
  moreover have "getForwarder k h = Some f" if "getForwarder k ?h' = Some f" for k f
    using that reg [of k f] by (simp add: getForwarder_def)
  moreover have "getPeerConnection j ?h' = (if j = i then None else getPeerConnection j h)" for j
    by (simp add: getPeerConnection_def pcs [unfolded getPeerConnection_def])
  ultimately show ?thesis unfolding media_gone_def teardown_media_def by simp
qed

lemma media_gone_cong:
  assumes "media_gone ks i h g" and "h_peerConnections h0 = h_peerConnections h"
    and "h_trackForwarders h0 = h_trackForwarders h"
    and "h_peerConnections g' = h_peerConnections g" "h_trackForwarders g' = h_trackForwarders g"
    and "h_fw g' = h_fw g" "h_pc g' = h_pc g"
  shows "media_gone ks i h0 g'"
  using assms by (simp add: media_gone_def getPeerConnection_def getForwarder_def)

subsection \<open>Shutdown\<close>

lemma stop_all:
  fixes E xs h
  defines "g \<equiv> fold (\<lambda>(i, a) g. (fw_Stop E a g)\<lparr>h_trackForwarders := mdel i (h_trackForwarders g)\<rparr>) xs h"
  shows "same_session h g" and "h_peerConnections g = h_peerConnections h"
    and "mget (h_trackForwarders g) k = (if k \<in> fst ` set xs then None else mget (h_trackForwarders h) k)"
proof -
  have "same_session u ((fw_Stop E a u)\<lparr>h_trackForwarders := m\<rparr>)" for u a m
    using fw_ops_session(3) [of u E a] by (simp add: same_session_def)
  then show "same_session h g"
    unfolding g_def by (intro same_session_fold) (auto split: prod.split)
  show "h_peerConnections g = h_peerConnections h"
    and "mget (h_trackForwarders g) k = (if k \<in> fst ` set xs then None else mget (h_trackForwarders h) k)"
    unfolding g_def by (induction xs arbitrary: h) auto
qed

lemma close_all_pcs:
  fixes E xs h
  defines "g \<equiv> fold (\<lambda>(i, a) g. (set_pc a (snd (PC_Close (E_pion E) (h_pc g a))) g)
     \<lparr>h_peerConnections := mdel i (h_peerConnections g)\<rparr>) xs h"
  shows "same_session h g" and "h_trackForwarders g = h_trackForwarders h"
    and "mget (h_peerConnections g) k = (if k \<in> fst ` set xs then None else mget (h_peerConnections h) k)"
    and "pc_shut (h_pc h a) \<or> a \<in> snd ` set xs \<Longrightarrow> pc_shut (h_pc g a)"
proof -
  show "same_session h g"
    unfolding g_def by (rule same_session_fold) (auto simp: same_session_def set_pc_def)
  show "h_trackForwarders g = h_trackForwarders h"
    and "mget (h_peerConnections g) k = (if k \<in> fst ` set xs then None else mget (h_peerConnections h) k)"
    unfolding g_def by (induction xs arbitrary: h) auto
  show "pc_shut (h_pc g a)" if "pc_shut (h_pc h a) \<or> a \<in> snd ` set xs"
    using that unfolding g_def by (induction xs arbitrary: h) (auto simp: PC_Close_shut)
qed

lemma registry_empty: "(\<And>k. mget m k = None) \<Longrightarrow> m = []"
  by (metis map_of_eq_empty_iff ext)

lemma Shutdown_effect:
  fixes E h
  defines "g \<equiv> Handler_Shutdown E h"
  shows "h_trackForwarders g = []" "h_peerConnections g = []" "h_ghostTimers g = []" "h_connectionManager g = []"
    and "h_dom g = h_dom h" "h_roomManager g = h_roomManager h"
    and "c \<in> snd ` set (h_connectionManager h) \<Longrightarrow> c_closeChan (h_conn g c)"
    and "a \<in> snd ` set (h_peerConnections h) \<Longrightarrow> pc_shut (h_pc g a)"
proof -
  obtain conns cm where ca: "ConnectionManager_CloseAll (h_conn h) (h_connectionManager h) = (conns, cm)" by fastforce
  define h1 where "h1 = h\<lparr>h_ghostTimers := [], h_conn := conns, h_connectionManager := cm\<rparr>"
  define h2 where "h2 = fold (\<lambda>(i, a) g. (fw_Stop E a g)\<lparr>h_trackForwarders := mdel i (h_trackForwarders g)\<rparr>)
     (h_trackForwarders h1) h1"
  have g: "g = fold (\<lambda>(i, a) g. (set_pc a (snd (PC_Close (E_pion E) (h_pc g a))) g)
     \<lparr>h_peerConnections := mdel i (h_peerConnections g)\<rparr>) (h_peerConnections h2) h2"
    by (simp add: g_def Handler_Shutdown_def ca h1_def h2_def Let_def)
  note F = stop_all [where xs = "h_trackForwarders h1" and h = h1 and E = E, folded h2_def]
  note P = close_all_pcs [where xs = "h_peerConnections h2" and h = h2 and E = E, folded g]
  have key: "mget m k = None" if "k \<notin> fst ` set m" for m :: "(string, nat) gomap" and k
    using that by (simp add: map_of_eq_None_iff)
  have "h_trackForwarders h2 = []" by (rule registry_empty) (simp add: F(3) key)
  then show "h_trackForwarders g = []" using P(2) by simp
  show "h_peerConnections g = []" by (rule registry_empty) (simp add: P(3) key)
  have s: "same_session h1 g" by (rule same_session_trans [OF F(1) P(1)])
  then show "h_ghostTimers g = []" "h_dom g = h_dom h" "h_roomManager g = h_roomManager h"
    by (simp_all add: same_session_def h1_def)
  show "h_connectionManager g = []"
    using s CloseAll_contract [of "h_conn h" "h_connectionManager h"] ca
    by (simp add: same_session_def h1_def NewConnectionManager_def)
  show "c_closeChan (h_conn g c)" if "c \<in> snd ` set (h_connectionManager h)"
    using s CloseAll_contract [of "h_conn h" "h_connectionManager h" c] ca that
    by (simp add: same_session_def h1_def)
  show "pc_shut (h_pc g a)" if "a \<in> snd ` set (h_peerConnections h)"
    using P(4) [of a] that F(2) by (simp add: h1_def)
qed

end
