(* ===== verification/Handler_Protocol.thy ===== *)
theory Handler_Protocol
  imports Handler_Teardown
begin

text \<open>
  The signaling server as a transition system: what can happen, from the point of view of one
  registered room, as an inductive step relation. Connections are accepted and opened,
  rounds of the message loops run, timers fire, started goroutines run, pion calls back, the
  room is closed and the server shut down, in any order. The only event left out is a
  \<open>create_room\<close> request, which may concern another room. Every step is a sequence of steps of
  the room protocol.
\<close>

inductive handler_step :: "'p env \<Rightarrow> raddr \<Rightarrow> 'p Handler \<Rightarrow> 'p Handler \<Rightarrow> bool" for E r where
  accept: "handler_step E r h (snd (ServeHTTP roomID participantID c h))"
| open_conn: "RoomManager_GetRoom (h_roomManager h) (c_roomID (h_conn h c)) = Some r \<Longrightarrow>
    handleConnection_open E c h = (res, h') \<Longrightarrow> handler_step E r h h'"
| round: "is_member r (h_dom h) i p \<Longrightarrow> handleConnection_step E c r p h = Some (go, h') \<Longrightarrow>
    \<forall>msg x. Connection_Receive (h_conn h c) = Some (Inr msg, x) \<longrightarrow> msg_Type msg \<noteq> MessageTypeCreateRoom \<Longrightarrow>
    handler_step E r h h'"
| timer: "mget (h_ghostTimers h) i = Some rid \<Longrightarrow> RoomManager_GetRoom (h_roomManager h) rid = Some r \<Longrightarrow>
    handler_step E r h (ghostTimer_fires E i h)"
| task: "handler_step E r h (run_nth_task E n h)"
| needed: "handler_step E r h (negotiationNeeded E a h)"
| candidate: "handler_step E r h (dispatchICECandidate a cand h)"
| remote: "handler_step E r h (PC_handleTrack E a wireID video ssrc codec h)"
| feedback: "handler_step E r h (rtcpObserver E a trackID pkt h)"
| close_room: "RoomManager_GetRoom (h_roomManager h) rid = Some r \<Longrightarrow> Handler_CloseRoom E rid h = (e, h') \<Longrightarrow>
    handler_step E r h h'"
| shutdown: "handler_step E r h (Handler_Shutdown E h)"

inductive_cases handler_stepE: "handler_step E r h h'"

subsection \<open>Events that leave the heap alone\<close>

lemma ensurePeerConnection_dom [simp]: "h_dom (snd (ensurePeerConnection E p c h)) = h_dom h"
  by (simp add: ensurePeerConnection_def createPeerConnection_def Let_def set_pc_def
      split: option.split sum.split prod.split)

lemma end_connection_dom [simp]: "h_dom (end_connection c h) = h_dom h" "h_dom (refuse_connection c t k h) = h_dom h"
  by (simp_all add: end_connection_def refuse_connection_def)

lemma closed_conn_dom [simp]: "h_dom (handleConnectionClosed r p h) = h_dom h"
  by (simp add: handleConnectionClosed_def armGhostTimer_def)

lemma rtcpObserver_dom [simp]: "h_dom (rtcpObserver E a k pkt h) = h_dom h"
proof -
  have w: "h_dom h2 = h_dom h1" if "PC_WriteRTCP E x pkt h1 = (e, h2)" for x pkt h1 e h2
    using that by (auto simp: PC_WriteRTCP_def split: if_splits)
  have u: "h_dom h1 = h_dom h" if "upstream_packet kind s x i h = Some (q, h1)" for kind s x i q h1
    using that by (auto simp: upstream_packet_def split: if_splits prod.splits)
  have "h_dom (snd (relayKeyframeRequest E sub k kind s m h)) = h_dom h" for sub kind s m
    by (auto simp: relayKeyframeRequest_def Let_def dest!: u w split: option.split prod.split)
  then show ?thesis by (simp add: rtcpObserver_def split: option.split prod.split)
qed

lemma run_nth_task_dom [simp]: "h_dom (run_nth_task E n h) = h_dom h"
  by (simp add: run_nth_task_def run_task_def same_session_dom [OF getOrCreateForwarder_session] split: task.split)

lemma gate_events_dom [simp]:
  "h_dom (negotiationNeeded E a h) = h_dom h" "h_dom (dispatchICECandidate a cand h) = h_dom h"
  by (simp_all add: negotiationNeeded_def dispatchICECandidate_def)

subsection \<open>Events that move the room\<close>

lemma enter_room_steps:
  assumes "enter_room E c r i h = (res, h')"
  shows "room_steps r (h_dom h) (h_dom h')"
proof (cases "Room_GetParticipant r i (h_dom h)")
  case (Some p)
  then have "h_dom h' = Participant_SetRoom p (Some r) (h_dom h)" using assms by (auto simp: enter_room_def)
  then show ?thesis using room_step.reconnect [where r = r and h = "h_dom h" and i = i and p = p] Some by (auto simp: Room_GetParticipant_def)
next
  case None
  obtain x d where j: "join_new r i (''Participant '' @ i) (h_dom h) = (x, d)" by fastforce
  have "h_dom h' = d"
  proof (cases x)
    case (Inr p)
    obtain y h1 where e: "ensurePeerConnection E p c (set_dom d h) = (y, h1)" by fastforce
    then have "h_dom h1 = d" using ensurePeerConnection_dom [of E p c "set_dom d h"] by simp
    then show ?thesis using assms None j Inr e by (auto simp: enter_room_def split: sum.splits)
  qed (use assms None j in \<open>auto simp: enter_room_def\<close>)
  then show ?thesis using room_step.join [OF j] by blast
qed

lemma open_steps:
  assumes "RoomManager_GetRoom (h_roomManager h) (c_roomID (h_conn h c)) = Some r"
    and o: "handleConnection_open E c h = (res, h')"
  shows "room_steps r (h_dom h) (h_dom h')"
proof -
  have g: "RoomManager_GetOrCreateRoom (c_roomID (h_conn h c)) (h_roomManager h) (h_dom h) = (Inr r, h_roomManager h, h_dom h)"
    using assms(1) by (simp add: RoomManager_GetOrCreateRoom_def RoomManager_GetRoom_def)
  obtain x h1 where en: "enter_room E c r (c_participantID (h_conn h c)) h = (x, h1)" by fastforce
  have "h_dom h' = h_dom h1"
    using o g en
    by (auto simp: handleConnection_open_def dest!: sendRoomJoined_only only_sentD(1) split: option.splits prod.splits)
  then show ?thesis using enter_room_steps [OF en] by simp
qed

lemma round_steps:
  assumes ok: "room_ok r (h_dom h)" and m: "is_member r (h_dom h) i p"
    and st: "handleConnection_step E c r p h = Some (go, h')"
    and nc: "\<forall>msg x. Connection_Receive (h_conn h c) = Some (Inr msg, x) \<longrightarrow> msg_Type msg \<noteq> MessageTypeCreateRoom"
  shows "room_steps r (h_dom h) (h_dom h')"
proof -
  obtain res x where r: "Connection_Receive (h_conn h c) = Some (res, x)"
    using st by (auto simp: handleConnection_step_def split: option.splits)
  show ?thesis
  proof (cases res)
    case (Inl err)
    then show ?thesis using st r by (auto simp: handleConnection_step_def)
  next
    case (Inr msg)
    let ?h = "h\<lparr>h_conn := (h_conn h)(c := x)\<rparr>"
    obtain e h1 where hm: "handleMessage E c r p msg ?h = (e, h1)" by fastforce
    have "room_steps r (h_dom ?h) (h_dom h1)"
      by (rule handleMessage_steps [OF _ _ _ hm]) (use ok m nc r Inr in auto)
    moreover have "h_dom h' = h_dom h1" using st r Inr hm by (auto simp: handleConnection_step_def split: option.splits)
    ultimately show ?thesis by simp
  qed
qed

lemma timer_steps:
  assumes "mget (h_ghostTimers h) i = Some rid" and "RoomManager_GetRoom (h_roomManager h) rid = Some r"
  shows "room_steps r (h_dom h) (h_dom (ghostTimer_fires E i h))"
proof -
  obtain e d where l: "Room_Leave r i (h_dom h) = (e, d)" by fastforce
  have "h_dom (ghostTimer_fires E i h) = d" using assms l by (simp add: ghostTimer_fires_def reapGhost_def Let_def)
  then show ?thesis using room_step.leave [OF l] by auto
qed

lemma remote_steps: "room_steps r (h_dom h) (h_dom (PC_handleTrack E a w v ssrc codec h))"
proof -
  let ?p = "h_pcOwner h a"
  have on: "h_dom (onTrack E p t g) = h_dom g" for p t g
    using getOrCreateForwarder_sessionD [of E "wt_id t" "Some t" g] same_session_dom
    by (fastforce simp: onTrack_def split: prod.splits sum.splits option.splits)
  have valid: "isValidTrackKind (remote_kind v)" "isValidTrackSource (remote_source v)"
    by (simp_all add: isValidTrackKind_def isValidTrackSource_def remote_kind_def remote_source_def)
  obtain t d where n: "NewTrack w (remote_kind v) (remote_source v) (h_dom h) = (Inr t, d)"
    using valid by (simp add: NewTrack_def)
  obtain x d1 where x: "remote_domain_track ?p w v (h_dom h) = (x, d1)" by fastforce
  then have "room_steps r (h_dom h) d1"
    using n room_step.remote_track [OF n, where r = r and p = ?p] by (auto simp: remote_domain_track_def split: option.splits)
  moreover have "h_dom (PC_handleTrack E a w v ssrc codec h) = d1"
    using x by (simp add: PC_handleTrack_def Let_def on split: sum.split)
  ultimately show ?thesis by simp
qed

lemma close_room_steps:
  assumes "RoomManager_GetRoom (h_roomManager h) rid = Some r" and cl: "Handler_CloseRoom E rid h = (e, h')"
  shows "room_steps r (h_dom h) (h_dom h')"
proof -
  let ?h2 = "fold (close_member E) (Room_Participants r (h_dom h)) (fold (removeForwarder E) (Room_Tracks r (h_dom h)) h)"
  have step: "h_dom (close_member E i g) = h_dom g" "h_roomManager (close_member E i g) = h_roomManager g" for i g
    using same_session_trans [OF removeSubscriber_session(2) [of g E "getPeerConnection i g"]
        closePeerConnection_session [where E = E and i = i]]
    by (simp_all add: close_member_def cancelGhostTimer_def same_session_def)
  have members: "h_dom (fold (close_member E) is g) = h_dom g \<and>
      h_roomManager (fold (close_member E) is g) = h_roomManager g" for "is" g
    by (induction "is" arbitrary: g) (simp_all add: step)
  have "same_session h (fold (removeForwarder E) (Room_Tracks r (h_dom h)) h)"
    by (rule same_session_fold) (rule removeForwarder_session)
  then have h2: "h_dom ?h2 = h_dom h" "h_roomManager ?h2 = h_roomManager h"
    using members by (simp_all add: same_session_def)
  obtain x d where c: "Room_Close r (h_dom h) = (x, d)" by fastforce
  have "h_dom h' = d"
    using cl assms(1) h2 c
    by (auto simp: Handler_CloseRoom_def Let_def RoomManager_CloseRoom_def RoomManager_GetRoom_def split: option.splits)
  then show ?thesis using room_step.close [OF c] by auto
qed

interpretation server: room_driver r h_dom "handler_step E r" for r E
proof unfold_locales
  fix s s' :: "'a Handler"
  assume "handler_step E r s s'" and ok: "room_ok r (h_dom s)"
  then show "room_steps r (h_dom s) (h_dom s')"
  proof cases
    case (round i p c go)
    then show ?thesis using round_steps [OF ok] by blast
  qed (auto simp: ServeHTTP_def Shutdown_effect(5) intro: open_steps timer_steps remote_steps close_room_steps)
qed

end
