(* ===== verification/Handler_Contracts.thy ===== *)
theory Handler_Contracts
  imports Handler_Protocol
begin

text \<open>
  The guarantees of the signaling handler.
\<close>

subsection \<open>An example\<close>

text \<open>A pion with one sender on which everything works, and the room of \<open>Room_Contracts\<close>: Alice
  publishes a microphone track, which a forwarder carries to Bob.\<close>

definition demo_env :: "demo_pion env" where
  "demo_env = \<lparr>E_pion = demo_ok_ops\<lparr>P_GetSenders := \<lambda>_. [1], P_SenderTrackID := \<lambda>_ _. Some ''mic''\<rparr>,
     E_newPC = \<lambda>_. Inr (pionPC (demo_pc False False), []), E_local = \<lambda>_ _. Inr 9,
     E_Encodings = \<lambda>_ _. [77], E_WriteRTCP = \<lambda>_ _. None\<rparr>"

definition demo_handler :: "demo_pion Handler" where
  "demo_handler = (NewHandler [(''room-1'', 0)] demo_room
       (\<lambda>c. NewConnection ''room-1'' (if c = 0 then ''alice'' else ''bob'') False True)
       (\<lambda>_. demo_pc False False)
       (\<lambda>_. demo_fwd\<lparr>f_publisher := demo_remote ''audio/opus'', f_running := True\<rparr>) 60 64)
     \<lparr>h_connectionManager := [(''alice'', 0), (''bob'', 1)],
      h_peerConnections := [(''alice'', 0), (''bob'', 1)], h_npc := 2, h_pcOwner := \<lambda>a. a,
      h_pcSender := \<lambda>a. a, h_trackForwarders := [(''mic'', 0)], h_nfw := 1\<rparr>"

lemma demo_handler_sel [simp]:
  "h_dom demo_handler = demo_room" "h_roomManager demo_handler = [(''room-1'', 0)]"
  "h_connectionManager demo_handler = [(''alice'', 0), (''bob'', 1)]"
  "h_peerConnections demo_handler = [(''alice'', 0), (''bob'', 1)]"
  "h_trackForwarders demo_handler = [(''mic'', 0)]" "h_ghostTimers demo_handler = []"
  "h_pc demo_handler a = demo_pc False False"
  "h_fw demo_handler i = demo_fwd\<lparr>f_publisher := demo_remote ''audio/opus'', f_running := True\<rparr>"
  "h_conn demo_handler c = NewConnection ''room-1'' (if c = 0 then ''alice'' else ''bob'') False True"
  by (simp_all add: demo_handler_def NewHandler_def)

definition request :: "MessageType \<Rightarrow> json \<Rightarrow> Message" where
  "request t v = \<lparr>msg_Type = t, msg_Data = Some v\<rparr>"

definition demo_leave :: Message where
  "demo_leave = request MessageTypeLeaveRoom
     (enc_LeaveRoomRequest \<lparr>lr_RoomID = ''room-1'', lr_ParticipantID = ''alice''\<rparr>)"

lemma demo_leave_req:
  "UnmarshalData dec_LeaveRoomRequest demo_leave = Inr \<lparr>lr_RoomID = ''room-1'', lr_ParticipantID = ''alice''\<rparr>"
  by code_simp

subsection \<open>Requests and the room protocol\<close>



text \<open>C12. A subscription is all or nothing on the domain side: either the room records it, and then
  the request succeeds or the response could not be sent because the connection is closed;
  or the request reports an error and every room, participant and track is exactly as
  before, also when the media side refused after the domain had accepted.\<close>

theorem handleSubscribeTrack_atomic:
  assumes "room_ok r (h_dom h)" and "is_member r (h_dom h) i p"
    and "handleSubscribeTrack E c r p msg h = (e, h')"
  shows "(\<exists>k. Room_SubscribeToTrack r p k (h_dom h) = (None, h_dom h') \<and>
      (e = None \<or> e = Some (serr ErrConnectionClosed))) \<or> h_dom h' = h_dom h \<and> e \<noteq> None"
  using assms by (rule handleSubscribeTrack_outcome)

definition demo_subscribe :: Message where
  "demo_subscribe = request MessageTypeSubscribeTrack
     (enc_TrackRequest \<lparr>tr_RoomID = ''room-1'', tr_ParticipantID = ''bob'', tr_TrackID = ''mic''\<rparr>)"

theorem handleSubscribeTrack_atomic_witness:
  "\<exists>e h'. handleSubscribeTrack demo_env 1 0 1 demo_subscribe demo_handler = (Some e, h') \<and> h_dom h' = demo_room"
proof -
  obtain e h' where s: "handleSubscribeTrack demo_env 1 0 1 demo_subscribe demo_handler = (e, h')" by fastforce
  have "fst (Room_SubscribeToTrack 0 1 ''mic'' demo_room) = Some (derr ErrTrackAlreadySubscribed)" by code_simp
  then obtain d where dup: "Room_SubscribeToTrack 0 1 ''mic'' demo_room = (Some (derr ErrTrackAlreadySubscribed), d)"
    by (metis prod.collapse)
  have req: "UnmarshalData dec_TrackRequest demo_subscribe =
      Inr \<lparr>tr_RoomID = ''room-1'', tr_ParticipantID = ''bob'', tr_TrackID = ''mic''\<rparr>" by code_simp
  from s dup req have "e = Some (derr ErrTrackAlreadySubscribed)"
    by (auto simp: handleSubscribeTrack_def Let_def)
  with handleSubscribeTrack_atomic [OF _ _ s, of "''bob''"] demo_room_ok demo_room_members(2) s
  show ?thesis by auto
qed

subsection \<open>Leaving\<close>

lemma Leave_removes:
  assumes ok: "room_ok r d" and m: "is_member r d i p"
  obtains d' where "Room_Leave r i d = (None, d')" "Room_GetParticipant r i d' = None"
  using room_ok_member_open [OF ok m] m by (auto simp: Room_Leave_def Let_def Room_GetParticipant_def)



text \<open>C14. A participant whose transport dropped and who did not come back is removed like one that
  left: when its timer fires, it is gone from the room, its forwarders and its peer
  connection are torn down, and the reap is counted once: firing again changes nothing.\<close>

theorem ghost_is_reaped:
  assumes ok: "room_ok r (h_dom h)" and m: "is_member r (h_dom h) i p"
    and room: "RoomManager_GetRoom (h_roomManager h) rid = Some r"
    and timer: "mget (h_ghostTimers h) i = Some rid"
  shows "Room_GetParticipant r i (h_dom (ghostTimer_fires E i h)) = None \<and>
    media_gone (Participant_PublishedTracks p (h_dom h)) i h (ghostTimer_fires E i h) \<and>
    h_gcReapedCount (ghostTimer_fires E i h) = h_gcReapedCount h + 1 \<and>
    ghostTimer_fires E i (ghostTimer_fires E i h) = ghostTimer_fires E i h"
proof -
  obtain d where lv: "Room_Leave r i (h_dom h) = (None, d)" "Room_GetParticipant r i d = None"
    by (rule Leave_removes [OF ok m])
  let ?ks = "Participant_PublishedTracks p (h_dom h)"
  let ?h1 = "set_dom d (cancelGhostTimer i h)"
  let ?h3 = "teardown_media E ?ks (getPeerConnection i ?h1) i ?h1"
  let ?h' = "ghostTimer_fires E i h"
  have eq: "?h' = ?h3\<lparr>h_gcReapedCount := h_gcReapedCount ?h3 + 1\<rparr>"
    using timer room m lv
    by (simp add: ghostTimer_fires_def reapGhost_def Let_def Room_GetParticipant_def
        getPeerConnection_def cancelGhostTimer_def)
  have ss: "same_session ?h1 ?h3" by (rule teardown_media_session)
  have "media_gone ?ks i h ?h'"
    by (rule media_gone_cong [OF teardown_media_gone [of ?ks i ?h1 E]]) (simp_all add: eq cancelGhostTimer_def)
  moreover have "mget (h_ghostTimers ?h') i = None"
    using ss by (simp add: eq same_session_def cancelGhostTimer_def)
  then have "ghostTimer_fires E i ?h' = ?h'" by (simp add: ghostTimer_fires_def [of E i ?h'])
  moreover have "Room_GetParticipant r i (h_dom ?h') = None" "h_gcReapedCount ?h' = h_gcReapedCount h + 1"
    using ss lv(2) by (simp_all add: eq same_session_def cancelGhostTimer_def set_dom_def)
  ultimately show ?thesis by blast
qed

theorem ghost_is_reaped_witness:
  "let h' = ghostTimer_fires demo_env ''alice'' (armGhostTimer ''room-1'' ''alice'' demo_handler)
   in Room_GetParticipant 0 ''alice'' (h_dom h') = None \<and> getForwarder ''mic'' h' = None \<and> h_gcReapedCount h' = 1"
proof -
  let ?h = "armGhostTimer ''room-1'' ''alice'' demo_handler"
  have h: "h_dom ?h = demo_room" "RoomManager_GetRoom (h_roomManager ?h) ''room-1'' = Some 0"
    "mget (h_ghostTimers ?h) ''alice'' = Some ''room-1''" "h_gcReapedCount ?h = 0"
    by (simp_all add: armGhostTimer_def demo_handler_def NewHandler_def RoomManager_GetRoom_def)
  have "''mic'' \<in> set (Participant_PublishedTracks 0 demo_room)" by code_simp
  with ghost_is_reaped [of 0 ?h "''alice''" 0, OF _ _ h(2,3), of demo_env] demo_room_ok demo_room_members(1) h
  show ?thesis by (simp add: media_gone_def Let_def)
qed

text \<open>C15. A dropped transport is not a leave: the message loop ends and a ghost timer is armed, but the
  participant, its room, its peer connection and all forwarders stay. When the participant
  connects again in time, the timer is gone, it is the same participant with the same peer
  connection and media, and the signaling of that connection follows the new socket.\<close>

theorem reconnect_resumes_session:
  assumes ok: "room_ok r (h_dom h)" and m: "is_member r (h_dom h) i p"
    and drop: "Connection_Receive (h_conn h c) = Some (Inl err, x)"
    and pc: "getPeerConnection i h = Some a" "PeerConnectionState_Usable (pc_state (h_pc h a))"
    and ttl: "0 < h_gcTTL h" and st: "handleConnection_step E c r p h = Some (go, h1)"
    and re: "enter_room E c' r i h1 = (res, h2)"
  shows "\<not> go \<and> h_dom h1 = h_dom h \<and> mget (h_ghostTimers h1) i = Some (r_id (rom (h_dom h) r)) \<and>
    res = Some p \<and> mget (h_ghostTimers h2) i = None \<and> is_member r (h_dom h2) i p \<and>
    getPeerConnection i h2 = Some a \<and> h_pcSender h2 a = c' \<and>
    h_pc h2 a = (h_pc h a)\<lparr>sendSignaling := ws_sender\<rparr> \<and>
    h_trackForwarders h2 = h_trackForwarders h \<and> h_fw h2 = h_fw h"
proof -
  have i: "p_id (par (h_dom h) p) = i"
    by (rule members_okD(1) [OF room_invD(1) [OF room_okD(1) [OF ok]] m])
  have h1: "\<not> go" "h1 = end_connection c (handleConnectionClosed r p (h\<lparr>h_conn := (h_conn h)(c := x)\<rparr>))"
    using st drop by (auto simp: handleConnection_step_def)
  have dom1: "h_dom h1 = h_dom h" "h_pc h1 = h_pc h" "h_peerConnections h1 = h_peerConnections h"
    "h_trackForwarders h1 = h_trackForwarders h" "h_fw h1 = h_fw h"
    using ttl by (simp_all add: h1(2) end_connection_def handleConnectionClosed_def armGhostTimer_def)
  have t1: "mget (h_ghostTimers h1) i = Some (r_id (rom (h_dom h) r))"
    using ttl i by (simp add: h1(2) end_connection_def handleConnectionClosed_def armGhostTimer_def)
  have i2: "p_id (par (Participant_SetRoom p (Some r) (h_dom h)) p) = i"
    using i by (simp add: Participant_SetRoom_def)
  have "res = Some p" "h2 = (set_pc a (PC_UpdateSignalingSender ws_sender (h_pc h a))
      (set_dom (Participant_SetRoom p (Some r) (h_dom h)) (cancelGhostTimer i h1)))
      \<lparr>h_pcSender := (h_pcSender h1)(a := c')\<rparr>"
    using re m pc i2
    by (auto simp: enter_room_def Room_GetParticipant_def ensurePeerConnection_def dom1 getPeerConnection_def
        cancelGhostTimer_def set_dom_def)
  then show ?thesis
    using h1(1) dom1 t1 m pc(1)
    by (simp add: getPeerConnection_def cancelGhostTimer_def set_dom_def set_pc_def PC_UpdateSignalingSender_def
        Participant_SetRoom_def)
qed

theorem reconnect_resumes_session_witness:
  "\<exists>go h1 h2. handleConnection_step demo_env 1 0 1 (demo_handler
       \<lparr>h_conn := (h_conn demo_handler)(1 := Connection_Close (h_conn demo_handler 1))\<rparr>) = Some (go, h1) \<and>
     enter_room demo_env 2 0 ''bob'' h1 = (Some 1, h2) \<and> getPeerConnection ''bob'' h2 = Some 1 \<and> h_pcSender h2 1 = 2"
proof -
  let ?h = "demo_handler\<lparr>h_conn := (h_conn demo_handler)(1 := Connection_Close (h_conn demo_handler 1))\<rparr>"
  have r: "Connection_Receive (h_conn ?h 1) = Some (Inl (serr ErrConnectionClosed), h_conn ?h 1)"
    by (simp add: Connection_Receive_def Connection_Close_def NewConnection_def)
  then have "handleConnection_step demo_env 1 0 1 ?h \<noteq> None" by (simp add: handleConnection_step_def)
  then obtain go h1 where st: "handleConnection_step demo_env 1 0 1 ?h = Some (go, h1)" by fastforce
  obtain res h2 where re: "enter_room demo_env 2 0 ''bob'' h1 = (res, h2)" by fastforce
  have pc: "getPeerConnection ''bob'' ?h = Some 1" "PeerConnectionState_Usable (pc_state (h_pc ?h 1))" "0 < h_gcTTL ?h"
    by (simp_all add: getPeerConnection_def demo_handler_def NewHandler_def demo_pc_def NewPeerConnection_def
        PeerConnectionState_Usable_def)
  from reconnect_resumes_session [OF _ _ r pc st re] demo_room_ok demo_room_members(2) st re
  show ?thesis by auto
qed

subsection \<open>Discovery and broadcasts\<close>

lemma registry_entry:
  assumes ok: "room_ok r d" and t: "mget (tracks (rom d r)) k = Some t"
  obtains i q where "is_member r d i q" "p_id (par d q) = i" "mget (pubTracks (par d q)) k = Some t"
    "publisher (trk d t) = Some q" "t_state (trk d t) = TrackStatePublished" "t_id (trk d t) = k"
proof -
  note I = room_invD [OF room_okD(1) [OF ok]]
  obtain i q where q: "is_member r d i q" "mget (pubTracks (par d q)) k = Some t"
    by (rule registry_liveE [OF I(4) t])
  show ?thesis
    by (rule that [OF q(1) members_okD(1) [OF I(1) q(1)] q(2)]) (use pubs_ownedD [OF I(3) q] in simp_all)
qed

lemma joiner_entry_member:
  assumes ok: "room_ok r d" and t: "mget (tracks (rom d r)) k = Some t"
    and q: "is_member r d i q" "mget (pubTracks (par d q)) k = Some t"
  shows "joiner_entry r j d k = (if i = '''' \<or> i = j then [] else [PublishedTrackInfo i (trackInfo t d)])"
proof -
  note I = room_invD [OF room_okD(1) [OF ok]]
  show ?thesis
    using t pubs_ownedD [OF I(3) q] members_okD(1) [OF I(1) q(1)] by (simp add: joiner_entry_def Room_GetTrack_def)
qed

text \<open>C16. A joining participant discovers exactly the tracks of the others: the list that it gets
  consists of one entry for every registered track that another member has published, under
  that member's identifier, and of nothing else; no track is listed twice.\<close>

theorem joiner_discovers_exactly:
  assumes ok: "room_ok r d"
  shows "set (publishedTracksForJoiner r j d) =
      {PublishedTrackInfo i (trackInfo t d) | i q k t. is_member r d i q \<and> i \<noteq> j \<and> i \<noteq> '''' \<and>
         mget (pubTracks (par d q)) k = Some t \<and> mget (tracks (rom d r)) k = Some t} \<and>
    distinct (map (\<lambda>x. ti_ID (pti_Track x)) (publishedTracksForJoiner r j d))"
proof
  note I = room_invD [OF room_okD(1) [OF ok]]
  have wf: "wf_map (tracks (rom d r))" using I(4) by (simp add: registry_live_def)
  show "set (publishedTracksForJoiner r j d) =
      {PublishedTrackInfo i (trackInfo t d) | i q k t. is_member r d i q \<and> i \<noteq> j \<and> i \<noteq> '''' \<and>
         mget (pubTracks (par d q)) k = Some t \<and> mget (tracks (rom d r)) k = Some t}" (is "_ = ?R")
  proof (intro set_eqI iffI)
    fix x assume "x \<in> set (publishedTracksForJoiner r j d)"
    then obtain k where k: "k \<in> set (mkeys (tracks (rom d r)))" "x \<in> set (joiner_entry r j d k)"
      by (auto simp: publishedTracksForJoiner_def Room_Tracks_def)
    then obtain t where t: "mget (tracks (rom d r)) k = Some t" unfolding set_mkeys by blast
    obtain i q where q: "is_member r d i q" "mget (pubTracks (par d q)) k = Some t"
      using registry_entry [OF ok t] by metis
    have "i \<noteq> '''' \<and> i \<noteq> j \<and> x = PublishedTrackInfo i (trackInfo t d)"
      using k(2) joiner_entry_member [OF ok t q, of j] by (simp split: if_splits)
    with t q show "x \<in> ?R" by blast
  next
    fix x assume "x \<in> ?R"
    then obtain i q k t where x: "x = PublishedTrackInfo i (trackInfo t d)" "i \<noteq> j" "i \<noteq> ''''"
      and q: "is_member r d i q" "mget (pubTracks (par d q)) k = Some t" and t: "mget (tracks (rom d r)) k = Some t"
      by blast
    have "x \<in> set (joiner_entry r j d k)" using x joiner_entry_member [OF ok t q, of j] by simp
    moreover have "k \<in> set (Room_Tracks r d)" unfolding Room_Tracks_def by (rule mget_mem [OF t])
    ultimately show "x \<in> set (publishedTracksForJoiner r j d)" by (auto simp: publishedTracksForJoiner_def)
  qed
  have one: "map (\<lambda>x. ti_ID (pti_Track x)) (joiner_entry r j d k) \<in> {[], [k]}" for k
  proof (cases "mget (tracks (rom d r)) k")
    case (Some t)
    obtain i q where q: "is_member r d i q" "mget (pubTracks (par d q)) k = Some t" "t_id (trk d t) = k"
      using registry_entry [OF ok Some] by metis
    then show ?thesis using joiner_entry_member [OF ok Some q(1,2), of j] by (simp add: trackInfo_def)
  qed (simp add: joiner_entry_def Room_GetTrack_def)
  have "distinct (concat (map f ks)) \<and> set (concat (map f ks)) \<subseteq> set ks"
    if "distinct ks" "\<And>k. f k \<in> {[], [k]}" for f :: "string \<Rightarrow> string list" and ks
    using that(1)
  proof (induction ks)
    case (Cons k ks)
    then show ?case using that(2) [of k] by auto
  qed simp
  from this [OF wf [folded Room_Tracks_def], of "\<lambda>k. map (\<lambda>x. ti_ID (pti_Track x)) (joiner_entry r j d k)"] one
  show "distinct (map (\<lambda>x. ti_ID (pti_Track x)) (publishedTracksForJoiner r j d))"
    by (simp add: publishedTracksForJoiner_def map_concat o_def)
qed

theorem joiner_discovers_exactly_witness:
  "publishedTracksForJoiner 0 ''bob'' demo_room \<noteq> [] \<and>
   distinct (map (\<lambda>x. ti_ID (pti_Track x)) (publishedTracksForJoiner 0 ''bob'' demo_room))"
proof -
  have "publishedTracksForJoiner 0 ''bob'' demo_room \<noteq> []" by code_simp
  with joiner_discovers_exactly [OF demo_room_ok, of "''bob''"] show ?thesis by blast
qed

text \<open>Connections are registered under the identifier of their participant.\<close>

definition conns_keyed :: "'p Handler \<Rightarrow> bool" where
  "conns_keyed h \<longleftrightarrow>
     (\<forall>i c. ConnectionManager_Get (h_connectionManager h) i = Some c \<longrightarrow> c_participantID (h_conn h c) = i)"

lemma broadcast_fold:
  assumes "distinct is" and "conns_keyed h"
  shows "h_conn (fold (broadcast_one t d ex) is h) c =
     (if \<exists>i \<in> set is. i \<noteq> ex \<and> ConnectionManager_Get (h_connectionManager h) i = Some c
      then snd (Connection_Send t d (h_conn h c)) else h_conn h c)"
proof -
  have "h_conn (fold (broadcast_one t d ex) js g) c =
     (if \<exists>i \<in> set js. i \<noteq> ex \<and> ConnectionManager_Get (h_connectionManager h) i = Some c
      then snd (Connection_Send t d (h_conn g c)) else h_conn g c)"
    if "distinct js" "only_sent h g" for js g
    using that
  proof (induction js arbitrary: g)
    case (Cons j js)
    let ?g = "broadcast_one t d ex j g"
    have cm: "h_connectionManager g = h_connectionManager h" by (rule only_sentD(3) [OF Cons.prems(2)])
    have g: "h_conn ?g c = (if j \<noteq> ex \<and> ConnectionManager_Get (h_connectionManager h) j = Some c
        then snd (Connection_Send t d (h_conn g c)) else h_conn g c)"
      by (auto simp: broadcast_one_def conn_Send_def cm split: option.split prod.split)
    have other: "\<not> (\<exists>i \<in> set js. i \<noteq> ex \<and> ConnectionManager_Get (h_connectionManager h) i = Some c)"
      if "ConnectionManager_Get (h_connectionManager h) j = Some c"
      using that assms(2) Cons.prems(1) unfolding conns_keyed_def by (metis distinct.simps(2))
    have "h_conn (fold (broadcast_one t d ex) js ?g) c =
       (if \<exists>i \<in> set js. i \<noteq> ex \<and> ConnectionManager_Get (h_connectionManager h) i = Some c
        then snd (Connection_Send t d (h_conn ?g c)) else h_conn ?g c)"
      using Cons.prems(1) by (intro Cons.IH only_sent_trans [OF Cons.prems(2) broadcast_one_only]) simp
    then show ?case using g other by (cases "j \<noteq> ex \<and> ConnectionManager_Get (h_connectionManager h) j = Some c") auto
  qed simp
  from this [OF assms(1) only_sent_refl] show ?thesis .
qed

text \<open>A broadcast reaches exactly the other members: the connection of every member of the room
  other than the excluded one is sent the message once, every other connection is left
  alone, and nothing else of the server changes.\<close>

theorem broadcast_reaches_others:
  assumes ok: "room_ok r (h_dom h)" and keyed: "conns_keyed h"
  shows "h_conn (broadcastToRoom r t d ex h) c =
      (if \<exists>i p. is_member r (h_dom h) i p \<and> i \<noteq> ex \<and> ConnectionManager_Get (h_connectionManager h) i = Some c
       then snd (Connection_Send t d (h_conn h c)) else h_conn h c) \<and>
    (broadcastToRoom r t d ex h)\<lparr>h_conn := h_conn h\<rparr> = h"
proof
  have "distinct (Room_Participants r (h_dom h))"
    using room_invD(1) [OF room_okD(1) [OF ok]] by (simp add: Room_Participants_def members_ok_def)
  from broadcast_fold [OF this keyed, of t d ex c]
  show "h_conn (broadcastToRoom r t d ex h) c =
      (if \<exists>i p. is_member r (h_dom h) i p \<and> i \<noteq> ex \<and> ConnectionManager_Get (h_connectionManager h) i = Some c
       then snd (Connection_Send t d (h_conn h c)) else h_conn h c)"
    by (simp only: broadcastToRoom_def Room_Participants_def set_mkeys Bex_def domIff not_None_eq)
      (metis (no_types, lifting))
  obtain conns where "broadcastToRoom r t d ex h = h\<lparr>h_conn := conns\<rparr>"
    using broadcastToRoom_only unfolding only_sent_def by metis
  then show "(broadcastToRoom r t d ex h)\<lparr>h_conn := h_conn h\<rparr> = h" by simp
qed

theorem broadcast_reaches_others_witness:
  "c_sendChan (h_conn (broadcastToRoom 0 MessageTypeParticipantLeft (ParticipantLeftNotification ''alice'') ''alice''
     demo_handler) 1) = [NewMessage MessageTypeParticipantLeft (ParticipantLeftNotification ''alice'')]"
proof -
  have "conns_keyed demo_handler" by (simp add: conns_keyed_def ConnectionManager_Get_def NewConnection_def)
  from broadcast_reaches_others [OF _ this, of 0 MessageTypeParticipantLeft _ _ 1] demo_room_ok demo_room_members(2)
  show ?thesis
    by (auto simp: ConnectionManager_Get_def Connection_Send_def NewConnection_def sendBuffer_def Let_def)
qed

subsection \<open>Keyframe requests\<close>

text \<open>C17. Keyframe requests are never relayed blindly: feedback whose SSRC is not the egress SSRC of
  the named track on the subscriber's connection changes nothing; otherwise at most one packet
  is sent, on the peer connection of the publisher of that track, addressed to the SSRC of
  the publisher's remote track and with the subscriber's own sender SSRC; and success is
  reported only when that packet was sent.\<close>

theorem keyframe_relay_addressed:
  assumes r: "relayKeyframeRequest E (Some s) k kind sender med h = ((fwd, pub), h')"
  shows "(mget (PC_EgressSSRCMap E (h_pc h s)) med \<noteq> Some k \<longrightarrow> \<not> fwd \<and> h' = h) \<and>
    (h_rtcp h' = h_rtcp h \<and> \<not> fwd \<or>
     (\<exists>i a ssrc pkt. h_rtcp h' = h_rtcp h @ [(a, pkt)] \<and> getForwarder k h = Some i \<and>
        pub = publisherIDForTrack k h \<and> getPeerConnection pub h = Some a \<and>
        wt_track (f_publisher (h_fw h i)) = Some (TrackRemote ssrc) \<and> rtcp_MediaSSRC pkt = ssrc \<and>
        rtcp_SenderSSRC pkt = sender \<and> (kind = ''PLI'' \<or> kind = ''FIR'')))"
proof (cases "getForwarder k h")
  case None
  then show ?thesis using r by (auto simp: relayKeyframeRequest_def)
next
  case (Some i)
  have up: "(kind = ''PLI'' \<or> kind = ''FIR'') \<and> rtcp_MediaSSRC pkt = x \<and> rtcp_SenderSSRC pkt = sender \<and>
      h_rtcp h1 = h_rtcp h" if "upstream_packet kind sender x i h = Some (pkt, h1)" for x pkt h1
    using that by (auto simp: upstream_packet_def split: if_splits prod.splits)
  have rem: "wt_track w = Some (TrackRemote x)" if "WebRTCTrack_RemoteSSRC w = (x, True)" for w x
    using that by (auto simp: WebRTCTrack_RemoteSSRC_def split: option.splits pion_track.splits)
  have wr: "h_rtcp h2 = h_rtcp h1 @ [(a, pkt)] \<or> e \<noteq> None \<and> h_rtcp h2 = h_rtcp h1"
    if "PC_WriteRTCP E a pkt h1 = (e, h2)" for a pkt h1 e h2
    using that by (auto simp: PC_WriteRTCP_def split: if_splits)
  show ?thesis
  proof (cases "mget (PC_EgressSSRCMap E (h_pc h s)) med = Some k")
    case False
    then show ?thesis using r Some by (auto simp: relayKeyframeRequest_def)
  next
    case True
    consider "h' = h" "\<not> fwd" | a x pkt h1 e where "publisherIDForTrack k h = pub" "getPeerConnection pub h = Some a"
        "WebRTCTrack_RemoteSSRC (f_publisher (h_fw h i)) = (x, True)"
        "upstream_packet kind sender x i h = Some (pkt, h1)" "PC_WriteRTCP E a pkt h1 = (e, h')" "fwd \<longleftrightarrow> e = None"
      using r Some True
      by (auto simp: relayKeyframeRequest_def Let_def split: if_splits option.splits prod.splits)
    then show ?thesis
    proof cases
      case 2
      then show ?thesis using True Some up [OF 2(4)] rem [OF 2(3)] wr [OF 2(5)] by auto
    qed (use True in simp)
  qed
qed

theorem keyframe_relay_addressed_witness:
  "\<exists>h'. relayKeyframeRequest demo_env (Some 1) ''mic'' ''PLI'' 42 77 demo_handler = ((True, ''alice''), h') \<and>
     h_rtcp h' = [(0, PictureLossIndication 42 7)]"
proof -
  obtain fwd pub h' where r: "relayKeyframeRequest demo_env (Some 1) ''mic'' ''PLI'' 42 77 demo_handler = ((fwd, pub), h')"
    by (metis surj_pair)
  have p: "publisherIDForTrack ''mic'' demo_handler = ''alice''"
  proof -
    have "publisher (trk demo_room 0) = Some 0" "p_id (par demo_room 0) = ''alice''" by code_simp+
    then show ?thesis by (simp add: publisherIDForTrack_def getForwarder_def demo_remote_def)
  qed
  have m: "mget (PC_EgressSSRCMap demo_env (demo_pc False False)) 77 = Some ''mic''"
    by (simp add: PC_EgressSSRCMap_def sender_ssrcs_def demo_env_def)
  have "fwd \<and> pub = ''alice'' \<and> h' = demo_handler\<lparr>h_rtcp := [(0, PictureLossIndication 42 7)]\<rparr>"
    using r p m
    by (simp add: relayKeyframeRequest_def getForwarder_def getPeerConnection_def Let_def upstream_packet_def
        WebRTCTrack_RemoteSSRC_def demo_remote_def PC_WriteRTCP_def pc_dead_def demo_pc_def NewPeerConnection_def)
      (auto simp: demo_env_def demo_handler_def NewHandler_def)
  with keyframe_relay_addressed [OF r] r show ?thesis by auto
qed

subsection \<open>After leaving\<close>

lemma handleLeaveRoom_heap:
  assumes "UnmarshalData dec_LeaveRoomRequest msg = Inr req" and "handleLeaveRoom E c r p msg h = (e, h')"
  shows "h_dom h' = snd (Room_Leave r (lr_ParticipantID req) (h_dom h))"
  using assms by (auto simp: handleLeaveRoom_def Let_def dest!: conn_Send_dom split: prod.splits option.splits)

text \<open>Leaving does not end the participant: on a connection whose participant has left, a further
  request to publish a new track is carried out. The track is then registered in the room
  with a publisher that is not a member, so the room invariant is broken.\<close>

theorem publish_after_leave:
  assumes ok: "room_ok r (h_dom h)" and m: "is_member r (h_dom h) i p"
    and lreq: "UnmarshalData dec_LeaveRoomRequest lmsg = Inr lr" "lr_ParticipantID lr = i"
    and l: "handleLeaveRoom E c r p lmsg h = (e1, h1)"
    and preq: "UnmarshalData dec_PublishTrackRequest pmsg = Inr pr" "ti_ID (pr_Track pr) = k"
    and new: "k \<notin> set (Participant_PublishedTracks p (h_dom h))" "Room_GetTrack r k (h_dom h1) = None"
    and pu: "handlePublishTrack E c r p pmsg h1 = (e2, h2)"
  shows "Room_GetParticipant r i (h_dom h2) = None \<and>
    (\<exists>t. Room_GetTrack r k (h_dom h2) = Some t \<and> publisher (trk (h_dom h2) t) = Some p) \<and>
    p_id (par (h_dom h2) p) = i \<and> \<not> room_ok r (h_dom h2)"
proof -
  obtain d where lv: "Room_Leave r i (h_dom h) = (None, d)" "Room_GetParticipant r i d = None"
    by (rule Leave_removes [OF ok m])
  have d: "h_dom h1 = d" using handleLeaveRoom_heap [OF lreq(1) l] lreq(2) lv(1) by simp
  note K = Leave_keeps_participant [OF ok m lv(1)]
  obtain h3 where L: "left_state r i p (h_dom h) h3" "d = drop_member r i h3"
    by (rule Leave_decompose [OF room_okD(1) [OF ok] m lv(1)])
  have pid: "p_id (par d p) = i"
    using members_okD(1) [OF room_invD(1) [OF room_okD(1) [OF ok]] m]
    by (simp add: L(2) shrinks_parD [OF left_stateD(3) [OF L(1)]])
  have open_: "r_state (rom d r) \<noteq> RoomStateClosed"
    using room_ok_member_open [OF ok m] left_stateD(3) [OF L(1)] by (simp add: L(2) shrinks_romD)
  let ?n = "NewTrack k (request_kind (ti_Kind (pr_Track pr))) (request_source (ti_Source (pr_Track pr))) d"
  obtain t d1 where n: "?n = (Inr t, d1)" by (simp add: NewTrack_def request_valid)
  note N = NewTrack_InrD [OF n]
  have st: "p_state (par d p) \<noteq> ParticipantStateLeft" "pubTracks (par d p) = pubTracks (par (h_dom h) p)"
    using K by blast+
  have tk: "t_id (trk d1 t) = k" using N by (simp add: mkTrack_def)
  let ?d2 = "Track_Publish t (Track_SetPublisher t (Some p)
    (upd_par p (\<lambda>x. x\<lparr>pubTracks := mput k t (pubTracks x)\<rparr>) d1))"
  have pt: "Participant_PublishTrack p t d1 = (None, ?d2)"
    using N st tk new(1)
    by (simp add: Participant_PublishTrack_def Participant_PublishedTracks_def map_of_eq_None_iff)
  let ?d3 = "upd_rom r (\<lambda>x. x\<lparr>tracks := mput k t (tracks x)\<rparr>) ?d2"
  have rp: "Room_PublishTrack r t ?d2 = (None, ?d3)"
    using N open_ new(2) tk d by (simp add: Room_PublishTrack_def track_ops Room_GetTrack_def)
  have h2: "h_dom h2 = ?d3"
    using pu preq n pt rp d
    by (auto simp: handlePublishTrack_def Let_def dest!: conn_Send_dom split: if_splits prod.splits option.splits)
  have reg: "Room_GetTrack r k (h_dom h2) = Some t" "publisher (trk (h_dom h2) t) = Some p"
    "p_id (par (h_dom h2) p) = i" "Room_GetParticipant r i (h_dom h2) = None"
    using N pid lv(2) by (simp_all add: h2 track_ops Room_GetTrack_def Room_GetParticipant_def)
  have "\<not> room_ok r (h_dom h2)"
  proof
    assume ok2: "room_ok r (h_dom h2)"
    obtain j q where "is_member r (h_dom h2) j q" "p_id (par (h_dom h2) q) = j" "publisher (trk (h_dom h2) t) = Some q"
      using registry_entry [OF ok2] reg(1) unfolding Room_GetTrack_def by metis
    with reg show False by (simp add: Room_GetParticipant_def)
  qed
  with reg show ?thesis by blast
qed

definition demo_publish :: Message where
  "demo_publish = request MessageTypePublishTrack (enc_PublishTrackRequest
     \<lparr>pr_RoomID = ''room-1'', pr_ParticipantID = ''alice'',
      pr_Track = \<lparr>ti_ID = ''cam'', ti_Kind = ''video'', ti_Source = ''camera''\<rparr>\<rparr>)"

theorem publish_after_leave_witness:
  "\<exists>e1 h1 e2 h2. handleLeaveRoom demo_env 0 0 0 demo_leave demo_handler = (e1, h1) \<and>
     handlePublishTrack demo_env 0 0 0 demo_publish h1 = (e2, h2) \<and>
     Room_GetParticipant 0 ''alice'' (h_dom h2) = None \<and> Room_GetTrack 0 ''cam'' (h_dom h2) \<noteq> None"
proof -
  obtain e1 h1 where l: "handleLeaveRoom demo_env 0 0 0 demo_leave demo_handler = (e1, h1)" by fastforce
  obtain e2 h2 where pu: "handlePublishTrack demo_env 0 0 0 demo_publish h1 = (e2, h2)" by fastforce
  have req: "UnmarshalData dec_PublishTrackRequest demo_publish = Inr \<lparr>pr_RoomID = ''room-1'',
      pr_ParticipantID = ''alice'', pr_Track = \<lparr>ti_ID = ''cam'', ti_Kind = ''video'', ti_Source = ''camera''\<rparr>\<rparr>"
    by code_simp
  have "''cam'' \<notin> set (Participant_PublishedTracks 0 demo_room)"
    "Room_GetTrack 0 ''cam'' (snd (Room_Leave 0 ''alice'' demo_room)) = None" by code_simp+
  with publish_after_leave [OF _ _ demo_leave_req _ l req _ _ _ pu, of "''alice''" "''cam''"]
    handleLeaveRoom_heap [OF demo_leave_req l] demo_room_ok demo_room_members(1) l pu
  show ?thesis by auto
qed

end
