(* ===== verification/Sdk_Client.thy ===== *)
theory Sdk_Client
  imports Handler_Contracts "HOL-Library.List_Lexorder" "HOL-Library.Char_ord"
begin

text \<open>
  The client of the SDK (\<open>pkg/slive/client.go\<close>, \<open>errors.go\<close>), which drives rooms in process through
  the room manager that it shares with its signaling handler, and keeps the signaling
  sessions it has opened.

  The context of a call is its \<open>ctx.Err()\<close>. The in-process HTTP server is the flag
  \<open>cl_srv\<close>; sessions are addresses.
\<close>

subsection \<open>Errors\<close>

text \<open>The two room errors and the two client errors are the SDK's own; the others are the domain's.\<close>

definition Slive_ErrRoomNotFound :: gerror where "Slive_ErrRoomNotFound = Sent (OtherE ''room not found'')"
definition Slive_ErrClientClosed :: gerror where "Slive_ErrClientClosed = Sent (OtherE ''client is closed'')"
definition Slive_ErrInvalidArgument :: gerror where "Slive_ErrInvalidArgument = Sent (OtherE ''invalid argument'')"
definition Slive_ErrSessionClosed :: gerror where
  "Slive_ErrSessionClosed = Sent (OtherE ''signaling session is closed'')"

definition wrap_error :: "gerror \<Rightarrow> string \<Rightarrow> gerror" where
  "wrap_error e detail = Wrapf (error_text e @ '': '' @ detail) [e]"

subsection \<open>Client\<close>

record Session =
  s_roomID :: string
  s_participantID :: string
  s_ws :: bool
  s_closed :: bool

record 'p Client =
  cl_handler :: "'p Handler"
  cl_closed :: bool
  cl_srv :: bool
  cl_sessions :: "nat list"
  cl_closedRooms :: "string list"
  cl_session :: "nat \<Rightarrow> Session"

definition NewClient :: "'p Handler \<Rightarrow> (nat \<Rightarrow> Session) \<Rightarrow> 'p Client" where
  "NewClient h ss = \<lparr>cl_handler = h, cl_closed = False, cl_srv = False, cl_sessions = [], cl_closedRooms = [],
     cl_session = ss\<rparr>"

definition cl_dom :: "'p Client \<Rightarrow> dheap" where "cl_dom cl = h_dom (cl_handler cl)"
definition cl_rooms :: "'p Client \<Rightarrow> RoomManager" where "cl_rooms cl = h_roomManager (cl_handler cl)"

definition set_rooms :: "RoomManager \<Rightarrow> dheap \<Rightarrow> 'p Client \<Rightarrow> 'p Client" where
  "set_rooms rm d cl = cl\<lparr>cl_handler := (cl_handler cl)\<lparr>h_roomManager := rm, h_dom := d\<rparr>\<rparr>"

definition Client_JoinRoom ::
  "gerror option \<Rightarrow> string \<Rightarrow> string \<Rightarrow> 'p Client \<Rightarrow> (gerror + raddr) \<times> 'p Client" where
  "Client_JoinRoom ctx roomID participantID cl =
     (case ctx of
        Some err \<Rightarrow> (Inl err, cl)
      | None \<Rightarrow>
          if roomID = '''' \<or> participantID = ''''
          then (Inl (wrap_error Slive_ErrInvalidArgument ''roomID and participantID are required''), cl)
          else if cl_closed cl then (Inl (wrap_error Slive_ErrClientClosed ''client is closed''), cl)
          else (case RoomManager_GetOrCreateRoom roomID (cl_rooms cl) (cl_dom cl) of
                  (Inl err, rm, d) \<Rightarrow> (Inl err, set_rooms rm d cl)
                | (Inr room, rm, d) \<Rightarrow>
                    let cl1 = (set_rooms rm d cl)\<lparr>cl_closedRooms := removeAll roomID (cl_closedRooms cl)\<rparr>
                    in if Room_GetParticipant room participantID d \<noteq> None then (Inr room, cl1)
                       else (case join_new room participantID (''Participant '' @ participantID) d of
                               (Inl err, d1) \<Rightarrow>
                                 (if errors_Is err (DomainE ErrParticipantAlreadyExists) then Inr room else Inl err,
                                  set_rooms rm d1 cl1)
                             | (Inr p, d1) \<Rightarrow> (Inr room, set_rooms rm d1 cl1))))"

definition Client_LeaveRoom :: "gerror option \<Rightarrow> string \<Rightarrow> string \<Rightarrow> 'p Client \<Rightarrow> gerror option \<times> 'p Client" where
  "Client_LeaveRoom ctx roomID participantID cl =
     (case ctx of
        Some err \<Rightarrow> (Some err, cl)
      | None \<Rightarrow>
          (case RoomManager_GetRoom (cl_rooms cl) roomID of
             None \<Rightarrow> (Some Slive_ErrRoomNotFound, cl)
           | Some room \<Rightarrow>
               (case Room_Leave room participantID (cl_dom cl) of
                  (e, d) \<Rightarrow> (e, set_rooms (cl_rooms cl) d cl))))"

definition Client_PublishTrack ::
  "gerror option \<Rightarrow> string \<Rightarrow> string \<Rightarrow> string \<Rightarrow> TrackKind \<Rightarrow> TrackSource \<Rightarrow> 'p Client \<Rightarrow>
     (gerror + taddr) \<times> 'p Client" where
  "Client_PublishTrack ctx roomID participantID trackID kind source cl =
     (case ctx of
        Some err \<Rightarrow> (Inl err, cl)
      | None \<Rightarrow>
          (case RoomManager_GetRoom (cl_rooms cl) roomID of
             None \<Rightarrow> (Inl Slive_ErrRoomNotFound, cl)
           | Some room \<Rightarrow>
               (case Room_GetParticipant room participantID (cl_dom cl) of
                  None \<Rightarrow> (Inl (derr ErrParticipantNotFound), cl)
                | Some p \<Rightarrow>
                    (case NewTrack trackID kind source (cl_dom cl) of
                       (Inl err, d1) \<Rightarrow> (Inl err, set_rooms (cl_rooms cl) d1 cl)
                     | (Inr t, d1) \<Rightarrow>
                         (case Participant_PublishTrack p t d1 of
                            (Some err, d2) \<Rightarrow> (Inl err, set_rooms (cl_rooms cl) d2 cl)
                          | (None, d2) \<Rightarrow>
                              (case Room_PublishTrack room t d2 of
                                 (Some err, d3) \<Rightarrow>
                                   (Inl err, set_rooms (cl_rooms cl) (snd (Participant_UnpublishTrack p trackID d3)) cl)
                               | (None, d3) \<Rightarrow> (Inr t, set_rooms (cl_rooms cl) d3 cl)))))))"

definition client_member ::
  "(raddr \<Rightarrow> paddr \<Rightarrow> dheap \<Rightarrow> gerror option \<times> dheap) \<Rightarrow> gerror option \<Rightarrow> string \<Rightarrow> string \<Rightarrow>
     'p Client \<Rightarrow> gerror option \<times> 'p Client" where
  "client_member f ctx roomID participantID cl =
     (case ctx of
        Some err \<Rightarrow> (Some err, cl)
      | None \<Rightarrow>
          (case RoomManager_GetRoom (cl_rooms cl) roomID of
             None \<Rightarrow> (Some Slive_ErrRoomNotFound, cl)
           | Some room \<Rightarrow>
               (case Room_GetParticipant room participantID (cl_dom cl) of
                  None \<Rightarrow> (Some (derr ErrParticipantNotFound), cl)
                | Some p \<Rightarrow> (case f room p (cl_dom cl) of (e, d) \<Rightarrow> (e, set_rooms (cl_rooms cl) d cl)))))"

definition Client_SubscribeTrack ::
  "gerror option \<Rightarrow> string \<Rightarrow> string \<Rightarrow> string \<Rightarrow> 'p Client \<Rightarrow> gerror option \<times> 'p Client" where
  "Client_SubscribeTrack ctx roomID participantID trackID cl =
     client_member (\<lambda>room p. Room_SubscribeToTrack room p trackID) ctx roomID participantID cl"

definition Client_UnsubscribeTrack ::
  "gerror option \<Rightarrow> string \<Rightarrow> string \<Rightarrow> string \<Rightarrow> 'p Client \<Rightarrow> gerror option \<times> 'p Client" where
  "Client_UnsubscribeTrack ctx roomID participantID trackID cl =
     client_member (\<lambda>room p. Room_UnsubscribeFromTrack room p trackID) ctx roomID participantID cl"

definition Client_RoomIDs :: "'p Client \<Rightarrow> string list" where
  "Client_RoomIDs cl = sort (RoomManager_RoomIDs (cl_rooms cl))"

definition Client_CloseRoom :: "'p env \<Rightarrow> gerror option \<Rightarrow> string \<Rightarrow> 'p Client \<Rightarrow> gerror option \<times> 'p Client" where
  "Client_CloseRoom E ctx roomID cl =
     (case ctx of
        Some err \<Rightarrow> (Some err, cl)
      | None \<Rightarrow>
          if roomID = '''' then (Some (wrap_error Slive_ErrInvalidArgument ''roomID is required''), cl)
          else if cl_closed cl then (Some (wrap_error Slive_ErrClientClosed ''client is closed''), cl)
          else if RoomManager_GetRoom (cl_rooms cl) roomID = None
          then (if roomID \<in> set (cl_closedRooms cl) then None else Some Slive_ErrRoomNotFound, cl)
          else
            let cl1 = cl\<lparr>cl_closedRooms := removeAll roomID (cl_closedRooms cl)\<rparr>
            in (case Handler_CloseRoom E roomID (cl_handler cl1) of (e, h) \<Rightarrow>
                  let cl2 = cl1\<lparr>cl_handler := h\<rparr>;
                      cl3 = cl2\<lparr>cl_closedRooms := roomID # cl_closedRooms cl2\<rparr>
                  in (case e of
                        None \<Rightarrow> (None, cl3)
                      | Some err \<Rightarrow>
                          if errors_Is err (DomainE ErrParticipantNotFound) then (None, cl3) else (Some err, cl2))))"

subsection \<open>Sessions\<close>

definition closeTransport :: "nat \<Rightarrow> 'p Client \<Rightarrow> 'p Client" where
  "closeTransport s cl =
     cl\<lparr>cl_session := (cl_session cl)(s := (cl_session cl s)\<lparr>s_closed := True, s_ws := False\<rparr>)\<rparr>"

definition registerSession :: "nat \<Rightarrow> 'p Client \<Rightarrow> gerror option \<times> 'p Client" where
  "registerSession s cl =
     (if cl_closed cl
      then (Some (Wrapf (''signaling session rejected: client is closed: '' @ error_text Slive_ErrSessionClosed)
                    [Slive_ErrSessionClosed]), closeTransport s cl)
      else (None, cl\<lparr>cl_sessions := List.insert s (cl_sessions cl)\<rparr>))"

definition unregisterSession :: "nat \<Rightarrow> 'p Client \<Rightarrow> 'p Client" where
  "unregisterSession s cl = cl\<lparr>cl_sessions := removeAll s (cl_sessions cl)\<rparr>"

definition Session_Close :: "nat \<Rightarrow> 'p Client \<Rightarrow> 'p Client" where
  "Session_Close s cl = closeTransport s (unregisterSession s cl)"

text \<open>The parameter is the result of \<open>net.Listen\<close> on the loopback address.\<close>

definition SignalingURL :: "gerror option \<Rightarrow> 'p Client \<Rightarrow> gerror option \<times> 'p Client" where
  "SignalingURL listen cl =
     (if cl_closed cl then (Some (wrap_error Slive_ErrClientClosed ''client is closed''), cl)
      else if cl_srv cl then (None, cl)
      else (case listen of
              Some err \<Rightarrow> (Some (Wrapf (''listen signaling: '' @ error_text err) [err]), cl)
            | None \<Rightarrow> (None, cl\<lparr>cl_srv := True\<rparr>)))"

definition Client_Close :: "'p env \<Rightarrow> 'p Client \<Rightarrow> 'p Client" where
  "Client_Close E cl =
     (if cl_closed cl then cl
      else
        let sessions = cl_sessions cl;
            cl1 = fold closeTransport sessions (cl\<lparr>cl_closed := True, cl_sessions := []\<rparr>)
        in cl1\<lparr>cl_srv := False, cl_handler := Handler_Shutdown E (cl_handler cl1)\<rparr>)"

end
