(* ===== verification/Sdk_Session.thy ===== *)
theory Sdk_Session
  imports Sdk_Client
begin

text \<open>
  The signaling sessions of the SDK (\<open>pkg/slive/helpers.go\<close>): one participant's end of the
  WebSocket protocol. A round trip writes a request and reads frames until the answer. What
  the socket does is an argument: the result of the write, and the frames and failures that
  the reads return one after the other.
\<close>

subsection \<open>Error replies\<close>

text \<open>The sentinel that an error reply identifies: by its code, or else by its text.\<close>

definition sentinelByCode :: "string \<Rightarrow> gerror option" where
  "sentinelByCode code =
     (if code = ErrorCodeRoomClosed then Some (derr ErrRoomClosed)
      else if code = ErrorCodeRoomNotFound then Some Slive_ErrRoomNotFound
      else if code = ErrorCodeParticipantNotFound then Some (derr ErrParticipantNotFound)
      else if code = ErrorCodeTrackNotFound then Some (derr ErrTrackNotFound)
      else if code = ErrorCodePeerConnectionClosed then Some (werr ErrPeerConnectionClosed)
      else if code = ErrorCodeTrackAlreadyPublished then Some (derr ErrTrackAlreadyPublished)
      else if code = ErrorCodeTrackAlreadySubscribed then Some (derr ErrTrackAlreadySubscribed)
      else if code = ErrorCodeTrackNotPublished then Some (derr ErrTrackNotPublished)
      else if code = ErrorCodeParticipantAlreadyExists then Some (derr ErrParticipantAlreadyExists)
      else if code = ErrorCodeParticipantLeft then Some (derr ErrParticipantLeft)
      else if code = ErrorCodeInvalidTrackKind then Some (derr ErrInvalidTrackKind)
      else if code = ErrorCodeInvalidTrackSource then Some (derr ErrInvalidTrackSource)
      else None)"

definition sentinelByText :: "domain_error list" where
  "sentinelByText = [ErrTrackAlreadyPublished, ErrTrackAlreadySubscribed, ErrTrackNotPublished, ErrInvalidTrackKind,
     ErrInvalidTrackSource, ErrParticipantAlreadyExists, ErrParticipantLeft, ErrParticipantNotFound, ErrRoomClosed]"

definition sentinelForErrorReply :: "string \<Rightarrow> string \<Rightarrow> gerror option" where
  "sentinelForErrorReply code text =
     (case sentinelByCode code of
        Some e \<Rightarrow> Some e
      | None \<Rightarrow>
          map_option derr (find (\<lambda>e. strings_Contains (map ascii_lower text) (map ascii_lower (domain_error_text e)))
             sentinelByText))"

record ErrorReply =
  er_Error :: string
  er_Code :: string
  er_RequestType :: string

definition dec_ErrorReply :: "json \<Rightarrow> gerror + ErrorReply" where
  "dec_ErrorReply = dec_struct (\<lambda>kvs.
     bind_r (str_field ''error'' kvs) (\<lambda>e.
     bind_r (str_field ''code'' kvs) (\<lambda>c.
     bind_r (str_field ''request_type'' kvs) (\<lambda>t.
     Inr \<lparr>er_Error = e, er_Code = c, er_RequestType = t\<rparr>))))"

definition sessionError :: "string \<Rightarrow> gerror option \<Rightarrow> gerror" where
  "sessionError message target = Wrapf message (case target of None \<Rightarrow> [] | Some e \<Rightarrow> [e])"

definition newSessionError :: "MessageType \<Rightarrow> ErrorReply \<Rightarrow> gerror" where
  "newSessionError want reply =
     sessionError (''signaling error ('' @ want @ ''): '' @ er_Error reply @ '' ['' @ er_Code reply @ '']'')
       (sentinelForErrorReply (er_Code reply) (er_Error reply))"

definition answersExchange :: "string \<Rightarrow> MessageType \<Rightarrow> MessageType \<Rightarrow> bool" where
  "answersExchange tag reqType wantType \<longleftrightarrow> tag = reqType \<or> tag = wantType"

text \<open>The verb \<open>%q\<close> on printable text.\<close>

definition quoted :: "string \<Rightarrow> string" where
  "quoted s = CHR 0x22 # concat (map (\<lambda>c. if c = CHR 0x22 \<or> c = CHR 0x5C then [CHR 0x5C, c] else [c]) s) @ [CHR 0x22]"

subsection \<open>Round trips\<close>

text \<open>A failed socket operation: its error, what \<open>ctx.Err()\<close> is then, and whether the session has
  been closed concurrently.\<close>

record socket_failure =
  sf_err :: gerror
  sf_ctx :: "gerror option"
  sf_closed :: bool

datatype inbound = Frame json | ReadFailed socket_failure

definition transport_open :: "Session \<Rightarrow> bool" where "transport_open s \<longleftrightarrow> \<not> s_closed s \<and> s_ws s"

definition drop_transport :: "Session \<Rightarrow> Session" where "drop_transport s = s\<lparr>s_closed := True, s_ws := False\<rparr>"

definition after_failure :: "socket_failure \<Rightarrow> Session \<Rightarrow> gerror \<times> Session" where
  "after_failure f s =
     (let s1 = (if sf_closed f then drop_transport s else s)
      in (case sf_ctx f of
            Some err \<Rightarrow> err
          | None \<Rightarrow> if \<not> transport_open s1 then Slive_ErrSessionClosed else sf_err f, s1))"

definition writeLocked :: "socket_failure option \<Rightarrow> Session \<Rightarrow> gerror option \<times> Session" where
  "writeLocked w s =
     (if \<not> transport_open s then (Some Slive_ErrSessionClosed, s)
      else (case w of None \<Rightarrow> (None, s) | Some f \<Rightarrow> map_prod Some id (after_failure f s)))"

text \<open>The read loop: \<open>None\<close> while it is waiting for a frame, otherwise its result.\<close>

fun awaitLocked :: "MessageType \<Rightarrow> MessageType \<Rightarrow> inbound list \<Rightarrow> Session \<Rightarrow> (gerror option \<times> Session) option" where
  "awaitLocked reqType want frames s =
     (if \<not> transport_open s then Some (Some Slive_ErrSessionClosed, s)
      else (case frames of
              [] \<Rightarrow> None
            | ReadFailed f # _ \<Rightarrow> Some (map_prod Some id (after_failure f s))
            | Frame data # rest \<Rightarrow>
                (case ParseMessage data of
                   Inl err \<Rightarrow> Some (Some err, s)
                 | Inr msg \<Rightarrow>
                     if msg_Type msg = want then Some (None, s)
                     else if msg_Type msg = MessageTypeError
                     then (case UnmarshalData dec_ErrorReply msg of
                             Inl err \<Rightarrow>
                               Some (Some (sessionError (''signaling error ('' @ want @ ''): unreadable payload'') None), s)
                           | Inr e \<Rightarrow>
                               if er_RequestType e \<noteq> '''' \<and> \<not> answersExchange (er_RequestType e) reqType want
                               then Some (Some (wrap_error Slive_ErrSessionClosed
                                      (''signaling error tagged for '' @ quoted (er_RequestType e) @
                                       '' received while awaiting '' @ quoted reqType @
                                       '' [code '' @ er_Code e @ '']'')), drop_transport s)
                               else Some (Some (newSessionError want e), s))
                     else awaitLocked reqType want rest s)))"

declare awaitLocked.simps [simp del]

text \<open>A round trip: the frame that was written, if any, and the result.\<close>

definition Session_request ::
  "MessageType \<Rightarrow> json \<Rightarrow> MessageType \<Rightarrow> socket_failure option \<Rightarrow> inbound list \<Rightarrow> Session \<Rightarrow>
     json option \<times> (gerror option \<times> Session) option" where
  "Session_request msgType payload expectType w frames s =
     (let data = Message_Marshal \<lparr>msg_Type = msgType, msg_Data = Some payload\<rparr>
      in case writeLocked w s of
           (Some err, s1) \<Rightarrow> (None, Some (Some err, s1))
         | (None, s1) \<Rightarrow> (Some data, awaitLocked msgType expectType frames s1))"

definition Session_PublishTrack ::
  "string \<Rightarrow> TrackKind \<Rightarrow> TrackSource \<Rightarrow> socket_failure option \<Rightarrow> inbound list \<Rightarrow> Session \<Rightarrow>
     json option \<times> (gerror option \<times> Session) option" where
  "Session_PublishTrack trackID kind source w frames s =
     Session_request MessageTypePublishTrack
       (enc_PublishTrackRequest \<lparr>pr_RoomID = s_roomID s, pr_ParticipantID = s_participantID s,
          pr_Track = \<lparr>ti_ID = trackID, ti_Kind = TrackKind_String kind, ti_Source = TrackSource_String source\<rparr>\<rparr>)
       MessageTypeTrackPublished w frames s"

definition Session_SubscribeTrack ::
  "string \<Rightarrow> socket_failure option \<Rightarrow> inbound list \<Rightarrow> Session \<Rightarrow> json option \<times> (gerror option \<times> Session) option" where
  "Session_SubscribeTrack trackID w frames s =
     Session_request MessageTypeSubscribeTrack
       (enc_TrackRequest \<lparr>tr_RoomID = s_roomID s, tr_ParticipantID = s_participantID s, tr_TrackID = trackID\<rparr>)
       MessageTypeTrackSubscribed w frames s"

subsection \<open>Connecting\<close>

text \<open>\<open>listen\<close> and \<open>dial\<close> are the results of the listener and of the WebSocket dialer (its error and,
  after a response, the status), \<open>frames\<close> what arrives afterwards; \<open>s\<close> is the address of the new
  session. The URL of the in-process server always parses. The result is \<open>None\<close> while the
  handshake is waiting.\<close>

definition Client_Connect ::
  "gerror option \<Rightarrow> (gerror \<times> string option) option \<Rightarrow> inbound list \<Rightarrow> nat \<Rightarrow> string \<Rightarrow> string \<Rightarrow> 'p Client \<Rightarrow>
     (gerror option \<times> 'p Client) option" where
  "Client_Connect listen dial frames s roomID participantID cl =
     (if roomID = '''' \<or> participantID = ''''
      then Some (Some (wrap_error Slive_ErrInvalidArgument ''roomID and participantID are required''), cl)
      else (case SignalingURL listen cl of
              (Some err, cl1) \<Rightarrow> Some (Some err, cl1)
            | (None, cl1) \<Rightarrow>
                (case dial of
                   Some (err, status) \<Rightarrow>
                     Some (Some (Wrapf (''dial signaling: '' @ error_text err @
                       (case status of None \<Rightarrow> '''' | Some n \<Rightarrow> '' (status '' @ n @ '')'')) [err]), cl1)
                 | None \<Rightarrow>
                     let new = \<lparr>s_roomID = roomID, s_participantID = participantID, s_ws = True, s_closed = False\<rparr>
                     in (case awaitLocked MessageTypeJoinRoom MessageTypeRoomJoined frames new of
                           None \<Rightarrow> None
                         | Some (e, x) \<Rightarrow>
                             let cl2 = cl1\<lparr>cl_session := (cl_session cl1)(s := x)\<rparr>
                             in (case e of
                                   Some err \<Rightarrow>
                                     Some (Some (Wrapf (''signaling join: '' @ error_text err) [err]), closeTransport s cl2)
                                 | None \<Rightarrow> Some (registerSession s cl2))))))"

subsection \<open>Deadlines\<close>

text \<open>Times and durations in nanoseconds; \<open>now\<close> is the clock, \<open>dl\<close> the deadline of the context.\<close>

definition defaultRoundTripTimeout :: int where "defaultRoundTripTimeout = 5000000000"
definition minRoundTripTimeout :: int where "minRoundTripTimeout = 100000000"

definition handshakeTimeout :: "int \<Rightarrow> int option \<Rightarrow> int" where
  "handshakeTimeout now dl =
     (case dl of
        Some t \<Rightarrow> if t - now > minRoundTripTimeout then t - now else minRoundTripTimeout
      | None \<Rightarrow> defaultRoundTripTimeout)"

definition roundTripDeadline :: "int \<Rightarrow> int option \<Rightarrow> int" where
  "roundTripDeadline now dl =
     (case dl of
        None \<Rightarrow> now + defaultRoundTripTimeout
      | Some t \<Rightarrow> if t - now < minRoundTripTimeout then now + minRoundTripTimeout else t)"

end
