(* ===== verification/Sdk_Contracts.thy ===== *)
theory Sdk_Contracts
  imports Sdk_Session
begin

text \<open>
  The guarantees of the SDK: the identity of errors across the wire, a round trip of a session
  through the handler, and the operations of the client.
\<close>

subsection \<open>Reading replies\<close>

text \<open>An error with more and more context around it.\<close>

definition wrapped :: "string list \<Rightarrow> gerror \<Rightarrow> gerror" where
  "wrapped ts e = foldr (\<lambda>t x. Wrapf t [x]) ts e"

lemma code_wrapped: "errorCodeFromError (Some (wrapped ts e)) = errorCodeFromError (Some e)"
  unfolding wrapped_def by (induction ts) (simp_all add: error_code_wrap)

lemma code_sentinel: "sentinelByCode (errorCodeFromError (Some (derr x))) = Some (derr x)"
  by (cases x) (simp_all add: sentinelByCode_def errorCodeFromError_def errorCodeFromDomainError_def error_codes)

lemma dec_error_reply:
  "dec_ErrorReply (enc_payload (ErrorResponse e c t)) = Inr \<lparr>er_Error = e, er_Code = c, er_RequestType = t\<rparr>"
  by (simp add: dec_ErrorReply_def key_matches_def ascii_lower_def)

definition frame_of :: "Message \<Rightarrow> inbound" where "frame_of m = Frame (Message_Marshal m)"

lemma await_want:
  "transport_open s \<Longrightarrow> awaitLocked req want (frame_of (NewMessage want d) # rest) s = Some (None, s)"
  by (subst awaitLocked.simps) (simp add: frame_of_def parse_marshal NewMessage_def)

lemma await_skip:
  assumes "transport_open s" and "\<forall>m \<in> set ms. \<exists>t d. m = NewMessage t d \<and> t \<noteq> want \<and> t \<noteq> MessageTypeError"
  shows "awaitLocked req want (map frame_of ms @ rest) s = awaitLocked req want rest s"
  using assms(2)
proof (induction ms)
  case (Cons m ms)
  then obtain t d where "m = NewMessage t d" "t \<noteq> want" "t \<noteq> MessageTypeError" by auto
  then have "awaitLocked req want (map frame_of (m # ms) @ rest) s = awaitLocked req want (map frame_of ms @ rest) s"
    using assms(1) by (subst awaitLocked.simps) (simp add: frame_of_def parse_marshal NewMessage_def)
  with Cons show ?case by simp
qed simp

lemma await_error:
  assumes "transport_open s" and "want \<noteq> MessageTypeError" and "answersExchange tag req want"
  shows "awaitLocked req want (frame_of (NewMessage MessageTypeError (ErrorResponse e c tag)) # rest) s =
    Some (Some (newSessionError want \<lparr>er_Error = e, er_Code = c, er_RequestType = tag\<rparr>), s)"
  using assms
  by (subst awaitLocked.simps)
    (simp add: frame_of_def parse_marshal NewMessage_def UnmarshalData_def dec_error_reply del: enc_payload.simps)

lemma session_error_is:
  "errors_Is (newSessionError want \<lparr>er_Error = txt, er_Code = errorCodeFromError (Some (wrapped ts (derr x))),
      er_RequestType = tag\<rparr>) y \<longleftrightarrow> y = DomainE x"
  by (auto simp: newSessionError_def sentinelForErrorReply_def code_wrapped code_sentinel sessionError_def)

text \<open>C19. The identity of an error survives the wire: when the handler fails with a domain error,
  however much context has been wrapped around it, the session that awaits the answer skips
  the notifications that arrive before, returns an error, and that error matches exactly the
  domain's sentinel; the session stays usable.\<close>

theorem error_identity_survives:
  assumes open_: "transport_open s" and want: "want \<noteq> MessageTypeError"
    and ns: "\<forall>m \<in> set ns. \<exists>t d. m = NewMessage t d \<and> t \<noteq> want \<and> t \<noteq> MessageTypeError"
    and err: "err = wrapped ts (derr x)"
  shows "\<exists>e. awaitLocked req want (map frame_of (ns @ [NewMessage MessageTypeError
        (ErrorResponse (error_text err) (errorCodeFromError (Some err)) req)]) @ rest) s = Some (Some e, s) \<and>
      (\<forall>y. errors_Is e y \<longleftrightarrow> y = DomainE x)"
  using await_error [OF open_ want, of req req]
  by (simp add: await_skip [OF open_ ns] answersExchange_def err session_error_is)

definition demo_session :: Session where
  "demo_session = \<lparr>s_roomID = ''room-1'', s_participantID = ''alice'', s_ws = True, s_closed = False\<rparr>"

lemma demo_session_open: "transport_open demo_session"
  by (simp add: demo_session_def transport_open_def)

theorem error_identity_survives_witness:
  "\<exists>e. awaitLocked MessageTypePublishTrack MessageTypeTrackPublished
      [frame_of (NewMessage MessageTypeParticipantLeft (ParticipantLeftNotification ''bob'')),
       frame_of (NewMessage MessageTypeError (ErrorResponse ''publish'' ''track_already_published'' ''publish_track''))]
      demo_session = Some (Some e, demo_session) \<and> errors_Is e (DomainE ErrTrackAlreadyPublished)"
proof -
  let ?err = "wrapped [''publish''] (derr ErrTrackAlreadyPublished)"
  have m: "MessageTypeTrackPublished \<noteq> MessageTypeError" "MessageTypeParticipantLeft \<noteq> MessageTypeTrackPublished"
    "MessageTypeParticipantLeft \<noteq> MessageTypeError" "MessageTypePublishTrack = ''publish_track''" by code_simp+
  have e: "error_text ?err = ''publish''" "errorCodeFromError (Some ?err) = ''track_already_published''"
    by code_simp+
  show ?thesis
    using error_identity_survives [OF demo_session_open m(1) _ refl, of
        "[NewMessage MessageTypeParticipantLeft (ParticipantLeftNotification ''bob'')]" MessageTypePublishTrack
        "[''publish'']" ErrTrackAlreadyPublished "[]"] m(2-4) e by auto
qed

subsection \<open>Publishing over a session\<close>

lemma Send_keeps_participant: "c_participantID (snd (Connection_Send t d x)) = c_participantID x"
  by (simp add: Connection_Send_def writeLoop_step_def Connection_Close_def Let_def split: list.split)

lemma conn_Send_keyed: "conns_keyed h \<Longrightarrow> conn_Send c t d h = (e, h') \<Longrightarrow> conns_keyed h'"
  using Send_keeps_participant [of t d "h_conn h c"] by (auto simp: conns_keyed_def conn_Send_def split: prod.splits)

lemma conn_Send_idle:
  assumes "\<not> c_closeChan (h_conn h c)" and "c_sendChan (h_conn h c) = []"
  shows "conn_Send c t d h = (None, h\<lparr>h_conn := (h_conn h)(c := (h_conn h c)\<lparr>c_sendChan := [NewMessage t d]\<rparr>)\<rparr>)"
  using assms by (simp add: conn_Send_def Connection_Send_def Let_def sendBuffer_def)

lemma broadcast_spares:
  assumes "room_ok r (h_dom h)" and keyed: "conns_keyed h" and "c_participantID (h_conn h c) = ex"
  shows "h_conn (broadcastToRoom r t d ex h) c = h_conn h c"
proof -
  have "distinct (Room_Participants r (h_dom h))"
    using room_invD(1) [OF room_okD(1) [OF assms(1)]] by (simp add: Room_Participants_def members_ok_def)
  from broadcast_fold [OF this keyed] show ?thesis
    using assms(3) keyed unfolding conns_keyed_def broadcastToRoom_def by (metis (no_types, lifting))
qed

lemma same_session_conns: "same_session h g \<Longrightarrow> h_conn g = h_conn h \<and> h_connectionManager g = h_connectionManager h"
  by (simp add: same_session_def)

text \<open>What a member's request to publish does to the heap, and what it answers.\<close>

lemma publish_taken:
  assumes ok: "room_ok r (h_dom h)" and m: "is_member r (h_dom h) i p"
    and req: "UnmarshalData dec_PublishTrackRequest msg = Inr req"
    and taken: "ti_ID (pr_Track req) \<in> set (Participant_PublishedTracks p (h_dom h))"
  shows "\<exists>d. handlePublishTrack E c r p msg h = (Some (derr ErrTrackAlreadyPublished), set_dom d h)"
proof -
  let ?i = "pr_Track req"
  obtain t d1 where n: "NewTrack (ti_ID ?i) (request_kind (ti_Kind ?i)) (request_source (ti_Source ?i)) (h_dom h) = (Inr t, d1)"
    by (simp add: NewTrack_def request_valid)
  note N = NewTrack_InrD [OF n]
  have "Participant_PublishTrack p t d1 = (Some (derr ErrTrackAlreadyPublished), d1)"
    using N taken members_okD(2) [OF room_invD(1) [OF room_okD(1) [OF ok]] m]
    by (auto simp: Participant_PublishTrack_def Participant_PublishedTracks_def mkTrack_def map_of_eq_None_iff)
  with req n show ?thesis by (auto simp: handlePublishTrack_def Let_def)
qed

lemma publish_domain:
  assumes ok: "room_ok r d" and m: "is_member r d i p" and v: "isValidTrackKind kd" "isValidTrackSource src"
    and free: "k \<notin> set (Participant_PublishedTracks p d)"
  obtains t d1 d2 e d3 where "NewTrack k kd src d = (Inr t, d1)" "Participant_PublishTrack p t d1 = (None, d2)"
    "Room_PublishTrack r t d2 = (e, d3)" "e = None \<or> e = Some (derr ErrTrackAlreadyPublished)"
    "t_id (trk d3 t) = k" "p_id (par d3 p) = i" "mget (pubTracks (par d3 p)) k = Some t"
    "t_kind (trk d3 t) = kd" "t_source (trk d3 t) = src" "t_state (trk d3 t) = TrackStatePublished"
    "publisher (trk d3 t) = Some p"
    "Room_GetTrack r k d3 = (case Room_GetTrack r k d of None \<Rightarrow> Some t | Some u \<Rightarrow> Some u)"
proof -
  obtain t d1 where n: "NewTrack k kd src d = (Inr t, d1)" using v by (simp add: NewTrack_def)
  note N = NewTrack_InrD [OF n] and M = members_okD [OF room_invD(1) [OF room_okD(1) [OF ok]] m]
  obtain d2 where p2: "Participant_PublishTrack p t d1 = (None, d2)"
    using N free M(2)
    by (auto simp: Participant_PublishTrack_def Participant_PublishedTracks_def mkTrack_def map_of_eq_None_iff)
  note P = PublishTrack_ok [OF p2]
  obtain e d3 where rp: "Room_PublishTrack r t d2 = (e, d3)" by fastforce
  have tid: "t_id (trk d2 t) = k" using P(4) N by (simp add: mkTrack_def)
  have room: "r_state (rom d2 r) \<noteq> RoomStateClosed" "rom d2 = rom d"
    using room_ok_member_open [OF ok m] P(5) N by simp_all
  have d3: "par d3 = par d2" "trk d3 = trk d2" "e = None \<or> e = Some (derr ErrTrackAlreadyPublished)"
    "Room_GetTrack r k d3 = (case Room_GetTrack r k d of None \<Rightarrow> Some t | Some u \<Rightarrow> Some u)"
    using rp tid room
    by (auto simp: Room_GetTrack_def Room_PublishTrack_def split: if_splits option.split)
  show thesis
    by (rule that [OF n p2 rp d3(3)]) (use d3 P(3,4) N M(1) in \<open>simp_all add: mkTrack_def\<close>)
qed

lemma publish_accepted:
  assumes ok: "room_ok r (h_dom h)" and m: "is_member r (h_dom h) i p"
    and req: "UnmarshalData dec_PublishTrackRequest msg = Inr req" and k: "k = ti_ID (pr_Track req)"
    and free: "k \<notin> set (Participant_PublishedTracks p (h_dom h))"
    and conn: "\<not> c_closeChan (h_conn h c)" "c_sendChan (h_conn h c) = []"
    and keyed: "conns_keyed h" "c_participantID (h_conn h c) = i"
    and pub: "handlePublishTrack E c r p msg h = (e, h')"
  shows "e = None \<and> c_sendChan (h_conn h' c) = [NewMessage MessageTypeTrackPublished
           (TrackPublishedResponse k (pr_ParticipantID req) ''success'')] \<and>
    (\<exists>t. mget (pubTracks (par (h_dom h') p)) k = Some t \<and>
      t_kind (trk (h_dom h') t) = request_kind (ti_Kind (pr_Track req)) \<and>
      t_source (trk (h_dom h') t) = request_source (ti_Source (pr_Track req)) \<and>
      t_state (trk (h_dom h') t) = TrackStatePublished \<and> publisher (trk (h_dom h') t) = Some p \<and>
      Room_GetTrack r k (h_dom h') =
        (case Room_GetTrack r k (h_dom h) of None \<Rightarrow> Some t | Some u \<Rightarrow> Some u))"
proof -
  obtain t d1 d2 e3 d3 where D: "NewTrack k (request_kind (ti_Kind (pr_Track req)))
      (request_source (ti_Source (pr_Track req))) (h_dom h) = (Inr t, d1)" "Participant_PublishTrack p t d1 = (None, d2)"
    "Room_PublishTrack r t d2 = (e3, d3)" "e3 = None \<or> e3 = Some (derr ErrTrackAlreadyPublished)" "t_id (trk d3 t) = k"
    "p_id (par d3 p) = i" and T: "mget (pubTracks (par d3 p)) k = Some t"
    "t_kind (trk d3 t) = request_kind (ti_Kind (pr_Track req))"
    "t_source (trk d3 t) = request_source (ti_Source (pr_Track req))" "t_state (trk d3 t) = TrackStatePublished"
    "publisher (trk d3 t) = Some p"
    "Room_GetTrack r k d3 = (case Room_GetTrack r k (h_dom h) of None \<Rightarrow> Some t | Some u \<Rightarrow> Some u)"
    by (rule publish_domain [OF ok m request_valid free])
  let ?reply = "TrackPublishedResponse k (pr_ParticipantID req) ''success''"
  let ?h1 = "wire_forwarder E r p t (set_dom d3 h)"
  let ?h2 = "(case getForwarder k ?h1 of None \<Rightarrow> ?h1
     | Some fw \<Rightarrow> if WebRTCTrack_IsRemote (f_publisher (h_fw ?h1 fw))
         then autoSubscribeExistingParticipants E r p k ?h1 else ?h1)"
  have s1: "same_session (set_dom d3 h) ?h1" by (rule wire_forwarder_session)
  have s2: "same_session (set_dom d3 h) ?h2"
    using s1 same_session_trans [OF s1 autoSubscribe_session] by (auto split: option.split)
  note S = same_session_conns [OF s2, simplified] same_session_dom [OF s2, simplified]
  obtain h3 where h3: "conn_Send c MessageTypeTrackPublished ?reply ?h2 = (None, h3)"
    "h3 = ?h2\<lparr>h_conn := (h_conn h)(c := (h_conn h c)\<lparr>c_sendChan := [NewMessage MessageTypeTrackPublished ?reply]\<rparr>)\<rparr>"
    using conn_Send_idle [of ?h2 c] conn S by simp
  have res: "e = None" "h' = broadcastTrackAvailable r p t h3"
    using pub req D h3(1) k by (auto simp: handlePublishTrack_def Let_def)
  have dom: "h_dom h3 = d3" "h_dom h' = d3" using res h3(2) S by simp_all
  have "room_steps r (h_dom h) d3" using handlePublishTrack_dom [OF m pub] dom by simp
  then have ok3: "room_ok r (h_dom h3)" using room.steps_inv ok by (simp add: dom)
  have "conns_keyed ?h2" using keyed(1) S by (simp add: conns_keyed_def)
  from conn_Send_keyed [OF this h3(1)] have key3: "conns_keyed h3" .
  have "h_conn h' c = h_conn h3 c"
    using broadcast_spares [OF ok3 key3, of c] dom D(6) keyed(2) h3(2) res by (simp add: broadcastTrackAvailable_def)
  with h3(2) res(1) T show ?thesis by (auto simp: dom)
qed

lemma kind_roundtrip:
  "isValidTrackKind kd \<Longrightarrow> request_kind (TrackKind_String kd) = kd"
  "isValidTrackSource src \<Longrightarrow> request_source (TrackSource_String src) = src"
  by (auto simp: isValidTrackKind_def isValidTrackSource_def request_kind_def request_source_def TrackKind_String_def
      TrackSource_String_def TrackKindAudio_def TrackKindVideo_def TrackSourceMicrophone_def TrackSourceCamera_def
      TrackSourceScreenShare_def)

text \<open>C18. A round trip of a session agrees with the server. A member's \<open>Session.PublishTrack\<close> writes a
  request; one round of the handler's message loop answers it with exactly one frame, and
  that frame completes the round trip. The call succeeds exactly when the participant had no
  track of that identifier; then the participant has a published track of the kind and
  source that the caller named, and the room lists it unless the identifier was taken in the
  room, in which case the other track stays listed although the call succeeds. Otherwise the
  call returns an error that matches exactly \<open>ErrTrackAlreadyPublished\<close>.\<close>

theorem session_publish_end_to_end:
  assumes ok: "room_ok r (h_dom h)" and m: "is_member r (h_dom h) i p"
    and conn: "\<not> c_closeChan (h_conn h c)" "c_sendChan (h_conn h c) = []"
    and keyed: "conns_keyed h" "c_participantID (h_conn h c) = i"
    and s: "transport_open s" and v: "isValidTrackKind kd" "isValidTrackSource src"
    and sent: "fst (Session_PublishTrack k kd src None [] s) = Some data" "c_receiveChan (h_conn h c) = [data]"
  shows "\<exists>h' e. handleConnection_step E c r p h = Some (True, h') \<and> length (c_sendChan (h_conn h' c)) = 1 \<and>
    snd (Session_PublishTrack k kd src None (map frame_of (c_sendChan (h_conn h' c))) s) = Some (e, s) \<and>
    (if k \<in> set (Participant_PublishedTracks p (h_dom h))
     then \<exists>err. e = Some err \<and> (\<forall>y. errors_Is err y \<longleftrightarrow> y = DomainE ErrTrackAlreadyPublished)
     else e = None \<and> (\<exists>t. mget (pubTracks (par (h_dom h') p)) k = Some t \<and>
        t_kind (trk (h_dom h') t) = kd \<and> t_source (trk (h_dom h') t) = src \<and>
        t_state (trk (h_dom h') t) = TrackStatePublished \<and> publisher (trk (h_dom h') t) = Some p \<and>
        Room_GetTrack r k (h_dom h') =
          (case Room_GetTrack r k (h_dom h) of None \<Rightarrow> Some t | Some u \<Rightarrow> Some u)))"
proof -
  define req where "req = \<lparr>pr_RoomID = s_roomID s, pr_ParticipantID = s_participantID s,
     pr_Track = \<lparr>ti_ID = k, ti_Kind = TrackKind_String kd, ti_Source = TrackSource_String src\<rparr>\<rparr>"
  define msg where "msg = \<lparr>msg_Type = MessageTypePublishTrack, msg_Data = Some (enc_PublishTrackRequest req)\<rparr>"
  define h0 where "h0 = h\<lparr>h_conn := (h_conn h)(c := (h_conn h c)\<lparr>c_receiveChan := []\<rparr>)\<rparr>"
  have rt: "snd (Session_PublishTrack k kd src None fs s) =
      awaitLocked MessageTypePublishTrack MessageTypeTrackPublished fs s" for fs
    using s by (simp add: Session_PublishTrack_def Session_request_def writeLocked_def)
  have data: "ParseMessage data = Inr msg"
    using sent(1) s
    by (auto simp: Session_PublishTrack_def Session_request_def writeLocked_def msg_def req_def parse_marshal)
  have dec: "UnmarshalData dec_PublishTrackRequest msg = Inr req"
    by (simp add: msg_def UnmarshalData_def dec_enc_requests)
  obtain e1 h1 where hp: "handlePublishTrack E c r p msg h0 = (e1, h1)" by fastforce
  have hm: "handleMessage E c r p msg h0 = (e1, h1)"
    using hp by (simp add: handleMessage_def msg_def message_types)
  let ?h' = "case e1 of None \<Rightarrow> h1 | Some err \<Rightarrow> snd (conn_Send c MessageTypeError
      (ErrorResponse (error_text err) (errorCodeFromError (Some err)) MessageTypePublishTrack) h1)"
  have step: "handleConnection_step E c r p h = Some (True, ?h')"
    using conn sent(2) data hm
    by (simp add: handleConnection_step_def Connection_Receive_def h0_def msg_def split: option.split)
  have h0: "h_dom h0 = h_dom h" "\<not> c_closeChan (h_conn h0 c)" "c_sendChan (h_conn h0 c) = []" "conns_keyed h0"
    "c_participantID (h_conn h0 c) = i" using conn keyed by (auto simp: h0_def conns_keyed_def)
  have types: "MessageTypeTrackPublished \<noteq> MessageTypeError" by (simp add: message_types)
  show ?thesis
  proof (cases "k \<in> set (Participant_PublishedTracks p (h_dom h))")
    case True
    obtain d where r: "handlePublishTrack E c r p msg h0 = (Some (derr ErrTrackAlreadyPublished), set_dom d h0)"
      using publish_taken [of r h0 i p msg req E c] ok m h0(1) dec True by (auto simp: req_def)
    then have "c_sendChan (h_conn ?h' c) = [NewMessage MessageTypeError (ErrorResponse
        (error_text (derr ErrTrackAlreadyPublished)) (errorCodeFromError (Some (derr ErrTrackAlreadyPublished)))
        MessageTypePublishTrack)]"
      using hp h0(2,3) conn_Send_idle [of "set_dom d h0" c] by simp
    with True step rt await_error [OF s types, of MessageTypePublishTrack MessageTypePublishTrack]
      session_error_is [of _ _ "[]" ErrTrackAlreadyPublished]
    show ?thesis by (simp add: answersExchange_def wrapped_def)
  next
    case False
    have k: "ti_ID (pr_Track req) \<notin> set (Participant_PublishedTracks p (h_dom h0))"
      using False h0(1) by (simp add: req_def)
    note A = publish_accepted [OF ok [folded h0(1)] m [folded h0(1)] dec refl k h0(2-5) hp]
    show ?thesis using A False step rt await_want [OF s] kind_roundtrip v h0(1) by (simp add: req_def)
  qed
qed

definition demo_publishing :: "demo_pion Handler" where
  "demo_publishing = demo_handler\<lparr>h_conn := (h_conn demo_handler)(0 := (h_conn demo_handler 0)\<lparr>c_receiveChan :=
     [the (fst (Session_PublishTrack ''cam'' TrackKindVideo TrackSourceCamera None [] demo_session))]\<rparr>)\<rparr>"

theorem session_publish_end_to_end_witness:
  "\<exists>h'. handleConnection_step demo_env 0 0 0 demo_publishing = Some (True, h') \<and>
     snd (Session_PublishTrack ''cam'' TrackKindVideo TrackSourceCamera None
       (map frame_of (c_sendChan (h_conn h' 0))) demo_session) = Some (None, demo_session)"
proof -
  let ?h = demo_publishing
  have dom: "h_dom ?h = demo_room" by (simp add: demo_publishing_def)
  have conn: "\<not> c_closeChan (h_conn ?h 0)" "c_sendChan (h_conn ?h 0) = []" "c_participantID (h_conn ?h 0) = ''alice''"
    "conns_keyed ?h"
    by (simp_all add: demo_publishing_def NewConnection_def conns_keyed_def ConnectionManager_Get_def)
  have sent: "fst (Session_PublishTrack ''cam'' TrackKindVideo TrackSourceCamera None [] demo_session) = Some x \<longleftrightarrow>
     c_receiveChan (h_conn ?h 0) = [x]" for x
    using demo_session_open
    by (auto simp: demo_publishing_def Session_PublishTrack_def Session_request_def writeLocked_def)
  obtain x where x: "fst (Session_PublishTrack ''cam'' TrackKindVideo TrackSourceCamera None [] demo_session) = Some x"
    using demo_session_open by (simp add: Session_PublishTrack_def Session_request_def writeLocked_def)
  have new: "''cam'' \<notin> set (Participant_PublishedTracks 0 demo_room)" by code_simp
  have v: "isValidTrackKind TrackKindVideo" "isValidTrackSource TrackSourceCamera" by code_simp+
  note E = session_publish_end_to_end [OF _ _ conn(1,2,4,3) demo_session_open v x x [unfolded sent]]
  show ?thesis using E [of 0 0 demo_env, unfolded dom, OF demo_room_ok demo_room_members(1)] new by auto
qed

subsection \<open>The client\<close>

lemma set_rooms_sel [simp]: "cl_dom (set_rooms rm d cl) = d" "cl_rooms (set_rooms rm d cl) = rm"
  by (simp_all add: set_rooms_def cl_dom_def cl_rooms_def)

lemma client_member_cases:
  assumes "RoomManager_GetRoom (cl_rooms cl) roomID = Some r" and "client_member f ctx roomID i cl = (e, cl')"
  obtains "cl' = cl" "e \<noteq> None"
  | p where "is_member r (cl_dom cl) i p" "f r p (cl_dom cl) = (e, cl_dom cl')" "cl_rooms cl' = cl_rooms cl"
  using assms
  by (auto simp: client_member_def Room_GetParticipant_def split: option.splits prod.splits)

lemma client_publish_cases:
  assumes ok: "room_ok r (cl_dom cl)" and g: "RoomManager_GetRoom (cl_rooms cl) roomID = Some r"
    and c: "Client_PublishTrack ctx roomID i k kd src cl = (res, cl')"
  shows "room_steps r (cl_dom cl) (cl_dom cl') \<and>
    (\<forall>err. res = Inl err \<longrightarrow> rom (cl_dom cl') = rom (cl_dom cl) \<and>
       (\<forall>q. mget (pubTracks (par (cl_dom cl') q)) = mget (pubTracks (par (cl_dom cl) q))))"
proof (cases "ctx = None \<and> Room_GetParticipant r i (cl_dom cl) \<noteq> None \<and> isValidTrackKind kd \<and> isValidTrackSource src")
  case False
  then show ?thesis
    using c g by (auto simp: Client_PublishTrack_def NewTrack_def split: option.splits if_splits)
next
  case True
  then obtain p where m: "is_member r (cl_dom cl) i p" by (auto simp: Room_GetParticipant_def)
  obtain t d1 where n: "NewTrack k kd src (cl_dom cl) = (Inr t, d1)" using True by (simp add: NewTrack_def)
  note N = NewTrack_InrD [OF n]
  obtain e2 d2 where pt: "Participant_PublishTrack p t d1 = (e2, d2)" by fastforce
  obtain e3 d3 where rp: "Room_PublishTrack r t d2 = (e3, d3)" by fastforce
  obtain e4 d4 where un: "Participant_UnpublishTrack p k d3 = (e4, d4)" by fastforce
  have c': "(res, cl_dom cl') = (case e2 of Some err \<Rightarrow> (Inl err, d2) | None \<Rightarrow>
      (case e3 of Some err \<Rightarrow> (Inl err, d4) | None \<Rightarrow> (Inr t, d3)))"
    using c g True m n pt rp un
    by (auto simp: Client_PublishTrack_def Room_GetParticipant_def split: option.splits)
  show ?thesis
  proof (cases e2)
    case (Some err)
    then have "room_steps r (cl_dom cl) d2" using room_step.publish_refused [OF m n] pt by blast
    then show ?thesis using c' Some PublishTrack_error [of p t d1 err d2] pt N by auto
  next
    case None
    note pt' = pt [unfolded None] and P = PublishTrack_ok [OF pt [unfolded None]]
    show ?thesis
    proof (cases e3)
      case None
      then have "room_steps r (cl_dom cl) d3" using room_step.publish [OF m n pt'] rp by blast
      then show ?thesis using c' None pt' \<open>e2 = None\<close> by simp
    next
      case (Some err)
      note rp' = rp [unfolded Some] and U = undone_room_ok [OF ok m n pt' rp [unfolded Some] un]
      have "room_steps r (cl_dom cl) d4" using room_step.publish_undone [OF m n pt' rp' un] by blast
      moreover have "mget (pubTracks (par d4 q)) = mget (pubTracks (par (cl_dom cl) q))" for q
      proof -
        have "d3 = d2" by (rule Room_PublishTrack_error [OF rp'])
        moreover have "t_id (trk d1 t) = k" using N by (simp add: mkTrack_def)
        ultimately show ?thesis
          using un U(2) P(2,3) N by (auto elim!: UnpublishTrack_ok simp: fun_eq_iff)
      qed
      ultimately show ?thesis using c' Some \<open>e2 = None\<close> U(4) by simp
    qed
  qed
qed

lemma close_sessions:
  "cl_session (fold closeTransport ss cl) s =
     (if s \<in> set ss then drop_transport (cl_session cl s) else cl_session cl s)"
  by (induction ss arbitrary: cl) (auto simp: closeTransport_def drop_transport_def)

lemma close_sessions_only: "\<exists>f. fold closeTransport ss cl = cl\<lparr>cl_session := f\<rparr>"
proof (induction ss arbitrary: cl)
  case Nil
  show ?case by (rule exI [of _ "cl_session cl"]) simp
next
  case (Cons x ss)
  obtain f where "fold closeTransport ss (closeTransport x cl) = (closeTransport x cl)\<lparr>cl_session := f\<rparr>"
    using Cons.IH by blast
  then show ?case by (intro exI [of _ f]) (simp add: closeTransport_def [of x])
qed

inductive client_step :: "'p env \<Rightarrow> string \<Rightarrow> raddr \<Rightarrow> 'p Client \<Rightarrow> 'p Client \<Rightarrow> bool" for E roomID r where
  join: "RoomManager_GetRoom (cl_rooms cl) roomID = Some r \<Longrightarrow> client_step E roomID r cl (snd (Client_JoinRoom ctx roomID i cl))"
| leave: "RoomManager_GetRoom (cl_rooms cl) roomID = Some r \<Longrightarrow> client_step E roomID r cl (snd (Client_LeaveRoom ctx roomID i cl))"
| publish: "RoomManager_GetRoom (cl_rooms cl) roomID = Some r \<Longrightarrow>
    client_step E roomID r cl (snd (Client_PublishTrack ctx roomID i k kd src cl))"
| subscribe: "RoomManager_GetRoom (cl_rooms cl) roomID = Some r \<Longrightarrow>
    client_step E roomID r cl (snd (Client_SubscribeTrack ctx roomID i k cl))"
| unsubscribe: "RoomManager_GetRoom (cl_rooms cl) roomID = Some r \<Longrightarrow>
    client_step E roomID r cl (snd (Client_UnsubscribeTrack ctx roomID i k cl))"
| close_room: "RoomManager_GetRoom (cl_rooms cl) roomID = Some r \<Longrightarrow>
    client_step E roomID r cl (snd (Client_CloseRoom E ctx roomID cl))"
| connect: "Client_Connect listen dial frames s rid i cl = Some (e, cl') \<Longrightarrow> client_step E roomID r cl cl'"
| close_session: "client_step E roomID r cl (Session_Close s cl)"
| server: "handler_step E r (cl_handler cl) h \<Longrightarrow> client_step E roomID r cl (cl\<lparr>cl_handler := h\<rparr>)"
| close: "client_step E roomID r cl (Client_Close E cl)"

lemma session_ops_handler:
  "cl_handler (closeTransport s cl) = cl_handler cl" "cl_handler (Session_Close s cl) = cl_handler cl"
  "Client_Connect listen dial frames s rid i cl = Some (e, cl') \<Longrightarrow> cl_handler cl' = cl_handler cl"
  by (auto simp: closeTransport_def Session_Close_def unregisterSession_def Client_Connect_def SignalingURL_def
      registerSession_def Let_def split: if_splits option.splits)

lemma Client_Close_dom: "cl_dom (Client_Close E cl) = cl_dom cl"
proof -
  obtain f where "fold closeTransport (cl_sessions cl) (cl\<lparr>cl_closed := True, cl_sessions := []\<rparr>) =
      cl\<lparr>cl_closed := True, cl_sessions := [], cl_session := f\<rparr>"
    using close_sessions_only [of "cl_sessions cl" "cl\<lparr>cl_closed := True, cl_sessions := []\<rparr>"] by blast
  then show ?thesis by (simp add: Client_Close_def cl_dom_def Shutdown_effect)
qed

lemma join_steps:
  assumes g: "RoomManager_GetRoom (cl_rooms cl) roomID = Some r"
  shows "room_steps r (cl_dom cl) (cl_dom (snd (Client_JoinRoom ctx roomID i cl)))"
proof -
  have gc: "RoomManager_GetOrCreateRoom roomID (cl_rooms cl) (cl_dom cl) = (Inr r, cl_rooms cl, cl_dom cl)"
    using g by (simp add: RoomManager_GetOrCreateRoom_def RoomManager_GetRoom_def)
  obtain x d where j: "join_new r i (''Participant '' @ i) (cl_dom cl) = (x, d)" by fastforce
  have dom: "cl_dom (cl\<lparr>cl_closedRooms := y\<rparr>) = cl_dom cl" for cl :: "'a Client" and y
    by (simp add: cl_dom_def)
  have "cl_dom (snd (Client_JoinRoom ctx roomID i cl)) \<in> {cl_dom cl, d}"
    using j by (cases x) (auto simp: Client_JoinRoom_def gc Let_def dom split: option.split)
  then show ?thesis using room_step.join [OF j] by auto
qed

lemma close_steps:
  assumes g: "RoomManager_GetRoom (cl_rooms cl) roomID = Some r"
  shows "room_steps r (cl_dom cl) (cl_dom (snd (Client_CloseRoom E ctx roomID cl)))"
proof -
  obtain e h where c: "Handler_CloseRoom E roomID (cl_handler cl) = (e, h)" by fastforce
  have "cl_dom (snd (Client_CloseRoom E ctx roomID cl)) \<in> {cl_dom cl, h_dom h}"
    using c by (auto simp: Client_CloseRoom_def Let_def cl_dom_def split: option.split)
  then show ?thesis using close_room_steps [OF g [unfolded cl_rooms_def] c] by (auto simp: cl_dom_def)
qed

interpretation client: room_driver r cl_dom "client_step E roomID r" for r E roomID
proof unfold_locales
  fix s s' :: "'a Client"
  assume "client_step E roomID r s s'" and ok: "room_ok r (cl_dom s)"
  then show "room_steps r (cl_dom s) (cl_dom s')"
  proof cases
    case (leave ctx i)
    then show ?thesis by (auto simp: Client_LeaveRoom_def intro: room_step.leave split: option.split prod.split)
  next
    case (publish ctx i k kd src)
    then show ?thesis using client_publish_cases [OF ok publish(2) prod.collapse [symmetric]] by simp
  next
    case (subscribe ctx i k)
    show ?thesis
      unfolding subscribe(1) Client_SubscribeTrack_def
      by (rule client_member_cases [OF subscribe(2) prod.collapse [symmetric]]) (auto intro: room_step.subscribe)
  next
    case (unsubscribe ctx i k)
    show ?thesis
      unfolding unsubscribe(1) Client_UnsubscribeTrack_def
      by (rule client_member_cases [OF unsubscribe(2) prod.collapse [symmetric]]) (auto intro: room_step.unsubscribe)
  next
    case (server h)
    then show ?thesis using server.simulates ok by (simp add: cl_dom_def)
  qed (auto simp: session_ops_handler cl_dom_def Client_Close_dom [unfolded cl_dom_def]
      intro: join_steps [unfolded cl_dom_def] close_steps [unfolded cl_dom_def])
qed


definition demo_client :: "demo_pion Client" where
  "demo_client = (NewClient demo_handler (\<lambda>_. demo_session))\<lparr>cl_sessions := [0], cl_srv := True\<rparr>"

lemma demo_client_sel [simp]:
  "cl_dom demo_client = demo_room" "RoomManager_GetRoom (cl_rooms demo_client) ''room-1'' = Some 0"
  "cl_rooms demo_client = [(''room-1'', 0)]" "\<not> cl_closed demo_client" "cl_sessions demo_client = [0]"
  "cl_handler demo_client = demo_handler"
  by (simp_all add: demo_client_def NewClient_def cl_dom_def cl_rooms_def RoomManager_GetRoom_def)


lemma join_open:
  assumes "r_state (rom d r) \<noteq> RoomStateClosed" and "Room_GetParticipant r i d = None"
  obtains p d1 where "join_new r i name d = (Inr p, d1)" "Room_GetParticipant r i d1 = Some p"
  using assms
  by (auto simp: join_new_def NewParticipant_def Room_Join_def Room_GetParticipant_def Participant_SetRoom_def
      mkParticipant_def split: prod.splits)

text \<open>C21. \<open>JoinRoom\<close> is total and idempotent: on an open client with the two identifiers it creates
  the room if need be, the participant is then a member of it, and joining again returns the
  same room and changes nothing. A closed client and an empty identifier are refused with
  their own errors, and no room or participant is touched.\<close>

theorem JoinRoom_idempotent:
  assumes rm: "rm_inv (cl_rooms cl) (cl_dom cl)"
  shows "if roomID = '''' \<or> i = ''''
     then \<exists>err. Client_JoinRoom None roomID i cl = (Inl err, cl) \<and>
            (\<forall>y. errors_Is err y \<longleftrightarrow> Sent y = Slive_ErrInvalidArgument)
     else if cl_closed cl
     then \<exists>err. Client_JoinRoom None roomID i cl = (Inl err, cl) \<and>
            (\<forall>y. errors_Is err y \<longleftrightarrow> Sent y = Slive_ErrClientClosed)
     else \<exists>r cl1. Client_JoinRoom None roomID i cl = (Inr r, cl1) \<and>
            RoomManager_GetRoom (cl_rooms cl1) roomID = Some r \<and>
            Room_GetParticipant r i (cl_dom cl1) \<noteq> None \<and> Client_JoinRoom None roomID i cl1 = (Inr r, cl1)"
proof (cases "roomID = '''' \<or> i = '''' \<or> cl_closed cl")
  case True
  then show ?thesis
    by (auto simp: Client_JoinRoom_def wrap_error_def Slive_ErrInvalidArgument_def Slive_ErrClientClosed_def)
next
  case False
  obtain r rm1 d where g: "RoomManager_GetOrCreateRoom roomID (cl_rooms cl) (cl_dom cl) = (Inr r, rm1, d)"
      "RoomManager_GetRoom rm1 roomID = Some r" "r_state (rom d r) \<noteq> RoomStateClosed"
    using get_or_create [OF rm] by blast
  have again: "Client_JoinRoom None roomID i cl1 = (Inr r, cl1)"
    if "cl1 = (set_rooms rm1 d1 cl)\<lparr>cl_closedRooms := removeAll roomID (cl_closedRooms cl)\<rparr>"
      "Room_GetParticipant r i d1 \<noteq> None" for cl1 d1
    using False that g(2)
    by (simp add: Client_JoinRoom_def RoomManager_GetOrCreateRoom_def RoomManager_GetRoom_def set_rooms_def
        cl_rooms_def cl_dom_def)
  obtain d1 where j: "Client_JoinRoom None roomID i cl =
      (Inr r, (set_rooms rm1 d1 cl)\<lparr>cl_closedRooms := removeAll roomID (cl_closedRooms cl)\<rparr>)"
    "Room_GetParticipant r i d1 \<noteq> None"
  proof (cases "Room_GetParticipant r i d")
    case None
    obtain p d1 where "join_new r i (''Participant '' @ i) d = (Inr p, d1)" "Room_GetParticipant r i d1 = Some p"
      by (rule join_open [OF g(3) None])
    then show thesis
      using False g None by (intro that [of d1]) (simp_all add: Client_JoinRoom_def Let_def set_rooms_def)
  next
    case (Some p)
    then show thesis using False g by (intro that [of d]) (simp_all add: Client_JoinRoom_def Let_def)
  qed
  have "RoomManager_GetRoom (cl_rooms (set_rooms rm1 d1 cl\<lparr>cl_closedRooms := x\<rparr>)) roomID = Some r"
    "cl_dom (set_rooms rm1 d1 cl\<lparr>cl_closedRooms := x\<rparr>) = d1" for x
    using g(2) by (simp_all add: set_rooms_def cl_rooms_def cl_dom_def)
  then show ?thesis using False j again [OF refl j(2)] by auto
qed

theorem JoinRoom_idempotent_witness:
  "\<exists>r cl1. Client_JoinRoom None ''room-2'' ''alice'' demo_client = (Inr r, cl1) \<and>
     RoomManager_GetRoom (cl_rooms cl1) ''room-2'' = Some r \<and>
     Client_JoinRoom None ''room-2'' ''alice'' cl1 = (Inr r, cl1)"
proof -
  have "nrom demo_room = 1" "r_id (rom demo_room 0) = ''room-1''" "r_state (rom demo_room 0) \<noteq> RoomStateClosed"
    by code_simp+
  then have "rm_inv (cl_rooms demo_client) (cl_dom demo_client)" by (simp add: rm_inv_def)
  from JoinRoom_idempotent [OF this, of "''room-2''" "''alice''"] show ?thesis by auto
qed

subsection \<open>Closing the client\<close>

text \<open>C22. \<open>Client.Close\<close> releases what the client holds and is idempotent: every session is closed,
  the handler has no connection, peer connection, forwarder or timer left, and every
  connection and peer connection it had is closed; afterwards joining, connecting and
  closing a room are refused with the error of a closed client. The rooms themselves are
  not closed, and the operations on their members answer as they did before.\<close>

theorem Client_Close_contract:
  assumes "\<not> cl_closed cl" and cl': "cl' = Client_Close E cl" and "roomID \<noteq> ''''" "i \<noteq> ''''"
  shows "cl_sessions cl' = [] \<and> \<not> cl_srv cl' \<and> Client_Close E cl' = cl' \<and>
    (\<forall>s \<in> set (cl_sessions cl). \<not> transport_open (cl_session cl' s)) \<and>
    h_trackForwarders (cl_handler cl') = [] \<and> h_peerConnections (cl_handler cl') = [] \<and>
    h_ghostTimers (cl_handler cl') = [] \<and> h_connectionManager (cl_handler cl') = [] \<and>
    (\<forall>c \<in> snd ` set (h_connectionManager (cl_handler cl)). c_closeChan (h_conn (cl_handler cl') c)) \<and>
    (\<forall>a \<in> snd ` set (h_peerConnections (cl_handler cl)). pc_shut (h_pc (cl_handler cl') a)) \<and>
    (\<exists>err. errors_Is err (OtherE ''client is closed'') \<and> Client_JoinRoom None roomID i cl' = (Inl err, cl') \<and>
       Client_Connect listen dial frames s roomID i cl' = Some (Some err, cl') \<and>
       Client_CloseRoom E None roomID cl' = (Some err, cl')) \<and>
    cl_dom cl' = cl_dom cl \<and> cl_rooms cl' = cl_rooms cl \<and>
    fst (Client_SubscribeTrack None roomID i k cl') = fst (Client_SubscribeTrack None roomID i k cl) \<and>
    fst (Client_PublishTrack None roomID i k kd src cl') = fst (Client_PublishTrack None roomID i k kd src cl)"
proof -
  let ?c1 = "fold closeTransport (cl_sessions cl) (cl\<lparr>cl_closed := True, cl_sessions := []\<rparr>)"
  obtain f where f: "?c1 = cl\<lparr>cl_closed := True, cl_sessions := [], cl_session := f\<rparr>"
    using close_sessions_only [of "cl_sessions cl" "cl\<lparr>cl_closed := True, cl_sessions := []\<rparr>"] by blast
  have eq: "cl' = cl\<lparr>cl_closed := True, cl_sessions := [], cl_session := f, cl_srv := False,
      cl_handler := Handler_Shutdown E (cl_handler cl)\<rparr>"
    unfolding cl' Client_Close_def Let_def using assms(1) by (simp add: f)
  note S = Shutdown_effect [where h = "cl_handler cl" and E = E]
  have dom: "cl_dom cl' = cl_dom cl" "cl_rooms cl' = cl_rooms cl"
    by (simp_all add: eq cl_dom_def cl_rooms_def S)
  let ?err = "wrap_error Slive_ErrClientClosed ''client is closed''"
  have refused: "Client_JoinRoom None roomID i cl' = (Inl ?err, cl')"
    "Client_Connect listen dial frames s roomID i cl' = Some (Some ?err, cl')"
    "Client_CloseRoom E None roomID cl' = (Some ?err, cl')"
    using assms(3,4) by (simp_all add: eq Client_JoinRoom_def Client_Connect_def SignalingURL_def Client_CloseRoom_def)
  have is_closed: "errors_Is ?err (OtherE ''client is closed'')"
    by (simp add: wrap_error_def Slive_ErrClientClosed_def)
  have again: "Client_Close E cl' = cl'" by (simp add: eq Client_Close_def)
  have sess: "\<forall>s \<in> set (cl_sessions cl). \<not> transport_open (cl_session cl' s)"
    using close_sessions [of "cl_sessions cl" "cl\<lparr>cl_closed := True, cl_sessions := []\<rparr>"]
    by (simp add: eq f transport_open_def drop_transport_def)
  have answers: "fst (Client_SubscribeTrack None roomID i k cl') = fst (Client_SubscribeTrack None roomID i k cl)"
    "fst (Client_PublishTrack None roomID i k kd src cl') = fst (Client_PublishTrack None roomID i k kd src cl)"
    using dom
    by (auto simp: Client_SubscribeTrack_def client_member_def Client_PublishTrack_def
        split: option.split prod.split sum.split)
  show ?thesis using S(7,8) refused is_closed again sess answers dom by (auto simp: eq S(1-4))
qed

theorem Client_Close_contract_witness:
  "\<not> transport_open (cl_session (Client_Close demo_env demo_client) 0) \<and>
   h_peerConnections (cl_handler (Client_Close demo_env demo_client)) = [] \<and>
   c_closeChan (h_conn (cl_handler (Client_Close demo_env demo_client)) 1)"
proof -
  have n: "\<not> cl_closed demo_client" "''room-1'' \<noteq> ''''" "''alice'' \<noteq> ''''" by simp_all
  note C = Client_Close_contract [OF n(1) refl n(2,3), of demo_env]
  have "1 \<in> snd ` set (h_connectionManager (cl_handler demo_client))" "0 \<in> set (cl_sessions demo_client)" by simp_all
  with C show ?thesis by blast
qed

end
