(* ===== verification/Handler_Relation.thy ===== *)
theory Handler_Relation
  imports Handler_Protocol
begin

text \<open>
  What an operation of the handler does, as far as a relation between the state before and after
  is concerned that its primitive updates satisfy: every request and event is composed of these
  updates, so the relation holds for it. The interpretations are the registries in
  \<open>Handler_Registries\<close> and the receiving side of connections in \<open>Message_Loop\<close>.
\<close>

locale handler_relation =
  fixes R :: "'p Handler \<Rightarrow> 'p Handler \<Rightarrow> bool"
  assumes R_refl: "R h h"
    and R_trans: "R h h' \<Longrightarrow> R h' h'' \<Longrightarrow> R h h''"
    and R_updates: "R h (set_pc a pc h)" "R h (set_dom d h)" "R h (set_fw i st h)" "R h (cancelGhostTimer pid h)"
      "R h (armGhostTimer rid pid h)" "R h (end_connection c h)" "R h (h\<lparr>h_tasks := ts\<rparr>)"
      "R h (h\<lparr>h_rtcp := ps\<rparr>)" "R h (h\<lparr>h_nwt := n\<rparr>)" "R h (h\<lparr>h_fw := fs\<rparr>)"
      "R h (h\<lparr>h_gcReapedCount := w\<rparr>)" "R h (h\<lparr>h_ghostTimers := gs\<rparr>)" "R h (h\<lparr>h_pcSender := f\<rparr>)"
    and R_send: "R h (snd (conn_Send c t pay h))"
    and R_mdel: "R h (h\<lparr>h_trackForwarders := mdel k (h_trackForwarders h)\<rparr>)"
      "R h (h\<lparr>h_peerConnections := mdel k (h_peerConnections h)\<rparr>)"
    and R_createPeerConnection: "R h (snd (createPeerConnection E q c x h))"
    and R_createForwarder: "R h (snd (createForwarder k wt h))"
begin

declare R_refl [simp, intro]

lemma R_fold: "(\<And>x g. R g (f x g)) \<Longrightarrow> R h (fold f xs h)"
proof (induction xs arbitrary: h)
  case (Cons x xs)
  show ?case using R_trans [OF Cons.prems Cons.IH [OF Cons.prems]] by simp
qed simp

lemma R_broadcastToRoom: "R h (broadcastToRoom r t d ex h)"
  unfolding broadcastToRoom_def
  by (rule R_fold) (simp add: broadcast_one_def R_send R_refl split: option.split)

lemma R_sends:
  "R h (snd (conn_Send c t d h))" "R h (broadcastParticipantJoined r p h)"
  "R h (broadcastParticipantLeft r p h)" "R h (broadcastTrackAvailable r p ta h)"
  "R h (broadcastTrackUnavailable r p k h)" "R h (sendWebRTCError c t e h)"
  by (simp_all add: R_send broadcastParticipantJoined_def broadcastParticipantLeft_def broadcastTrackAvailable_def
      broadcastTrackUnavailable_def sendWebRTCError_def R_broadcastToRoom)

lemma R_flush_sent: "R h (flush_sent a h)"
proof -
  have "R (set_pc a pc h) (fold (\<lambda>m g. case pc_msg_payload m of (t, d) \<Rightarrow> snd (conn_Send (h_pcSender g a) t d g)) ms
      (set_pc a pc h))" for pc ms
    by (rule R_fold) (simp add: R_send split: prod.split)
  then show ?thesis unfolding flush_sent_def set_pc_def [symmetric] by (blast intro: R_trans R_updates(1))
qed

lemma R_conn_Send: "conn_Send c t d h = (e, h') \<Longrightarrow> R h h'"
  by (metis R_sends(1) snd_conv)

subsection \<open>Media operations\<close>

lemma R_ensurePeerConnection: "R h (snd (ensurePeerConnection E p c h))"
  by (auto simp: ensurePeerConnection_def R_createPeerConnection
      intro: R_trans [OF R_updates(1) R_updates(13)] split: option.split)

lemma R_closePeerConnection: "R h (closePeerConnection E i h)"
  by (auto simp: closePeerConnection_def Let_def intro: R_trans [OF R_mdel(2) R_updates(1)] split: option.split)

lemma R_PC_WriteRTCP: "R h (snd (PC_WriteRTCP E a pkt h))"
  by (simp add: PC_WriteRTCP_def R_updates)

lemma R_requestUpstreamKeyframe: "R h (requestUpstreamKeyframe E k h)"
  by (simp add: requestUpstreamKeyframe_def Let_def R_PC_WriteRTCP split: option.split prod.split)

lemma R_relayKeyframeRequest: "R h (snd (relayKeyframeRequest E sub k kind s m h))"
proof -
  have u: "R h h2" if "upstream_packet kind s x i h = Some (q, h1)" "PC_WriteRTCP E a q h1 = (e, h2)" for x i q h1 a e h2
  proof -
    have "R h h1" using that(1) by (auto simp: upstream_packet_def R_updates split: if_splits prod.splits)
    then show ?thesis using R_trans [OF _ R_PC_WriteRTCP [of h1 E a q]] that(2) by simp
  qed
  show ?thesis
    by (auto simp: relayKeyframeRequest_def Let_def dest: u split: option.split prod.split)
qed

lemma R_rtcpObserver: "R h (rtcpObserver E a k pkt h)"
  by (auto simp: rtcpObserver_def R_relayKeyframeRequest split: option.split prod.split)

lemma R_fw_ops:
  "R h (snd (fw_AddSubscriber E i a h))" "R h (fw_RemoveSubscriber E i a h)" "R h (fw_Stop E i h)"
  by (simp_all add: fw_AddSubscriber_def fw_RemoveSubscriber_def fw_Stop_def R_updates split: prod.split)

lemma R_removeForwarder: "R h (removeForwarder E k h)"
  by (auto simp: removeForwarder_def intro: R_trans [OF R_mdel(1) R_fw_ops(3)] split: option.split)

lemma R_detachSubscriber: "R h (detachSubscriber E a x h)"
proof -
  have "R h (fw_Stop E i ((fw_RemoveSubscriber E i a h)\<lparr>h_trackForwarders :=
      mdel k (h_trackForwarders (fw_RemoveSubscriber E i a h))\<rparr>))" for i k
    by (rule R_trans [OF R_fw_ops(2) R_trans [OF R_mdel(1) R_fw_ops(3)]])
  then show ?thesis unfolding detachSubscriber_def Let_def by (simp only: R_fw_ops split: prod.split if_split) blast
qed

lemma R_removeSubscriber:
  "R h (removeSubscriberFromForwarder E k pc h)" "R h (removeSubscriberFromAllForwarders E pc h)"
  by (auto simp: removeSubscriberFromForwarder_def removeSubscriberFromAllForwarders_def R_detachSubscriber
      intro: R_fold split: option.split)

lemma R_teardown_media: "R h (teardown_media E ks pc i h)"
  unfolding teardown_media_def
  by (rule R_trans [OF R_trans [OF R_fold [OF R_removeForwarder] R_removeSubscriber(2)]
        R_closePeerConnection])

lemma R_swapPublisher: "R h (snd (swapPublisher E k i w h))"
proof -
  have "R h ((set_fw i st h)\<lparr>h_nwt := n\<rparr>)" for st n by (rule R_trans [OF R_updates(3,9)])
  then show ?thesis
    by (auto simp: swapPublisher_def Let_def R_updates intro: R_trans [OF _ R_requestUpstreamKeyframe]
        split: prod.split option.split)
qed

lemma R_getOrCreateForwarder: "R h (snd (getOrCreateForwarder E k w h))"
  by (simp add: getOrCreateForwarder_def R_swapPublisher R_createForwarder split: option.split)

lemma R_getOrCreateForwarderD: "getOrCreateForwarder E k w h = (res, h') \<Longrightarrow> R h h'"
  by (metis R_getOrCreateForwarder snd_conv)

lemma R_adoptOrphanForwarder: "R h (snd (adoptOrphanForwarder E r t p h))"
proof -
  have "R h h2" if "getOrCreateForwarder E k w (removeForwarder E i h) = (res, h2)" for k w i res h2
    by (rule R_trans [OF R_removeForwarder R_getOrCreateForwarderD [OF that]])
  then show ?thesis
    by (auto simp: adoptOrphanForwarder_def Let_def split: option.split prod.split pion_track.split sum.split)
qed

lemma R_wire_forwarder: "R h (wire_forwarder E r p t h)"
proof -
  obtain b h1 where a: "adoptOrphanForwarder E r t p h = (b, h1)" by fastforce
  then have "R h h1" using R_adoptOrphanForwarder [of h E r t p] by simp
  then have "R h (snd (getOrCreateForwarder E k w h1))" "R h h1" for k w
    by (blast intro: R_trans R_getOrCreateForwarder)+
  then show ?thesis
    by (simp add: wire_forwarder_def Let_def a split: option.split sum.split bool.split)
qed

lemma R_attach_subscriber: "R h (snd (attach_subscriber E i a h))"
proof -
  have "R h (g\<lparr>h_tasks := ts\<rparr>)" if "R h g" for g ts using R_trans [OF that R_updates(7)] .
  then show ?thesis
    using R_fw_ops(1) [of h E i a] by (auto simp: attach_subscriber_def Let_def split: prod.split option.split)
qed

lemma R_auto:
  "R h (autoSubscribeExistingParticipants E r p k h)" "R h (attachSubscribedReadyTracks E r q h)"
  by (auto simp: autoSubscribeExistingParticipants_def auto_attach_def attachSubscribedReadyTracks_def
      attach_subscribed_def R_attach_subscriber intro!: R_fold split: option.split)

lemma R_lazy_forwarder: "lazy_forwarder E r k h = (res, h') \<Longrightarrow> R h h'"
  by (auto simp: lazy_forwarder_def Let_def dest: R_getOrCreateForwarderD
      split: option.splits sum.splits prod.splits)

subsection \<open>Requests\<close>

lemma R_request:
  assumes "R (set_dom d h) h'"
  shows "R h h'"
  using R_trans [OF R_updates(2) assms] .

lemma R_sendRoomJoined: "sendRoomJoined c r p h = (e, h') \<Longrightarrow> R h h'"
  by (auto simp: sendRoomJoined_def Let_def dest: R_conn_Send)

lemma R_handleJoinRoom: "handleJoinRoom c r p msg h = (e, h') \<Longrightarrow> R h h'"
  by (auto simp: handleJoinRoom_def R_refl dest: R_sendRoomJoined split: sum.splits)

lemma R_handleLeaveRoom:
  assumes "handleLeaveRoom E c r p msg h = (e, h')"
  shows "R h h'"
proof (cases "UnmarshalData dec_LeaveRoomRequest msg")
  case (Inr req)
  let ?i = "lr_ParticipantID req"
  let ?h1 = "cancelGhostTimer ?i h"
  obtain e1 d where l: "Room_Leave r ?i (h_dom ?h1) = (e1, d)" by fastforce
  define h2 where "h2 = teardown_media E (Participant_PublishedTracks p (h_dom ?h1)) (getPeerConnection ?i ?h1) ?i (set_dom d ?h1)"
  obtain e3 h3 where s: "conn_Send c MessageTypeRoomLeft (RoomLeftResponse (lr_RoomID req) ?i ''success'') h2 = (e3, h3)"
    by fastforce
  have h1: "R h (set_dom d ?h1)" by (rule R_trans [OF R_updates(4,2)])
  have "R h h2" unfolding h2_def by (rule R_trans [OF h1 R_teardown_media])
  then have h3: "R h h3" by (rule R_trans) (rule R_conn_Send [OF s])
  have "h' = set_dom d ?h1 \<or> h' = h3 \<or> h' = broadcastParticipantLeft r p h3"
    using assms Inr l s by (auto simp: handleLeaveRoom_def Let_def h2_def split: option.splits prod.splits)
  then show ?thesis using h1 h3 R_trans [OF h3 R_sends(3)] by metis
qed (use assms in \<open>simp add: handleLeaveRoom_def\<close>)

lemma R_reply:
  assumes "(case conn_Send c t d h2 of (Some err, h3) \<Rightarrow> (Some err, h3) | (None, h3) \<Rightarrow> (None, f h3)) = (e, h')"
    and "R h h2" and "\<And>g. R g (f g)"
  shows "R h h'"
proof -
  obtain x h3 where s: "conn_Send c t d h2 = (x, h3)" by fastforce
  have h3: "R h h3" by (rule R_trans [OF assms(2) R_conn_Send [OF s]])
  then show ?thesis using assms(1) s R_trans [OF h3 assms(3)] by (cases x) auto
qed

lemma R_handlePublishTrack:
  assumes "handlePublishTrack E c r p msg h = (e, h')"
  shows "R h h'"
proof (cases "UnmarshalData dec_PublishTrackRequest msg")
  case (Inr req)
  let ?i = "pr_Track req"
  obtain t d1 where n: "NewTrack (ti_ID ?i) (request_kind (ti_Kind ?i)) (request_source (ti_Source ?i)) (h_dom h) =
      (Inr t, d1)"
    by (simp add: NewTrack_def request_valid)
  obtain e2 d2 where pt: "Participant_PublishTrack p t d1 = (e2, d2)" by fastforce
  obtain e3 d3 where rp: "Room_PublishTrack r t d2 = (e3, d3)" by fastforce
  define h1 where "h1 = wire_forwarder E r p t (set_dom d3 h)"
  define h2 where "h2 = (case getForwarder (t_id (trk d3 t)) h1 of None \<Rightarrow> h1
      | Some fw \<Rightarrow> if WebRTCTrack_IsRemote (f_publisher (h_fw h1 fw))
          then autoSubscribeExistingParticipants E r p (t_id (trk d3 t)) h1 else h1)"
  have h1: "R h h1" unfolding h1_def by (rule R_request [OF R_wire_forwarder])
  have h2: "R h h2" unfolding h2_def by (simp add: h1 R_trans [OF h1 R_auto(1)] split: option.split)
  consider (some) err where "e2 = Some err" | (refused) "e2 = None" "e3 \<noteq> None \<and> e3 \<noteq> Some (derr ErrTrackAlreadyPublished)"
    | (ok) "e2 = None" "\<not> (e3 \<noteq> None \<and> e3 \<noteq> Some (derr ErrTrackAlreadyPublished))" by blast
  then show ?thesis
  proof cases
    case ok
    from assms Inr n pt rp ok
    have "(case conn_Send c MessageTypeTrackPublished (TrackPublishedResponse (ti_ID ?i) (pr_ParticipantID req) ''success'') h2 of
        (Some err, h3) \<Rightarrow> (Some err, h3) | (None, h3) \<Rightarrow> (None, broadcastTrackAvailable r p t h3)) = (e, h')"
      by (simp only: handlePublishTrack_def Let_def sum.case prod.case option.case h1_def h2_def if_False)
    then show ?thesis by (rule R_reply [OF _ h2 R_sends(4)])
  qed (use assms Inr n pt rp R_updates(2) in \<open>auto simp: handlePublishTrack_def Let_def\<close>)
qed (use assms in \<open>simp add: handlePublishTrack_def\<close>)

lemma R_handleUnpublishTrack:
  assumes "handleUnpublishTrack E c r p msg h = (e, h')"
  shows "R h h'"
proof (cases "UnmarshalData dec_TrackRequest msg")
  case (Inr req)
  let ?k = "tr_TrackID req"
  obtain e1 d1 where u: "Participant_UnpublishTrack p ?k (h_dom h) = (e1, d1)" by fastforce
  obtain e2 d2 where ru: "Room_UnpublishTrack r ?k d1 = (e2, d2)" by fastforce
  define h1 where "h1 = removeForwarder E ?k (set_dom d2 h)"
  define h2 where "h2 = (case getPeerConnection (p_id (par (h_dom h1) p)) h1 of None \<Rightarrow> h1
     | Some a \<Rightarrow> set_pc a (snd (PC_RemoveTrack (E_pion E) ?k (h_pc h1 a))) h1)"
  have h1: "R h h1" unfolding h1_def by (rule R_request [OF R_removeForwarder])
  have h2: "R h h2" unfolding h2_def by (simp add: h1 R_trans [OF h1 R_updates(1)] split: option.split)
  consider (some) err where "e1 = Some err" | (refused) "e1 = None" "e2 \<noteq> None \<and> e2 \<noteq> Some (derr ErrTrackNotFound)"
    | (ok) "e1 = None" "\<not> (e2 \<noteq> None \<and> e2 \<noteq> Some (derr ErrTrackNotFound))" by blast
  then show ?thesis
  proof cases
    case ok
    from assms Inr u ru ok
    have "(case conn_Send c MessageTypeTrackUnpublished (TrackUnpublishedResponse ?k (tr_ParticipantID req) ''success'') h2 of
        (Some err, h3) \<Rightarrow> (Some err, h3) | (None, h3) \<Rightarrow> (None, broadcastTrackUnavailable r p ?k h3)) = (e, h')"
      by (simp only: handleUnpublishTrack_def Let_def sum.case prod.case option.case h1_def h2_def if_False)
    then show ?thesis by (rule R_reply [OF _ h2 R_sends(5)])
  qed (use assms Inr u ru R_updates(2) in \<open>auto simp: handleUnpublishTrack_def Let_def\<close>)
qed (use assms in \<open>simp add: handleUnpublishTrack_def\<close>)

lemma R_handleUnsubscribeTrack:
  assumes "handleUnsubscribeTrack E c r p msg h = (e, h')"
  shows "R h h'"
proof (cases "UnmarshalData dec_TrackRequest msg")
  case (Inr req)
  obtain e1 d where u: "Room_UnsubscribeFromTrack r p (tr_TrackID req) (h_dom h) = (e1, d)" by fastforce
  let ?h2 = "case getPeerConnection (p_id (par d p)) (set_dom d h) of None \<Rightarrow> set_dom d h
     | Some a \<Rightarrow> removeSubscriberFromForwarder E (tr_TrackID req) (Some a) (set_dom d h)"
  have h2: "R h ?h2"
    by (simp add: R_updates R_request [OF R_removeSubscriber(1)] split: option.split)
  have "h' = set_dom d h \<or> (\<exists>t x. conn_Send c t x ?h2 = (e, h'))"
    using assms Inr u by (cases e1) (auto simp: handleUnsubscribeTrack_def Let_def)
  then show ?thesis using R_updates(2) R_trans [OF h2 R_conn_Send] by metis
qed (use assms in \<open>simp add: handleUnsubscribeTrack_def\<close>)

lemma R_undo: "R h (undo_subscription p k h)"
  by (simp add: undo_subscription_def R_updates)

lemma R_subscribe_media:
  assumes "subscribe_media E c p k j a fw h = (e, h')"
  shows "R h h'"
proof -
  obtain x h1 where at: "attach_subscriber E fw a h = (x, h1)" by fastforce
  then have h1: "R h h1" using R_attach_subscriber [of h E fw a] by simp
  have h2: "R h (requestUpstreamKeyframe E k h1)" "R h (undo_subscription p k h1)"
    using R_trans [OF h1] R_requestUpstreamKeyframe R_undo by blast+
  show ?thesis
    using assms at h2 R_trans [OF h2(1) R_conn_Send] R_conn_Send
    by (cases x) (auto simp: subscribe_media_def Let_def split: if_splits)
qed

lemma R_handleSubscribeTrack:
  assumes s: "handleSubscribeTrack E c r p msg h = (e, h')"
  shows "R h h'"
proof (cases "UnmarshalData dec_TrackRequest msg")
  case (Inr req)
  let ?k = "tr_TrackID req"
  obtain e1 d where sub: "Room_SubscribeToTrack r p ?k (h_dom h) = (e1, d)" by fastforce
  let ?h1 = "set_dom d h"
  obtain res h2 where f: "(case getForwarder ?k ?h1 of
       Some fw \<Rightarrow> (Inr (Some fw), ?h1) | None \<Rightarrow> lazy_forwarder E r ?k ?h1) = (res, h2)" by fastforce
  then have "R ?h1 h2" by (auto dest: R_lazy_forwarder split: option.splits)
  then have h2: "R h h2" by (rule R_request)
  have "h' = ?h1 \<or> h' = undo_subscription p ?k ?h1 \<or> h' = undo_subscription p ?k h2 \<or>
      (\<exists>j a fw. subscribe_media E c p ?k j a fw h2 = (e, h'))"
  proof (cases e1)
    case (Some err)
    then show ?thesis using s Inr sub by (auto simp: handleSubscribeTrack_def Let_def)
  next
    case None
    show ?thesis
    proof (cases "getPeerConnection (p_id (par d p)) ?h1")
      case (Some a)
      then show ?thesis
        using s Inr sub None f by (cases res; cases "projr res") (auto simp: handleSubscribeTrack_def Let_def)
    qed (use s Inr sub None in \<open>auto simp: handleSubscribeTrack_def Let_def\<close>)
  qed
  then show ?thesis
    using R_updates(2) R_request [OF R_undo] R_trans [OF h2 R_undo]
      R_trans [OF h2 R_subscribe_media] by metis
qed (use assms in \<open>simp add: handleSubscribeTrack_def\<close>)

lemma R_flush_pc: "R h (flush_sent a (set_pc a pc h))"
  by (rule R_trans [OF R_updates(1) R_flush_sent])

lemma R_handleICECandidate: "handleICECandidate E c r p msg h = (e, h') \<Longrightarrow> R h h'"
  by (auto simp: handleICECandidate_def Let_def R_sends R_updates intro: R_trans [OF R_updates(1) R_sends(6)]
      split: sum.splits option.splits prod.splits)

lemma R_handleAnswer: "handleAnswer E c r p msg h = (e, h') \<Longrightarrow> R h h'"
  by (auto simp: handleAnswer_def Let_def R_sends R_flush_pc
      intro: R_trans [OF R_flush_pc R_sends(6)] R_trans [OF R_flush_pc R_auto(2)]
      split: sum.splits option.splits prod.splits if_splits)

lemma R_handleOffer:
  assumes "handleOffer E c r p msg h = (e, h')"
  shows "R h h'"
proof -
  have sent: "R h (flush_sent a (set_pc a pc (attachSubscribedReadyTracks E r q g)))"
    if "conn_Send c t d (set_pc a pc0 h) = (x, g)" for a pc q g t d pc0 x
    by (rule R_trans [OF R_trans [OF R_trans [OF R_updates(1) R_conn_Send [OF that]] R_auto(2)]
          R_flush_pc])
  have "R h g" if "conn_Send c t d (set_pc a pc0 h) = (x, g)" for a g t d pc0 x
    by (rule R_trans [OF R_updates(1) R_conn_Send [OF that]])
  with assms sent show ?thesis
    by (auto simp: handleOffer_def Let_def R_sends R_updates intro: R_trans [OF R_updates(1) R_sends(6)]
        split: sum.splits option.splits prod.splits)
qed

text \<open>Every request other than \<open>create_room\<close> leaves the registry of rooms alone.\<close>

lemma R_handleMessage:
  assumes "msg_Type msg \<noteq> MessageTypeCreateRoom" and "handleMessage E c r p msg h = (e, h')"
  shows "R h h'"
  using assms unfolding handleMessage_def Let_def
  by (auto dest: R_handleJoinRoom R_handleLeaveRoom R_handlePublishTrack R_handleUnpublishTrack
      R_handleSubscribeTrack R_handleUnsubscribeTrack R_handleOffer R_handleAnswer
      R_handleICECandidate split: if_splits)

subsection \<open>Connections and events\<close>

lemma R_end_connection: "R h (end_connection c h)" "R h (refuse_connection c t k h)"
  unfolding refuse_connection_def by (rule R_updates(6)) (rule R_trans [OF R_sends(1) R_updates(6)])

lemma R_enter_room:
  assumes "enter_room E c r i h = (res, h')"
  shows "R h h'"
proof (cases "Room_GetParticipant r i (h_dom h)")
  case (Some p)
  then have "h' = snd (ensurePeerConnection E p c (set_dom (Participant_SetRoom p (Some r) (h_dom h)) (cancelGhostTimer i h)))"
    using assms by (auto simp: enter_room_def)
  then show ?thesis
    using R_trans [OF R_trans [OF R_updates(4,2)] R_ensurePeerConnection] by simp
next
  case None
  obtain x d where j: "join_new r i (''Participant '' @ i) (h_dom h) = (x, d)" by fastforce
  show ?thesis
  proof (cases x)
    case (Inl err)
    then show ?thesis
      using assms None j R_trans [OF R_updates(2) R_end_connection(2)] by (auto simp: enter_room_def)
  next
    case (Inr p)
    obtain y h1 where e: "ensurePeerConnection E p c (set_dom d h) = (y, h1)" by fastforce
    then have h1: "R h h1" using R_request [OF R_ensurePeerConnection] by (metis snd_conv)
    then show ?thesis
      using assms None j Inr e R_trans [OF h1 R_end_connection(2)] R_trans [OF h1 R_sends(2)]
      by (auto simp: enter_room_def split: sum.splits)
  qed
qed

lemma R_ghostTimer_fires: "R h (ghostTimer_fires E i h)"
proof -
  have "R h (reapGhost E rid i h)" for rid
  proof -
    let ?h1 = "h\<lparr>h_ghostTimers := mdel i (h_ghostTimers h)\<rparr>"
    have h2: "R h (case x of None \<Rightarrow> ?h1 | Some r \<Rightarrow> set_dom (d r) ?h1)" for x :: "raddr option" and d
      using R_updates(12) R_trans [OF R_updates(12,2)] by (auto split: option.split)
    show ?thesis unfolding reapGhost_def Let_def
      by (rule R_trans [OF R_trans [OF h2 R_teardown_media] R_updates(11)])
  qed
  then show ?thesis by (simp add: ghostTimer_fires_def split: option.split)
qed

lemma R_handleTrack: "R h (PC_handleTrack E a w v ssrc codec h)"
proof -
  have on: "R g (onTrack E p t g)" for p t and g :: "'p Handler"
    by (auto simp: onTrack_def dest: R_getOrCreateForwarderD
        intro: R_trans [OF R_getOrCreateForwarderD R_auto(1)] split: prod.splits sum.splits option.splits)
  have "R h (onTrack E p t (set_pc a pc (set_dom d h)))" for p t pc d
    by (rule R_trans [OF R_trans [OF R_updates(2,1)] on])
  then show ?thesis by (simp add: PC_handleTrack_def Let_def R_updates split: prod.split sum.split)
qed

lemma R_run_nth_task: "R h (run_nth_task E n h)"
proof -
  have "R g (run_task E t g)" for t and g :: "'p Handler"
    by (simp add: run_task_def R_flush_pc R_getOrCreateForwarder split: task.split)
  then show ?thesis by (auto simp: run_nth_task_def intro: R_trans [OF R_updates(7)])
qed

lemma R_gate_events: "R h (negotiationNeeded E a h)" "R h (dispatchICECandidate a cand h)"
  by (simp_all add: negotiationNeeded_def dispatchICECandidate_def R_flush_pc)

lemma R_close_members:
  "R h (fold (close_member E) ps (fold (removeForwarder E) ks h))"
proof -
  have "R g (close_member E i g)" for i and g :: "'p Handler"
    unfolding close_member_def
    by (rule R_trans [OF R_trans [OF R_removeSubscriber(2) R_closePeerConnection] R_updates(4)])
  then show ?thesis by (intro R_trans [OF R_fold R_fold] R_removeForwarder)
qed


end

end
