(* ===== verification/Handler_Registries.thy ===== *)
theory Handler_Registries
  imports Handler_Relation
begin

text \<open>
  The registries of the handler are well typed: no participant and no track is listed twice,
  no two participants share a peer connection, no two tracks share a forwarder, and every
  registered address has been allocated. Every operation keeps this, and all but the
  operations that create and close rooms leave the registry of rooms alone: an instance of
  \<open>handler_relation\<close>.
\<close>

subsection \<open>Well typed registries\<close>

definition reg_ok :: "nat \<Rightarrow> (string, nat) gomap \<Rightarrow> bool" where
  "reg_ok n m \<longleftrightarrow> wf_map m \<and> distinct (map snd m) \<and> (\<forall>a \<in> snd ` set m. a < n)"

definition media_ok :: "'p Handler \<Rightarrow> bool" where
  "media_ok h \<longleftrightarrow> reg_ok (h_npc h) (h_peerConnections h) \<and> reg_ok (h_nfw h) (h_trackForwarders h)"

lemma mdel_filter: "mdel k m = filter (\<lambda>(k', _). k' \<noteq> k) m"
  by (induction m) auto

lemma reg_ok_mdel: "reg_ok n m \<Longrightarrow> reg_ok n (mdel k m)"
  unfolding reg_ok_def mdel_filter by (auto simp: distinct_map_filter)

lemma distinct_snd_mput: "v \<notin> snd ` set m \<Longrightarrow> distinct (map snd m) \<Longrightarrow> distinct (map snd (mput k v m))"
proof (induction m)
  case (Cons x m)
  have "snd ` set (mput k v m) \<subseteq> insert v (snd ` set m)" by (induction m) auto
  then show ?case using Cons by (cases x) auto
qed simp

lemma reg_ok_mput: "reg_ok n m \<Longrightarrow> reg_ok (Suc n) (mput k n m)"
proof -
  assume ok: "reg_ok n m"
  have sub: "snd ` set (mput k n m) \<subseteq> insert n (snd ` set m)" by (induction m) auto
  have "a < Suc n" if "a \<in> snd ` set (mput k n m)" for a
    using subsetD [OF sub that] ok unfolding reg_ok_def by auto
  moreover have "n \<notin> snd ` set m" using ok unfolding reg_ok_def by blast
  ultimately show ?thesis using ok distinct_snd_mput [of n m k] unfolding reg_ok_def by simp
qed

lemma reg_ok_Suc: "reg_ok n m \<Longrightarrow> reg_ok (Suc n) m"
  unfolding reg_ok_def by auto

text \<open>The registry of rooms is the same and the media registries stay well typed.\<close>

definition keeps :: "'p Handler \<Rightarrow> 'p Handler \<Rightarrow> bool" where
  "keeps h h' \<longleftrightarrow> h_roomManager h' = h_roomManager h \<and> (media_ok h \<longrightarrow> media_ok h')"

lemma keeps_refl [simp, intro]: "keeps h h"
  by (simp add: keeps_def)

lemma keeps_trans [trans]: "keeps h h' \<Longrightarrow> keeps h' h'' \<Longrightarrow> keeps h h''"
  by (simp add: keeps_def)

lemma keeps_conn: "keeps h (h\<lparr>h_conn := cs\<rparr>)"
  by (simp add: keeps_def media_ok_def)

interpretation reg: handler_relation "keeps :: 'p Handler \<Rightarrow> 'p Handler \<Rightarrow> bool"
proof
  fix h h' h'' :: "'p Handler" and E :: "'p env" and q c x k wt
  show "keeps h h" by simp
  show "keeps h h' \<Longrightarrow> keeps h' h'' \<Longrightarrow> keeps h h''" by (rule keeps_trans)
  show "keeps h (snd (createPeerConnection E q c x h))"
    by (auto simp: createPeerConnection_def Let_def keeps_def media_ok_def set_pc_def reg_ok_Suc reg_ok_mput
        split: sum.split option.split prod.split)
  show "keeps h (snd (createForwarder k wt h))"
    by (auto simp: createForwarder_def keeps_def media_ok_def reg_ok_mput split: sum.split option.split prod.split)
qed (auto simp: keeps_def media_ok_def reg_ok_mdel set_pc_def set_dom_def set_fw_def cancelGhostTimer_def
    armGhostTimer_def end_connection_def conn_Send_def split: prod.split)

lemma keeps_round:
  assumes st: "handleConnection_step E c r p h = Some (go, h')"
    and nc: "\<forall>msg x. Connection_Receive (h_conn h c) = Some (Inr msg, x) \<longrightarrow> msg_Type msg \<noteq> MessageTypeCreateRoom"
  shows "keeps h h'"
proof -
  obtain res x where r: "Connection_Receive (h_conn h c) = Some (res, x)"
    using st by (auto simp: handleConnection_step_def split: option.splits)
  let ?h = "h\<lparr>h_conn := (h_conn h)(c := x)\<rparr>"
  show ?thesis
  proof (cases res)
    case (Inl err)
    have "keeps h (end_connection c (handleConnectionClosed r p ?h))"
      unfolding handleConnectionClosed_def
      by (rule keeps_trans [OF keeps_trans [OF keeps_conn reg.R_updates(5)] reg.R_end_connection(1)])
    then show ?thesis using st r Inl by (auto simp: handleConnection_step_def)
  next
    case (Inr msg)
    obtain e h1 where hm: "handleMessage E c r p msg ?h = (e, h1)" by fastforce
    have h1: "keeps h h1" by (rule keeps_trans [OF keeps_conn reg.R_handleMessage [OF _ hm]]) (use nc r Inr in blast)
    then show ?thesis
      using st r Inr hm keeps_trans [OF h1 reg.R_sends(1)] by (auto simp: handleConnection_step_def split: option.splits)
  qed
qed

lemma keeps_Shutdown: "keeps h (Handler_Shutdown E h)"
  using Shutdown_effect(1,2,6) [of E h] by (simp add: keeps_def media_ok_def reg_ok_def)

lemma keeps_ServeHTTP: "keeps h (snd (ServeHTTP rid i c h))"
  by (simp add: ServeHTTP_def keeps_def media_ok_def)


end
