(* ===== verification/Domain_Separation.thy ===== *)
theory Domain_Separation
  imports Room_Protocol
begin

text \<open>
  Rooms do not interfere. The footprint of a room is the set of its members and the set of
  tracks that its registry or a member holds. Every step of the room protocol stays in the
  footprint of its room and in newly allocated objects, so rooms with disjoint footprints
  keep their invariants and their disjointness.
\<close>

subsection \<open>Footprints\<close>

definition members :: "raddr \<Rightarrow> dheap \<Rightarrow> paddr set" where
  "members r h = snd ` set (participants (rom h r))"

definition held :: "Participant \<Rightarrow> taddr set" where
  "held x = snd ` set (pubTracks x) \<union> snd ` set (subTracks x)"

definition footprint :: "raddr \<Rightarrow> dheap \<Rightarrow> taddr set" where
  "footprint r h = snd ` set (tracks (rom h r)) \<union> (\<Union>p \<in> members r h. held (par h p))"

definition own_p :: "raddr \<Rightarrow> dheap \<Rightarrow> paddr \<Rightarrow> bool" where
  "own_p r h p \<longleftrightarrow> p \<in> members r h \<or> npar h \<le> p"

definition own_t :: "raddr \<Rightarrow> dheap \<Rightarrow> taddr \<Rightarrow> bool" where
  "own_t r h t \<longleftrightarrow> t \<in> footprint r h \<or> ntrk h \<le> t"

text \<open>The heap \<open>h\<close> has been reached from \<open>g\<close> by work in room \<open>r\<close> only.\<close>

definition local_to :: "raddr \<Rightarrow> dheap \<Rightarrow> dheap \<Rightarrow> bool" where
  "local_to r g h \<longleftrightarrow>
     (\<forall>x. x \<noteq> r \<longrightarrow> rom h x = rom g x) \<and> r_id (rom h r) = r_id (rom g r) \<and>
     (\<forall>p. \<not> own_p r g p \<longrightarrow> par h p = par g p) \<and> (\<forall>t. \<not> own_t r g t \<longrightarrow> trk h t = trk g t) \<and>
     npar g \<le> npar h \<and> ntrk g \<le> ntrk h \<and> nrom h = nrom g \<and>
     (\<forall>p \<in> members r h. own_p r g p \<and> p < npar h) \<and> (\<forall>t \<in> snd ` set (tracks (rom h r)). own_t r g t) \<and>
     (\<forall>p. own_p r g p \<longrightarrow> p < npar h \<longrightarrow> (\<forall>t \<in> held (par h p). own_t r g t)) \<and>
     (\<forall>t i p. t < ntrk h \<longrightarrow> mget (subscribers (trk h t)) i = Some p \<longrightarrow>
        own_p r g p \<or> t < ntrk g \<and> mget (subscribers (trk g t)) i = Some p)"

lemma local_toD:
  assumes "local_to r g h"
  shows "x \<noteq> r \<Longrightarrow> rom h x = rom g x" "r_id (rom h r) = r_id (rom g r)"
    "\<not> own_p r g p \<Longrightarrow> par h p = par g p" "\<not> own_t r g t \<Longrightarrow> trk h t = trk g t"
    "npar g \<le> npar h" "ntrk g \<le> ntrk h" "nrom h = nrom g"
    "p \<in> members r h \<Longrightarrow> own_p r g p" "p \<in> members r h \<Longrightarrow> p < npar h"
    "t \<in> snd ` set (tracks (rom h r)) \<Longrightarrow> own_t r g t"
    "own_p r g p \<Longrightarrow> p < npar h \<Longrightarrow> t \<in> held (par h p) \<Longrightarrow> own_t r g t"
    "t < ntrk h \<Longrightarrow> mget (subscribers (trk h t)) i = Some p \<Longrightarrow>
       own_p r g p \<or> t < ntrk g \<and> mget (subscribers (trk g t)) i = Some p"
  using assms unfolding local_to_def by blast+

lemma member_members: "is_member r h i p \<Longrightarrow> p \<in> members r h"
  unfolding members_def by (force dest: map_of_SomeD)

lemma members_member: "room_ok r h \<Longrightarrow> p \<in> members r h \<Longrightarrow> is_member r h (p_id (par h p)) p"
proof -
  assume ok: "room_ok r h" and "p \<in> members r h"
  then obtain i where i: "(i, p) \<in> set (participants (rom h r))" unfolding members_def by auto
  have mo: "members_ok r h" by (rule room_invD(1) [OF room_okD(1) [OF ok]])
  then have "wf_map (participants (rom h r))" by (simp add: members_ok_def)
  then have m: "is_member r h i p" using i by (rule map_of_is_SomeI)
  show "is_member r h (p_id (par h p)) p" using m members_okD(1) [OF mo m] by simp
qed

lemma mget_held:
  "mget (pubTracks x) k = Some t \<Longrightarrow> t \<in> held x" "mget (subTracks x) k = Some t \<Longrightarrow> t \<in> held x"
  unfolding held_def by (force dest: map_of_SomeD)+

lemma set_mput: "snd ` set (mput k v m) \<subseteq> insert v (snd ` set m)"
  by (induction m) auto

lemma set_mdel: "set (mdel k m) \<subseteq> set m"
  by (induction m) auto

lemma local_refl:
  assumes "room_ok r h"
  shows "local_to r h h"
proof -
  have "p < npar h" if "p \<in> members r h" for p
    using members_okD(3) [OF room_invD(1) [OF room_okD(1) [OF assms]] members_member [OF assms that]] .
  then show ?thesis unfolding local_to_def own_p_def own_t_def footprint_def by auto
qed

subsection \<open>Primitive steps\<close>

lemma local_par:
  assumes l: "local_to r g h" and p: "own_p r g p"
    and f: "\<And>x. held (f x) \<subseteq> held x \<union> {t. own_t r g t}"
  shows "local_to r g (upd_par p f h)"
proof -
  have "own_t r g t" if "own_p r g q" "q < npar h" "t \<in> held (par (upd_par p f h) q)" for q t
    using that f [of "par h p"] local_toD(11) [OF l that(1,2)] by (cases "q = p") (auto simp: upd_par_def)
  moreover have "par (upd_par p f h) q = par g q" if "\<not> own_p r g q" for q
    using that p local_toD(3) [OF l that] by (auto simp: upd_par_def)
  ultimately show ?thesis
    using l unfolding local_to_def members_def by (auto simp: upd_par_def)
qed

lemma local_trk:
  assumes l: "local_to r g h" and t: "own_t r g t"
    and f: "\<And>x i q. mget (subscribers (f x)) i = Some q \<Longrightarrow> mget (subscribers x) i = Some q \<or> own_p r g q"
  shows "local_to r g (upd_trk t f h)"
proof -
  have "own_p r g q \<or> u < ntrk g \<and> mget (subscribers (trk g u)) i = Some q"
    if "u < ntrk h" "mget (subscribers (trk (upd_trk t f h) u)) i = Some q" for u i q
    using that f [of "trk h t" i q] local_toD(12) [OF l that(1)] by (cases "u = t") (auto simp: upd_trk_def)
  moreover have "trk (upd_trk t f h) u = trk g u" if "\<not> own_t r g u" for u
    using that t local_toD(4) [OF l that] by (auto simp: upd_trk_def)
  ultimately show ?thesis
    using l unfolding local_to_def members_def by (auto simp: upd_trk_def)
qed

lemma local_rom:
  assumes l: "local_to r g h" and "\<And>x. r_id (f x) = r_id x"
    and "\<And>x. snd ` set (participants (f x)) \<subseteq> snd ` set (participants x) \<union> {p. own_p r g p \<and> p < npar h}"
    and "\<And>x. snd ` set (tracks (f x)) \<subseteq> snd ` set (tracks x) \<union> {t. own_t r g t}"
  shows "local_to r g (upd_rom r f h)"
proof -
  have "own_p r g p \<and> p < npar h" if "p \<in> members r (upd_rom r f h)" for p
    using that assms(3) [of "rom h r"] local_toD(8,9) [OF l] by (auto simp: upd_rom_def members_def)
  moreover have "own_t r g t" if "t \<in> snd ` set (tracks (rom (upd_rom r f h) r))" for t
    using that assms(4) [of "rom h r"] local_toD(10) [OF l] by (auto simp: upd_rom_def)
  ultimately show ?thesis
    using l assms(2) unfolding local_to_def by (auto simp: upd_rom_def)
qed

lemma local_NewTrack:
  assumes l: "local_to r g h" and n: "NewTrack k kd src h = (Inr t, h1)"
  shows "local_to r g h1" and "own_t r g t"
proof -
  note N = NewTrack_InrD [OF n]
  show t: "own_t r g t" using N local_toD(6) [OF l] by (simp add: own_t_def)
  have "own_p r g q \<or> u < ntrk g \<and> mget (subscribers (trk g u)) i = Some q"
    if "u < ntrk h1" "mget (subscribers (trk h1 u)) i = Some q" for u i q
    using that N local_toD(12) [OF l, of u i q] by (cases "u = t") (auto simp: mkTrack_def)
  moreover have "trk h1 u = trk g u" if "\<not> own_t r g u" for u
    using that t N local_toD(4) [OF l that] by auto
  ultimately show "local_to r g h1" using l N unfolding local_to_def members_def by auto
qed

lemma local_NewParticipant:
  assumes l: "local_to r g h" and n: "NewParticipant i name h = (p, h1)"
  shows "local_to r g h1" and "own_p r g p" and "p < npar h1"
proof -
  have N: "p = npar h" "h1 = h\<lparr>par := (par h)(npar h := mkParticipant i name), npar := Suc (npar h)\<rparr>"
    using n by (auto simp: NewParticipant_def)
  show p: "own_p r g p" "p < npar h1" using N local_toD(5) [OF l] by (simp_all add: own_p_def)
  have "own_t r g t" if "own_p r g q" "q < npar h1" "t \<in> held (par h1 q)" for q t
    using that N local_toD(11) [OF l, of q t] by (cases "q = npar h") (auto simp: mkParticipant_def held_def)
  moreover have "par h1 q = par g q" if "\<not> own_p r g q" for q
    using that p(1) N local_toD(3) [OF l that] by auto
  moreover have "q < npar h1" if "q \<in> members r h1" for q
    using that local_toD(9) [OF l, of q] N by (auto simp: members_def)
  ultimately show "local_to r g h1" using l N unfolding local_to_def members_def by auto
qed

lemma local_fold:
  assumes "\<And>x h. x \<in> set xs \<Longrightarrow> local_to r g h \<Longrightarrow> local_to r g (f x h)" and "local_to r g h"
  shows "local_to r g (fold f xs h)"
  using assms by (induction xs arbitrary: h) auto


subsection \<open>Operations of tracks and participants\<close>

lemma held_mdel:
  "held (x\<lparr>pubTracks := mdel k (pubTracks x)\<rparr>) \<subseteq> held x" "held (x\<lparr>subTracks := mdel k (subTracks x)\<rparr>) \<subseteq> held x"
  using set_mdel [of k "pubTracks x"] set_mdel [of k "subTracks x"] unfolding held_def by auto

lemma held_mput:
  "held (x\<lparr>pubTracks := mput k t (pubTracks x)\<rparr>) \<subseteq> insert t (held x)"
  "held (x\<lparr>subTracks := mput k t (subTracks x)\<rparr>) \<subseteq> insert t (held x)"
  using set_mput [of k t "pubTracks x"] set_mput [of k t "subTracks x"] unfolding held_def by auto

lemma local_track_ops:
  assumes "local_to r g h" and "own_t r g t"
  shows "local_to r g (Track_SetPublisher t x h)" "local_to r g (Track_Publish t h)"
    "local_to r g (Track_Unpublish t h)" "local_to r g (Track_RemoveSubscriber t j h)"
  unfolding Track_SetPublisher_def Track_Publish_def Track_Unpublish_def Track_RemoveSubscriber_def
  by (rule local_trk [OF assms]; simp split: if_splits)+

lemma local_par_del:
  assumes "local_to r g h" and "own_p r g p"
  shows "local_to r g (upd_par p (\<lambda>x. x\<lparr>pubTracks := mdel k (pubTracks x)\<rparr>) h)"
    "local_to r g (upd_par p (\<lambda>x. x\<lparr>subTracks := mdel k (subTracks x)\<rparr>) h)"
  by (rule local_par [OF assms]; use held_mdel in blast)+

lemma local_addSubscriber:
  assumes "local_to r g h" and "own_t r g t" and "own_p r g p"
  shows "local_to r g (snd (Track_addSubscriber t p i h))"
proof -
  have "local_to r g (upd_trk t (\<lambda>x. x\<lparr>subscribers := mput i p (subscribers x)\<rparr>) h)"
    by (rule local_trk [OF assms(1,2)]) (use assms(3) in \<open>auto split: if_splits\<close>)
  then show ?thesis using assms(1) by (simp add: Track_addSubscriber_def)
qed

lemma local_PublishTrack:
  assumes l: "local_to r g h" and p: "own_p r g p" and t: "own_t r g t"
  shows "local_to r g (snd (Participant_PublishTrack p t h))"
proof -
  have "local_to r g (upd_par p (\<lambda>x. x\<lparr>pubTracks := mput (t_id (trk h t)) t (pubTracks x)\<rparr>) h)"
    by (rule local_par [OF l p]) (use held_mput(1) t in blast)
  then show ?thesis using l t by (simp add: Participant_PublishTrack_def local_track_ops)
qed

lemma local_UnpublishTrack:
  assumes l: "local_to r g h" and p: "own_p r g p" "p < npar h"
  shows "local_to r g (snd (Participant_UnpublishTrack p k h))"
proof (cases "mget (pubTracks (par h p)) k")
  case (Some t)
  then have "own_t r g t" using local_toD(11) [OF l p] mget_held(1) by blast
  then show ?thesis using l p(1) Some by (simp add: Participant_UnpublishTrack_def local_par_del local_track_ops)
qed (use l in \<open>simp add: Participant_UnpublishTrack_def\<close>)

lemma local_UnsubscribeTrack:
  assumes l: "local_to r g h" and p: "own_p r g p" "p < npar h"
  shows "local_to r g (snd (Participant_UnsubscribeTrack p k h))"
proof (cases "mget (subTracks (par h p)) k")
  case (Some t)
  then have "own_t r g t" using local_toD(11) [OF l p] mget_held(2) by blast
  then show ?thesis using l p(1) Some by (simp add: Participant_UnsubscribeTrack_def local_par_del local_track_ops)
qed (use l in \<open>simp add: Participant_UnsubscribeTrack_def\<close>)

lemma local_SubscribeTrack:
  assumes l: "local_to r g h" and p: "own_p r g p" and t: "own_t r g t"
  shows "local_to r g (snd (Participant_SubscribeTrack p t h))"
proof -
  let ?h1 = "upd_par p (\<lambda>x. x\<lparr>subTracks := mput (t_id (trk h t)) t (subTracks x)\<rparr>) h"
  have h1: "local_to r g ?h1" by (rule local_par [OF l p]) (use held_mput(2) t in blast)
  let ?r = "Track_addSubscriber t p (p_id (par ?h1 p)) ?h1"
  have h2: "local_to r g (snd ?r)" by (rule local_addSubscriber [OF h1 t p])
  show ?thesis
  proof (cases "p_state (par h p) = ParticipantStateLeft \<or> mget (subTracks (par h p)) (t_id (trk h t)) \<noteq> None")
    case False
    then have "snd (Participant_SubscribeTrack p t h) = snd ?r \<or>
        snd (Participant_SubscribeTrack p t h) =
          upd_par p (\<lambda>x. x\<lparr>subTracks := mdel (t_id (trk (snd ?r) t)) (subTracks x)\<rparr>) (snd ?r)"
      by (simp add: Participant_SubscribeTrack_def Let_def split: prod.split option.split)
    then show ?thesis using h2 local_par_del(2) [OF h2 p] by (elim disjE) (simp_all only:)
  qed (use l in \<open>auto simp: Participant_SubscribeTrack_def\<close>)
qed

lemma local_leave_loops:
  assumes l: "local_to r g h" and p: "own_p r g p" and t: "own_t r g t"
  shows "local_to r g (leave_published p i (k, t) h)" "local_to r g (leave_subscribed p i (k, t) h)"
  using assms by (simp_all add: leave_published_def leave_subscribed_def local_par_del local_track_ops)

lemma local_Participant_Leave:
  assumes l: "local_to r g h" and p: "own_p r g p" "p < npar h"
  shows "local_to r g (Participant_Leave p h)"
proof -
  define h1 where "h1 = upd_par p (\<lambda>x. x\<lparr>p_state := ParticipantStateLeft\<rparr>) h"
  define h2 where "h2 = fold (leave_published p (p_id (par h1 p))) (pubTracks (par h1 p)) h1"
  define h3 where "h3 = fold (leave_subscribed p (p_id (par h1 p))) (subTracks (par h2 p)) h2"
  have h1: "local_to r g h1" unfolding h1_def by (rule local_par [OF l p(1)]) (simp add: held_def)
  have n1: "npar h1 = npar h" by (simp add: h1_def)
  have h2: "local_to r g h2" unfolding h2_def
  proof (rule local_fold [OF _ h1])
    fix x h' assume x: "x \<in> set (pubTracks (par h1 p))" and "local_to r g h'"
    moreover have "own_t r g (snd x)" using local_toD(11) [OF h1 p(1)] x p(2) n1 unfolding held_def by auto
    ultimately show "local_to r g (leave_published p (p_id (par h1 p)) x h')"
      using local_leave_loops(1) [OF _ p(1)] by (metis prod.collapse)
  qed
  have "npar (fold (leave_published p i) xs h) = npar h" for i xs h
    by (induction xs arbitrary: h) (auto simp: leave_published_def track_ops)
  then have n2: "npar h2 = npar h" using n1 by (simp add: h2_def)
  have h3: "local_to r g h3" unfolding h3_def
  proof (rule local_fold [OF _ h2])
    fix x h' assume x: "x \<in> set (subTracks (par h2 p))" and "local_to r g h'"
    moreover have "own_t r g (snd x)" using local_toD(11) [OF h2 p(1)] x p(2) n2 unfolding held_def by auto
    ultimately show "local_to r g (leave_subscribed p (p_id (par h1 p)) x h')"
      using local_leave_loops(2) [OF _ p(1)] by (metis prod.collapse)
  qed
  have "Participant_Leave p h = upd_par p (\<lambda>x. x\<lparr>pubTracks := [], subTracks := [], p_room := None\<rparr>) h3"
    by (simp add: Participant_Leave_def Let_def h1_def h2_def h3_def)
  then show ?thesis using local_par [OF h3 p(1)] by (simp add: held_def)
qed


subsection \<open>Operations of rooms\<close>

lemma member_own:
  assumes "local_to r g h" and "is_member r h i p"
  shows "own_p r g p" and "p < npar h"
  using local_toD(8,9) [OF assms(1) member_members [OF assms(2)]] by blast+

lemma registry_own:
  assumes "local_to r g h" and "mget (tracks (rom h r)) k = Some t"
  shows "own_t r g t"
  using local_toD(10) [OF assms(1)] map_of_SomeD [OF assms(2)] by force

lemma local_registry:
  assumes "local_to r g h"
  shows "local_to r g (upd_rom r (\<lambda>x. x\<lparr>r_state := s\<rparr>) h)"
    "local_to r g (upd_rom r (\<lambda>x. x\<lparr>tracks := mdel k (tracks x)\<rparr>) h)"
    "local_to r g (upd_rom r (\<lambda>x. x\<lparr>participants := mdel k (participants x)\<rparr>) h)"
    "local_to r g (upd_rom r (\<lambda>x. x\<lparr>participants := [], tracks := []\<rparr>) h)"
    "own_t r g t \<Longrightarrow> local_to r g (upd_rom r (\<lambda>x. x\<lparr>tracks := mput k t (tracks x)\<rparr>) h)"
    "own_p r g p \<Longrightarrow> p < npar h \<Longrightarrow> local_to r g (upd_rom r (\<lambda>x. x\<lparr>participants := mput k p (participants x)\<rparr>) h)"
proof -
  have mdel: "snd ` set (mdel k m) \<subseteq> snd ` set m" for k and m :: "(string, nat) gomap"
    using set_mdel [of k m] by auto
  have mput: "snd ` set (mput k v m) \<subseteq> snd ` set m \<union> {x. P x}" if "P v" for k v P and m :: "(string, nat) gomap"
    using set_mput [of k v m] that by auto
  show "local_to r g (upd_rom r (\<lambda>x. x\<lparr>r_state := s\<rparr>) h)"
    by (rule local_rom [OF assms]) simp_all
  show "local_to r g (upd_rom r (\<lambda>x. x\<lparr>tracks := mdel k (tracks x)\<rparr>) h)"
    by (rule local_rom [OF assms]) (simp_all add: le_supI1 mdel)
  show "local_to r g (upd_rom r (\<lambda>x. x\<lparr>participants := mdel k (participants x)\<rparr>) h)"
    by (rule local_rom [OF assms]) (simp_all add: le_supI1 mdel)
  show "local_to r g (upd_rom r (\<lambda>x. x\<lparr>participants := [], tracks := []\<rparr>) h)"
    by (rule local_rom [OF assms]) simp_all
  show "local_to r g (upd_rom r (\<lambda>x. x\<lparr>tracks := mput k t (tracks x)\<rparr>) h)" if "own_t r g t"
    by (rule local_rom [OF assms]) (use that in \<open>simp_all add: mput\<close>)
  show "local_to r g (upd_rom r (\<lambda>x. x\<lparr>participants := mput k p (participants x)\<rparr>) h)"
    if "own_p r g p" "p < npar h"
    by (rule local_rom [OF assms]) (use that in \<open>simp_all add: mput\<close>)
qed

lemma local_detach:
  assumes l: "local_to r g h" and t: "own_t r g t"
  shows "local_to r g (detach_subscriber r t excl j h)"
proof -
  let ?h1 = "case mget (participants (rom h r)) j of
      Some q \<Rightarrow> snd (Participant_UnsubscribeTrack q (t_id (trk h t)) h) | None \<Rightarrow> h"
  have "local_to r g ?h1"
    using l local_UnsubscribeTrack [OF l] member_own [OF l] by (auto split: option.split)
  then show ?thesis using l t by (simp add: detach_subscriber_def Let_def local_track_ops)
qed

lemma local_destroy:
  assumes l: "local_to r g h" and t: "own_t r g t"
  shows "local_to r g (Room_destroyTrackLocked r t excl h)"
  unfolding Room_destroyTrackLocked_def Let_def
  by (intro local_fold local_detach local_registry(2) local_track_ops l t)

lemma local_leave_destroy:
  assumes "local_to r g h" and "own_p r g p" and "p < npar h"
  shows "local_to r g (leave_destroy r p i k h)"
  using assms local_destroy [OF assms(1) local_toD(11) [OF assms]] mget_held(1)
  by (auto simp: leave_destroy_def Participant_GetPublishedTrack_def split: option.split)

lemma local_leave_purge: "local_to r g h \<Longrightarrow> local_to r g (leave_purge r i k h)"
  using local_destroy registry_own by (auto simp: leave_purge_def split: option.split)

lemma local_leave_unsubscribe:
  assumes "local_to r g h" and "own_p r g p" and "p < npar h"
  shows "local_to r g (leave_unsubscribe r p k h)"
  using local_UnsubscribeTrack [OF assms, of k] local_registry(2)
  by (auto simp: leave_unsubscribe_def Let_def split: option.split)

lemma local_Leave:
  assumes ok: "room_ok r h" and lv: "Room_Leave r i h = (e, h')"
  shows "local_to r h h'"
  using lv
proof (cases rule: Leave_cases)
  case (left p)
  define h1 where "h1 = fold (leave_destroy r p i) (Participant_PublishedTracks p h) h"
  define h2 where "h2 = fold (leave_purge r i) (mkeys (tracks (rom h1 r))) h1"
  define h3 where "h3 = fold (leave_unsubscribe r p) (Participant_SubscribedTracks p h2) h2"
  have l: "local_to r h h" by (rule local_refl [OF ok])
  have p: "own_p r h p" "p < npar g" if "local_to r h g" for g
    using member_own [OF l left(2)] local_toD(5) [OF that] by simp_all
  have h1: "local_to r h h1" unfolding h1_def by (rule local_fold [OF _ l]) (blast intro: local_leave_destroy p)
  have h2: "local_to r h h2" unfolding h2_def by (rule local_fold [OF _ h1]) (blast intro: local_leave_purge)
  have h3: "local_to r h h3" unfolding h3_def by (rule local_fold [OF _ h2]) (blast intro: local_leave_unsubscribe p)
  have "h' = upd_rom r (\<lambda>x. x\<lparr>participants := mdel i (participants x)\<rparr>) h3"
    using lv left by (auto simp: Room_Leave_def Let_def h1_def h2_def h3_def)
  then show ?thesis using local_registry(3) [OF h3] by simp
qed (use local_refl [OF ok] in simp_all)

lemma local_Close:
  assumes ok: "room_ok r h" and cl: "Room_Close r h = (e, h')"
  shows "local_to r h h'"
proof (cases "r_state (rom h r) = RoomStateClosed")
  case False
  define h1 where "h1 = upd_rom r (\<lambda>x. x\<lparr>r_state := RoomStateClosed\<rparr>) h"
  define h2 where "h2 = leave_all (participants (rom h r)) h1"
  have l: "local_to r h h" by (rule local_refl [OF ok])
  have h1: "local_to r h h1" unfolding h1_def by (rule local_registry(1) [OF l])
  have "local_to r h h2" unfolding h2_def
  proof (rule local_fold [OF _ h1])
    fix x g assume x: "x \<in> set (participants (rom h r))" and g: "local_to r h g"
    have "snd x \<in> members r h" using x unfolding members_def by auto
    then have "own_p r h (snd x)" "snd x < npar g" using local_toD(8,9) [OF l] local_toD(5) [OF g] by fastforce+
    then show "local_to r h ((case x of (_, p) \<Rightarrow> Participant_Leave p) g)"
      using local_Participant_Leave [OF g] by (simp add: case_prod_beta)
  qed
  moreover have "h' = upd_rom r (\<lambda>x. x\<lparr>participants := [], tracks := []\<rparr>) h2"
    using cl False by (auto simp: Room_Close_def Let_def h1_def h2_def)
  ultimately show ?thesis using local_registry(4) by simp
qed (use local_refl [OF ok] cl in \<open>simp add: Room_Close_def\<close>)

lemma local_join:
  assumes ok: "room_ok r h" and j: "join_new r i name h = (res, h')"
  shows "local_to r h h'"
proof -
  obtain p h1 where n: "NewParticipant i name h = (p, h1)" by fastforce
  note N = local_NewParticipant [OF local_refl [OF ok] n]
  obtain e h2 where rj: "Room_Join r p h1 = (e, h2)" by fastforce
  have h2: "local_to r h h2"
    using rj N local_registry(6) [OF N(1-3)] by (auto simp: Room_Join_def split: if_splits)
  have "local_to r h (Participant_SetRoom p (Some r) h2)"
    unfolding Participant_SetRoom_def by (rule local_par [OF h2 N(2)]) (simp add: held_def)
  then show ?thesis using j n rj h2 by (auto simp: join_new_def split: option.splits)
qed

lemma lookup_own:
  assumes ok: "room_ok r h" and "room_lookup_track r k h = Some t"
  shows "own_t r h t"
proof -
  note l = local_refl [OF ok]
  obtain j q where "is_member r h j q" "mget (pubTracks (par h q)) k = Some t"
    by (rule lookup_published [OF assms])
  then show ?thesis using local_toD(11) [OF l member_own [OF l]] mget_held(1) by blast
qed

lemma local_publish:
  assumes ok: "room_ok r h" and m: "is_member r h i p" and n: "NewTrack k kd src h = (Inr t, h1)"
    and pub: "Participant_PublishTrack p t h1 = (e, h2)"
  shows "local_to r h h2" and "own_p r h p" and "own_t r h t"
    and "Room_PublishTrack r t h2 = (e', h3) \<Longrightarrow> local_to r h h3"
proof -
  note l = local_refl [OF ok]
  note N = local_NewTrack [OF l n]
  show p: "own_p r h p" and t: "own_t r h t" using member_own(1) [OF l m] N(2) by blast+
  show h2: "local_to r h h2" using local_PublishTrack [OF N(1) p t] pub by simp
  show "local_to r h h3" if "Room_PublishTrack r t h2 = (e', h3)"
    using that h2 local_registry(5) [OF h2 t] by (auto simp: Room_PublishTrack_def split: if_splits)
qed

text \<open>Every step of the room protocol stays in its room.\<close>

lemma room_step_local: "room_step r h h' \<Longrightarrow> room_ok r h \<Longrightarrow> local_to r h h'"
proof (induction rule: room_step.induct)
  case (create h)
  then show ?case using local_refl local_registry(1) by (auto simp: Room_Create_def)
next
  case (publish_undone h i p k kd src t h1 h2 e h3 e' h4)
  note P = local_publish [OF publish_undone(6,1-3)]
  have h3: "local_to r h h3" using P(4) publish_undone(4) by blast
  have "p < npar h3" using member_own(2) [OF local_refl [OF publish_undone(6)] publish_undone(1)] local_toD(5) [OF h3] by simp
  then show ?case using local_UnpublishTrack [OF h3 P(2)] publish_undone(5) by (metis snd_conv)
next
  case (unpublish h i p k h1 e h2)
  note l = local_refl [OF unpublish(4)]
  have "local_to r h h1"
    using local_UnpublishTrack [OF l member_own [OF l unpublish(1)], of k] unpublish(2) by simp
  then show ?case using unpublish(3) local_registry(2) by (auto simp: Room_UnpublishTrack_def split: if_splits)
next
  case (subscribe h i p k e h')
  note l = local_refl [OF subscribe(3)]
  show ?case
    using subscribe(2) l local_SubscribeTrack [OF l member_own(1) [OF l subscribe(1)] lookup_own [OF subscribe(3)]]
    by (auto simp: Room_SubscribeToTrack_def split: if_splits option.splits) (metis snd_conv)
next
  case (unsubscribe h i p k e h')
  note l = local_refl [OF unsubscribe(3)]
  show ?case
    using unsubscribe(2) l local_UnsubscribeTrack [OF l member_own [OF l unsubscribe(1)], of k]
    by (auto simp: Room_UnsubscribeFromTrack_def split: if_splits)
next
  case (reconnect h i p)
  note l = local_refl [OF reconnect(2)]
  show ?case unfolding Participant_SetRoom_def
    by (rule local_par [OF l member_own(1) [OF l reconnect(1)]]) (simp add: held_def)
next
  case (remote_track k kd src h t h1 p)
  note N = local_NewTrack [OF local_refl [OF remote_track(2)] remote_track(1)]
  show ?case by (intro local_track_ops N)
qed (blast intro: local_join local_Leave local_Close local_publish(1) local_publish(4))+

subsection \<open>Separate rooms\<close>

definition separate :: "raddr \<Rightarrow> raddr \<Rightarrow> dheap \<Rightarrow> bool" where
  "separate r r' h \<longleftrightarrow> members r h \<inter> members r' h = {} \<and> footprint r h \<inter> footprint r' h = {}"

lemma separate_sym: "separate r r' h \<Longrightarrow> separate r' r h"
  unfolding separate_def by blast

lemma members_bound: "room_ok r h \<Longrightarrow> p \<in> members r h \<Longrightarrow> p < npar h"
  using local_toD(9) [OF local_refl] by blast

lemma held_member:
  assumes ok: "room_ok r h" and m: "is_member r h i p" and t: "t \<in> held (par h p)"
  shows "t < ntrk h"
proof -
  note I = room_invD [OF room_okD(1) [OF ok]]
  note M = members_okD [OF I(1) m]
  from t obtain k where "mget (pubTracks (par h p)) k = Some t \<or> mget (subTracks (par h p)) k = Some t"
    unfolding held_def using map_of_is_SomeI [OF M(4)] map_of_is_SomeI [OF M(5)] by force
  then show ?thesis using pubs_ownedD(4) [OF I(3) m] sub_keyed(2) [OF I(2) m] by blast
qed

lemma footprint_bound:
  assumes ok: "room_ok r h" and t: "t \<in> footprint r h"
  shows "t < ntrk h"
proof -
  note I = room_invD [OF room_okD(1) [OF ok]]
  have "\<exists>p \<in> members r h. t \<in> held (par h p)"
  proof (cases "t \<in> snd ` set (tracks (rom h r))")
    case True
    then obtain k where "(k, t) \<in> set (tracks (rom h r))" by auto
    moreover have "wf_map (tracks (rom h r))" using I(4) by (simp add: registry_live_def)
    ultimately have "mget (tracks (rom h r)) k = Some t" by (simp add: map_of_is_SomeI)
    then obtain j q where "is_member r h j q" "mget (pubTracks (par h q)) k = Some t"
      by (rule registry_liveE [OF I(4)])
    then show ?thesis using member_members mget_held(1) by blast
  qed (use t in \<open>auto simp: footprint_def\<close>)
  then show ?thesis using held_member [OF ok members_member [OF ok]] by blast
qed

text \<open>Work in room \<open>r\<close> leaves every object of a separate room \<open>r'\<close> as it was.\<close>

lemma local_frame:
  assumes l: "local_to r g h" and s: "separate r r' g" and ne: "r' \<noteq> r" and ok: "room_ok r' g"
  shows "rom h r' = rom g r'" and "p \<in> members r' g \<Longrightarrow> par h p = par g p"
    and "t \<in> footprint r' g \<Longrightarrow> trk h t = trk g t"
    and "members r' h = members r' g" and "footprint r' h = footprint r' g"
proof -
  show rom: "rom h r' = rom g r'" by (rule local_toD(1) [OF l ne])
  show par: "par h p = par g p" if "p \<in> members r' g" for p
    by (rule local_toD(3) [OF l]) (use that s members_bound [OF ok that] in \<open>auto simp: own_p_def separate_def\<close>)
  show "trk h t = trk g t" if "t \<in> footprint r' g"
    by (rule local_toD(4) [OF l]) (use that s footprint_bound [OF ok that] in \<open>auto simp: own_t_def separate_def\<close>)
  show mem: "members r' h = members r' g" by (simp add: members_def rom)
  have "(\<Union>p \<in> members r' g. held (par h p)) = (\<Union>p \<in> members r' g. held (par g p))"
    by (rule SUP_cong) (simp_all add: par)
  then show "footprint r' h = footprint r' g" by (simp add: footprint_def rom mem)
qed

lemma local_not_foreign:
  assumes s: "separate r r' g" and ok: "room_ok r' g"
  shows "p \<in> members r' g \<Longrightarrow> \<not> own_p r g p" and "t \<in> footprint r' g \<Longrightarrow> \<not> own_t r g t"
  using s members_bound [OF ok] footprint_bound [OF ok]
  by (auto simp: own_p_def own_t_def separate_def dest: leD)

lemma local_separate:
  assumes l: "local_to r g h" and s: "separate r r' g" and ne: "r' \<noteq> r" and ok: "room_ok r' g"
  shows "separate r r' h"
proof -
  note F = local_frame [OF l s ne ok] and N = local_not_foreign [OF s ok]
  have "own_t r g t" if "t \<in> footprint r h" for t
    using that local_toD(10) [OF l] local_toD(11) [OF l local_toD(8,9) [OF l]] unfolding footprint_def by blast
  then show ?thesis
    using N local_toD(8) [OF l] unfolding separate_def F(4,5) by blast
qed

lemma member_held:
  "is_member r h i p \<Longrightarrow> mget (pubTracks (par h p)) k = Some t \<Longrightarrow> t \<in> footprint r h"
  "is_member r h i p \<Longrightarrow> mget (subTracks (par h p)) k = Some t \<Longrightarrow> t \<in> footprint r h"
  by (auto simp: footprint_def simp del: map_of_eq_Some_iff dest!: member_members mget_held)

text \<open>A member of \<open>r'\<close> subscribes after the work exactly to what it subscribed to before.\<close>

lemma local_subscribers:
  assumes l: "local_to r g h" and s: "separate r r' g" and ok: "room_ok r' g"
    and m: "is_member r' g i p" and t: "t < ntrk h"
  shows "mget (subscribers (trk h t)) i = Some p \<longleftrightarrow> t < ntrk g \<and> mget (subscribers (trk g t)) i = Some p"
proof
  assume "mget (subscribers (trk h t)) i = Some p"
  then show "t < ntrk g \<and> mget (subscribers (trk g t)) i = Some p"
    using local_toD(12) [OF l t] local_not_foreign(1) [OF s ok member_members [OF m]] by blast
next
  assume old: "t < ntrk g \<and> mget (subscribers (trk g t)) i = Some p"
  then have "mget (subTracks (par g p)) (t_id (trk g t)) = Some t"
    using sub_iff [OF room_invD(2) [OF room_okD(1) [OF ok]] m] by blast
  then have "t \<in> footprint r' g" using member_held(2) [OF m] by blast
  then show "mget (subscribers (trk h t)) i = Some p"
    using old local_toD(4) [OF l local_not_foreign(2) [OF s ok]] by simp
qed

lemma local_room_ok:
  assumes l: "local_to r g h" and s: "separate r r' g" and ne: "r' \<noteq> r" and ok: "room_ok r' g"
    and wf: "subs_wf h"
  shows "room_ok r' h"
proof (rule room_okI)
  note I = room_invD [OF room_okD(1) [OF ok]] and F = local_frame [OF l s ne ok]
  have rom: "rom h r' = rom g r'" and mono: "npar g \<le> npar h" "ntrk g \<le> ntrk h"
    using F(1) local_toD(5,6) [OF l] by blast+
  have par: "par h p = par g p" if "is_member r' g i p" for i p using F(2) member_members [OF that] by blast
  show "members_ok r' h"
    using I(1) par mono(1) unfolding members_ok_def rom by (metis order_less_le_trans)
  show "sub_symmetric r' h"
  proof (rule sub_symmetricI)
    fix i p k t assume "is_member r' h i p" and k: "mget (subTracks (par h p)) k = Some t"
    then have m: "is_member r' g i p" and k: "mget (subTracks (par g p)) k = Some t" using par by (simp_all add: rom)
    show "t_id (trk h t) = k \<and> t < ntrk h"
      using sub_keyed [OF I(2) m k] F(3) [OF member_held(2) [OF m k]] mono(2) by simp
  next
    fix i p t assume "is_member r' h i p" and t: "t < ntrk h"
    then have m: "is_member r' g i p" by (simp add: rom)
    have "mget (subTracks (par g p)) (t_id (trk h t)) = Some t \<longleftrightarrow>
        t < ntrk g \<and> mget (subTracks (par g p)) (t_id (trk g t)) = Some t"
      using F(3) [OF member_held(2) [OF m]] sub_keyed(2) [OF I(2) m] by metis
    then show "mget (subscribers (trk h t)) i = Some p \<longleftrightarrow> mget (subTracks (par h p)) (t_id (trk h t)) = Some t"
      using local_subscribers [OF l s ok m t] sub_iff [OF I(2) m] par [OF m] by auto
  qed
  show "pubs_owned r' h"
  proof (rule pubs_ownedI)
    fix i p k t assume "is_member r' h i p" and "mget (pubTracks (par h p)) k = Some t"
    then have m: "is_member r' g i p" and k: "mget (pubTracks (par g p)) k = Some t" using par by (simp_all add: rom)
    note P = pubs_ownedD [OF I(3) m k] and t = F(3) [OF member_held(1) [OF m k]]
    show "t_id (trk h t) = k \<and> publisher (trk h t) = Some p \<and> t_state (trk h t) = TrackStatePublished \<and> t < ntrk h"
      using P(1-4) t mono(2) by simp
    show "is_member r' h j q" if "mget (subscribers (trk h t)) j = Some q" for j q
      using that P(5) t rom by simp
  qed
  show "registry_live r' h"
    using I(4) par unfolding registry_live_def rom by metis
qed (use wf room_okD(2) [OF ok] local_frame(1) [OF l s ne ok] in simp_all)

subsection \<open>All rooms together\<close>

definition rooms_ok :: "raddr set \<Rightarrow> dheap \<Rightarrow> bool" where
  "rooms_ok R h \<longleftrightarrow> subs_wf h \<and> (\<forall>r \<in> R. r < nrom h \<and> room_ok r h) \<and>
     (\<forall>r \<in> R. \<forall>r' \<in> R. r \<noteq> r' \<longrightarrow> separate r r' h)"

lemma rooms_okD:
  assumes "rooms_ok R h"
  shows "subs_wf h" "r \<in> R \<Longrightarrow> r < nrom h" "r \<in> R \<Longrightarrow> room_ok r h"
    "r \<in> R \<Longrightarrow> r' \<in> R \<Longrightarrow> r \<noteq> r' \<Longrightarrow> separate r r' h"
  using assms unfolding rooms_ok_def by blast+

lemma rooms_ok_subset: "rooms_ok R h \<Longrightarrow> S \<subseteq> R \<Longrightarrow> rooms_ok S h"
  unfolding rooms_ok_def by blast

lemma rooms_ok_step:
  assumes ok: "rooms_ok R h" and r: "r \<in> R" and st: "room_step r h h'"
  shows "rooms_ok R h'"
proof -
  have okr: "room_ok r h'" by (rule room_step_ok [OF st rooms_okD(3) [OF ok r]])
  then have wf: "subs_wf h'" using room_invD(5) room_okD(1) by blast
  have l: "local_to r h h'" by (rule room_step_local [OF st rooms_okD(3) [OF ok r]])
  note O = rooms_okD [OF ok]
  have room: "room_ok x h'" if "x \<in> R" for x
    using okr local_room_ok [OF l O(4) [OF r that] _ O(3) [OF that] wf] by (cases "x = r") auto
  have sep: "separate r x h'" if "x \<in> R" "x \<noteq> r" for x
    using local_separate [OF l O(4) [OF r that(1)] that(2) O(3) [OF that(1)]] that(2) by blast
  have "separate x y h'" if "x \<in> R" "y \<in> R" "x \<noteq> y" "x \<noteq> r" "y \<noteq> r" for x y
    using local_frame(4,5) [OF l O(4) [OF r that(1)] that(4) O(3) [OF that(1)]]
      local_frame(4,5) [OF l O(4) [OF r that(2)] that(5) O(3) [OF that(2)]] O(4) [OF that(1-3)] that(4,5)
    unfolding separate_def by simp
  then have "separate x y h'" if "x \<in> R" "y \<in> R" "x \<noteq> y" for x y
    using that sep [of y] separate_sym [OF sep [of x]] by metis
  then show ?thesis
    unfolding rooms_ok_def using wf room O(2) local_toD(7) [OF l] by simp
qed

lemma rooms_ok_steps: "(room_step r)\<^sup>*\<^sup>* h h' \<Longrightarrow> r \<in> R \<Longrightarrow> rooms_ok R h \<Longrightarrow> rooms_ok R h'"
  by (induction rule: rtranclp_induct) (blast intro: rooms_ok_step)+

text \<open>What a run in room \<open>r\<close> leaves alone.\<close>

definition untouched :: "raddr \<Rightarrow> dheap \<Rightarrow> dheap \<Rightarrow> bool" where
  "untouched r' h h' \<longleftrightarrow> rom h' r' = rom h r' \<and> (\<forall>p \<in> members r' h. par h' p = par h p) \<and>
     (\<forall>t \<in> footprint r' h. trk h' t = trk h t)"

lemma local_untouched:
  assumes "local_to r g h" "separate r r' g" "r' \<noteq> r" "room_ok r' g"
  shows "untouched r' g h" and "members r' h = members r' g" and "footprint r' h = footprint r' g"
  using local_frame [OF assms] unfolding untouched_def by blast+

lemma rooms_untouched:
  assumes "(room_step r)\<^sup>*\<^sup>* h h'" and r: "r \<in> R" "r' \<in> R" "r' \<noteq> r" and ok: "rooms_ok R h"
  shows "untouched r' h h' \<and> members r' h' = members r' h \<and> footprint r' h' = footprint r' h"
  using assms(1)
proof (induction rule: rtranclp_induct)
  case (step g h')
  have okg: "rooms_ok R g" by (rule rooms_ok_steps [OF step(1) r(1) ok])
  have l: "local_to r g h'" by (rule room_step_local [OF step(2) rooms_okD(3) [OF okg r(1)]])
  have s: "separate r r' g" using rooms_okD(4) [OF okg r(1,2)] r(3) by blast
  note U = local_untouched [OF l s r(3) rooms_okD(3) [OF okg r(2)]]
  show ?case
  proof (intro conjI)
    show "members r' h' = members r' h" "footprint r' h' = footprint r' h" using U(2,3) step.IH by simp_all
    show "untouched r' h h'" using U(1) step.IH unfolding untouched_def by auto
  qed
qed (simp add: untouched_def)

lemma rooms_ok_NewRoom:
  assumes ok: "rooms_ok R h" and n: "NewRoom i h = (r, h')"
  shows "rooms_ok (insert r R) h'" and "r \<notin> R" and "\<forall>x \<in> R. untouched x h h'"
    and "r_id (rom h' r) = i" and "\<forall>x \<in> R. rom h' x = rom h x"
proof -
  note O = rooms_okD [OF ok]
  have N: "r = nrom h" "h' = h\<lparr>rom := (rom h)(nrom h := mkRoom i), nrom := Suc (nrom h)\<rparr>"
    using n by (auto simp: NewRoom_def)
  show r: "r \<notin> R" using O(2) N(1) by blast
  have rom: "rom h' x = rom h x" if "x \<in> R" for x using that O(2) [OF that] N by simp
  then show "\<forall>x \<in> R. rom h' x = rom h x" by blast
  have same: "par h' = par h" "trk h' = trk h" "ntrk h' = ntrk h" "npar h' = npar h" "rom h' r = mkRoom i" "nrom h' = Suc (nrom h)"
    using N by simp_all
  show "r_id (rom h' r) = i" using same(5) by (simp add: mkRoom_def)
  show "\<forall>x \<in> R. untouched x h h'" using rom same by (simp add: untouched_def)
  have mem: "members x h' = members x h" "footprint x h' = footprint x h" if "x \<in> R" for x
    using rom [OF that] same by (simp_all add: members_def footprint_def)
  have new: "members r h' = {}" "footprint r h' = {}" using same by (simp_all add: members_def footprint_def mkRoom_def)
  have "subs_wf h'" using O(1) same by (simp add: subs_wf_def)
  moreover have "room_ok r h'" by (rule room_start_ok) (use O(1) n in \<open>auto simp: room_start_def\<close>)
  moreover have "room_ok x h'" if "x \<in> R" for x
    by (rule room_ok_frame [OF O(3) [OF that]]) (simp_all add: same rom [OF that])
  moreover have "separate x y h'" if "x \<in> insert r R" "y \<in> insert r R" "x \<noteq> y" for x y
    using that mem [of x] mem [of y] new O(4) [of x y] unfolding separate_def by (cases "x = r"; cases "y = r") simp_all
  moreover have "x < nrom h'" if "x \<in> insert r R" for x using that O(2) same(6) N(1) by (auto simp: less_Suc_eq)
  ultimately show "rooms_ok (insert r R) h'" unfolding rooms_ok_def by blast
qed

end
