(* ===== verification/Server_Protocol.thy ===== *)
theory Server_Protocol
  imports Handler_Registries Domain_Separation
begin

text \<open>
  The whole server: all rooms, all connections, all events, among them the connections and the
  \<open>create_room\<close> requests that make new rooms. Its invariant says that the registry of rooms is
  well formed, that every registered room satisfies the room invariant, that rooms share
  neither members nor tracks, and that the media registries are well typed.
\<close>

inductive server_step :: "'p env \<Rightarrow> 'p Handler \<Rightarrow> 'p Handler \<Rightarrow> bool" for E where
  accept: "server_step E h (snd (ServeHTTP roomID participantID c h))"
| open_conn: "handleConnection_open E c h = (res, h') \<Longrightarrow> server_step E h h'"
| round: "RoomManager_GetRoom (h_roomManager h) rid = Some r \<Longrightarrow> is_member r (h_dom h) i p \<Longrightarrow>
    handleConnection_step E c r p h = Some (go, h') \<Longrightarrow> server_step E h h'"
| timer: "server_step E h (ghostTimer_fires E i h)"
| task: "server_step E h (run_nth_task E n h)"
| needed: "server_step E h (negotiationNeeded E a h)"
| candidate: "server_step E h (dispatchICECandidate a cand h)"
| remote: "server_step E h (PC_handleTrack E a wireID video ssrc codec h)"
| feedback: "server_step E h (rtcpObserver E a trackID pkt h)"
| close_room: "Handler_CloseRoom E rid h = (e, h') \<Longrightarrow> server_step E h h'"
| shutdown: "server_step E h (Handler_Shutdown E h)"

definition registered :: "'p Handler \<Rightarrow> raddr set" where
  "registered h = snd ` set (h_roomManager h)"

definition server_inv :: "'p Handler \<Rightarrow> bool" where
  "server_inv h \<longleftrightarrow> wf_map (h_roomManager h) \<and>
     (\<forall>i r. RoomManager_GetRoom (h_roomManager h) i = Some r \<longrightarrow> r_id (rom (h_dom h) r) = i) \<and>
     rooms_ok (registered h) (h_dom h) \<and> media_ok h"

definition server_start :: "'p Handler \<Rightarrow> bool" where
  "server_start h \<longleftrightarrow> h_roomManager h = [] \<and> h_peerConnections h = [] \<and> h_trackForwarders h = [] \<and> subs_wf (h_dom h)"

lemma server_invD:
  assumes "server_inv h"
  shows "wf_map (h_roomManager h)" "RoomManager_GetRoom (h_roomManager h) i = Some r \<Longrightarrow> r_id (rom (h_dom h) r) = i"
    "rooms_ok (registered h) (h_dom h)" "media_ok h"
  using assms unfolding server_inv_def by blast+

lemma server_start_inv: "server_start h \<Longrightarrow> server_inv h"
  by (simp add: server_start_def server_inv_def registered_def RoomManager_GetRoom_def rooms_ok_def media_ok_def reg_ok_def)

lemma GetRoom_registered: "RoomManager_GetRoom (h_roomManager h) i = Some r \<Longrightarrow> r \<in> registered h"
  unfolding registered_def RoomManager_GetRoom_def by (force dest: map_of_SomeD)

lemma registered_GetRoom:
  "wf_map (h_roomManager h) \<Longrightarrow> r \<in> registered h \<Longrightarrow> \<exists>i. RoomManager_GetRoom (h_roomManager h) i = Some r"
  unfolding registered_def RoomManager_GetRoom_def by (auto dest: map_of_is_SomeI)

subsection \<open>Work in one registered room\<close>

lemma room_step_r_id: "room_steps r h h' \<Longrightarrow> room_ok r h \<Longrightarrow> (\<forall>x. r_id (rom h' x) = r_id (rom h x)) \<and> room_ok r h'"
proof (induction rule: rtranclp_induct)
  case (step g h')
  then have g: "\<forall>x. r_id (rom g x) = r_id (rom h x)" "room_ok r g" by blast+
  note l = room_step_local [OF step(2) g(2)]
  have "r_id (rom h' x) = r_id (rom g x)" for x using local_toD(1,2) [OF l] by (cases "x = r") auto
  then show ?case using g room_step_ok [OF step(2)] by simp
qed simp

lemma inv_in_room:
  assumes inv: "server_inv h" and r: "r \<in> registered h"
    and st: "room_steps r (h_dom h) (h_dom h')" and k: "keeps h h'"
  shows "server_inv h'"
proof -
  note I = server_invD [OF inv]
  have same: "h_roomManager h' = h_roomManager h" and m: "media_ok h'" using k I(4) by (auto simp: keeps_def)
  have "\<forall>x. r_id (rom (h_dom h') x) = r_id (rom (h_dom h) x)"
    using room_step_r_id [OF st rooms_okD(3) [OF I(3) r]] by blast
  moreover have "rooms_ok (registered h) (h_dom h')" by (rule rooms_ok_steps [OF st r I(3)])
  ultimately show ?thesis using I(1,2) m same unfolding server_inv_def registered_def by simp
qed

lemma inv_quiet:
  assumes inv: "server_inv h" and "h_dom h' = h_dom h" and "keeps h h'"
  shows "server_inv h'"
  using assms unfolding server_inv_def keeps_def registered_def by simp

lemma subs_wf_new_track:
  assumes "subs_wf d" and "NewTrack k kd src d = (Inr t, d1)"
  shows "subs_wf (Track_Publish t (Track_SetPublisher t p d1))"
  using assms NewTrack_heap [OF assms(2)] unfolding subs_wf_def
  by (auto simp: track_ops mkTrack_def less_Suc_eq)

lemma inv_remote:
  assumes inv: "server_inv h"
  shows "server_inv (PC_handleTrack E a w v ssrc codec h)"
proof (cases "registered h = {}")
  case True
  note I = server_invD [OF inv]
  let ?h = "PC_handleTrack E a w v ssrc codec h"
  have k: "keeps h ?h" by (rule reg.R_handleTrack)
  obtain x d1 where x: "remote_domain_track (h_pcOwner h a) w v (h_dom h) = (x, d1)" by fastforce
  have "subs_wf d1"
    using x rooms_okD(1) [OF I(3)] subs_wf_new_track [of "h_dom h"]
    by (auto simp: remote_domain_track_def dest: NewTrack_InlD split: option.splits prod.splits sum.splits)
  moreover have "h_dom ?h = d1"
  proof -
    have on: "h_dom (onTrack E p t g) = h_dom g" for p t and g :: "'a Handler"
      using getOrCreateForwarder_sessionD [of E "wt_id t" "Some t" g] same_session_dom
      by (fastforce simp: onTrack_def split: prod.splits sum.splits option.splits)
    show ?thesis using x by (simp add: PC_handleTrack_def Let_def on split: sum.split)
  qed
  moreover have "h_roomManager ?h = []" using k True by (simp add: keeps_def registered_def)
  ultimately show ?thesis
    using k I(4) by (simp add: server_inv_def keeps_def registered_def rooms_ok_def RoomManager_GetRoom_def)
next
  case False
  then obtain r where "r \<in> registered h" by blast
  then show ?thesis using inv_in_room [OF inv _ remote_steps reg.R_handleTrack] by blast
qed

subsection \<open>New rooms\<close>

lemma add_room_inv:
  assumes inv: "server_inv h" and i: "RoomManager_GetRoom (h_roomManager h) i = None"
    and a: "RoomManager_add i (h_roomManager h) (h_dom h) = (res, rm, d)"
  shows "server_inv (h\<lparr>h_roomManager := rm, h_dom := d\<rparr>)"
    and "res = Inr r \<Longrightarrow> r \<in> registered (h\<lparr>h_roomManager := rm, h_dom := d\<rparr>)"
    and "\<forall>x \<in> registered h. untouched x (h_dom h) d"
proof -
  note I = server_invD [OF inv]
  obtain n h1 where new: "NewRoom i (h_dom h) = (n, h1)" by fastforce
  note N = rooms_ok_NewRoom [OF I(3) new]
  have n: "n = nrom (h_dom h)" using new by (simp add: NewRoom_def)
  have cr: "Room_Create n h1 = (None, d)" "res = Inr n" "rm = mput i n (h_roomManager h)"
    using a new by (auto simp: RoomManager_add_def NewRoom_def Room_Create_def mkRoom_def)
  have st: "room_steps n h1 d" using room_step.create [of n h1] cr(1) by auto
  have ok: "rooms_ok (insert n (registered h)) d" by (rule rooms_ok_steps [OF st _ N(1)]) simp
  have ids: "\<forall>x. r_id (rom d x) = r_id (rom h1 x)"
    using room_step_r_id [OF st rooms_okD(3) [OF N(1)]] by simp
  have reg: "registered (h\<lparr>h_roomManager := rm, h_dom := d\<rparr>) = insert n (registered h)"
  proof -
    have "snd ` set (mput i n m) = insert n (snd ` set m)" if "mget m i = None" for m :: RoomManager
      using that by (induction m) (auto split: if_splits)
    then show ?thesis using i by (simp add: registered_def cr(3) RoomManager_GetRoom_def)
  qed
  show "r \<in> registered (h\<lparr>h_roomManager := rm, h_dom := d\<rparr>)" if "res = Inr r" using that cr(2) reg by simp
  have "r_id (rom d x) = j" if "RoomManager_GetRoom rm j = Some x" for j x
  proof (cases "j = i")
    case True
    then have "x = n" using that cr(3) by (simp add: RoomManager_GetRoom_def)
    then show ?thesis using True ids N(4) by simp
  next
    case False
    then have g: "RoomManager_GetRoom (h_roomManager h) j = Some x" using that cr(3) by (simp add: RoomManager_GetRoom_def)
    then have "rom h1 x = rom (h_dom h) x" using N(5) GetRoom_registered by blast
    then show ?thesis using ids I(2) [OF g] by simp
  qed
  moreover have "wf_map rm" using I(1) cr(3) by simp
  moreover have "media_ok (h\<lparr>h_roomManager := rm, h_dom := d\<rparr>)" using I(4) by (simp add: media_ok_def)
  ultimately show "server_inv (h\<lparr>h_roomManager := rm, h_dom := d\<rparr>)"
    using ok reg unfolding server_inv_def by simp
  have "untouched x h1 d" if "x \<in> registered h" for x
    using rooms_untouched [OF st _ _ _ N(1), of x] that N(2) by auto
  moreover have "members x h1 = members x (h_dom h)" "footprint x h1 = footprint x (h_dom h)" if "x \<in> registered h" for x
    using N(5) that new by (auto simp: members_def footprint_def NewRoom_def)
  ultimately show "\<forall>x \<in> registered h. untouched x (h_dom h) d"
    using N(3) unfolding untouched_def by auto
qed

lemma get_or_create_inv:
  assumes inv: "server_inv h" and g: "RoomManager_GetOrCreateRoom i (h_roomManager h) (h_dom h) = (res, rm, d)"
  obtains r where "res = Inr r" "server_inv (h\<lparr>h_roomManager := rm, h_dom := d\<rparr>)"
    "r \<in> registered (h\<lparr>h_roomManager := rm, h_dom := d\<rparr>)"
proof (cases "mget (h_roomManager h) i")
  case None
  then have a: "RoomManager_add i (h_roomManager h) (h_dom h) = (res, rm, d)"
    using g by (simp add: RoomManager_GetOrCreateRoom_def)
  then have "res = Inr (nrom (h_dom h))" by (simp add: RoomManager_add_effect)
  then show ?thesis using that add_room_inv [OF inv _ a] None by (simp add: RoomManager_GetRoom_def)
next
  case (Some r)
  then have "res = Inr r" "rm = h_roomManager h" "d = h_dom h" using g by (simp_all add: RoomManager_GetOrCreateRoom_def)
  then show ?thesis using that inv GetRoom_registered [of h i r] Some by (simp add: RoomManager_GetRoom_def)
qed

lemma inv_open:
  assumes inv: "server_inv h" and o: "handleConnection_open E c h = (res, h')"
  shows "server_inv h'"
proof -
  obtain x rm d where g: "RoomManager_GetOrCreateRoom (c_roomID (h_conn h c)) (h_roomManager h) (h_dom h) = (x, rm, d)"
    by (metis prod_cases3)
  let ?h1 = "h\<lparr>h_roomManager := rm, h_dom := d\<rparr>"
  obtain r where r: "x = Inr r" "server_inv ?h1" "r \<in> registered ?h1" by (rule get_or_create_inv [OF inv g])
  obtain y h2 where en: "enter_room E c r (c_participantID (h_conn h c)) ?h1 = (y, h2)" by fastforce
  have i2: "server_inv h2" by (rule inv_in_room [OF r(2,3) enter_room_steps [OF en] reg.R_enter_room [OF en]])
  have sent: "server_inv h3" "server_inv (end_connection c h3)" if "sendRoomJoined c r p h2 = (e, h3)" for p e h3
  proof -
    have o: "only_sent h2 h3" by (rule sendRoomJoined_only [OF that])
    show i3: "server_inv h3" by (rule inv_quiet [OF i2 only_sentD(1) [OF o] reg.R_sendRoomJoined [OF that]])
    show "server_inv (end_connection c h3)" by (rule inv_quiet [OF i3 _ reg.R_end_connection(1)]) simp
  qed
  show ?thesis
    using o g r(1) en i2 sent by (auto simp: handleConnection_open_def split: option.splits prod.splits)
qed

lemma inv_handleCreateRoom:
  assumes inv: "server_inv h" and c: "handleCreateRoom E c msg h = (e, h')"
  shows "server_inv h'"
proof (cases "UnmarshalData dec_CreateRoomRequest msg")
  case (Inl err)
  then show ?thesis using inv c by (simp add: handleCreateRoom_def)
next
  case (Inr req)
  let ?i = "cr_ParticipantID req" and ?resp = "RoomCreatedResponse (cr_RoomID req) (cr_ParticipantID req) ''success''"
  obtain x rm d where g: "RoomManager_GetOrCreateRoom (cr_RoomID req) (h_roomManager h) (h_dom h) = (x, rm, d)"
    by (metis prod_cases3)
  let ?h1 = "h\<lparr>h_roomManager := rm, h_dom := d\<rparr>"
  obtain r where r: "x = Inr r" "server_inv ?h1" "r \<in> registered ?h1" by (rule get_or_create_inv [OF inv g])
  have sent: "server_inv g'" if "conn_Send c t y g = (e', g')" "server_inv g" for t y e' g g'
    using inv_quiet [OF that(2) conn_Send_dom [OF that(1)] reg.R_conn_Send [OF that(1)]] .
  obtain res d1 where j: "join_new r ?i (cr_ParticipantName req) d = (res, d1)" by fastforce
  have j1: "server_inv (set_dom d1 ?h1)"
    using inv_in_room [OF r(2,3) _ reg.R_updates(2)] room_step.join [OF j] by auto
  show ?thesis
  proof (cases "Room_GetParticipant r ?i d \<noteq> None")
    case True
    then have "conn_Send c MessageTypeRoomCreated ?resp ?h1 = (e, h')"
      using c Inr g r(1) by (simp add: handleCreateRoom_def Let_def)
    then show ?thesis using r(2) by (rule sent)
  next
    case new: False
    show ?thesis
    proof (cases res)
      case (Inl err)
      then have "conn_Send c MessageTypeRoomCreated ?resp (set_dom d1 ?h1) = (e, h') \<or> h' = set_dom d1 ?h1"
        using c Inr g r(1) new j by (auto simp: handleCreateRoom_def Let_def split: if_splits)
      then show ?thesis using j1 sent by blast
    next
      case (Inr p)
      let ?h2 = "set_dom d1 ?h1"
      let ?h3 = "if c_participantID (h_conn ?h2 c) = ?i \<and> c_roomID (h_conn ?h2 c) = cr_RoomID req
           then (case ensurePeerConnection E p c ?h2 of (Inl err, h') \<Rightarrow> h' | (Inr _, h') \<Rightarrow> broadcastParticipantJoined r p h')
           else ?h2"
      obtain y h3 where e: "ensurePeerConnection E p c ?h2 = (y, h3)" by fastforce
      have i3: "server_inv h3"
        by (rule inv_quiet [OF j1]) (use e ensurePeerConnection_dom [of E p c ?h2] reg.R_ensurePeerConnection [of ?h2 E p c] in simp_all)
      have "server_inv (broadcastParticipantJoined r p h3)"
        by (rule inv_quiet [OF i3 _ reg.R_sends(2)]) simp
      then have "server_inv ?h3" using i3 j1 e by (simp split: sum.split)
      moreover have "conn_Send c MessageTypeRoomCreated ?resp ?h3 = (e, h')"
        using c \<open>UnmarshalData dec_CreateRoomRequest msg = Inr req\<close> g r(1) new j Inr
        by (simp only: handleCreateRoom_def Let_def sum.case prod.case if_False simp_thms)
      ultimately show ?thesis using sent by blast
    qed
  qed
qed

lemma inv_round:
  assumes inv: "server_inv h" and r: "r \<in> registered h" and m: "is_member r (h_dom h) i p"
    and st: "handleConnection_step E c r p h = Some (go, h')"
  shows "server_inv h'"
proof (cases "\<exists>msg x. Connection_Receive (h_conn h c) = Some (Inr msg, x) \<and> msg_Type msg = MessageTypeCreateRoom")
  case True
  then obtain msg x where r: "Connection_Receive (h_conn h c) = Some (Inr msg, x)" "msg_Type msg = MessageTypeCreateRoom" by blast
  let ?h = "h\<lparr>h_conn := (h_conn h)(c := x)\<rparr>"
  obtain e h1 where hm: "handleCreateRoom E c msg ?h = (e, h1)" by fastforce
  have "server_inv ?h" by (rule inv_quiet [OF inv _ keeps_conn]) simp
  then have i1: "server_inv h1" by (rule inv_handleCreateRoom [OF _ hm])
  have "server_inv (snd (conn_Send c t d h1))" for t d by (rule inv_quiet [OF i1 _ reg.R_sends(1)]) simp
  then show ?thesis
    using i1 st r hm by (auto simp: handleConnection_step_def handleMessage_def Let_def split: option.splits)
next
  case False
  then have nc: "\<forall>msg x. Connection_Receive (h_conn h c) = Some (Inr msg, x) \<longrightarrow> msg_Type msg \<noteq> MessageTypeCreateRoom" by blast
  have "room_ok r (h_dom h)" using rooms_okD(3) [OF server_invD(3) [OF inv] r] .
  then show ?thesis using inv_in_room [OF inv r round_steps [OF _ m st nc] keeps_round [OF st nc]] by blast
qed

lemma inv_timer:
  assumes inv: "server_inv h"
  shows "server_inv (ghostTimer_fires E i h)"
proof (cases "\<exists>rid r. mget (h_ghostTimers h) i = Some rid \<and> RoomManager_GetRoom (h_roomManager h) rid = Some r")
  case True
  then obtain rid r where "mget (h_ghostTimers h) i = Some rid" "RoomManager_GetRoom (h_roomManager h) rid = Some r" by blast
  then show ?thesis
    using inv_in_room [OF inv GetRoom_registered timer_steps reg.R_ghostTimer_fires] by blast
next
  case False
  then have "h_dom (ghostTimer_fires E i h) = h_dom h"
    by (cases "mget (h_ghostTimers h) i") (auto simp: ghostTimer_fires_def reapGhost_def Let_def)
  then show ?thesis by (rule inv_quiet [OF inv _ reg.R_ghostTimer_fires])
qed

lemma inv_close_room:
  assumes inv: "server_inv h" and cl: "Handler_CloseRoom E rid h = (e, h')"
  shows "server_inv h'"
proof (cases "RoomManager_GetRoom (h_roomManager h) rid")
  case None
  then show ?thesis using inv cl by (simp add: Handler_CloseRoom_def)
next
  case (Some r)
  note I = server_invD [OF inv]
  let ?h2 = "fold (close_member E) (Room_Participants r (h_dom h)) (fold (removeForwarder E) (Room_Tracks r (h_dom h)) h)"
  have k: "keeps h ?h2" by (rule reg.R_close_members)
  have st: "room_steps r (h_dom h) (h_dom h')" by (rule close_room_steps [OF Some cl])
  have rg: "r \<in> registered h" by (rule GetRoom_registered [OF Some])
  have ids: "\<forall>x. r_id (rom (h_dom h') x) = r_id (rom (h_dom h) x)"
    using room_step_r_id [OF st rooms_okD(3) [OF I(3) rg]] by blast
  obtain x rm d where c: "RoomManager_CloseRoom rid (h_roomManager ?h2) (h_dom ?h2) = (x, rm, d)" by (metis prod_cases3)
  have h': "h' = ?h2\<lparr>h_roomManager := rm, h_dom := d\<rparr>" using cl Some c by (auto simp: Handler_CloseRoom_def Let_def)
  have rm: "rm = h_roomManager h \<or> rm = mdel rid (h_roomManager h)"
    using c k by (auto simp: RoomManager_CloseRoom_def keeps_def split: option.splits prod.splits)
  then have sub: "registered h' \<subseteq> registered h" using set_mdel [of rid "h_roomManager h"] unfolding registered_def h' by force
  have "media_ok h'" using k I(4) unfolding h' by (simp add: keeps_def media_ok_def)
  moreover have "rooms_ok (registered h') (h_dom h')"
    by (rule rooms_ok_subset [OF rooms_ok_steps [OF st rg I(3)] sub])
  moreover have "wf_map rm" using rm I(1) by auto
  moreover have "r_id (rom (h_dom h') y) = j" if "RoomManager_GetRoom rm j = Some y" for j y
    using that rm ids I(2) [of j y] by (auto simp: RoomManager_GetRoom_def split: if_splits)
  ultimately show ?thesis unfolding server_inv_def by (simp add: h')
qed

interpretation whole_server: step_invariant server_start "server_step E" server_inv for E
proof unfold_locales
  fix s t :: "'a Handler"
  assume "server_step E s t" and inv: "server_inv s"
  then show "server_inv t"
  proof cases
    case (accept roomID participantID c)
    then show ?thesis using inv_quiet [OF inv _ keeps_ServeHTTP] by (simp add: ServeHTTP_def)
  next
    case (round rid r i p c go)
    then show ?thesis using inv_round [OF inv GetRoom_registered] by blast
  next
    case shutdown
    then show ?thesis using inv_quiet [OF inv _ keeps_Shutdown] Shutdown_effect(5) by blast
  qed (auto intro: inv_open [OF inv] inv_timer [OF inv] inv_remote [OF inv] inv_close_room [OF inv]
      inv_quiet [OF inv _ reg.R_run_nth_task] inv_quiet [OF inv _ reg.R_gate_events(1)]
      inv_quiet [OF inv _ reg.R_gate_events(2)] inv_quiet [OF inv _ reg.R_rtcpObserver])
qed (rule server_start_inv)

subsection \<open>Isolation\<close>

text \<open>An event of one registered room leaves every other registered room as it was.\<close>

lemma handler_step_isolated:
  assumes inv: "server_inv h" and st: "handler_step E r h h'"
    and r: "r \<in> registered h" "r' \<in> registered h" "r' \<noteq> r"
  shows "untouched r' (h_dom h) (h_dom h') \<and> members r' (h_dom h') = members r' (h_dom h)"
proof -
  have "room_steps r (h_dom h) (h_dom h')"
    by (rule server.simulates [OF st rooms_okD(3) [OF server_invD(3) [OF inv] r(1)]])
  then show ?thesis using rooms_untouched [OF _ r server_invD(3) [OF inv]] by blast
qed

end
