(* ===== verification/Server_Contracts.thy ===== *)
theory Server_Contracts
  imports Server_Protocol Handler_Contracts
begin

text \<open>
  The guarantees of the whole server, all rooms together.
\<close>

subsection \<open>Opening a connection to a new room\<close>

text \<open>Sending does not change whose connection it is.\<close>

definition same_ids :: "'p Handler \<Rightarrow> 'p Handler \<Rightarrow> bool" where
  "same_ids h h' \<longleftrightarrow> (\<forall>c. c_roomID (h_conn h' c) = c_roomID (h_conn h c) \<and>
     c_participantID (h_conn h' c) = c_participantID (h_conn h c))"

lemma same_ids_refl [simp]: "same_ids h h"
  by (simp add: same_ids_def)

lemma same_ids_trans: "same_ids h h' \<Longrightarrow> same_ids h' h'' \<Longrightarrow> same_ids h h''"
  by (simp add: same_ids_def)

lemma conn_Send_ids: "same_ids h (snd (conn_Send c t d h))"
  by (simp add: same_ids_def conn_Send_def Connection_Send_def Let_def writeLoop_step_def Connection_Close_def
      split: prod.split list.split)

lemma broadcast_ids: "same_ids h (broadcastToRoom r t d ex h)"
proof -
  have one: "same_ids g (broadcast_one t d ex i g)" for i and g :: "'a Handler"
    by (simp add: broadcast_one_def conn_Send_ids split: option.split)
  have "same_ids g (fold (broadcast_one t d ex) is g)" for "is" and g :: "'a Handler"
  proof (induction "is" arbitrary: g)
    case (Cons i is')
    show ?case using same_ids_trans [OF one Cons.IH] by simp
  qed simp
  then show ?thesis by (simp add: broadcastToRoom_def)
qed

definition open_room :: "string \<Rightarrow> dheap \<Rightarrow> dheap" where
  "open_room i d = d\<lparr>rom := (rom d)(nrom d := (mkRoom i)\<lparr>r_state := RoomStateActive\<rparr>), nrom := Suc (nrom d)\<rparr>"

text \<open>The first connection to a room creates it with that participant as its only member, and a
  peer connection for it.\<close>

lemma open_new_room:
  fixes h :: "'p Handler"
  defines "d0 \<equiv> h_dom h"
  assumes new: "RoomManager_GetRoom (h_roomManager h) (c_roomID (h_conn h c)) = None"
    and pc: "getPeerConnection (c_participantID (h_conn h c)) h = None" and pion: "E_newPC E (h_npc h) = Inr x"
    and o: "handleConnection_open E c h = (res, h')"
  shows "h_roomManager h' = mput (c_roomID (h_conn h c)) (nrom d0) (h_roomManager h)"
    and "h_dom h' = snd (join_new (nrom d0) (c_participantID (h_conn h c)) (''Participant '' @ c_participantID (h_conn h c))
           (open_room (c_roomID (h_conn h c)) d0))"
    and "same_ids h h'"
    and "h_npc h' = Suc (h_npc h)"
    and "h_peerConnections h' = mput (c_participantID (h_conn h c)) (h_npc h) (h_peerConnections h)"
    and "h_trackForwarders h' = h_trackForwarders h"
proof -
  let ?rid = "c_roomID (h_conn h c)" and ?i = "c_participantID (h_conn h c)" and ?r = "nrom d0"
  let ?d = "open_room ?rid d0"
  let ?h1 = "h\<lparr>h_roomManager := mput ?rid ?r (h_roomManager h), h_dom := ?d\<rparr>"
  have g: "RoomManager_GetOrCreateRoom ?rid (h_roomManager h) d0 = (Inr ?r, mput ?rid ?r (h_roomManager h), ?d)"
    using new by (simp add: RoomManager_GetOrCreateRoom_def RoomManager_GetRoom_def RoomManager_add_effect open_room_def)
  obtain p d1 where j: "join_new ?r ?i (''Participant '' @ ?i) ?d = (Inr p, d1)"
    by (simp add: join_new_def NewParticipant_def Room_Join_def mkRoom_def open_room_def)
  have pid: "p_id (par d1 p) = ?i" using join_new_heap [OF j] by (simp add: mkParticipant_def)
  obtain y h2 where e: "ensurePeerConnection E p c (set_dom d1 ?h1) = (y, h2)" by fastforce
  have h2: "y = Inr (h_npc h)" "h_dom h2 = d1" "h_roomManager h2 = mput ?rid ?r (h_roomManager h)" "h_conn h2 = h_conn h"
    "h_npc h2 = Suc (h_npc h)" "h_peerConnections h2 = mput ?i (h_npc h) (h_peerConnections h)"
    "h_trackForwarders h2 = h_trackForwarders h"
    using e pc pion pid
    by (auto simp: ensurePeerConnection_def createPeerConnection_def getPeerConnection_def set_dom_def set_pc_def Let_def
        split: prod.splits)
  let ?h3 = "broadcastParticipantJoined ?r p h2"
  have en: "enter_room E c ?r ?i ?h1 = (Some p, ?h3)"
    using j e h2(1) by (simp add: enter_room_def Room_GetParticipant_def mkRoom_def open_room_def)
  obtain x h4 where s: "sendRoomJoined c ?r p ?h3 = (x, h4)" by fastforce
  have s3: "only_sent h2 ?h3" "same_ids h2 ?h3"
    using broadcasts_only(1) broadcast_ids by (auto simp: broadcastParticipantJoined_def)
  have s4: "only_sent ?h3 h4" by (rule sendRoomJoined_only [OF s])
  have i4: "same_ids ?h3 h4" using s conn_Send_ids [of ?h3 c] unfolding sendRoomJoined_def Let_def by (metis snd_conv)
  have h': "h' = h4 \<or> h' = end_connection c h4"
    using o g en s by (auto simp: handleConnection_open_def d0_def split: option.splits)
  note O = only_sentD [OF s4] only_sentD [OF s3(1)] h2
  have "same_ids h h2" by (simp add: same_ids_def h2)
  then have i: "same_ids h h4" using same_ids_trans s3(2) i4 by blast
  have ee: "same_ids g (end_connection c g)" for g :: "'p Handler" by (simp add: same_ids_def end_connection_def Connection_Close_def)
  show "same_ids h h'" using h' i same_ids_trans [OF i ee] by blast
  show "h_roomManager h' = mput ?rid ?r (h_roomManager h)" "h_npc h' = Suc (h_npc h)"
    "h_peerConnections h' = mput ?i (h_npc h) (h_peerConnections h)" "h_trackForwarders h' = h_trackForwarders h"
    "h_dom h' = snd (join_new ?r ?i (''Participant '' @ ?i) ?d)"
    using h' O j by (auto simp: end_connection_def)
qed

subsection \<open>An example\<close>

text \<open>Alice connects to \<open>room-1\<close>, Carol to \<open>room-2\<close>, and each publishes a track named \<open>cam\<close>.\<close>

definition demo_empty :: "demo_pion Handler" where
  "demo_empty = NewHandler NewRoomManager empty_heap
     (\<lambda>c. if c = 0 then NewConnection ''room-1'' ''alice'' False True else NewConnection ''room-2'' ''carol'' False True)
     (\<lambda>_. demo_pc False False) (\<lambda>_. demo_fwd) 60 64"

definition demo_two :: "demo_pion Handler" where
  "demo_two = snd (handleConnection_open demo_env 1 (snd (handleConnection_open demo_env 0 demo_empty)))"

definition demo_two_heap :: dheap where
  "demo_two_heap = snd (join_new 1 ''carol'' ''Participant carol'' (open_room ''room-2''
     (snd (join_new 0 ''alice'' ''Participant alice'' (open_room ''room-1'' empty_heap)))))"

definition publish_cam :: "nat \<Rightarrow> dheap \<Rightarrow> dheap" where
  "publish_cam n d = snd (Room_PublishTrack n n (snd (Participant_PublishTrack n n
     (snd (NewTrack ''cam'' TrackKindVideo TrackSourceCamera d)))))"

definition demo_cams :: "demo_pion Handler" where
  "demo_cams = (set_dom (publish_cam 1 (publish_cam 0 demo_two_heap)) demo_two)
     \<lparr>h_trackForwarders := [(''cam'', h_nfw demo_two)], h_nfw := Suc (h_nfw demo_two)\<rparr>"

lemma demo_empty_start: "server_start demo_empty"
  by (simp add: server_start_def demo_empty_def NewHandler_def NewRoomManager_def subs_wf_def empty_heap_def)

lemma demo_two_run: "(server_step demo_env)\<^sup>*\<^sup>* demo_empty demo_two"
proof -
  have "server_step demo_env h (snd (handleConnection_open demo_env c h))" for c and h :: "demo_pion Handler"
    using server_step.open_conn [of demo_env c h] by (metis prod.collapse)
  then show ?thesis unfolding demo_two_def by (meson rtranclp.rtrancl_into_rtrancl rtranclp.rtrancl_refl)
qed

lemma demo_two_inv: "server_inv demo_two"
  by (rule whole_server.reachable_inv [OF demo_empty_start demo_two_run])

lemma demo_two_state:
  "h_dom demo_two = demo_two_heap" "h_roomManager demo_two = [(''room-1'', 0), (''room-2'', 1)]" "h_npc demo_two = 2"
  "h_peerConnections demo_two = [(''alice'', 0), (''carol'', 1)]"
proof -
  obtain x h1 where o1: "handleConnection_open demo_env 0 demo_empty = (x, h1)" by fastforce
  obtain y h2 where o2: "handleConnection_open demo_env 1 h1 = (y, h2)" by fastforce
  have e: "h_roomManager demo_empty = []" "h_dom demo_empty = empty_heap" "h_npc demo_empty = 0" "h_peerConnections demo_empty = []"
    "c_roomID (h_conn demo_empty 0) = ''room-1''" "c_participantID (h_conn demo_empty 0) = ''alice''"
    "c_roomID (h_conn demo_empty 1) = ''room-2''" "c_participantID (h_conn demo_empty 1) = ''carol''"
    by (simp_all add: demo_empty_def NewHandler_def NewRoomManager_def NewConnection_def)
  have pc: "E_newPC demo_env n = Inr (pionPC (demo_pc False False), [])" for n by (simp add: demo_env_def)
  have n: "nrom empty_heap = 0" by (simp add: empty_heap_def)
  note A = open_new_room [OF _ _ pc o1, unfolded e RoomManager_GetRoom_def getPeerConnection_def n, simplified]
  have ids: "c_roomID (h_conn h1 1) = ''room-2''" "c_participantID (h_conn h1 1) = ''carol''"
    using A(3) e(7,8) by (simp_all add: same_ids_def)
  have n1: "nrom (h_dom h1) = 1" unfolding A(2) by code_simp
  note B = open_new_room [OF _ _ pc o2, unfolded ids A(1,4,5) RoomManager_GetRoom_def getPeerConnection_def n1, simplified]
  have "demo_two = h2" unfolding demo_two_def o1 snd_conv o2 by (rule refl)
  then show "h_dom demo_two = demo_two_heap" "h_roomManager demo_two = [(''room-1'', 0), (''room-2'', 1)]" "h_npc demo_two = 2"
    "h_peerConnections demo_two = [(''alice'', 0), (''carol'', 1)]"
    using B A by (simp_all add: demo_two_heap_def)
qed

lemma demo_two_rooms:
  "RoomManager_GetRoom (h_roomManager demo_two) ''room-1'' = Some 0"
  "RoomManager_GetRoom (h_roomManager demo_two) ''room-2'' = Some 1"
  "is_member 0 (h_dom demo_two) ''alice'' 0" "is_member 1 (h_dom demo_two) ''carol'' 1"
proof -
  show "RoomManager_GetRoom (h_roomManager demo_two) ''room-1'' = Some 0"
    "RoomManager_GetRoom (h_roomManager demo_two) ''room-2'' = Some 1"
    by (simp_all add: demo_two_state RoomManager_GetRoom_def)
  show "is_member 0 (h_dom demo_two) ''alice'' 0" "is_member 1 (h_dom demo_two) ''carol'' 1"
    unfolding demo_two_state by code_simp+
qed

lemma publish_cam_step:
  assumes "is_member n d i n" "ntrk d = n"
    and "fst (Participant_PublishTrack n n (snd (NewTrack ''cam'' TrackKindVideo TrackSourceCamera d))) = None"
  shows "room_step n d (publish_cam n d)"
proof -
  obtain h1 where n: "NewTrack ''cam'' TrackKindVideo TrackSourceCamera d = (Inr n, h1)"
    using assms(2) by (simp add: NewTrack_def isValidTrackKind_def isValidTrackSource_def)
  obtain h2 where p: "Participant_PublishTrack n n h1 = (None, h2)" using assms(3) n by (metis prod.collapse snd_conv)
  show ?thesis unfolding publish_cam_def using room_step.publish [OF assms(1) n p] n p by (metis prod.collapse snd_conv)
qed

lemma demo_cams_inv: "server_inv demo_cams" "0 \<in> registered demo_cams" "1 \<in> registered demo_cams"
proof -
  have "is_member 0 demo_two_heap ''alice'' 0" "ntrk demo_two_heap = 0"
    "fst (Participant_PublishTrack 0 0 (snd (NewTrack ''cam'' TrackKindVideo TrackSourceCamera demo_two_heap))) = None"
    by code_simp+
  from publish_cam_step [OF this] have a: "room_steps 0 (h_dom demo_two) (publish_cam 0 demo_two_heap)" by (simp add: demo_two_state)
  have "is_member 1 (publish_cam 0 demo_two_heap) ''carol'' 1" "ntrk (publish_cam 0 demo_two_heap) = 1"
    "fst (Participant_PublishTrack 1 1 (snd (NewTrack ''cam'' TrackKindVideo TrackSourceCamera (publish_cam 0 demo_two_heap)))) = None"
    by code_simp+
  from publish_cam_step [OF this] have b: "room_steps 1 (publish_cam 0 demo_two_heap) (publish_cam 1 (publish_cam 0 demo_two_heap))" by simp
  have r: "0 \<in> registered demo_two" "1 \<in> registered demo_two" by (simp_all add: registered_def demo_two_state)
  let ?A = "set_dom (publish_cam 0 demo_two_heap) demo_two"
  have "server_inv ?A" by (rule inv_in_room [OF demo_two_inv r(1) _ reg.R_updates(2)]) (simp add: a)
  then have B: "server_inv (set_dom (publish_cam 1 (publish_cam 0 demo_two_heap)) ?A)"
    by (rule inv_in_room [OF _ _ _ reg.R_updates(2)]) (use r b in \<open>simp_all add: registered_def set_dom_def\<close>)
  then show "server_inv demo_cams"
    by (simp add: demo_cams_def server_inv_def registered_def set_dom_def media_ok_def reg_ok_def)
  show "0 \<in> registered demo_cams" "1 \<in> registered demo_cams"
    by (simp_all add: demo_cams_def registered_def set_dom_def demo_two_state)
qed

subsection \<open>The invariant of the server\<close>







text \<open>C11. The media side is not isolated: forwarders are registered by track identifier alone, over all
  rooms. When a member unpublishes a track, the forwarder of that identifier is gone, also when
  another room still lists a track of the same identifier, which then has no forwarder.\<close>

theorem forwarder_lost_across_rooms:
  assumes inv: "server_inv h" and r: "r \<in> registered h" "r' \<in> registered h" "r \<noteq> r'"
    and m: "is_member r' (h_dom h) i p" and pub: "Participant_GetPublishedTrack p k (h_dom h) \<noteq> None"
    and other: "Room_GetTrack r k (h_dom h) = Some t"
    and req: "UnmarshalData dec_TrackRequest msg = Inr req" "tr_TrackID req = k"
    and un: "handleUnpublishTrack E c r' p msg h = (e, h')"
  shows "Room_GetTrack r k (h_dom h') = Some t \<and> getForwarder k h' = None"
proof -
  have ok: "room_ok r' (h_dom h)" by (rule rooms_okD(3) [OF server_invD(3) [OF inv] r(2)])
  have "room_steps r' (h_dom h) (h_dom h')" by (rule handleUnpublishTrack_dom [OF m un])
  then have "untouched r (h_dom h) (h_dom h')"
    using rooms_untouched [OF _ r(2,1,3) server_invD(3) [OF inv]] by blast
  then have "Room_GetTrack r k (h_dom h') = Some t" using other by (simp add: untouched_def Room_GetTrack_def)
  moreover have "getForwarder k h' = None"
  proof -
    obtain d1 where u: "Participant_UnpublishTrack p k (h_dom h) = (None, d1)"
      using pub members_okD(2) [OF room_invD(1) [OF room_okD(1) [OF ok]] m]
      by (auto simp: Participant_UnpublishTrack_def Participant_GetPublishedTrack_def)
    have rom: "rom d1 = rom (h_dom h)" by (rule UnpublishTrack_ok [OF u]) blast
    obtain e2 d2 where ru: "Room_UnpublishTrack r' k d1 = (e2, d2)" by fastforce
    then have ge: "\<not> (e2 \<noteq> None \<and> e2 \<noteq> Some (derr ErrTrackNotFound))"
      using room_ok_member_open [OF ok m] by (auto simp: Room_UnpublishTrack_def rom split: if_splits)
    define h1 where "h1 = removeForwarder E k (set_dom d2 h)"
    define h2 where "h2 = (case getPeerConnection (p_id (par (h_dom h1) p)) h1 of None \<Rightarrow> h1
       | Some a \<Rightarrow> set_pc a (snd (PC_RemoveTrack (E_pion E) k (h_pc h1 a))) h1)"
    obtain x h3 where s: "conn_Send c MessageTypeTrackUnpublished
        (TrackUnpublishedResponse k (tr_ParticipantID req) ''success'') h2 = (x, h3)" by fastforce
    have "h' = h3 \<or> h' = broadcastTrackUnavailable r' p k h3"
      using un req u ru s ge by (auto simp: handleUnpublishTrack_def Let_def h1_def h2_def split: option.splits if_splits)
    then have "h_trackForwarders h' = h_trackForwarders h2"
      by (auto simp: only_sentD(7) [OF broadcasts_only(4)] only_sentD(7) [OF conn_Send_onlyD [OF s]])
    moreover have "h_trackForwarders h2 = mdel k (h_trackForwarders h)"
      by (simp add: h2_def h1_def split: option.split)
    ultimately show ?thesis by (simp add: getForwarder_def)
  qed
  ultimately show ?thesis by blast
qed

definition demo_unpublish_two :: Message where
  "demo_unpublish_two = request MessageTypeUnpublishTrack
     (enc_TrackRequest \<lparr>tr_RoomID = ''room-2'', tr_ParticipantID = ''carol'', tr_TrackID = ''cam''\<rparr>)"

theorem forwarder_lost_across_rooms_witness:
  "\<exists>e h'. getForwarder ''cam'' demo_cams \<noteq> None \<and>
     handleUnpublishTrack demo_env 1 1 1 demo_unpublish_two demo_cams = (e, h') \<and>
     Room_GetTrack 0 ''cam'' (h_dom h') = Some 0 \<and> getForwarder ''cam'' h' = None"
proof -
  have req: "UnmarshalData dec_TrackRequest demo_unpublish_two =
      Inr \<lparr>tr_RoomID = ''room-2'', tr_ParticipantID = ''carol'', tr_TrackID = ''cam''\<rparr>" by code_simp
  obtain e h' where u: "handleUnpublishTrack demo_env 1 1 1 demo_unpublish_two demo_cams = (e, h')" by fastforce
  have d: "h_dom demo_cams = publish_cam 1 (publish_cam 0 demo_two_heap)" by (simp add: demo_cams_def set_dom_def)
  have s: "is_member 1 (h_dom demo_cams) ''carol'' 1" "Participant_GetPublishedTrack 1 ''cam'' (h_dom demo_cams) \<noteq> None"
    "Room_GetTrack 0 ''cam'' (h_dom demo_cams) = Some 0" unfolding d by code_simp+
  have "getForwarder ''cam'' demo_cams \<noteq> None" by (simp add: demo_cams_def getForwarder_def)
  then show ?thesis
    using forwarder_lost_across_rooms [OF demo_cams_inv _ s req _ u] u by simp
qed

end
