(* ===== verification/Message_Loop.thy ===== *)
theory Message_Loop
  imports Handler_Relation Handler_Contracts
begin

text \<open>
  The message loop of a connection (\<open>handleConnection\<close>) as iterated rounds. Requests only ever send:
  no operation of the handler puts anything into the receive queue of a connection or opens a
  closed one, so that the loop of a closed connection ends.
\<close>

definition quiet :: "'p Handler \<Rightarrow> 'p Handler \<Rightarrow> bool" where
  "quiet h h' \<longleftrightarrow> (\<forall>c. c_receiveChan (h_conn h' c) = c_receiveChan (h_conn h c) \<and>
     (c_closeChan (h_conn h c) \<longrightarrow> c_closeChan (h_conn h' c)))"

lemma quiet_trans: "quiet h h' \<Longrightarrow> quiet h' h'' \<Longrightarrow> quiet h h''"
  by (simp add: quiet_def)

lemma quiet_same: "h_conn h' = h_conn h \<Longrightarrow> quiet h h'"
  by (simp add: quiet_def)

lemma Close_quiet: "c_receiveChan (Connection_Close x) = c_receiveChan x" "c_closeChan (Connection_Close x)"
  by (simp_all add: Connection_Close_def)

lemma Send_quiet:
  "c_receiveChan (snd (Connection_Send t d x)) = c_receiveChan x"
  "c_closeChan x \<Longrightarrow> c_closeChan (snd (Connection_Send t d x))"
  by (simp_all add: Connection_Send_def writeLoop_step_def Let_def Close_quiet split: list.split)

interpretation recv: handler_relation "quiet :: 'p Handler \<Rightarrow> 'p Handler \<Rightarrow> bool"
proof
  fix h h' h'' :: "'p Handler" and E :: "'p env" and q c x k wt t pay
  show "quiet h h" by (simp add: quiet_def)
  show "quiet h h' \<Longrightarrow> quiet h' h'' \<Longrightarrow> quiet h h''" by (rule quiet_trans)
  show "quiet h (end_connection c h)" by (simp add: quiet_def end_connection_def Close_quiet)
  show "quiet h (snd (conn_Send c t pay h))" by (simp add: quiet_def conn_Send_def Send_quiet case_prod_beta)
  show "quiet h (snd (createPeerConnection E q c x h))"
    by (rule quiet_same) (auto simp: createPeerConnection_def Let_def set_pc_def split: sum.split option.split prod.split)
  show "quiet h (snd (createForwarder k wt h))"
    by (rule quiet_same) (auto simp: createForwarder_def split: sum.split option.split prod.split)
qed (rule quiet_same, simp add: set_pc_def set_dom_def set_fw_def cancelGhostTimer_def armGhostTimer_def split: prod.split)+

lemma quiet_handleCreateRoom:
  assumes c: "handleCreateRoom E c msg h = (e, h')"
  shows "quiet h h'"
proof (cases "UnmarshalData dec_CreateRoomRequest msg")
  case (Inr req)
  let ?i = "cr_ParticipantID req" and ?resp = "RoomCreatedResponse (cr_RoomID req) (cr_ParticipantID req) ''success''"
  obtain x rm d where g: "RoomManager_GetOrCreateRoom (cr_RoomID req) (h_roomManager h) (h_dom h) = (x, rm, d)"
    by (metis prod_cases3)
  let ?h1 = "h\<lparr>h_roomManager := rm, h_dom := d\<rparr>"
  have h1: "quiet h ?h1" by (simp add: quiet_same)
  show ?thesis
  proof (cases x)
    case (Inl err)
    then show ?thesis using c Inr g h1 by (simp add: handleCreateRoom_def)
  next
    case room: (Inr r)
    obtain res d1 where j: "join_new r ?i (cr_ParticipantName req) d = (res, d1)" by fastforce
    let ?h2 = "set_dom d1 ?h1"
    have h2: "quiet h ?h2" by (rule quiet_trans [OF h1 recv.R_updates(2)])
    define h3 where "h3 p = (if c_participantID (h_conn ?h2 c) = ?i \<and> c_roomID (h_conn ?h2 c) = cr_RoomID req
       then (case ensurePeerConnection E p c ?h2 of (Inl err, h') \<Rightarrow> h' | (Inr _, h') \<Rightarrow> broadcastParticipantJoined r p h')
       else ?h2)" for p
    have h3: "quiet h (h3 p)" for p
    proof -
      obtain y g1 where e: "ensurePeerConnection E p c ?h2 = (y, g1)" by fastforce
      have g1: "quiet h g1" using quiet_trans [OF h2 recv.R_ensurePeerConnection [of ?h2 E p c]] e by simp
      show ?thesis using h2 g1 quiet_trans [OF g1 recv.R_sends(2)] e by (simp add: h3_def split: sum.split)
    qed
    have "conn_Send c MessageTypeRoomCreated ?resp ?h1 = (e, h') \<or> conn_Send c MessageTypeRoomCreated ?resp ?h2 = (e, h') \<or>
        h' = ?h2 \<or> (\<exists>p. conn_Send c MessageTypeRoomCreated ?resp (h3 p) = (e, h'))"
      using c unfolding handleCreateRoom_def Inr Let_def sum.case g prod.case room j h3_def
      by (cases res) (auto split: if_splits)
    then show ?thesis
      using quiet_trans [OF h1 recv.R_conn_Send] quiet_trans [OF h2 recv.R_conn_Send] h2 quiet_trans [OF h3 recv.R_conn_Send]
      by metis
  qed
qed (use c in \<open>simp add: handleCreateRoom_def recv.R_refl\<close>)

lemma quiet_handleMessage: "handleMessage E c r p msg h = (e, h') \<Longrightarrow> quiet h h'"
  using recv.R_handleMessage [of msg E c r p h e h'] quiet_handleCreateRoom [of E c msg h e h']
  by (cases "msg_Type msg = MessageTypeCreateRoom") (simp_all add: handleMessage_def Let_def)

subsection \<open>The loop\<close>

text \<open>At most the given number of rounds; the result is the state after the loop has returned, and
  \<open>None\<close> when it has not, or waits for a message.\<close>

fun message_loop :: "'p env \<Rightarrow> caddr \<Rightarrow> raddr \<Rightarrow> paddr \<Rightarrow> nat \<Rightarrow> 'p Handler \<Rightarrow> 'p Handler option" where
  "message_loop E c r p 0 h = None"
| "message_loop E c r p (Suc n) h =
     (case handleConnection_step E c r p h of
        None \<Rightarrow> None
      | Some (True, h') \<Rightarrow> message_loop E c r p n h'
      | Some (False, h') \<Rightarrow> Some h')"

lemma closed_round:
  assumes cl: "c_closeChan (h_conn h c)"
  obtains (ends) h1 where "handleConnection_step E c r p h = Some (False, end_connection c (handleConnectionClosed r p h1))"
  | (goes_on) h' where "handleConnection_step E c r p h = Some (True, h')" "c_closeChan (h_conn h' c)"
      "length (c_receiveChan (h_conn h c)) = Suc (length (c_receiveChan (h_conn h' c)))"
proof -
  obtain res x where r: "Connection_Receive (h_conn h c) = Some (res, x)"
    using cl by (cases "c_receiveChan (h_conn h c)"; cases "c_pick (h_conn h c)") (auto simp: Connection_Receive_def)
  let ?h = "h\<lparr>h_conn := (h_conn h)(c := x)\<rparr>"
  show ?thesis
  proof (cases res)
    case (Inl err)
    then show ?thesis using ends r by (simp add: handleConnection_step_def)
  next
    case (Inr msg)
    then have x: "c_closeChan x" "length (c_receiveChan (h_conn h c)) = Suc (length (c_receiveChan x))"
      using r cl by (auto simp: Connection_Receive_def split: list.splits if_splits)
    obtain e h1 where hm: "handleMessage E c r p msg ?h = (e, h1)" by fastforce
    have q1: "quiet ?h h1" by (rule quiet_handleMessage [OF hm])
    let ?h' = "case e of None \<Rightarrow> h1 | Some err \<Rightarrow> snd (conn_Send c MessageTypeError
        (ErrorResponse (error_text err) (errorCodeFromError (Some err)) (msg_Type msg)) h1)"
    have "quiet ?h ?h'" using q1 quiet_trans [OF q1 recv.R_sends(1)] by (simp split: option.split)
    then have "c_closeChan (h_conn ?h' c)" "c_receiveChan (h_conn ?h' c) = c_receiveChan x"
      using x(1) by (simp_all add: quiet_def)
    moreover have "handleConnection_step E c r p h = Some (True, ?h')"
      using r Inr hm by (simp add: handleConnection_step_def split: option.split)
    ultimately show ?thesis using goes_on x(2) by simp
  qed
qed

lemma message_loop_closed:
  assumes "c_closeChan (h_conn h c)" and "length (c_receiveChan (h_conn h c)) < n"
  shows "\<exists>h1. message_loop E c r p n h = Some (end_connection c (handleConnectionClosed r p h1))"
  using assms
proof (induction n arbitrary: h)
  case (Suc n)
  show ?case
    using Suc.prems(1)
  proof (cases rule: closed_round [where E = E and r = r and p = p])
    case (goes_on h')
    then show ?thesis using Suc.IH [of h'] Suc.prems(2) by simp
  qed auto
qed simp



end
