(* ===== verification/Go_Strings.thy ===== *)
theory Go_Strings
  imports Slive_Prelude
begin

text \<open>
  The functions of Go's packages \<open>strings\<close> and \<open>time\<close> that the configuration uses. A Go string is
  a list of bytes; the white space of \<open>unicode.IsSpace\<close> is the list of its UTF-8 encodings.
\<close>

subsection \<open>Splitting and trimming\<close>

text \<open>\<open>strings.Split(s, sep)\<close> with a separator of one byte.\<close>

fun strings_Split :: "string \<Rightarrow> char \<Rightarrow> string list" where
  "strings_Split [] sep = [[]]"
| "strings_Split (c # cs) sep =
     (if c = sep then [] # strings_Split cs sep
      else (case strings_Split cs sep of [] \<Rightarrow> [[c]] | w # ws \<Rightarrow> (c # w) # ws))"

definition bytes :: "nat list \<Rightarrow> string" where
  "bytes = map char_of"

text \<open>TAB, LF, VT, FF, CR, space, U+0085, U+00A0, U+1680, U+2000 to U+200A, U+2028, U+2029, U+202F,
  U+205F and U+3000.\<close>

definition unicode_spaces :: "string list" where
  "unicode_spaces = map bytes
     ([[9], [10], [11], [12], [13], [32], [194, 133], [194, 160], [225, 154, 128]] @
      map (\<lambda>b. [226, 128, b]) [128, 129, 130, 131, 132, 133, 134, 135, 136, 137, 138, 168, 169, 175] @
      [[226, 129, 159], [227, 128, 128]])"

fun drop_prefix :: "string \<Rightarrow> string \<Rightarrow> string option" where
  "drop_prefix [] s = Some s"
| "drop_prefix (p # ps) [] = None"
| "drop_prefix (p # ps) (c # s) = (if p = c then drop_prefix ps s else None)"

definition strip_one :: "string list \<Rightarrow> string \<Rightarrow> string option" where
  "strip_one ws s = List.find (\<lambda>r. length r < length s) (List.map_filter (\<lambda>w. drop_prefix w s) ws)"

function strip :: "string list \<Rightarrow> string \<Rightarrow> string" where
  "strip ws s = (case strip_one ws s of None \<Rightarrow> s | Some r \<Rightarrow> strip ws r)"
  by pat_completeness auto
termination
proof (relation "measure (\<lambda>(ws, s). length s)")
  fix ws s r assume "strip_one ws s = Some r"
  then show "((ws, r), ws, s) \<in> measure (\<lambda>(ws, s). length s)"
    by (auto simp: strip_one_def find_Some_iff)
qed simp

declare strip.simps [simp del]

definition strings_TrimSpace :: "string \<Rightarrow> string" where
  "strings_TrimSpace s = rev (strip (map rev unicode_spaces) (rev (strip unicode_spaces s)))"

lemma Split_nonempty [simp]: "strings_Split s sep \<noteq> []"
  by (induction s sep rule: strings_Split.induct) (auto split: list.split)

lemma Split_no_sep: "sep \<notin> set s \<Longrightarrow> strings_Split s sep = [s]"
  by (induction s sep rule: strings_Split.induct) auto

lemma Split_append_sep: "sep \<notin> set s \<Longrightarrow> strings_Split (s @ sep # r) sep = s # strings_Split r sep"
  by (induction s) (auto split: list.split)

text \<open>\<open>strings.Join\<close>, the inverse of splitting.\<close>

fun strings_Join :: "string list \<Rightarrow> char \<Rightarrow> string" where
  "strings_Join [] sep = []"
| "strings_Join [w] sep = w"
| "strings_Join (w # v # ws) sep = w @ sep # strings_Join (v # ws) sep"

lemma Split_Join: "ws \<noteq> [] \<Longrightarrow> \<forall>w \<in> set ws. sep \<notin> set w \<Longrightarrow> strings_Split (strings_Join ws sep) sep = ws"
  by (induction ws sep rule: strings_Join.induct) (auto simp: Split_no_sep Split_append_sep)

lemma Join_Split: "strings_Join (strings_Split s sep) sep = s"
proof (induction s sep rule: strings_Split.induct)
  case (2 c cs sep)
  obtain w ws where w: "strings_Split cs sep = w # ws" by (meson Split_nonempty neq_Nil_conv)
  show ?case
  proof (cases "c = sep")
    case True
    then show ?thesis using 2(1) w by simp
  next
    case False
    then have "strings_Join (w # ws) sep = cs" using 2(2) w by simp
    then show ?thesis using False w by (cases ws) auto
  qed
qed simp

lemma strip_trim: "strip_one ws s = None \<Longrightarrow> strip ws s = s"
  by (subst strip.simps) simp

lemma strip_stripped: "strip_one ws (strip ws s) = None"
proof (induction ws s rule: strip.induct)
  case (1 ws s)
  then show ?case by (subst strip.simps) (auto split: option.split)
qed

text \<open>A string with no white space at either end.\<close>

definition trimmed :: "string \<Rightarrow> bool" where
  "trimmed s \<longleftrightarrow> strip_one unicode_spaces s = None \<and> strip_one (map rev unicode_spaces) (rev s) = None"

lemma TrimSpace_trimmed: "trimmed s \<Longrightarrow> strings_TrimSpace s = s"
  by (simp add: trimmed_def strings_TrimSpace_def strip_trim)

subsection \<open>Durations\<close>

text \<open>\<open>time.ParseDuration\<close>. The result is a number of nanoseconds in the range of \<open>int64\<close>, or nothing
  for an error. Fractions go through \<open>float64\<close>: \<open>fl f unit k\<close> stands for
  \<open>uint64(float64(f) * (float64(unit) / 10^k))\<close> and is an argument.\<close>

fun leadingInt :: "nat \<Rightarrow> string \<Rightarrow> (nat \<times> string) option" where
  "leadingInt x [] = Some (x, [])"
| "leadingInt x (c # s) =
     (case digit_val c of
        None \<Rightarrow> Some (x, c # s)
      | Some d \<Rightarrow>
          if x > 2 ^ 63 div 10 then None
          else if x * 10 + d > 2 ^ 63 then None
          else leadingInt (x * 10 + d) s)"

fun leadingFraction :: "nat \<Rightarrow> nat \<Rightarrow> bool \<Rightarrow> string \<Rightarrow> nat \<times> nat \<times> string" where
  "leadingFraction x k overflow [] = (x, k, [])"
| "leadingFraction x k overflow (c # s) =
     (case digit_val c of
        None \<Rightarrow> (x, k, c # s)
      | Some d \<Rightarrow>
          if overflow then leadingFraction x k True s
          else if x > (2 ^ 63 - 1) div 10 then leadingFraction x k True s
          else if x * 10 + d > 2 ^ 63 then leadingFraction x k True s
          else leadingFraction (x * 10 + d) (Suc k) False s)"

definition unitMap :: "(string, nat) gomap" where
  "unitMap = [(''ns'', 1), (''us'', 1000), (bytes [194, 181, 115], 1000), (bytes [206, 188, 115], 1000),
     (''ms'', 1000000), (''s'', 1000000000), (''m'', 60000000000), (''h'', 3600000000000)]"

definition unit_byte :: "char \<Rightarrow> bool" where
  "unit_byte c \<longleftrightarrow> c \<noteq> CHR ''.'' \<and> digit_val c = None"

text \<open>One round of the loop: the value in nanoseconds of the next number with its unit, and the rest.\<close>

definition duration_round :: "(nat \<Rightarrow> nat \<Rightarrow> nat \<Rightarrow> nat) \<Rightarrow> string \<Rightarrow> (nat \<times> string) option" where
  "duration_round fl s =
     (if unit_byte (hd s) then None
      else (case leadingInt 0 s of
        None \<Rightarrow> None
      | Some (v, s1) \<Rightarrow>
          let pre = length s1 \<noteq> length s;
              dot = s1 \<noteq> [] \<and> hd s1 = CHR ''.'';
              (f, k, s2) = (if dot then leadingFraction 0 0 False (tl s1) else (0, 0, s1));
              post = dot \<and> length s2 \<noteq> length (tl s1);
              u = takeWhile unit_byte s2;
              s3 = dropWhile unit_byte s2
          in if \<not> pre \<and> \<not> post then None
             else if u = [] then None
             else (case mget unitMap u of
                     None \<Rightarrow> None
                   | Some unit \<Rightarrow>
                       if v > 2 ^ 63 div unit then None
                       else
                         let w = v * unit + (if f > 0 then fl f unit k else 0)
                         in if f > 0 \<and> w > 2 ^ 63 then None else Some (w, s3))))"

lemma leadingInt_length: "leadingInt x s = Some (v, r) \<Longrightarrow> length r \<le> length s"
  by (induction x s rule: leadingInt.induct) (auto split: option.splits if_splits)

lemma leadingFraction_length: "leadingFraction x k b s = (f, j, r) \<Longrightarrow> length r \<le> length s"
  by (induction x k b s arbitrary: f j r rule: leadingFraction.induct)
    (auto split: option.splits if_splits intro: le_SucI)

lemma duration_round_length: "duration_round fl s = Some (w, r) \<Longrightarrow> length r < length s"
proof -
  assume a: "duration_round fl s = Some (w, r)"
  then obtain v s1 where l: "leadingInt 0 s = Some (v, s1)"
    by (auto simp: duration_round_def split: if_splits option.splits)
  let ?t = "if s1 \<noteq> [] \<and> hd s1 = CHR ''.'' then leadingFraction 0 0 False (tl s1) else (0, 0, s1)"
  obtain f k s2 where t: "?t = (f, k, s2)" by (metis prod_cases3)
  have s2: "length s2 \<le> length s1"
    using t leadingFraction_length [of 0 0 False "tl s1" f k s2] by (auto split: if_splits)
  have "takeWhile unit_byte s2 \<noteq> []" "r = dropWhile unit_byte s2"
    using a l t by (auto simp: duration_round_def Let_def split: if_splits option.splits)
  then have "length r < length s2"
    by (metis length_append length_greater_0_conv less_add_same_cancel2 takeWhile_dropWhile_id)
  then show ?thesis using s2 leadingInt_length [OF l] by simp
qed

text \<open>The loop. The sum is a \<open>uint64\<close> and wraps.\<close>

function duration_loop :: "(nat \<Rightarrow> nat \<Rightarrow> nat \<Rightarrow> nat) \<Rightarrow> nat \<Rightarrow> string \<Rightarrow> nat option" where
  "duration_loop fl d s =
     (if s = [] then Some d
      else (case duration_round fl s of
              None \<Rightarrow> None
            | Some (v, r) \<Rightarrow>
                let d1 = (d + v) mod 2 ^ 64
                in if d1 > 2 ^ 63 then None else duration_loop fl d1 r))"
  by pat_completeness auto
termination
  by (relation "measure (\<lambda>(fl, d, s). length s)") (auto dest: duration_round_length)

declare duration_loop.simps [simp del]

definition ParseDuration :: "(nat \<Rightarrow> nat \<Rightarrow> nat \<Rightarrow> nat) \<Rightarrow> string \<Rightarrow> int option" where
  "ParseDuration fl orig =
     (let sign = orig \<noteq> [] \<and> (hd orig = CHR ''-'' \<or> hd orig = CHR ''+'');
          neg = orig \<noteq> [] \<and> hd orig = CHR ''-'';
          s = (if sign then tl orig else orig)
      in if s = ''0'' then Some 0
         else if s = [] then None
         else (case duration_loop fl 0 s of
                 None \<Rightarrow> None
               | Some d \<Rightarrow>
                   if neg then Some (- int d)
                   else if d > 2 ^ 63 - 1 then None
                   else Some (int d)))"

text \<open>The result fits an \<open>int64\<close>.\<close>

lemma duration_loop_bound: "duration_loop fl d s = Some r \<Longrightarrow> d \<le> 2 ^ 63 \<Longrightarrow> r \<le> 2 ^ 63"
proof (induction fl d s rule: duration_loop.induct)
  case (1 fl d s)
  show ?case
  proof (cases "s = []")
    case True
    then show ?thesis using 1(2,3) by (simp add: duration_loop.simps)
  next
    case False
    then obtain v q where q: "duration_round fl s = Some (v, q)"
      using 1(2) by (subst (asm) duration_loop.simps) (auto split: option.splits)
    then have d: "\<not> (d + v) mod 2 ^ 64 > 2 ^ 63" "duration_loop fl ((d + v) mod 2 ^ 64) q = Some r"
      using 1(2) False by (subst (asm) duration_loop.simps, simp add: Let_def split: if_splits)+
    then show ?thesis using 1(1) [OF False q _ refl] by simp
  qed
qed

lemma ParseDuration_range:
  assumes "ParseDuration fl s = Some d"
  shows "- (2 ^ 63) \<le> d" and "d < 2 ^ 63"
proof -
  let ?s = "if s \<noteq> [] \<and> (hd s = CHR ''-'' \<or> hd s = CHR ''+'') then tl s else s"
  have "d = 0 \<or> (\<exists>r. duration_loop fl 0 ?s = Some r \<and> (d = - int r \<or> r \<le> 2 ^ 63 - 1 \<and> d = int r))"
    using assms unfolding ParseDuration_def Let_def by (auto split: if_splits option.splits)
  moreover have "int r \<le> 2 ^ 63" if "duration_loop fl 0 ?s = Some r" for r
    using duration_loop_bound [OF that] by (metis (mono_tags) le0 of_nat_le_iff of_nat_numeral of_nat_power)
  ultimately show "- (2 ^ 63) \<le> d" "d < 2 ^ 63" by fastforce+
qed

subsection \<open>Durations of whole units\<close>

lemma parse_digits_mono: "parse_digits acc ds = Some n \<Longrightarrow> acc \<le> n"
proof (induction acc ds rule: parse_digits.induct)
  case (2 acc c cs)
  then show ?case by (fastforce split: option.splits)
qed simp

lemma leadingInt_digits:
  "parse_digits acc ds = Some n \<Longrightarrow> n \<le> 2 ^ 63 \<Longrightarrow> leadingInt acc (ds @ s) = leadingInt n s"
proof (induction acc ds rule: parse_digits.induct)
  case (2 acc c cs)
  then obtain d where d: "digit_val c = Some d" "parse_digits (10 * acc + d) cs = Some n" by (auto split: option.splits)
  have "10 * acc + d \<le> 2 ^ 63" using parse_digits_mono [OF d(2)] 2(3) by simp
  then have "\<not> acc > 2 ^ 63 div 10" "acc * 10 + d \<le> 2 ^ 63" by simp_all
  then show ?case using 2(1) [OF d(1,2) 2(3)] d(1) by (simp add: mult.commute)
qed simp

lemma FormatUint_digit_start: "\<exists>d. digit_val (hd (FormatUint n)) = Some d"
proof (induction n rule: FormatUint.induct)
  case (1 n)
  then show ?case by (subst FormatUint.simps) (auto simp: digit_val_char hd_append)
qed

lemma duration_round_units:
  assumes u: "mget unitMap u = Some unit" "u \<noteq> []" "\<forall>c \<in> set u. unit_byte c" and n: "n * unit \<le> 2 ^ 63" "0 < unit"
  shows "duration_round fl (FormatUint n @ u) = Some (n * unit, [])"
proof -
  have "n * 1 \<le> n * unit" by (rule mult_le_mono2) (use n(2) in simp)
  then have n63: "n \<le> 2 ^ 63" using n(1) by linarith
  obtain c cs where uc: "u = c # cs" using u(2) by (cases u) auto
  have c: "digit_val c = None" "c \<noteq> CHR ''.''" using u(3) uc by (auto simp: unit_byte_def)
  have "leadingInt 0 (FormatUint n @ u) = leadingInt n u"
    by (rule leadingInt_digits [OF parse_format n63])
  then have l: "leadingInt 0 (FormatUint n @ u) = Some (n, u)" using uc c(1) by simp
  have hd: "\<not> unit_byte (hd (FormatUint n @ u))" using FormatUint_digit_start [of n] by (auto simp: unit_byte_def)
  have "takeWhile unit_byte u = u" "dropWhile unit_byte u = []" using u(3) by simp_all
  moreover have "\<not> n > 2 ^ 63 div unit" using n by (simp add: less_eq_div_iff_mult_less_eq not_less)
  ultimately show ?thesis using l hd uc c u(1) by (simp add: duration_round_def Let_def)
qed

lemma unit_facts:
  assumes "mget unitMap u = Some unit"
  shows "u \<noteq> []" "\<forall>c \<in> set u. unit_byte c" "0 < unit"
proof -
  have "list_all (\<lambda>v. v \<noteq> [] \<and> list_all unit_byte v)
      [''ns'', ''us'', bytes [194, 181, 115], bytes [206, 188, 115], ''ms'', ''s'', ''m'', ''h'']" by code_simp
  then have "\<forall>(v, n) \<in> set unitMap. v \<noteq> [] \<and> list_all unit_byte v \<and> 0 < n" by (simp add: unitMap_def)
  then show "u \<noteq> []" "\<forall>c \<in> set u. unit_byte c" "0 < unit"
    using map_of_SomeD [OF assms] by (auto simp: list_all_iff)
qed

lemma ParseDuration_units:
  assumes u: "mget unitMap u = Some unit" and n: "n * unit < 2 ^ 63"
  shows "ParseDuration fl (FormatUint n @ u) = Some (int (n * unit))"
    and "ParseDuration fl (CHR ''-'' # FormatUint n @ u) = Some (- int (n * unit))"
proof -
  note U = unit_facts [OF u]
  have r: "duration_round fl (FormatUint n @ u) = Some (n * unit, [])"
    by (rule duration_round_units [OF u U(1,2) _ U(3)]) (use n in simp)
  have "(0 + n * unit) mod 2 ^ 64 = n * unit" using n by simp
  then have "duration_loop fl 0 (FormatUint n @ u) = duration_loop fl (n * unit) []"
    using r n by (subst duration_loop.simps) (simp add: Let_def)
  then have l: "duration_loop fl 0 (FormatUint n @ u) = Some (n * unit)" by (simp add: duration_loop.simps)
  obtain d where "digit_val (hd (FormatUint n)) = Some d" using FormatUint_digit_start by blast
  then have hd: "hd (FormatUint n @ u) \<noteq> CHR ''-''" "hd (FormatUint n @ u) \<noteq> CHR ''+''"
    by (auto simp: digit_val_def hd_append split: if_splits)
  have "length (FormatUint n @ u) > 1" using U(1) FormatUint_nonempty [of n] by (cases u; cases "FormatUint n") auto
  then have z: "FormatUint n @ u \<noteq> ''0''" by (metis length_Cons less_irrefl list.size(3) One_nat_def)
  show "ParseDuration fl (FormatUint n @ u) = Some (int (n * unit))"
    "ParseDuration fl (CHR ''-'' # FormatUint n @ u) = Some (- int (n * unit))"
    using l hd z n by (simp_all add: ParseDuration_def Let_def)
qed

end
