(* ===== verification/Runtime_Config.thy ===== *)
theory Runtime_Config
  imports Go_Strings Signaling_Connection Handler "HOL-Library.Signed_Division"
begin

text \<open>
  Configuration: \<open>internal/config/config.go\<close> reads the environment, \<open>cmd/slive/main.go\<close> turns the
  result into the settings of the signaling handler, whose options and constructor are in
  \<open>handler.go\<close>, and into ICE servers (\<open>ice_servers.go\<close>); \<open>pkg/slive\<close> has its own configuration.
  The environment is a function from names to values, empty when unset, as \<open>os.Getenv\<close>;
  durations are numbers of nanoseconds.
\<close>

subsection \<open>The environment\<close>

record TURNServer =
  ts_URLs :: "string list"
  ts_Username :: string
  ts_Credential :: string

record Config =
  HTTPAddr :: string
  HealthPath :: string
  WebSocketPath :: string
  STUNServers :: "string list"
  TURNServers :: "TURNServer list"
  GCParticipantTTL :: int
  WSAllowedOrigins :: "string list"
  WSReadTimeout :: int
  WSPingInterval :: int
  WSWriteTimeout :: int

definition DefaultHTTPAddr :: string where "DefaultHTTPAddr = '':8080''"
definition DefaultHealthPath :: string where "DefaultHealthPath = ''/health''"
definition DefaultWebSocketPath :: string where "DefaultWebSocketPath = ''/ws''"
definition DefaultGCParticipantTTL :: int where "DefaultGCParticipantTTL = 60000000000"
definition CfgDefaultWSReadTimeout :: int where "CfgDefaultWSReadTimeout = 60000000000"
definition CfgDefaultWSPingInterval :: int where "CfgDefaultWSPingInterval = 30000000000"
definition CfgDefaultWSWriteTimeout :: int where "CfgDefaultWSWriteTimeout = 10000000000"

lemmas config_defaults = DefaultGCParticipantTTL_def CfgDefaultWSReadTimeout_def CfgDefaultWSPingInterval_def
  CfgDefaultWSWriteTimeout_def DefaultWSReadTimeout_def DefaultWSPingInterval_def DefaultWSWriteTimeout_def

fun firstNonEmpty :: "string list \<Rightarrow> string" where
  "firstNonEmpty [] = ''''"
| "firstNonEmpty (v # vs) = (if v \<noteq> '''' then v else firstNonEmpty vs)"

definition envOrDefault :: "(string \<Rightarrow> string) \<Rightarrow> string \<Rightarrow> string \<Rightarrow> string" where
  "envOrDefault Getenv name fallback = (if Getenv name \<noteq> '''' then Getenv name else fallback)"

definition splitServerURLs :: "string \<Rightarrow> string list" where
  "splitServerURLs value = filter (\<lambda>url. url \<noteq> '''') (map strings_TrimSpace (strings_Split value (CHR '','')))"

definition splitAllowedOrigins :: "string \<Rightarrow> string list" where
  "splitAllowedOrigins value = filter (\<lambda>v. v \<noteq> '''') (map strings_TrimSpace (strings_Split value (CHR '','')))"

definition parseDurationOrDefault :: "(nat \<Rightarrow> nat \<Rightarrow> nat \<Rightarrow> nat) \<Rightarrow> string \<Rightarrow> int \<Rightarrow> int" where
  "parseDurationOrDefault fl value fallback =
     (if value = '''' then fallback
      else (case ParseDuration fl value of Some d \<Rightarrow> d | None \<Rightarrow> fallback))"

definition Load :: "(nat \<Rightarrow> nat \<Rightarrow> nat \<Rightarrow> nat) \<Rightarrow> (string \<Rightarrow> string) \<Rightarrow> Config" where
  "Load fl Getenv =
     (let cfg = \<lparr>HTTPAddr = envOrDefault Getenv ''HTTP_ADDR'' DefaultHTTPAddr,
                 HealthPath = envOrDefault Getenv ''HEALTH_PATH'' DefaultHealthPath,
                 WebSocketPath = envOrDefault Getenv ''WEBSOCKET_PATH'' DefaultWebSocketPath,
                 STUNServers = splitServerURLs (Getenv ''STUN_SERVERS''),
                 TURNServers = [],
                 GCParticipantTTL = parseDurationOrDefault fl (Getenv ''SLIVE_GC_TTL'') DefaultGCParticipantTTL,
                 WSAllowedOrigins = splitAllowedOrigins (Getenv ''SLIVE_WS_ALLOWED_ORIGINS''),
                 WSReadTimeout = parseDurationOrDefault fl (Getenv ''SLIVE_WS_READ_TIMEOUT'') CfgDefaultWSReadTimeout,
                 WSPingInterval = parseDurationOrDefault fl (Getenv ''SLIVE_WS_PING_INTERVAL'') CfgDefaultWSPingInterval,
                 WSWriteTimeout = parseDurationOrDefault fl (Getenv ''SLIVE_WS_WRITE_TIMEOUT'') CfgDefaultWSWriteTimeout\<rparr>;
          cfg1 = (if WSPingInterval cfg > WSReadTimeout cfg sdiv 2
                  then cfg\<lparr>WSPingInterval := WSReadTimeout cfg sdiv 2\<rparr> else cfg);
          turnURLs = splitServerURLs (firstNonEmpty [Getenv ''TURN_SERVER'', Getenv ''TURN_SERVERS''])
      in if turnURLs \<noteq> []
         then cfg1\<lparr>TURNServers := [\<lparr>ts_URLs = turnURLs, ts_Username = Getenv ''TURN_USERNAME'',
                ts_Credential = firstNonEmpty [Getenv ''TURN_PASSWORD'', Getenv ''TURN_CREDENTIAL'']\<rparr>]\<rparr>
         else cfg1)"

subsection \<open>ICE servers\<close>

text \<open>\<open>Credential\<close> is an interface value: absent, or a string.\<close>

record ICEServer =
  ice_URLs :: "string list"
  ice_Username :: string
  ice_Credential :: "string option"

datatype SDPSemantics = SDPSemanticsUnifiedPlan | SDPSemanticsPlanB | SDPSemanticsUnifiedPlanWithFallback

type_synonym logger = nat

record PeerConnectionConfig =
  pcf_ICEServers :: "ICEServer list"
  pcf_SDPSemantics :: SDPSemantics
  pcf_Logger :: "logger option"

definition DefaultPeerConnectionConfig :: PeerConnectionConfig where
  "DefaultPeerConnectionConfig =
     \<lparr>pcf_ICEServers = [\<lparr>ice_URLs = [''stun:stun.l.google.com:19302''], ice_Username = '''', ice_Credential = None\<rparr>],
      pcf_SDPSemantics = SDPSemanticsUnifiedPlanWithFallback, pcf_Logger = None\<rparr>"

record ICETurnServer =
  it_URLs :: "string list"
  it_Username :: string
  it_Credential :: string

definition ICEServersFromURLs :: "string list \<Rightarrow> ICETurnServer list \<Rightarrow> ICEServer list" where
  "ICEServersFromURLs stunURLs turnServers =
     (if stunURLs \<noteq> [] then [\<lparr>ice_URLs = stunURLs, ice_Username = '''', ice_Credential = None\<rparr>] else []) @
     map (\<lambda>turn. \<lparr>ice_URLs = it_URLs turn, ice_Username = it_Username turn, ice_Credential = Some (it_Credential turn)\<rparr>)
       (filter (\<lambda>turn. it_URLs turn \<noteq> []) turnServers)"

definition turnServersFromConfig :: "TURNServer list \<Rightarrow> ICETurnServer list" where
  "turnServersFromConfig = map (\<lambda>server.
     \<lparr>it_URLs = ts_URLs server, it_Username = ts_Username server, it_Credential = ts_Credential server\<rparr>)"

definition buildPeerConnectionConfig :: "Config \<Rightarrow> PeerConnectionConfig" where
  "buildPeerConnectionConfig cfg =
     (let pcConfig = DefaultPeerConnectionConfig;
          iceServers = ICEServersFromURLs (STUNServers cfg) (turnServersFromConfig (TURNServers cfg))
      in if iceServers \<noteq> [] then pcConfig\<lparr>pcf_ICEServers := iceServers\<rparr> else pcConfig)"

subsection \<open>Diagnostics\<close>

text \<open>The values of the start-up log line, and the summary that every new peer connection logs.\<close>

record turn_diagnostics =
  td_turn_urls :: "string list"
  td_turn_username :: string
  td_turn_realm :: string
  td_turn_credential_set :: bool
  td_stun_servers :: "string list"
  td_ice_servers_count :: nat

definition logTurnDiagnostics :: "(string \<Rightarrow> string) \<Rightarrow> Config \<Rightarrow> PeerConnectionConfig \<Rightarrow> turn_diagnostics" where
  "logTurnDiagnostics Getenv cfg pcConfig =
     \<lparr>td_turn_urls = concat (map ts_URLs (TURNServers cfg)),
      td_turn_username = firstNonEmpty (map ts_Username (TURNServers cfg)),
      td_turn_realm = Getenv ''TURN_REALM'',
      td_turn_credential_set = list_ex (\<lambda>server. ts_Credential server \<noteq> '''') (TURNServers cfg),
      td_stun_servers = STUNServers cfg,
      td_ice_servers_count = length (pcf_ICEServers pcConfig)\<rparr>"

text \<open>The verb \<open>%v\<close> prints a slice of strings between brackets, separated by spaces.\<close>

definition format_strings :: "string list \<Rightarrow> string" where
  "format_strings ws = ''['' @ strings_Join ws (CHR '' '') @ '']''"

fun join_bar :: "string list \<Rightarrow> string" where
  "join_bar [] = ''''"
| "join_bar [p] = p"
| "join_bar (p # q # ps) = p @ '' | '' @ join_bar (q # ps)"

definition iceServerSummary :: "ICEServer list \<Rightarrow> string" where
  "iceServerSummary servers =
     join_bar (map (\<lambda>s. ''urls='' @ format_strings (ice_URLs s) @
       (if ice_Username s \<noteq> '''' then '' username='' @ ice_Username s else '''')) servers)"

subsection \<open>Handler settings\<close>

record HandlerSettings =
  hs_peerConnectionConfig :: PeerConnectionConfig
  hs_logger :: logger
  hs_queueSize :: int
  hs_gcTTL :: int
  hs_allowedOrigins :: "string list"
  hs_wsReadTimeout :: int
  hs_wsPingInterval :: int
  hs_wsWriteTimeout :: int

type_synonym HandlerOption = "HandlerSettings \<Rightarrow> HandlerSettings"

definition WithPeerConnectionConfig :: "PeerConnectionConfig \<Rightarrow> HandlerOption" where
  "WithPeerConnectionConfig config h = h\<lparr>hs_peerConnectionConfig := config\<rparr>"

definition WithLogger :: "logger option \<Rightarrow> HandlerOption" where
  "WithLogger logger h = (case logger of None \<Rightarrow> h | Some l \<Rightarrow> h\<lparr>hs_logger := l\<rparr>)"

definition WithForwarderConfig :: "int \<Rightarrow> HandlerOption" where
  "WithForwarderConfig queueSize h = h\<lparr>hs_queueSize := queueSize\<rparr>"

definition WithGCTTL :: "int \<Rightarrow> HandlerOption" where
  "WithGCTTL d h = h\<lparr>hs_gcTTL := d\<rparr>"

definition WithAllowedOrigins :: "string list \<Rightarrow> HandlerOption" where
  "WithAllowedOrigins origins h = h\<lparr>hs_allowedOrigins := origins\<rparr>"

definition WithWSReadTimeout :: "int \<Rightarrow> HandlerOption" where
  "WithWSReadTimeout d h = h\<lparr>hs_wsReadTimeout := d\<rparr>"

definition WithWSPingInterval :: "int \<Rightarrow> HandlerOption" where
  "WithWSPingInterval d h = h\<lparr>hs_wsPingInterval := d\<rparr>"

definition WithWSWriteTimeout :: "int \<Rightarrow> HandlerOption" where
  "WithWSWriteTimeout d h = h\<lparr>hs_wsWriteTimeout := d\<rparr>"

lemmas handler_options = WithPeerConnectionConfig_def WithLogger_def WithForwarderConfig_def WithGCTTL_def
  WithAllowedOrigins_def WithWSReadTimeout_def WithWSPingInterval_def WithWSWriteTimeout_def

text \<open>\<open>NewHandler\<close>: the defaults, the options in order (absent ones are skipped), the normalisation.\<close>

definition default_settings :: HandlerSettings where
  "default_settings = \<lparr>hs_peerConnectionConfig = DefaultPeerConnectionConfig, hs_logger = 0, hs_queueSize = 0,
     hs_gcTTL = 60000000000, hs_allowedOrigins = [], hs_wsReadTimeout = DefaultWSReadTimeout,
     hs_wsPingInterval = DefaultWSPingInterval, hs_wsWriteTimeout = DefaultWSWriteTimeout\<rparr>"

definition normalize_settings :: "HandlerSettings \<Rightarrow> HandlerSettings" where
  "normalize_settings h =
     (let h1 = (if hs_wsReadTimeout h \<le> 0 then h\<lparr>hs_wsReadTimeout := DefaultWSReadTimeout\<rparr> else h);
          h2 = (if hs_wsWriteTimeout h1 \<le> 0 then h1\<lparr>hs_wsWriteTimeout := DefaultWSWriteTimeout\<rparr> else h1);
          h3 = (if hs_wsPingInterval h2 \<le> 0 then h2\<lparr>hs_wsPingInterval := DefaultWSPingInterval\<rparr> else h2)
      in if hs_wsPingInterval h3 > hs_wsReadTimeout h3 sdiv 2
         then h3\<lparr>hs_wsPingInterval := hs_wsReadTimeout h3 sdiv 2\<rparr> else h3)"

definition NewHandler_settings :: "HandlerOption option list \<Rightarrow> HandlerSettings" where
  "NewHandler_settings opts =
     normalize_settings (fold (\<lambda>opt h. case opt of None \<Rightarrow> h | Some f \<Rightarrow> f h) opts default_settings)"

text \<open>The handler that these settings give; the stores are those of the program's heap.\<close>

definition NewHandlerWith ::
  "RoomManager \<Rightarrow> dheap \<Rightarrow> conn_store \<Rightarrow> 'p pc_store \<Rightarrow> (nat \<Rightarrow> TrackForwarder) \<Rightarrow> HandlerSettings \<Rightarrow> 'p Handler" where
  "NewHandlerWith rm heap conns pcs fws s = NewHandler rm heap conns pcs fws (hs_gcTTL s) (hs_queueSize s)"

text \<open>\<open>newSignalingHandler\<close> of the command.\<close>

definition newSignalingHandler :: "Config \<Rightarrow> logger \<Rightarrow> HandlerSettings" where
  "newSignalingHandler cfg log =
     NewHandler_settings
       [Some (WithPeerConnectionConfig (buildPeerConnectionConfig cfg)), Some (WithLogger (Some log)),
        Some (WithGCTTL (GCParticipantTTL cfg)), Some (WithAllowedOrigins (WSAllowedOrigins cfg)),
        Some (WithWSReadTimeout (WSReadTimeout cfg)), Some (WithWSPingInterval (WSPingInterval cfg)),
        Some (WithWSWriteTimeout (WSWriteTimeout cfg))]"

subsection \<open>Configuration of the SDK\<close>

text \<open>A nil slice of STUN servers differs from an empty one.\<close>

record SDKConfig =
  sdk_STUNServers :: "string list option"
  sdk_GCParticipantTTL :: int
  sdk_QueueSize :: int
  sdk_Logger :: "logger option"
  sdk_AllowedOrigins :: "string list"

definition DefaultSDKConfig :: SDKConfig where
  "DefaultSDKConfig = \<lparr>sdk_STUNServers = None, sdk_GCParticipantTTL = DefaultGCParticipantTTL,
     sdk_QueueSize = int DefaultQueueSize, sdk_Logger = None, sdk_AllowedOrigins = []\<rparr>"

definition NewClient_normalize :: "logger \<Rightarrow> SDKConfig \<Rightarrow> SDKConfig" where
  "NewClient_normalize slogDefault cfg =
     (let cfg1 = (if sdk_GCParticipantTTL cfg = 0
                  then cfg\<lparr>sdk_GCParticipantTTL := sdk_GCParticipantTTL DefaultSDKConfig\<rparr> else cfg);
          cfg2 = (if sdk_QueueSize cfg1 \<le> 0 then cfg1\<lparr>sdk_QueueSize := int DefaultQueueSize\<rparr> else cfg1)
      in (case sdk_Logger cfg2 of None \<Rightarrow> cfg2\<lparr>sdk_Logger := Some slogDefault\<rparr> | Some _ \<Rightarrow> cfg2))"

definition NewClient_pcConfig :: "SDKConfig \<Rightarrow> PeerConnectionConfig" where
  "NewClient_pcConfig cfg =
     (case sdk_STUNServers cfg of
        None \<Rightarrow> DefaultPeerConnectionConfig\<lparr>pcf_Logger := sdk_Logger cfg\<rparr>
      | Some urls \<Rightarrow>
          if urls = []
          then \<lparr>pcf_ICEServers = [], pcf_SDPSemantics = pcf_SDPSemantics DefaultPeerConnectionConfig,
                pcf_Logger = sdk_Logger cfg\<rparr>
          else \<lparr>pcf_ICEServers = map (\<lambda>url. \<lparr>ice_URLs = [url], ice_Username = '''', ice_Credential = None\<rparr>) urls,
                pcf_SDPSemantics = pcf_SDPSemantics DefaultPeerConnectionConfig, pcf_Logger = sdk_Logger cfg\<rparr>)"

definition NewClient_settings :: "logger \<Rightarrow> SDKConfig \<Rightarrow> HandlerSettings" where
  "NewClient_settings slogDefault cfg0 =
     (let cfg = NewClient_normalize slogDefault cfg0
      in NewHandler_settings
           [Some (WithGCTTL (sdk_GCParticipantTTL cfg)), Some (WithPeerConnectionConfig (NewClient_pcConfig cfg)),
            Some (WithLogger (sdk_Logger cfg)), Some (WithForwarderConfig (sdk_QueueSize cfg)),
            Some (WithAllowedOrigins (sdk_AllowedOrigins cfg))])"

text \<open>The options that the SDK re-exports for its health endpoint do nothing to a handler.\<close>

definition Sdk_WithMetricsSnapshot :: "'f \<Rightarrow> HandlerOption" where
  "Sdk_WithMetricsSnapshot fn h = h"

definition Sdk_WithDiagnosticsSnapshoter :: "'f \<Rightarrow> HandlerOption" where
  "Sdk_WithDiagnosticsSnapshoter s h = h"

end
