(* ===== verification/Config_Contracts.thy ===== *)
theory Config_Contracts
  imports Runtime_Config
begin

text \<open>
  The guarantees of the configuration: what the environment may contain and what the handler gets.
\<close>

subsection \<open>Lists of servers\<close>

text \<open>A comma-separated list of servers in the environment is read back exactly, for every list of
  non-empty entries without commas and without white space at their ends; the same reader
  serves the allowed origins.\<close>

theorem server_list_roundtrip:
  assumes "\<forall>w \<in> set ws. w \<noteq> '''' \<and> CHR '','' \<notin> set w \<and> trimmed w"
  shows "splitServerURLs (strings_Join ws (CHR '','')) = ws \<and> splitAllowedOrigins (strings_Join ws (CHR '','')) = ws"
proof (cases "ws = []")
  case True
  have "strings_TrimSpace [] = []" by code_simp
  then show ?thesis using True by (simp add: splitServerURLs_def splitAllowedOrigins_def)
next
  case False
  have t: "map strings_TrimSpace ws = ws" using assms TrimSpace_trimmed by (simp add: map_idI)
  have f: "filter (\<lambda>w. w \<noteq> '''') ws = ws" using assms by (simp add: filter_id_conv)
  show ?thesis using Split_Join [OF False, of "CHR '',''"] assms t f
    by (simp add: splitServerURLs_def splitAllowedOrigins_def)
qed

theorem server_list_roundtrip_witness:
  "splitServerURLs ''stun:a:3478,turn:b c'' = [''stun:a:3478'', ''turn:b c'']"
proof -
  have "list_all (\<lambda>w. w \<noteq> '''' \<and> CHR '','' \<notin> set w \<and> trimmed w) [''stun:a:3478'', ''turn:b c'']" by code_simp
  then show ?thesis using server_list_roundtrip [of "[''stun:a:3478'', ''turn:b c'']"] by (simp add: list_all_iff)
qed

subsection \<open>Timeouts\<close>

lemma half_bounds: "0 < (r::int) \<Longrightarrow> 0 \<le> r sdiv 2 \<and> 2 * (r sdiv 2) \<le> r \<and> (0 < r sdiv 2 \<longleftrightarrow> r \<noteq> 1)"
  by (simp add: signed_divide_int_def) linarith

text \<open>The fields after the normalisation.\<close>

definition effective :: "int \<Rightarrow> int \<Rightarrow> int" where
  "effective d v = (if v \<le> 0 then d else v)"

lemma normalize_fields:
  defines "n \<equiv> normalize_settings"
  shows "hs_wsReadTimeout (n h) = effective DefaultWSReadTimeout (hs_wsReadTimeout h)"
    "hs_wsWriteTimeout (n h) = effective DefaultWSWriteTimeout (hs_wsWriteTimeout h)"
    "hs_wsPingInterval (n h) =
       min (effective DefaultWSPingInterval (hs_wsPingInterval h)) (hs_wsReadTimeout (n h) sdiv 2)"
  unfolding n_def normalize_settings_def Let_def effective_def
  by (cases "hs_wsReadTimeout h \<le> 0"; cases "hs_wsWriteTimeout h \<le> 0"; cases "hs_wsPingInterval h \<le> 0"; simp)+

lemma effective_pos: "0 < d \<Longrightarrow> 0 < effective d v"
  by (simp add: effective_def)

lemma normalize_bounds:
  defines "n \<equiv> normalize_settings"
  shows "0 < hs_wsReadTimeout (n h)" "0 < hs_wsWriteTimeout (n h)" "0 \<le> hs_wsPingInterval (n h)"
    "2 * hs_wsPingInterval (n h) \<le> hs_wsReadTimeout (n h)" "0 < hs_wsPingInterval (n h) \<longleftrightarrow> hs_wsReadTimeout (n h) \<noteq> 1"
proof -
  let ?p = "effective DefaultWSPingInterval (hs_wsPingInterval h)"
  have p: "0 < ?p" by (rule effective_pos) (simp add: config_defaults)
  show r: "0 < hs_wsReadTimeout (n h)" and "0 < hs_wsWriteTimeout (n h)"
    unfolding n_def normalize_fields by (rule effective_pos, simp add: config_defaults)+
  note half = half_bounds [OF r] and ping = normalize_fields(3) [of h, folded n_def]
  show "0 \<le> hs_wsPingInterval (n h)" "2 * hs_wsPingInterval (n h) \<le> hs_wsReadTimeout (n h)"
    "0 < hs_wsPingInterval (n h) \<longleftrightarrow> hs_wsReadTimeout (n h) \<noteq> 1"
    using half p unfolding ping by linarith+
qed

text \<open>C39. Whatever options a handler is built with, its read and write deadlines are positive and it
  pings at least twice per read deadline. The interval is positive except for a read
  deadline of one nanosecond, where it is zero, for which \<open>time.NewTicker\<close> panics.\<close>

theorem handler_timeouts:
  "0 < hs_wsReadTimeout (NewHandler_settings opts) \<and> 0 < hs_wsWriteTimeout (NewHandler_settings opts) \<and>
   0 \<le> hs_wsPingInterval (NewHandler_settings opts) \<and>
   2 * hs_wsPingInterval (NewHandler_settings opts) \<le> hs_wsReadTimeout (NewHandler_settings opts) \<and>
   (0 < hs_wsPingInterval (NewHandler_settings opts) \<longleftrightarrow> hs_wsReadTimeout (NewHandler_settings opts) \<noteq> 1)"
  using normalize_bounds by (simp add: NewHandler_settings_def)

text \<open>The settings of the command's handler, from the environment.\<close>

lemma Load_timeouts:
  fixes fl Getenv
  defines "cfg \<equiv> Load fl Getenv"
  shows "WSReadTimeout cfg = parseDurationOrDefault fl (Getenv ''SLIVE_WS_READ_TIMEOUT'') CfgDefaultWSReadTimeout"
    "WSPingInterval cfg = min (parseDurationOrDefault fl (Getenv ''SLIVE_WS_PING_INTERVAL'') CfgDefaultWSPingInterval)
       (WSReadTimeout cfg sdiv 2)"
    "WSWriteTimeout cfg = parseDurationOrDefault fl (Getenv ''SLIVE_WS_WRITE_TIMEOUT'') CfgDefaultWSWriteTimeout"
  by (simp_all add: cfg_def Load_def Let_def)

lemma command_timeouts:
  "hs_wsReadTimeout (newSignalingHandler cfg log) = effective DefaultWSReadTimeout (WSReadTimeout cfg)"
  "hs_wsPingInterval (newSignalingHandler cfg log) =
     min (effective DefaultWSPingInterval (WSPingInterval cfg)) (effective DefaultWSReadTimeout (WSReadTimeout cfg) sdiv 2)"
  by (simp_all add: newSignalingHandler_def NewHandler_settings_def normalize_fields handler_options)

lemma half_nonpos: "(r::int) \<le> 0 \<Longrightarrow> r sdiv 2 \<le> 0"
  by (simp add: signed_divide_int_def sgn_if)

text \<open>A ping interval from the environment is used when the read timeout allows it. When the read
  timeout is set to zero or a negative duration, it is replaced by its default, and the
  configured ping interval is lost with it, although it would fit.\<close>

theorem ping_interval_configured:
  assumes r: "ParseDuration fl (Getenv ''SLIVE_WS_READ_TIMEOUT'') = Some r"
    and p: "ParseDuration fl (Getenv ''SLIVE_WS_PING_INTERVAL'') = Some p" and "0 < p"
  shows "hs_wsPingInterval (newSignalingHandler (Load fl Getenv) log) =
    (if r \<le> 0 then DefaultWSPingInterval else if r = 1 then 0 else min p (r div 2))"
proof -
  have ne: "s \<noteq> ''''" if "ParseDuration fl s = Some d" for s d using that by (auto simp: ParseDuration_def)
  have L: "WSReadTimeout (Load fl Getenv) = r" "WSPingInterval (Load fl Getenv) = min p (r sdiv 2)"
    using ne [OF r] ne [OF p] r p by (simp_all add: Load_timeouts parseDurationOrDefault_def)
  show ?thesis
  proof (cases "r \<le> 0")
    case True
    then have "min p (r sdiv 2) \<le> 0" using half_nonpos by (simp add: min_le_iff_disj)
    then show ?thesis using True by (simp add: command_timeouts L effective_def config_defaults signed_divide_int_def)
  next
    case False
    then have "r sdiv 2 = r div 2" by (simp add: signed_divide_int_def)
    then show ?thesis using False assms(3)
      by (auto simp: command_timeouts L effective_def config_defaults)
  qed
qed

text \<open>An environment given as a list.\<close>

definition env_of :: "(string, string) gomap \<Rightarrow> string \<Rightarrow> string" where
  "env_of m name = (case mget m name of None \<Rightarrow> '''' | Some v \<Rightarrow> v)"

lemma whole_seconds:
  assumes "FormatUint n = ds" and "n < 9000000000"
  shows "ParseDuration fl (ds @ ''s'') = Some (int n * 1000000000)"
    and "ParseDuration fl (CHR ''-'' # ds @ ''s'') = Some (- (int n * 1000000000))"
  using ParseDuration_units [of "''s''" 1000000000 n fl] assms by (simp_all add: unitMap_def bytes_def)

theorem ping_interval_configured_witness:
  "hs_wsPingInterval (newSignalingHandler (Load (\<lambda>_ _ _. 0)
     (env_of [(''SLIVE_WS_READ_TIMEOUT'', ''-1s''), (''SLIVE_WS_PING_INTERVAL'', ''5s'')])) 0) = DefaultWSPingInterval \<and>
   hs_wsPingInterval (newSignalingHandler (Load (\<lambda>_ _ _. 0)
     (env_of [(''SLIVE_WS_READ_TIMEOUT'', ''8s''), (''SLIVE_WS_PING_INTERVAL'', ''5s'')])) 0) = 4000000000"
proof -
  have u: "FormatUint 1 = ''1''" "FormatUint 5 = ''5''" "FormatUint 8 = ''8''" by code_simp+
  note P = whole_seconds(2) [OF u(1)] whole_seconds(1) [OF u(2)] whole_seconds(1) [OF u(3)]
  let ?e = "\<lambda>r. env_of [(''SLIVE_WS_READ_TIMEOUT'', r), (''SLIVE_WS_PING_INTERVAL'', ''5s'')]"
  show ?thesis
    using ping_interval_configured [of "\<lambda>_ _ _. 0" "?e ''-1s''" "- 1000000000" 5000000000 0]
      ping_interval_configured [of "\<lambda>_ _ _. 0" "?e ''8s''" 8000000000 5000000000 0]
      P [where fl = "\<lambda>_ _ _. 0"] by (simp add: env_of_def)
qed

subsection \<open>ICE servers\<close>

lemma Load_ice:
  fixes fl Getenv
  defines "cfg \<equiv> Load fl Getenv"
    and "turn \<equiv> splitServerURLs (firstNonEmpty [Getenv ''TURN_SERVER'', Getenv ''TURN_SERVERS''])"
  shows "STUNServers cfg = splitServerURLs (Getenv ''STUN_SERVERS'')"
    "TURNServers cfg = (if turn = [] then [] else
       [\<lparr>ts_URLs = turn, ts_Username = Getenv ''TURN_USERNAME'',
         ts_Credential = firstNonEmpty [Getenv ''TURN_PASSWORD'', Getenv ''TURN_CREDENTIAL'']\<rparr>])"
  by (simp_all add: cfg_def turn_def Load_def Let_def)

text \<open>The peer connections of the command always have an ICE server. They have exactly the configured
  ones, STUN first and each TURN server with its credentials; the public default is used
  when neither is configured.\<close>

theorem ice_servers_configured:
  "pcf_ICEServers (buildPeerConnectionConfig cfg) =
     (if STUNServers cfg = [] \<and> (\<forall>s \<in> set (TURNServers cfg). ts_URLs s = [])
      then pcf_ICEServers DefaultPeerConnectionConfig
      else (if STUNServers cfg = [] then []
            else [\<lparr>ice_URLs = STUNServers cfg, ice_Username = '''', ice_Credential = None\<rparr>]) @
        [\<lparr>ice_URLs = ts_URLs s, ice_Username = ts_Username s, ice_Credential = Some (ts_Credential s)\<rparr>.
           s \<leftarrow> TURNServers cfg, ts_URLs s \<noteq> []])"
proof -
  let ?f = "\<lambda>t. \<lparr>ice_URLs = it_URLs t, ice_Username = it_Username t, ice_Credential = Some (it_Credential t)\<rparr>"
  have t: "map ?f (filter (\<lambda>t. it_URLs t \<noteq> []) (turnServersFromConfig ss)) =
      [\<lparr>ice_URLs = ts_URLs s, ice_Username = ts_Username s, ice_Credential = Some (ts_Credential s)\<rparr>.
         s \<leftarrow> ss, ts_URLs s \<noteq> []]" for ss
    by (induction ss) (simp_all add: turnServersFromConfig_def)
  have e: "concat (map (\<lambda>s. if ts_URLs s \<noteq> [] then [g s] else []) ss) = [] \<longleftrightarrow> (\<forall>s \<in> set ss. ts_URLs s = [])"
    for ss and g :: "TURNServer \<Rightarrow> ICEServer" by auto
  show ?thesis unfolding buildPeerConnectionConfig_def ICEServersFromURLs_def t Let_def using e by simp
qed

text \<open>C40. Credentials are never logged: two environments that differ only in the TURN password, both
  with one or both without, give the same start-up log line and the same summary of the ICE
  servers that every new peer connection logs.\<close>

theorem secrets_never_logged:
  assumes same: "\<And>name. name \<noteq> ''TURN_PASSWORD'' \<Longrightarrow> name \<noteq> ''TURN_CREDENTIAL'' \<Longrightarrow> env' name = env name"
    and set: "firstNonEmpty [env' ''TURN_PASSWORD'', env' ''TURN_CREDENTIAL''] = '''' \<longleftrightarrow>
      firstNonEmpty [env ''TURN_PASSWORD'', env ''TURN_CREDENTIAL''] = ''''"
  shows "logTurnDiagnostics env' (Load fl env') (buildPeerConnectionConfig (Load fl env')) =
      logTurnDiagnostics env (Load fl env) (buildPeerConnectionConfig (Load fl env)) \<and>
    iceServerSummary (pcf_ICEServers (buildPeerConnectionConfig (Load fl env'))) =
      iceServerSummary (pcf_ICEServers (buildPeerConnectionConfig (Load fl env)))"
proof -
  note e = same [of "''TURN_SERVER''"] same [of "''TURN_SERVERS''"] same [of "''STUN_SERVERS''"]
    same [of "''TURN_USERNAME''"] same [of "''TURN_REALM''"]
  have E: "env' ''TURN_SERVER'' = env ''TURN_SERVER''" "env' ''TURN_SERVERS'' = env ''TURN_SERVERS''"
    "env' ''STUN_SERVERS'' = env ''STUN_SERVERS''" "env' ''TURN_USERNAME'' = env ''TURN_USERNAME''"
    "env' ''TURN_REALM'' = env ''TURN_REALM''" using e by simp_all
  show ?thesis
    using set unfolding logTurnDiagnostics_def iceServerSummary_def buildPeerConnectionConfig_def
      turnServersFromConfig_def ICEServersFromURLs_def Load_ice Let_def E
    by (simp del: firstNonEmpty.simps)
qed

theorem secrets_never_logged_witness:
  "logTurnDiagnostics (env_of [(''TURN_SERVER'', ''turn:b''), (''TURN_PASSWORD'', ''hunter2'')])
     (Load (\<lambda>_ _ _. 0) (env_of [(''TURN_SERVER'', ''turn:b''), (''TURN_PASSWORD'', ''hunter2'')]))
     (buildPeerConnectionConfig (Load (\<lambda>_ _ _. 0) (env_of [(''TURN_SERVER'', ''turn:b''), (''TURN_PASSWORD'', ''hunter2'')]))) =
   logTurnDiagnostics (env_of [(''TURN_SERVER'', ''turn:b''), (''TURN_CREDENTIAL'', ''x'')])
     (Load (\<lambda>_ _ _. 0) (env_of [(''TURN_SERVER'', ''turn:b''), (''TURN_CREDENTIAL'', ''x'')]))
     (buildPeerConnectionConfig (Load (\<lambda>_ _ _. 0) (env_of [(''TURN_SERVER'', ''turn:b''), (''TURN_CREDENTIAL'', ''x'')])))"
  using secrets_never_logged [of "env_of [(''TURN_SERVER'', ''turn:b''), (''TURN_PASSWORD'', ''hunter2'')]"
      "env_of [(''TURN_SERVER'', ''turn:b''), (''TURN_CREDENTIAL'', ''x'')]" "\<lambda>_ _ _. 0"]
  by (simp add: env_of_def)

subsection \<open>The SDK\<close>

text \<open>A client without a list of STUN servers uses the public default; an empty list means no ICE
  server at all, and otherwise there is one server per address, in order.\<close>

theorem sdk_stun_servers:
  "pcf_ICEServers (hs_peerConnectionConfig (NewClient_settings log cfg)) =
     (case sdk_STUNServers cfg of
        None \<Rightarrow> pcf_ICEServers DefaultPeerConnectionConfig
      | Some urls \<Rightarrow> map (\<lambda>url. \<lparr>ice_URLs = [url], ice_Username = '''', ice_Credential = None\<rparr>) urls)"
proof -
  have n: "sdk_STUNServers (NewClient_normalize log cfg) = sdk_STUNServers cfg"
    by (simp add: NewClient_normalize_def Let_def split: option.split)
  have pc: "hs_peerConnectionConfig (normalize_settings h) = hs_peerConnectionConfig h" for h
    by (simp add: normalize_settings_def Let_def)
  show ?thesis
    by (simp add: NewClient_settings_def Let_def NewHandler_settings_def pc handler_options NewClient_pcConfig_def n
        split: option.split)
qed

end
