(* ===== verification/Metrics.thy ===== *)
theory Metrics
  imports Server_Protocol
begin

text \<open>
  Metrics: the counters of \<open>internal/webrtc/metrics.go\<close> and the snapshot that the signaling handler
  takes of itself (\<open>internal/signaling/metrics.go\<close>). Counters are \<open>uint64\<close>. The uptime in whole
  seconds and the number of goroutines are sampled from the runtime and are arguments.
\<close>

subsection \<open>Counters\<close>

record connectionMetrics =
  cm_attempts :: "64 word"
  cm_failures :: "64 word"

definition IncrementAttempts :: "connectionMetrics \<Rightarrow> connectionMetrics" where
  "IncrementAttempts m = m\<lparr>cm_attempts := cm_attempts m + 1\<rparr>"

definition IncrementFailures :: "connectionMetrics \<Rightarrow> connectionMetrics" where
  "IncrementFailures m = m\<lparr>cm_failures := cm_failures m + 1\<rparr>"

definition metrics_Reset :: "connectionMetrics \<Rightarrow> connectionMetrics" where
  "metrics_Reset m = m\<lparr>cm_attempts := 0, cm_failures := 0\<rparr>"

record MetricsSnapshot =
  ConnectionAttemptsTotal :: "64 word"
  ConnectionFailuresTotal :: "64 word"
  ForwarderSubscribers :: int
  ForwarderDroppedTotal :: "64 word"
  ForwarderQueueDepth :: int
  RoomsActive :: int
  ParticipantsActive :: int
  TracksPublished :: int
  GCReapedTotal :: "64 word"
  UptimeSeconds :: int
  Goroutines :: int

definition zero_snapshot :: "int \<Rightarrow> int \<Rightarrow> MetricsSnapshot" where
  "zero_snapshot uptime goroutines =
     \<lparr>ConnectionAttemptsTotal = 0, ConnectionFailuresTotal = 0, ForwarderSubscribers = 0, ForwarderDroppedTotal = 0,
      ForwarderQueueDepth = 0, RoomsActive = 0, ParticipantsActive = 0, TracksPublished = 0, GCReapedTotal = 0,
      UptimeSeconds = uptime, Goroutines = goroutines\<rparr>"

definition metrics_Snapshot :: "int \<Rightarrow> int \<Rightarrow> connectionMetrics \<Rightarrow> MetricsSnapshot" where
  "metrics_Snapshot uptime goroutines m =
     (zero_snapshot uptime goroutines)\<lparr>ConnectionAttemptsTotal := cm_attempts m, ConnectionFailuresTotal := cm_failures m\<rparr>"

subsection \<open>The snapshot of the handler\<close>

definition forwarder_totals :: "TrackForwarder list \<Rightarrow> int \<times> 64 word \<times> int" where
  "forwarder_totals fws =
     fold (\<lambda>fw (totalSubs, totalDropped, maxDepth).
       (totalSubs + int (Forwarder_SubscriberCount fw), totalDropped + Forwarder_TotalDropped fw,
        if int (Forwarder_MaxQueueDepth fw) > maxDepth then int (Forwarder_MaxQueueDepth fw) else maxDepth))
       fws (0, 0, 0)"

definition room_totals :: "RoomManager \<Rightarrow> dheap \<Rightarrow> string list \<Rightarrow> int \<times> int" where
  "room_totals rm d ids =
     fold (\<lambda>i (participants, tracks).
       case RoomManager_GetRoom rm i of
         None \<Rightarrow> (participants, tracks)
       | Some room \<Rightarrow> (participants + int (length (Room_Participants room d)), tracks + int (length (Room_Tracks room d))))
       ids (0, 0)"

definition Handler_Snapshot :: "int \<Rightarrow> int \<Rightarrow> connectionMetrics \<Rightarrow> 'p Handler \<Rightarrow> MetricsSnapshot" where
  "Handler_Snapshot uptime goroutines m h =
     (let (totalSubs, totalDropped, maxDepth) = forwarder_totals (map (\<lambda>(_, a). h_fw h a) (h_trackForwarders h));
          ids = RoomManager_RoomIDs (h_roomManager h);
          (participants, tracks) = room_totals (h_roomManager h) (h_dom h) ids
      in \<lparr>ConnectionAttemptsTotal = cm_attempts m, ConnectionFailuresTotal = cm_failures m,
          ForwarderSubscribers = totalSubs, ForwarderDroppedTotal = totalDropped, ForwarderQueueDepth = maxDepth,
          RoomsActive = int (length ids), ParticipantsActive = participants, TracksPublished = tracks,
          GCReapedTotal = h_gcReapedCount h, UptimeSeconds = uptime, Goroutines = goroutines\<rparr>)"

definition resetMetrics :: "connectionMetrics \<Rightarrow> 'p Handler \<Rightarrow> connectionMetrics \<times> 'p Handler" where
  "resetMetrics m h =
     (metrics_Reset m,
      (fold (\<lambda>(_, a) g. g\<lparr>h_fw := (h_fw g)(a := Forwarder_ResetDropped (h_fw g a))\<rparr>) (h_trackForwarders h)
        (h\<lparr>h_gcReapedCount := 0\<rparr>)))"

definition resetGCReapedCount :: "'p Handler \<Rightarrow> 'p Handler" where
  "resetGCReapedCount h = h\<lparr>h_gcReapedCount := 0\<rparr>"

subsection \<open>Counting\<close>

lemma length_members:
  assumes ok: "room_ok r d"
  shows "length (Room_Participants r d) = card (members r d)"
proof -
  note mo = room_invD(1) [OF room_okD(1) [OF ok]]
  have wf: "wf_map (participants (rom d r))" using mo by (simp add: members_ok_def)
  have "inj_on snd (set (participants (rom d r)))"
  proof (rule inj_onI)
    fix x y assume x: "x \<in> set (participants (rom d r))" and y: "y \<in> set (participants (rom d r))" and e: "snd x = snd y"
    have "is_member r d (fst x) (snd x)" "is_member r d (fst y) (snd y)"
      using x y wf by (simp_all add: map_of_is_SomeI)
    then have "fst x = fst y" using members_okD(1) [OF mo] e by metis
    then show "x = y" using e by (simp add: prod_eq_iff)
  qed
  moreover have "distinct (participants (rom d r))" using wf by (simp add: distinct_map)
  ultimately show ?thesis
    by (simp add: Room_Participants_def members_def card_image distinct_card)
qed

definition listed :: "raddr \<Rightarrow> dheap \<Rightarrow> taddr set" where
  "listed r d = snd ` set (tracks (rom d r))"

lemma length_tracks:
  assumes ok: "room_ok r d"
  shows "length (Room_Tracks r d) = card (listed r d)"
proof -
  note I = room_invD [OF room_okD(1) [OF ok]]
  have wf: "wf_map (tracks (rom d r))" using I(4) by (simp add: registry_live_def)
  have id: "t_id (trk d (snd x)) = fst x" if "x \<in> set (tracks (rom d r))" for x
  proof -
    have "mget (tracks (rom d r)) (fst x) = Some (snd x)" using that wf by (simp add: map_of_is_SomeI)
    then obtain j q where "is_member r d j q" "mget (pubTracks (par d q)) (fst x) = Some (snd x)"
      by (rule registry_liveE [OF I(4)])
    then show ?thesis by (rule pubs_ownedD(1) [OF I(3)])
  qed
  have "inj_on snd (set (tracks (rom d r)))"
    by (rule inj_onI) (metis id prod_eq_iff)
  moreover have "distinct (tracks (rom d r))" using wf by (simp add: distinct_map)
  ultimately show ?thesis by (simp add: Room_Tracks_def listed_def card_image distinct_card)
qed

lemma listed_footprint: "listed r d \<subseteq> footprint r d"
  by (auto simp: listed_def footprint_def)

lemma room_totals_sum:
  "room_totals rm d ids =
     (\<Sum>r \<leftarrow> List.map_filter (RoomManager_GetRoom rm) ids. int (length (Room_Participants r d)),
      \<Sum>r \<leftarrow> List.map_filter (RoomManager_GetRoom rm) ids. int (length (Room_Tracks r d)))"
proof -
  have "fold (\<lambda>i (participants, tracks).
       case RoomManager_GetRoom rm i of None \<Rightarrow> (participants, tracks)
       | Some room \<Rightarrow> (participants + int (length (Room_Participants room d)), tracks + int (length (Room_Tracks room d))))
       ids (a, b) =
     (a + (\<Sum>r \<leftarrow> List.map_filter (RoomManager_GetRoom rm) ids. int (length (Room_Participants r d))),
      b + (\<Sum>r \<leftarrow> List.map_filter (RoomManager_GetRoom rm) ids. int (length (Room_Tracks r d))))" for a b
    by (induction ids arbitrary: a b) (simp_all add: List.map_filter_simps split: option.split)
  from this [of 0 0] show ?thesis by (simp add: room_totals_def)
qed

lemma registry_values:
  assumes "wf_map m"
  shows "List.map_filter (mget m) (mkeys m) = map snd m"
proof -
  have "List.map_filter (mget m) (map fst xs) = map snd xs" if "set xs \<subseteq> set m" for xs
    using that assms by (induction xs) (auto simp: List.map_filter_simps map_of_is_SomeI)
  then show ?thesis by blast
qed

lemma registered_distinct:
  assumes inv: "server_inv h"
  shows "distinct (map snd (h_roomManager h))"
proof -
  note I = server_invD [OF inv]
  have "r_id (rom (h_dom h) (snd x)) = fst x" if "x \<in> set (h_roomManager h)" for x
    using I(2) [of "fst x" "snd x"] that I(1) by (simp add: RoomManager_GetRoom_def map_of_is_SomeI)
  then have "inj_on snd (set (h_roomManager h))" by (intro inj_onI) (metis prod_eq_iff)
  then show ?thesis using I(1) by (simp add: distinct_map)
qed

text \<open>Disjoint sets are counted once each.\<close>

lemma sum_card_disjoint:
  assumes "distinct rs" and "\<And>r. r \<in> set rs \<Longrightarrow> finite (S r)"
    and "\<And>r r'. r \<in> set rs \<Longrightarrow> r' \<in> set rs \<Longrightarrow> r \<noteq> r' \<Longrightarrow> S r \<inter> S r' = {}"
  shows "(\<Sum>r \<leftarrow> rs. int (card (S r))) = int (card (\<Union>r \<in> set rs. S r))"
proof -
  have "(\<Sum>r \<leftarrow> rs. int (card (S r))) = (\<Sum>r \<in> set rs. int (card (S r)))" by (rule sum_list_distinct_conv_sum_set [OF assms(1)])
  also have "\<dots> = int (card (\<Union>r \<in> set rs. S r))"
    using card_UN_disjoint [of "set rs" S] assms(2,3) by (simp add: disjoint_iff)
  finally show ?thesis .
qed

lemma snapshot_rooms:
  assumes inv: "server_inv h"
  shows "RoomsActive (Handler_Snapshot u g m h) = int (card (registered h))"
    and "ParticipantsActive (Handler_Snapshot u g m h) = int (card (\<Union>r \<in> registered h. members r (h_dom h)))"
    and "TracksPublished (Handler_Snapshot u g m h) = int (card (\<Union>r \<in> registered h. listed r (h_dom h)))"
proof -
  note I = server_invD [OF inv]
  let ?rs = "map snd (h_roomManager h)" and ?d = "h_dom h"
  have rs: "set ?rs = registered h" "distinct ?rs" using registered_distinct [OF inv] by (simp_all add: registered_def)
  have ids: "List.map_filter (RoomManager_GetRoom (h_roomManager h)) (RoomManager_RoomIDs (h_roomManager h)) = ?rs"
    using registry_values [OF I(1)] by (simp add: RoomManager_GetRoom_def [abs_def] RoomManager_RoomIDs_def)
  show "RoomsActive (Handler_Snapshot u g m h) = int (card (registered h))"
    using distinct_card [OF rs(2)] rs(1) by (simp add: Handler_Snapshot_def Let_def RoomManager_RoomIDs_def split: prod.split)
  have ok: "room_ok r ?d" if "r \<in> set ?rs" for r using rooms_okD(3) [OF I(3)] that rs(1) by simp
  have sep: "members r ?d \<inter> members r' ?d = {}" "listed r ?d \<inter> listed r' ?d = {}"
    if "r \<in> set ?rs" "r' \<in> set ?rs" "r \<noteq> r'" for r r'
    using rooms_okD(4) [OF I(3)] that rs(1) listed_footprint unfolding separate_def by blast+
  have tot: "room_totals (h_roomManager h) ?d (RoomManager_RoomIDs (h_roomManager h)) =
      (\<Sum>r \<leftarrow> ?rs. int (card (members r ?d)), \<Sum>r \<leftarrow> ?rs. int (card (listed r ?d)))"
    unfolding room_totals_sum ids using length_members [OF ok] length_tracks [OF ok]
    by (simp cong: map_cong)
  have "(\<Sum>r \<leftarrow> ?rs. int (card (members r ?d))) = int (card (\<Union>r \<in> registered h. members r ?d))"
    unfolding rs(1) [symmetric] by (rule sum_card_disjoint [OF rs(2)]) (use sep(1) in \<open>simp_all add: members_def\<close>)
  moreover have "(\<Sum>r \<leftarrow> ?rs. int (card (listed r ?d))) = int (card (\<Union>r \<in> registered h. listed r ?d))"
    unfolding rs(1) [symmetric] by (rule sum_card_disjoint [OF rs(2)]) (use sep(2) in \<open>simp_all add: listed_def\<close>)
  ultimately show "ParticipantsActive (Handler_Snapshot u g m h) = int (card (\<Union>r \<in> registered h. members r ?d))"
    "TracksPublished (Handler_Snapshot u g m h) = int (card (\<Union>r \<in> registered h. listed r ?d))"
    using tot by (simp_all only: Handler_Snapshot_def Let_def prod.case MetricsSnapshot.simps simp_thms split: prod.split)
qed

end
