(* ===== verification/Http_Server.thy ===== *)
theory Http_Server
  imports Metrics Runtime_Config
begin

text \<open>
  The HTTP surface: the health endpoint (\<open>internal/http/handlers.go\<close>), the routes (\<open>router.go\<close>), the
  server with its options and shutdown (\<open>server.go\<close>), and the wiring of the command and of the SDK.
  A response is a status, headers and a body; \<open>net/http\<close> delivers it. \<open>'s\<close> is the state of the
  program that a snapshot function reads.
\<close>

subsection \<open>Printing\<close>

definition FormatInt :: "int \<Rightarrow> string" where
  "FormatInt n = (if n < 0 then CHR ''-'' # FormatUint (nat (- n)) else FormatUint (nat n))"

subsection \<open>The health endpoint\<close>

datatype Body = NoBody | TextBody string | JsonBody json

record Response =
  status :: nat
  headers :: "(string, string) gomap"
  body :: Body

record 's HandlerDeps =
  hd_SignalingHandler :: bool
  hd_MetricsSnapshot :: "('s \<Rightarrow> MetricsSnapshot) option"
  hd_DiagnosticsSnapshoter :: "('s \<Rightarrow> MetricsSnapshot) option"

definition health_snapshot :: "'s HandlerDeps \<Rightarrow> int \<Rightarrow> int \<Rightarrow> 's \<Rightarrow> MetricsSnapshot" where
  "health_snapshot deps uptime goroutines s =
     (case hd_MetricsSnapshot deps of
        Some f \<Rightarrow> f s
      | None \<Rightarrow>
          (case hd_DiagnosticsSnapshoter deps of
             Some f \<Rightarrow> f s
           | None \<Rightarrow> zero_snapshot uptime goroutines))"

text \<open>The lines of the text exposition and the fields of the JSON object, in their order.\<close>

definition text_metrics :: "MetricsSnapshot \<Rightarrow> (string \<times> string) list" where
  "text_metrics snap =
     [(''status'', ''ok''), (''uptime_seconds'', FormatInt (UptimeSeconds snap)),
      (''rooms_active'', FormatInt (RoomsActive snap)), (''participants_active'', FormatInt (ParticipantsActive snap)),
      (''tracks_published'', FormatInt (TracksPublished snap)),
      (''forwarder_subscribers'', FormatInt (ForwarderSubscribers snap)),
      (''forwarder_dropped_total'', FormatInt (uint (ForwarderDroppedTotal snap))),
      (''forwarder_queue_depth'', FormatInt (ForwarderQueueDepth snap)),
      (''connection_attempts_total'', FormatInt (uint (ConnectionAttemptsTotal snap))),
      (''connection_failures_total'', FormatInt (uint (ConnectionFailuresTotal snap))),
      (''gc_reaped_total'', FormatInt (uint (GCReapedTotal snap))), (''goroutines'', FormatInt (Goroutines snap))]"

definition newline :: char where "newline = char_of (10 :: nat)"

definition exposition :: "(string \<times> string) list \<Rightarrow> string" where
  "exposition ms = concat (map (\<lambda>(name, v). name @ CHR '' '' # v @ [newline]) ms)"

definition enc_healthResponse :: "MetricsSnapshot \<Rightarrow> json" where
  "enc_healthResponse snap = JObj
     [(''status'', JStr ''ok''), (''connection_attempts_total'', JNum (uint (ConnectionAttemptsTotal snap))),
      (''connection_failures_total'', JNum (uint (ConnectionFailuresTotal snap))),
      (''forwarder_subscribers'', JNum (ForwarderSubscribers snap)),
      (''forwarder_dropped_total'', JNum (uint (ForwarderDroppedTotal snap))),
      (''forwarder_queue_depth'', JNum (ForwarderQueueDepth snap)), (''rooms_active'', JNum (RoomsActive snap)),
      (''participants_active'', JNum (ParticipantsActive snap)), (''tracks_published'', JNum (TracksPublished snap)),
      (''gc_reaped_total'', JNum (uint (GCReapedTotal snap))), (''uptime_seconds'', JNum (UptimeSeconds snap)),
      (''goroutines'', JNum (Goroutines snap))]"

definition cors_headers :: "(string, string) gomap" where
  "cors_headers = [(''Access-Control-Allow-Origin'', ''*''), (''Access-Control-Allow-Methods'', ''GET, OPTIONS''),
     (''Access-Control-Allow-Headers'', ''Content-Type'')]"

definition Health_ServeHTTP :: "'s HandlerDeps \<Rightarrow> int \<Rightarrow> int \<Rightarrow> 's \<Rightarrow> string \<Rightarrow> string \<Rightarrow> Response" where
  "Health_ServeHTTP deps uptime goroutines s httpMethod accept =
     (if httpMethod = ''OPTIONS'' then \<lparr>status = 204, headers = cors_headers, body = NoBody\<rparr>
      else
        let snap = health_snapshot deps uptime goroutines s
        in if strings_Contains accept ''text/plain''
           then \<lparr>status = 200, headers = mput ''Content-Type'' ''text/plain; charset=utf-8'' cors_headers,
                 body = TextBody (exposition (text_metrics snap))\<rparr>
           else \<lparr>status = 200, headers = mput ''Content-Type'' ''application/json'' cors_headers,
                 body = JsonBody (enc_healthResponse snap)\<rparr>)"

subsection \<open>Routes\<close>

text \<open>\<open>ServeMux.Handle\<close> panics on an invalid pattern and on one that conflicts with a registered
  pattern; which patterns these are belongs to \<open>net/http\<close> and is an argument. \<open>None\<close> is a panic.\<close>

datatype Route = RouteHealth | RouteSignaling

type_synonym ServeMux = "(string, Route) gomap"

definition mux_Handle ::
  "(string \<Rightarrow> bool) \<Rightarrow> (string \<Rightarrow> string \<Rightarrow> bool) \<Rightarrow> string \<Rightarrow> Route \<Rightarrow> ServeMux \<Rightarrow> ServeMux option" where
  "mux_Handle valid conflicts pat h mux =
     (if \<not> valid pat then None
      else if list_ex (\<lambda>(q, _). conflicts q pat) mux then None
      else Some (mput pat h mux))"

fun handle_all ::
  "(string \<Rightarrow> bool) \<Rightarrow> (string \<Rightarrow> string \<Rightarrow> bool) \<Rightarrow> string list \<Rightarrow> Route \<Rightarrow> ServeMux \<Rightarrow> ServeMux option" where
  "handle_all valid conflicts [] h mux = Some mux"
| "handle_all valid conflicts (p # ps) h mux =
     (case mux_Handle valid conflicts p h mux of None \<Rightarrow> None | Some mux1 \<Rightarrow> handle_all valid conflicts ps h mux1)"

text \<open>The set of health paths is a Go map, so each of them is registered once.\<close>

definition healthPaths :: "Config \<Rightarrow> string list" where
  "healthPaths cfg =
     (let healthPath = (if HealthPath cfg = '''' then DefaultHealthPath else HealthPath cfg)
      in remdups [healthPath, ''/health'', ''/healthz''])"

definition wsPath :: "Config \<Rightarrow> string" where
  "wsPath cfg = (if WebSocketPath cfg = '''' then DefaultWebSocketPath else WebSocketPath cfg)"

definition registerRoutes ::
  "(string \<Rightarrow> bool) \<Rightarrow> (string \<Rightarrow> string \<Rightarrow> bool) \<Rightarrow> Config \<Rightarrow> 's HandlerDeps \<Rightarrow> ServeMux option" where
  "registerRoutes valid conflicts cfg deps =
     (case handle_all valid conflicts (healthPaths cfg) RouteHealth [] of
        None \<Rightarrow> None
      | Some mux \<Rightarrow>
          if hd_SignalingHandler deps then mux_Handle valid conflicts (wsPath cfg) RouteSignaling mux else Some mux)"

subsection \<open>The server\<close>

record ('s, 'h) server_options =
  o_signalingHandler :: "'h option"
  o_diagnosticsSnapshoter :: "('s \<Rightarrow> MetricsSnapshot) option"
  o_metricsSnapshot :: "('s \<Rightarrow> MetricsSnapshot) option"

type_synonym ('s, 'h) Option = "('s, 'h) server_options \<Rightarrow> ('s, 'h) server_options"

definition WithSignalingHandler :: "'h option \<Rightarrow> ('s, 'h) Option" where
  "WithSignalingHandler handler opts = (case handler of None \<Rightarrow> opts | Some _ \<Rightarrow> opts\<lparr>o_signalingHandler := handler\<rparr>)"

definition WithDiagnosticsSnapshoter :: "('s \<Rightarrow> MetricsSnapshot) option \<Rightarrow> ('s, 'h) Option" where
  "WithDiagnosticsSnapshoter f opts = (case f of None \<Rightarrow> opts | Some _ \<Rightarrow> opts\<lparr>o_diagnosticsSnapshoter := f\<rparr>)"

definition WithMetricsSnapshot :: "('s \<Rightarrow> MetricsSnapshot) option \<Rightarrow> ('s, 'h) Option" where
  "WithMetricsSnapshot f opts = (case f of None \<Rightarrow> opts | Some _ \<Rightarrow> opts\<lparr>o_metricsSnapshot := f\<rparr>)"

record ('s, 'h) Server =
  srv_addr :: string
  srv_mux :: ServeMux
  srv_deps :: "'s HandlerDeps"
  srv_signalingHandler :: "'h option"

definition NewServer ::
  "(string \<Rightarrow> bool) \<Rightarrow> (string \<Rightarrow> string \<Rightarrow> bool) \<Rightarrow> Config \<Rightarrow> ('s, 'h) Option option list \<Rightarrow> ('s, 'h) Server option" where
  "NewServer valid conflicts cfg opts =
     (let applied = fold (\<lambda>opt a. case opt of None \<Rightarrow> a | Some f \<Rightarrow> f a) opts
            \<lparr>o_signalingHandler = None, o_diagnosticsSnapshoter = None, o_metricsSnapshot = None\<rparr>;
          deps = \<lparr>hd_SignalingHandler = (o_signalingHandler applied \<noteq> None),
                  hd_MetricsSnapshot = o_metricsSnapshot applied,
                  hd_DiagnosticsSnapshoter = o_diagnosticsSnapshoter applied\<rparr>
      in (case registerRoutes valid conflicts cfg deps of
            None \<Rightarrow> None
          | Some mux \<Rightarrow>
              Some \<lparr>srv_addr = HTTPAddr cfg, srv_mux = mux, srv_deps = deps,
                    srv_signalingHandler = o_signalingHandler applied\<rparr>))"

text \<open>\<open>Start\<close>: the listener's error, where the sentinel \<open>ErrServerClosed\<close> is no error.\<close>

definition Server_Start :: "gerror \<Rightarrow> gerror option \<Rightarrow> gerror option" where
  "Server_Start ErrServerClosed err = (if err = Some ErrServerClosed then None else err)"

text \<open>\<open>Shutdown\<close>: the signaling handler first, then the HTTP server, whose result is returned. The
  handler is a state of the program, read and replaced through \<open>get\<close> and \<open>put\<close>.\<close>

definition Server_Shutdown ::
  "'p env \<Rightarrow> ('s \<Rightarrow> 'p Handler) \<Rightarrow> ('p Handler \<Rightarrow> 's \<Rightarrow> 's) \<Rightarrow> gerror option \<Rightarrow> ('s, 'h) Server \<Rightarrow> 's \<Rightarrow> gerror option \<times> 's" where
  "Server_Shutdown E get put httpResult srv s =
     (httpResult,
      case srv_signalingHandler srv of None \<Rightarrow> s | Some _ \<Rightarrow> put (Handler_Shutdown E (get s)) s)"

subsection \<open>Wiring\<close>

text \<open>The server that \<open>main\<close> builds, and the router of the SDK client. Their state is the handler.\<close>

definition main_server ::
  "(string \<Rightarrow> bool) \<Rightarrow> (string \<Rightarrow> string \<Rightarrow> bool) \<Rightarrow> Config \<Rightarrow> logger \<Rightarrow> ('p Handler, HandlerSettings) Server option" where
  "main_server valid conflicts cfg log =
     NewServer valid conflicts cfg [Some (WithSignalingHandler (Some (newSignalingHandler cfg log)))]"

definition Client_deps :: "int \<Rightarrow> int \<Rightarrow> connectionMetrics \<Rightarrow> 'p Handler HandlerDeps" where
  "Client_deps uptime goroutines m =
     \<lparr>hd_SignalingHandler = True, hd_MetricsSnapshot = Some (Handler_Snapshot uptime goroutines m),
      hd_DiagnosticsSnapshoter = None\<rparr>"

definition zero_config :: Config where
  "zero_config = \<lparr>HTTPAddr = '''', HealthPath = '''', WebSocketPath = '''', STUNServers = [], TURNServers = [],
     GCParticipantTTL = 0, WSAllowedOrigins = [], WSReadTimeout = 0, WSPingInterval = 0, WSWriteTimeout = 0\<rparr>"

definition Client_HTTPHandler ::
  "(string \<Rightarrow> bool) \<Rightarrow> (string \<Rightarrow> string \<Rightarrow> bool) \<Rightarrow> int \<Rightarrow> int \<Rightarrow> connectionMetrics \<Rightarrow>
     (ServeMux \<times> 'p Handler HandlerDeps) option" where
  "Client_HTTPHandler valid conflicts uptime goroutines m =
     (let deps = Client_deps uptime goroutines m
      in case registerRoutes valid conflicts
                (zero_config\<lparr>HealthPath := DefaultHealthPath, WebSocketPath := DefaultWebSocketPath\<rparr>) deps of
           None \<Rightarrow> None
         | Some mux \<Rightarrow> Some (mux, deps))"

end
