(* ===== verification/Http_Contracts.thy ===== *)
theory Http_Contracts
  imports Http_Server Server_Contracts
begin

text \<open>
  The guarantees of the HTTP surface: what the health endpoint reports of the server, that its two
  formats agree, and which routes exist.
\<close>

subsection \<open>What is counted\<close>



subsection \<open>The two formats\<close>

text \<open>How a scraper reads the text exposition, and how the values of the JSON object print.\<close>

definition scrape_line :: "string \<Rightarrow> string \<times> string" where
  "scrape_line l = (case strings_Split l (CHR '' '') of
     name # value # _ \<Rightarrow> (name, value) | _ \<Rightarrow> (l, ''''))"

definition scrape :: "string \<Rightarrow> (string, string) gomap" where
  "scrape txt = map scrape_line (butlast (strings_Split txt newline))"

definition json_text :: "json \<Rightarrow> string" where
  "json_text j = (case j of JStr s \<Rightarrow> s | JNum n \<Rightarrow> FormatInt n | _ \<Rightarrow> '''')"

lemma FormatUint_digits: "c \<in> set (FormatUint n) \<Longrightarrow> digit_val c \<noteq> None"
proof (induction n rule: FormatUint.induct)
  case (1 n)
  then show ?case by (subst (asm) FormatUint.simps) (auto simp: digit_val_char split: if_splits)
qed

lemma FormatInt_plain: "newline \<notin> set (FormatInt n)" "CHR '' '' \<notin> set (FormatInt n)"
proof -
  have "digit_val newline = None" "digit_val (CHR '' '') = None" "newline \<noteq> CHR ''-''" by code_simp+
  then show "newline \<notin> set (FormatInt n)" "CHR '' '' \<notin> set (FormatInt n)"
    using FormatUint_digits [of newline] FormatUint_digits [of "CHR '' ''"] by (auto simp: FormatInt_def)
qed

lemma scrape_exposition:
  assumes "\<forall>(n, v) \<in> set ms. newline \<notin> set n \<and> newline \<notin> set v \<and> CHR '' '' \<notin> set n \<and> CHR '' '' \<notin> set v"
  shows "scrape (exposition ms) = ms"
  using assms
proof (induction ms)
  case Nil
  show ?case by (simp add: scrape_def exposition_def)
next
  case (Cons p ms)
  obtain n v where p: "p = (n, v)" by fastforce
  have nl: "newline \<noteq> CHR '' ''" by code_simp
  have h: "newline \<notin> set (n @ CHR '' '' # v)" "CHR '' '' \<notin> set n" "CHR '' '' \<notin> set v"
    using Cons.prems p nl by auto
  have "exposition (p # ms) = (n @ CHR '' '' # v) @ newline # exposition ms" by (simp add: exposition_def p)
  then have "strings_Split (exposition (p # ms)) newline = (n @ CHR '' '' # v) # strings_Split (exposition ms) newline"
    using Split_append_sep [OF h(1)] by simp
  moreover have "scrape_line (n @ CHR '' '' # v) = p"
    using Split_append_sep [OF h(2)] Split_no_sep [OF h(3)] by (simp add: scrape_line_def p)
  ultimately show ?case using Cons by (simp add: scrape_def)
qed

lemma text_metrics_plain:
  "\<forall>(n, v) \<in> set (text_metrics snap). newline \<notin> set n \<and> newline \<notin> set v \<and> CHR '' '' \<notin> set n \<and> CHR '' '' \<notin> set v"
proof -
  have "list_all (\<lambda>n. newline \<notin> set n \<and> CHR '' '' \<notin> set n)
    [''status'', ''ok'', ''uptime_seconds'', ''rooms_active'', ''participants_active'', ''tracks_published'',
     ''forwarder_subscribers'', ''forwarder_dropped_total'', ''forwarder_queue_depth'', ''connection_attempts_total'',
     ''connection_failures_total'', ''gc_reaped_total'', ''goroutines'']" by code_simp
  then show ?thesis using FormatInt_plain unfolding text_metrics_def
    by (simp only: list_all_iff list.set ball_simps prod.case simp_thms)
qed

lemma text_metrics_fields:
  assumes "enc_healthResponse snap = JObj flds"
  shows "mget (text_metrics snap) name = map_option json_text (mget flds name)"
proof -
  let ?js = "map (\<lambda>(n, j). (n, json_text j)) flds"
  have "distinct [''status'', ''uptime_seconds'', ''rooms_active'', ''participants_active'', ''tracks_published'',
     ''forwarder_subscribers'', ''forwarder_dropped_total'', ''forwarder_queue_depth'', ''connection_attempts_total'',
     ''connection_failures_total'', ''gc_reaped_total'', ''goroutines'']" by code_simp
  then have d: "distinct (map fst (text_metrics snap))" by (simp only: text_metrics_def list.map fst_conv)
  have f: "?js = map (\<lambda>(n, j). (n, json_text j)) (case enc_healthResponse snap of JObj fs \<Rightarrow> fs)" using assms by simp
  have "distinct [''status'', ''connection_attempts_total'', ''connection_failures_total'',
     ''forwarder_subscribers'', ''forwarder_dropped_total'', ''forwarder_queue_depth'', ''rooms_active'',
     ''participants_active'', ''tracks_published'', ''gc_reaped_total'', ''uptime_seconds'', ''goroutines'']" by code_simp
  then have d': "distinct (map fst ?js)" unfolding f by (simp only: enc_healthResponse_def json.case list.map fst_conv prod.case)
  have "set (text_metrics snap) = set ?js"
    unfolding f unfolding text_metrics_def enc_healthResponse_def json.case list.map prod.case json_text_def list.set
    by (intro subset_antisym; simp only: insert_subset empty_subsetI insert_iff simp_thms)
  then have "mget (text_metrics snap) = mget ?js" using map_of_inject_set [OF d d'] by blast
  then show ?thesis by (simp add: map_of_map)
qed

text \<open>C37. The text exposition and the JSON object of the health endpoint carry the same metrics: the text
  of one request, read line by line, has the names of the other's fields and the same value
  under each of them.\<close>

theorem health_formats_agree:
  assumes "httpMethod \<noteq> ''OPTIONS''" and "strings_Contains accept ''text/plain''" and "\<not> strings_Contains accept' ''text/plain''"
  shows "\<exists>txt flds. body (Health_ServeHTTP deps u g s httpMethod accept) = TextBody txt \<and>
    body (Health_ServeHTTP deps u g s httpMethod accept') = JsonBody (JObj flds) \<and>
    (\<forall>name. mget (scrape txt) name = map_option json_text (mget flds name))"
proof -
  let ?snap = "health_snapshot deps u g s"
  obtain flds where f: "enc_healthResponse ?snap = JObj flds" by (simp add: enc_healthResponse_def)
  have "\<forall>name. mget (scrape (exposition (text_metrics ?snap))) name = map_option json_text (mget flds name)"
    unfolding scrape_exposition [OF text_metrics_plain] by (simp add: text_metrics_fields [OF f])
  then show ?thesis using assms f by (simp add: Health_ServeHTTP_def Let_def)
qed

theorem health_formats_agree_witness:
  "\<exists>txt flds. body (Health_ServeHTTP (Client_deps 5 7 \<lparr>cm_attempts = 3, cm_failures = 1\<rparr>) 5 7 demo_two ''GET'' ''text/plain'')
       = TextBody txt \<and>
     body (Health_ServeHTTP (Client_deps 5 7 \<lparr>cm_attempts = 3, cm_failures = 1\<rparr>) 5 7 demo_two ''GET'' ''*/*'')
       = JsonBody (JObj flds) \<and>
     (\<forall>name. mget (scrape txt) name = map_option json_text (mget flds name))"
proof -
  have "strings_Contains ''text/plain'' ''text/plain''" "\<not> strings_Contains ''*/*'' ''text/plain''" by code_simp+
  then show ?thesis by (intro health_formats_agree) simp_all
qed

subsection \<open>Routes\<close>

lemma mput_fresh: "mget m k = None \<Longrightarrow> mput k v m = m @ [(k, v)]"
  by (induction m) (auto split: if_splits)

lemma handle_all_some:
  assumes "\<And>p. conflicts p p"
  shows "handle_all valid conflicts ps h mux =
    (if (\<forall>p \<in> set ps. valid p \<and> (\<forall>q \<in> set (mkeys mux). \<not> conflicts q p)) \<and> sorted_wrt (\<lambda>q p. \<not> conflicts q p) ps
     then Some (mux @ map (\<lambda>p. (p, h)) ps) else None)"
proof (induction ps arbitrary: mux)
  case (Cons p ps)
  have ex: "list_ex (\<lambda>(q, _). conflicts q p) mux \<longleftrightarrow> (\<exists>q \<in> set (mkeys mux). conflicts q p)"
    by (force simp: list_ex_iff)
  show ?case
  proof (cases "valid p \<and> (\<forall>q \<in> set (mkeys mux). \<not> conflicts q p)")
    case True
    then have "p \<notin> set (mkeys mux)" using assms by blast
    then have "mput p h mux = mux @ [(p, h)]" by (intro mput_fresh) (simp add: map_of_eq_None_iff)
    then have "mux_Handle valid conflicts p h mux = Some (mux @ [(p, h)])" using True ex by (simp add: mux_Handle_def)
    then show ?thesis using True by (auto simp: Cons.IH)
  next
    case False
    then have "mux_Handle valid conflicts p h mux = None" using ex by (auto simp: mux_Handle_def)
    then show ?thesis using False by auto
  qed
qed simp

lemma routes_exact:
  assumes "\<And>p. conflicts p p"
  shows "registerRoutes valid conflicts cfg deps =
    (let ws = (if hd_SignalingHandler deps then [wsPath cfg] else [])
     in if (\<forall>p \<in> set (healthPaths cfg @ ws). valid p) \<and> sorted_wrt (\<lambda>q p. \<not> conflicts q p) (healthPaths cfg @ ws)
        then Some (map (\<lambda>p. (p, RouteHealth)) (healthPaths cfg) @ map (\<lambda>p. (p, RouteSignaling)) ws)
        else None)"
proof -
  have one: "mux_Handle valid conflicts p h mux = handle_all valid conflicts [p] h mux" for p h mux
    by (simp split: option.split)
  have keys: "mkeys (map (\<lambda>p. (p, RouteHealth)) ps) = ps" for ps :: "string list" by (induction ps) simp_all
  show ?thesis unfolding registerRoutes_def one handle_all_some [OF assms] Let_def
    by (auto simp: keys sorted_wrt_append)
qed



subsection \<open>The command\<close>

lemma main_server_deps:
  "main_server valid conflicts cfg log = Some srv \<Longrightarrow>
     srv_deps srv = \<lparr>hd_SignalingHandler = True, hd_MetricsSnapshot = None, hd_DiagnosticsSnapshoter = None\<rparr>"
  by (auto simp: main_server_def NewServer_def Let_def WithSignalingHandler_def split: option.splits)

lemma main_server_none:
  assumes "(main_server valid conflicts cfg log :: ('p Handler, HandlerSettings) Server option) = None"
  shows "\<exists>deps :: 'p Handler HandlerDeps. registerRoutes valid conflicts cfg deps = None"
  using assms by (auto simp: main_server_def NewServer_def Let_def split: option.splits)

lemma Client_HTTPHandler_none:
  assumes "(Client_HTTPHandler valid conflicts u g m :: (_ \<times> 'p Handler HandlerDeps) option) = None"
  shows "\<exists>deps :: 'p Handler HandlerDeps. registerRoutes valid conflicts
    (zero_config\<lparr>HealthPath := DefaultHealthPath, WebSocketPath := DefaultWebSocketPath\<rparr>) deps = None"
  using assms by (auto simp: Client_HTTPHandler_def Let_def split: option.splits)

text \<open>A command whose WebSocket path is also a health path does not start: the set of health paths
  is deduplicated for this reason, the WebSocket path is not.\<close>

theorem websocket_path_clash:
  assumes "\<And>p. conflicts p p" and "wsPath cfg \<in> set (healthPaths cfg)"
  shows "main_server valid conflicts cfg log = None"
proof -
  have "registerRoutes valid conflicts cfg deps = None" if "hd_SignalingHandler deps" for deps :: "'a Handler HandlerDeps"
    using assms that by (auto simp: routes_exact [OF assms(1)] sorted_wrt_append)
  then show ?thesis by (simp add: main_server_def NewServer_def WithSignalingHandler_def)
qed

theorem websocket_path_clash_witness:
  "(main_server valid (=) (zero_config\<lparr>WebSocketPath := ''/healthz''\<rparr>) 0 :: (demo_pion Handler, HandlerSettings) Server option) = None"
proof -
  have "wsPath (zero_config\<lparr>WebSocketPath := ''/healthz''\<rparr>) \<in> set (healthPaths (zero_config\<lparr>WebSocketPath := ''/healthz''\<rparr>))"
    by code_simp
  then show ?thesis using websocket_path_clash [of "(=)"] by blast
qed

text \<open>The health endpoint of the command does not report its state: whatever rooms, participants and
  forwarders the handler has, every gauge is zero, because \<open>main\<close> gives the server no
  snapshot function. The SDK's endpoint does report the state of the client's handler.\<close>

theorem production_health_blind:
  assumes "main_server valid conflicts cfg log = Some srv" and "Client_HTTPHandler valid conflicts u g m = Some (mux, deps)"
    and "httpMethod \<noteq> ''OPTIONS''" and "\<not> strings_Contains accept ''text/plain''"
  shows "body (Health_ServeHTTP (srv_deps srv) u g h httpMethod accept) = JsonBody (enc_healthResponse (zero_snapshot u g)) \<and>
    body (Health_ServeHTTP deps u g h httpMethod accept) = JsonBody (enc_healthResponse (Handler_Snapshot u g m h))"
proof -
  have "deps = Client_deps u g m" using assms(2) by (auto simp: Client_HTTPHandler_def Let_def split: option.splits)
  then show ?thesis
    using assms(3,4) main_server_deps [OF assms(1)] by (simp add: Health_ServeHTTP_def Let_def health_snapshot_def Client_deps_def)
qed

theorem production_health_blind_witness:
  "\<exists>srv. main_server (\<lambda>_. True) (=) zero_config 0 = Some srv \<and>
     body (Health_ServeHTTP (srv_deps srv) 5 7 demo_two ''GET'' ''*/*'') = JsonBody (enc_healthResponse (zero_snapshot 5 7))"
proof -
  let ?c = "zero_config\<lparr>HealthPath := DefaultHealthPath, WebSocketPath := DefaultWebSocketPath\<rparr>"
  have p: "healthPaths zero_config = [''/health'', ''/healthz'']" "wsPath zero_config = ''/ws''"
    "healthPaths ?c = [''/health'', ''/healthz'']" "wsPath ?c = ''/ws''" by code_simp+
  have r: "registerRoutes (\<lambda>_. True) (=) cfg deps \<noteq> None"
    if "cfg = zero_config \<or> cfg = ?c" for cfg and deps :: "demo_pion Handler HandlerDeps"
    using that p by (auto simp: routes_exact)
  have "main_server (\<lambda>_. True) (=) zero_config 0 \<noteq> (None :: (demo_pion Handler, HandlerSettings) Server option)"
    using main_server_none r by blast
  then obtain srv :: "(demo_pion Handler, HandlerSettings) Server" where s: "main_server (\<lambda>_. True) (=) zero_config 0 = Some srv"
    by blast
  have "Client_HTTPHandler (\<lambda>_. True) (=) 5 7 \<lparr>cm_attempts = 0, cm_failures = 0\<rparr> \<noteq> (None :: (_ \<times> demo_pion Handler HandlerDeps) option)"
    using Client_HTTPHandler_none r by blast
  then obtain mux and deps :: "demo_pion Handler HandlerDeps" where
    c: "Client_HTTPHandler (\<lambda>_. True) (=) 5 7 \<lparr>cm_attempts = 0, cm_failures = 0\<rparr> = Some (mux, deps)" by fast
  have "\<not> strings_Contains ''*/*'' ''text/plain''" by code_simp
  then show ?thesis using production_health_blind [OF s c] s by simp
qed

end
