(* ===== verification/Packet_Pool.thy ===== *)
theory Packet_Pool
  imports Forwarder "HOL-Library.Multiset"
begin

text \<open>
  Cloning and pooling of packets (\<open>track_forwarder.go\<close>). Elsewhere a packet is a value; in the
  program it is a pointer to a struct whose payloads are byte slices. The forwarder clones a packet
  for every subscriber into a struct from a pool, and the writer of the subscriber returns the
  struct after use. Here structs and slices have addresses, and it is shown that this implements
  the queues of values of \<open>Forwarder\<close>.

  The remaining header fields, among them the slice of contributing sources, which every clone
  shares with the original and nobody writes, are not part of the value.
\<close>

subsection \<open>Structs and slices\<close>

record Extension =
  x_id :: "8 word"
  x_payload :: "nat option"

record Packet =
  pk_SequenceNumber :: "16 word"
  pk_Timestamp :: "32 word"
  pk_SSRC :: "32 word"
  pk_PayloadType :: "8 word"
  pk_Extensions :: "Extension list"
  pk_Payload :: "nat option"

record packet_heap =
  ph_bytes :: "nat \<Rightarrow> 8 word list"
  ph_nbytes :: nat
  ph_structs :: "nat \<Rightarrow> Packet"
  ph_nstructs :: nat
  ph_pool :: "nat list"

definition zero_packet :: Packet where
  "zero_packet = \<lparr>pk_SequenceNumber = 0, pk_Timestamp = 0, pk_SSRC = 0, pk_PayloadType = 0,
     pk_Extensions = [], pk_Payload = None\<rparr>"

definition read_slice :: "packet_heap \<Rightarrow> nat option \<Rightarrow> 8 word list" where
  "read_slice s p = (case p of None \<Rightarrow> [] | Some a \<Rightarrow> ph_bytes s a)"

text \<open>The value of a packet; a nil slice and an empty one are the same on the wire.\<close>

definition read_struct :: "packet_heap \<Rightarrow> Packet \<Rightarrow> rtp_packet" where
  "read_struct s p =
     \<lparr>rtp_SequenceNumber = pk_SequenceNumber p, rtp_Timestamp = pk_Timestamp p, rtp_SSRC = pk_SSRC p,
      rtp_PayloadType = pk_PayloadType p, rtp_Extensions = map (\<lambda>x. (x_id x, read_slice s (x_payload x))) (pk_Extensions p),
      rtp_Payload = read_slice s (pk_Payload p)\<rparr>"

definition read_packet :: "packet_heap \<Rightarrow> nat \<Rightarrow> rtp_packet" where
  "read_packet s a = read_struct s (ph_structs s a)"

definition make_slice :: "8 word list \<Rightarrow> packet_heap \<Rightarrow> nat \<times> packet_heap" where
  "make_slice bs s =
     (ph_nbytes s, s\<lparr>ph_bytes := (ph_bytes s)(ph_nbytes s := bs), ph_nbytes := Suc (ph_nbytes s)\<rparr>)"

text \<open>\<open>sync.Pool\<close>: \<open>Get\<close> removes any element or makes a new struct; \<open>pick\<close> chooses.\<close>

definition pool_Get :: "nat \<Rightarrow> packet_heap \<Rightarrow> nat \<times> packet_heap" where
  "pool_Get pick s =
     (if pick < length (ph_pool s)
      then (ph_pool s ! pick, s\<lparr>ph_pool := take pick (ph_pool s) @ drop (Suc pick) (ph_pool s)\<rparr>)
      else (ph_nstructs s, s\<lparr>ph_structs := (ph_structs s)(ph_nstructs s := zero_packet), ph_nstructs := Suc (ph_nstructs s)\<rparr>))"

definition pool_Put :: "nat \<Rightarrow> packet_heap \<Rightarrow> packet_heap" where
  "pool_Put c s = s\<lparr>ph_structs := (ph_structs s)(c := zero_packet), ph_pool := c # ph_pool s\<rparr>"

definition clone_payload :: "nat option \<Rightarrow> packet_heap \<Rightarrow> nat option \<times> packet_heap" where
  "clone_payload p s =
     (case p of None \<Rightarrow> (None, s)
      | Some a \<Rightarrow> (case make_slice (ph_bytes s a) s of (b, s') \<Rightarrow> (Some b, s')))"

text \<open>The payload of an extension is copied with \<open>append\<close> to a nil slice, which gives nil again
  when there is nothing to append.\<close>

definition clone_ext :: "Extension \<Rightarrow> packet_heap \<Rightarrow> Extension \<times> packet_heap" where
  "clone_ext x s =
     (case x_payload x of None \<Rightarrow> (x, s)
      | Some a \<Rightarrow>
          if ph_bytes s a = [] then (x\<lparr>x_payload := None\<rparr>, s)
          else (case make_slice (ph_bytes s a) s of (b, s') \<Rightarrow> (x\<lparr>x_payload := Some b\<rparr>, s')))"

fun clone_exts :: "Extension list \<Rightarrow> packet_heap \<Rightarrow> Extension list \<times> packet_heap" where
  "clone_exts [] s = ([], s)"
| "clone_exts (x # xs) s =
     (case clone_ext x s of (y, s1) \<Rightarrow> (case clone_exts xs s1 of (ys, s2) \<Rightarrow> (y # ys, s2)))"

definition clonePacket :: "nat \<Rightarrow> nat \<Rightarrow> packet_heap \<Rightarrow> nat \<times> packet_heap" where
  "clonePacket pick pkt s =
     (case pool_Get pick s of (c, s1) \<Rightarrow>
        let p = ph_structs s1 pkt in
        (case clone_payload (pk_Payload p) s1 of (pl, s2) \<Rightarrow>
           (case clone_exts (pk_Extensions p) s2 of (exts, s3) \<Rightarrow>
              (c, s3\<lparr>ph_structs := (ph_structs s3)(c := p\<lparr>pk_Payload := pl, pk_Extensions := exts\<rparr>)\<rparr>))))"

subsection \<open>Cloning\<close>

text \<open>The slices of a packet, and growth of the heap of slices.\<close>

definition opt_list :: "nat option \<Rightarrow> nat list" where
  "opt_list p = (case p of None \<Rightarrow> [] | Some a \<Rightarrow> [a])"

definition ext_slices :: "Extension list \<Rightarrow> nat list" where
  "ext_slices xs = concat (map (\<lambda>x. opt_list (x_payload x)) xs)"

definition slices :: "Packet \<Rightarrow> nat list" where
  "slices p = opt_list (pk_Payload p) @ ext_slices (pk_Extensions p)"

definition grows :: "packet_heap \<Rightarrow> packet_heap \<Rightarrow> bool" where
  "grows s s' \<longleftrightarrow> ph_nbytes s \<le> ph_nbytes s' \<and> (\<forall>b < ph_nbytes s. ph_bytes s' b = ph_bytes s b) \<and>
     ph_structs s' = ph_structs s \<and> ph_nstructs s' = ph_nstructs s \<and> ph_pool s' = ph_pool s"

lemma grows_refl [simp]: "grows s s"
  by (simp add: grows_def)

lemma grows_trans: "grows s s' \<Longrightarrow> grows s' s'' \<Longrightarrow> grows s s''"
  by (auto simp: grows_def)

lemma make_slice_grows: "make_slice bs s = (b, s') \<Longrightarrow> grows s s'"
  by (auto simp: make_slice_def grows_def)

text \<open>Fresh slices: between two sizes of the heap, each once.\<close>

definition fresh_slices :: "packet_heap \<Rightarrow> packet_heap \<Rightarrow> nat list \<Rightarrow> bool" where
  "fresh_slices s s' bs \<longleftrightarrow> distinct bs \<and> (\<forall>b \<in> set bs. ph_nbytes s \<le> b \<and> b < ph_nbytes s')"

lemma fresh_slices_append:
  "fresh_slices s s1 xs \<Longrightarrow> fresh_slices s1 s2 ys \<Longrightarrow> grows s s1 \<Longrightarrow> grows s1 s2 \<Longrightarrow> fresh_slices s s2 (xs @ ys)"
  by (fastforce simp: fresh_slices_def grows_def)

lemma clone_payload_effect:
  assumes "clone_payload p s = (q, s')"
  shows "grows s s'" "fresh_slices s s' (opt_list q)" "read_slice s' q = read_slice s p"
  using assms by (auto simp: clone_payload_def make_slice_def grows_def fresh_slices_def opt_list_def read_slice_def
      split: option.splits)

lemma clone_ext_effect:
  assumes "clone_ext x s = (y, s')"
  shows "grows s s'" "fresh_slices s s' (opt_list (x_payload y))" "x_id y = x_id x"
    "read_slice s' (x_payload y) = read_slice s (x_payload x)"
  using assms by (auto simp: clone_ext_def make_slice_def grows_def fresh_slices_def opt_list_def read_slice_def
      split: option.splits if_splits)

lemma read_slice_grows: "grows s s' \<Longrightarrow> set (opt_list p) \<subseteq> {..< ph_nbytes s} \<Longrightarrow> read_slice s' p = read_slice s p"
  by (auto simp: grows_def read_slice_def opt_list_def split: option.splits)

lemma fresh_below: "fresh_slices s s' bs \<Longrightarrow> set bs \<subseteq> {..< ph_nbytes s'}"
  by (auto simp: fresh_slices_def)

lemma clone_exts_effect:
  assumes "clone_exts xs s = (ys, s')" and "set (ext_slices xs) \<subseteq> {..< ph_nbytes s}"
  shows "grows s s' \<and> fresh_slices s s' (ext_slices ys) \<and>
    map (\<lambda>y. (x_id y, read_slice s' (x_payload y))) ys = map (\<lambda>x. (x_id x, read_slice s (x_payload x))) xs"
  using assms
proof (induction xs arbitrary: s ys s')
  case Nil
  then show ?case by (simp add: fresh_slices_def ext_slices_def)
next
  case (Cons x xs)
  obtain y s1 zs where c: "clone_ext x s = (y, s1)" "clone_exts xs s1 = (zs, s')" "ys = y # zs"
    using Cons.prems(1) by (auto split: prod.splits)
  note X = clone_ext_effect [OF c(1)]
  have sub: "set (ext_slices xs) \<subseteq> {..< ph_nbytes s}" using Cons.prems(2) by (auto simp: ext_slices_def)
  then have "set (ext_slices xs) \<subseteq> {..< ph_nbytes s1}" using X(1) by (auto simp: grows_def)
  note I = Cons.IH [OF c(2) this]
  have r: "read_slice s1 (x_payload z) = read_slice s (x_payload z)" if "z \<in> set xs" for z
    by (rule read_slice_grows [OF X(1)]) (use sub that in \<open>auto simp: ext_slices_def\<close>)
  have "read_slice s' (x_payload y) = read_slice s (x_payload x)"
    using read_slice_grows [OF _ fresh_below [OF X(2)]] I X(4) by simp
  moreover have "fresh_slices s s' (ext_slices ys)"
    using fresh_slices_append [OF X(2) _ X(1)] I c(3) by (simp add: ext_slices_def)
  ultimately show ?case using I c(3) X(1,3) r grows_trans [OF X(1)] by simp
qed

subsection \<open>Ownership\<close>

text \<open>Every struct that is pooled or queued is there once, and the slices of the queued ones belong to
  one packet each. \<open>Q\<close> lists the queued structs of all subscribers.\<close>

definition owned :: "packet_heap \<Rightarrow> nat \<Rightarrow> nat list" where
  "owned s a = slices (ph_structs s a)"

definition pool_inv :: "nat list \<Rightarrow> packet_heap \<Rightarrow> bool" where
  "pool_inv Q s \<longleftrightarrow> distinct (ph_pool s @ Q) \<and> (\<forall>a \<in> set (ph_pool s @ Q). a < ph_nstructs s) \<and>
     distinct (concat (map (owned s) Q)) \<and> (\<forall>a \<in> set Q. set (owned s a) \<subseteq> {..< ph_nbytes s})"

lemma pool_inv_perm: "mset Q = mset Q' \<Longrightarrow> pool_inv Q s = pool_inv Q' s"
proof -
  assume m: "mset Q = mset Q'"
  then have "mset (concat (map (owned s) Q)) = mset (concat (map (owned s) Q'))"
    by (simp add: mset_concat flip: sum_mset_sum_list)
  then have "distinct (concat (map (owned s) Q)) = distinct (concat (map (owned s) Q'))" by (rule mset_eq_imp_distinct_iff)
  moreover have "distinct Q = distinct Q'" by (rule mset_eq_imp_distinct_iff [OF m])
  ultimately show ?thesis using mset_eq_setD [OF m] by (simp add: pool_inv_def)
qed

lemma read_slice_bytes: "ph_bytes s' = ph_bytes s \<Longrightarrow> read_slice s' p = read_slice s p"
  by (simp add: read_slice_def split: option.split)

text \<open>A packet that its owner may still read: not in the pool, its slices allocated.\<close>

definition readable :: "packet_heap \<Rightarrow> nat \<Rightarrow> bool" where
  "readable s a \<longleftrightarrow> a < ph_nstructs s \<and> a \<notin> set (ph_pool s) \<and> set (owned s a) \<subseteq> {..< ph_nbytes s}"

lemma queued_readable: "pool_inv Q s \<Longrightarrow> a \<in> set Q \<Longrightarrow> readable s a"
  by (auto simp: pool_inv_def readable_def)

lemma read_struct_grows:
  "grows s s' \<Longrightarrow> set (slices p) \<subseteq> {..< ph_nbytes s} \<Longrightarrow> read_struct s' p = read_struct s p"
  by (auto simp: read_struct_def slices_def ext_slices_def intro!: read_slice_grows)

lemma pool_Get_effect:
  assumes "pool_Get pick s = (c, s1)" and "pool_inv Q s"
  shows "c \<notin> set Q" "c \<notin> set (ph_pool s1)" "c < ph_nstructs s1" "set (ph_pool s1) \<subseteq> set (ph_pool s)" "distinct (ph_pool s1)"
    "ph_nstructs s \<le> ph_nstructs s1" "\<And>x. x < ph_nstructs s \<Longrightarrow> ph_structs s1 x = ph_structs s x"
    "ph_bytes s1 = ph_bytes s" "ph_nbytes s1 = ph_nbytes s" "\<And>x. readable s x \<Longrightarrow> x \<noteq> c"
proof -
  have I: "distinct (ph_pool s)" "set (ph_pool s) \<inter> set Q = {}" "\<forall>a \<in> set (ph_pool s) \<union> set Q. a < ph_nstructs s"
    using assms(2) by (auto simp: pool_inv_def)
  have "c \<notin> set Q \<and> c \<notin> set (ph_pool s1) \<and> c < ph_nstructs s1 \<and> set (ph_pool s1) \<subseteq> set (ph_pool s) \<and> distinct (ph_pool s1) \<and>
    ph_nstructs s \<le> ph_nstructs s1 \<and> (\<forall>x < ph_nstructs s. ph_structs s1 x = ph_structs s x) \<and>
    ph_bytes s1 = ph_bytes s \<and> ph_nbytes s1 = ph_nbytes s \<and> (\<forall>x. readable s x \<longrightarrow> x \<noteq> c)"
  proof (cases "pick < length (ph_pool s)")
    case True
    then have c: "c = ph_pool s ! pick" "s1 = s\<lparr>ph_pool := take pick (ph_pool s) @ drop (Suc pick) (ph_pool s)\<rparr>"
      using assms(1) by (auto simp: pool_Get_def)
    have e: "ph_pool s = take pick (ph_pool s) @ c # drop (Suc pick) (ph_pool s)"
      using id_take_nth_drop [OF True] c(1) by simp
    then have d: "distinct (take pick (ph_pool s) @ c # drop (Suc pick) (ph_pool s))" using I(1) by simp
    have i: "c \<in> set (ph_pool s)" using c(1) True by simp
    show ?thesis using d i I c(2) by (auto simp: readable_def dest: in_set_takeD in_set_dropD)
  next
    case False
    then have "c = ph_nstructs s"
      "s1 = s\<lparr>ph_structs := (ph_structs s)(c := zero_packet), ph_nstructs := Suc c\<rparr>"
      using assms(1) by (auto simp: pool_Get_def)
    then show ?thesis using I by (auto simp: readable_def)
  qed
  then show "c \<notin> set Q" "c \<notin> set (ph_pool s1)" "c < ph_nstructs s1" "set (ph_pool s1) \<subseteq> set (ph_pool s)" "distinct (ph_pool s1)"
    "ph_nstructs s \<le> ph_nstructs s1" "\<And>x. x < ph_nstructs s \<Longrightarrow> ph_structs s1 x = ph_structs s x"
    "ph_bytes s1 = ph_bytes s" "ph_nbytes s1 = ph_nbytes s" "\<And>x. readable s x \<Longrightarrow> x \<noteq> c" by blast+
qed

lemma disjoint_ranges: "(A :: nat set) \<subseteq> {n ..< m} \<Longrightarrow> B \<subseteq> {..< n} \<Longrightarrow> A \<inter> B = {}"
  by fastforce

text \<open>A clone is a new owner with the same value, and nothing that could be read has changed.\<close>

lemma clonePacket_effect:
  assumes inv: "pool_inv Q s" and r: "readable s a" and cl: "clonePacket pick a s = (c, s')"
  shows "pool_inv (c # Q) s'" "read_packet s' c = read_packet s a" "readable s x \<Longrightarrow> read_packet s' x = read_packet s x"
    "readable s x \<Longrightarrow> readable s' x" "c \<notin> set Q"
proof -
  obtain s1 where g: "pool_Get pick s = (c, s1)"
    using cl by (auto simp: clonePacket_def Let_def split: prod.splits)
  note G = pool_Get_effect [OF g inv]
  define p where "p = ph_structs s1 a"
  have p: "p = ph_structs s a" using r G(7) by (simp add: p_def readable_def)
  obtain pl s2 exts s3 where c: "clone_payload (pk_Payload p) s1 = (pl, s2)" "clone_exts (pk_Extensions p) s2 = (exts, s3)"
    and s': "s' = s3\<lparr>ph_structs := (ph_structs s3)(c := p\<lparr>pk_Payload := pl, pk_Extensions := exts\<rparr>)\<rparr>"
    using cl g by (auto simp: clonePacket_def Let_def p_def split: prod.splits)
  note P = clone_payload_effect [OF c(1)]
  have sl: "set (slices p) \<subseteq> {..< ph_nbytes s1}" using r p G(9) by (simp add: readable_def owned_def)
  then have "set (ext_slices (pk_Extensions p)) \<subseteq> {..< ph_nbytes s2}" using P(1) by (auto simp: slices_def grows_def)
  note E = clone_exts_effect [OF c(2) this]
  have g13: "grows s1 s3" using grows_trans [OF P(1)] E by blast
  have st: "ph_structs s' c = p\<lparr>pk_Payload := pl, pk_Extensions := exts\<rparr>" "\<And>x. x \<noteq> c \<Longrightarrow> ph_structs s' x = ph_structs s1 x"
    "ph_pool s' = ph_pool s1" "ph_nstructs s' = ph_nstructs s1" "ph_nbytes s' = ph_nbytes s3" "ph_bytes s' = ph_bytes s3"
    using g13 by (simp_all add: s' grows_def)
  have rs: "read_slice s' q = read_slice s3 q" for q by (rule read_slice_bytes) (simp add: st)
  have f: "fresh_slices s1 s3 (owned s' c)"
    using fresh_slices_append [OF P(2) _ P(1)] E by (simp add: owned_def st slices_def)
  have keep: "owned s' x = owned s x" "x \<noteq> c" "set (owned s x) \<subseteq> {..< ph_nbytes s}" if "readable s x" for x
    using that G(10) [OF that] G(7) by (auto simp: owned_def st readable_def)
  show rd: "read_packet s' x = read_packet s x" if "readable s x" for x
  proof -
    have e: "ph_structs s' x = ph_structs s x" using keep(2) [OF that] that G(7) st by (auto simp: readable_def)
    have s: "set (slices (ph_structs s x)) \<subseteq> {..< ph_nbytes s1}" using keep(3) [OF that] G(9) by (simp add: owned_def)
    have "read_slice s3 q = read_slice s q" if "set (opt_list q) \<subseteq> {..< ph_nbytes s1}" for q
      using read_slice_grows [OF g13 that] read_slice_bytes [OF G(8)] by simp
    then show ?thesis using s unfolding read_packet_def e read_struct_def rs
      by (auto simp: slices_def ext_slices_def)
  qed
  have "read_slice s3 pl = read_slice s (pk_Payload p)"
    using read_slice_grows [OF _ fresh_below [OF P(2)]] E P(3) read_slice_bytes [OF G(8)] by simp
  moreover have "read_slice s2 (x_payload y) = read_slice s (x_payload y)" if "y \<in> set (pk_Extensions p)" for y
  proof -
    have "set (opt_list (x_payload y)) \<subseteq> {..< ph_nbytes s1}" using sl that by (auto simp: slices_def ext_slices_def)
    then show ?thesis using read_slice_grows [OF P(1)] read_slice_bytes [OF G(8)] by simp
  qed
  ultimately show "read_packet s' c = read_packet s a"
    using E p by (simp add: read_packet_def read_struct_def st rs)
  show "c \<notin> set Q" by (rule G(1))
  have nb: "ph_nbytes s = ph_nbytes s1" "ph_nbytes s1 \<le> ph_nbytes s'" using G(9) g13 st by (simp_all add: grows_def)
  show "readable s' x" if "readable s x"
    using that keep [OF that] G(4,6) nb st by (fastforce simp: readable_def)
  have Q: "\<forall>x \<in> set Q. readable s x" using queued_readable [OF inv] by blast
  then have m: "map (owned s') Q = map (owned s) Q" using keep(1) by simp
  have below: "set (concat (map (owned s) Q)) \<subseteq> {..< ph_nbytes s}" using Q keep(3) by fastforce
  have new: "set (owned s' c) \<subseteq> {ph_nbytes s ..< ph_nbytes s'}" "distinct (owned s' c)"
    using f nb by (auto simp: fresh_slices_def st)
  have "distinct (concat (map (owned s) Q))" using inv by (simp add: pool_inv_def)
  then have d: "distinct (concat (map (owned s') (c # Q)))"
    using new(2) disjoint_ranges [OF new(1) below] unfolding list.map m by simp
  have "\<forall>x \<in> set (c # Q). set (owned s' x) \<subseteq> {..< ph_nbytes s'}"
    using f Q keep nb st by (fastforce simp: fresh_slices_def)
  moreover have "distinct (ph_pool s' @ c # Q)" using inv G(1,2,4,5) st by (auto simp: pool_inv_def)
  moreover have "x < ph_nstructs s'" if "x \<in> set (ph_pool s' @ c # Q)" for x
  proof (cases "x = c")
    case True
    then show ?thesis using G(3) st by simp
  next
    case False
    then have "x \<in> set (ph_pool s @ Q)" using that G(4) st by auto
    then have "x < ph_nstructs s" using inv unfolding pool_inv_def by blast
    then show ?thesis using G(6) st by simp
  qed
  ultimately show "pool_inv (c # Q) s'" using d by (simp add: pool_inv_def)
qed

subsection \<open>Recycling\<close>

text \<open>While it writes a packet, the transport of the subscriber may overwrite the slices of that packet;
  then its struct goes back to the pool.\<close>

definition scribble :: "(nat \<Rightarrow> 8 word list) \<Rightarrow> nat \<Rightarrow> packet_heap \<Rightarrow> packet_heap" where
  "scribble scr c s = s\<lparr>ph_bytes := (\<lambda>b. if b \<in> set (owned s c) then scr b else ph_bytes s b)\<rparr>"

lemma read_slice_scribble:
  "set (opt_list p) \<inter> set (owned s c) = {} \<Longrightarrow> read_slice (pool_Put c (scribble scr c s)) p = read_slice s p"
  by (auto simp: read_slice_def scribble_def pool_Put_def opt_list_def split: option.split)

lemma recycle_effect:
  fixes scr
  assumes inv: "pool_inv (c # Q) s"
  defines "s' \<equiv> pool_Put c (scribble scr c s)"
  shows "pool_inv Q s'" and "x \<in> set Q \<Longrightarrow> read_packet s' x = read_packet s x"
proof -
  have ne: "x \<noteq> c" "set (owned s x) \<inter> set (owned s c) = {}" if "x \<in> set Q" for x
    using inv that by (auto simp: pool_inv_def)
  have st: "ph_structs s' x = ph_structs s x" if "x \<in> set Q" for x
    using ne [OF that] by (simp add: s'_def pool_Put_def scribble_def)
  show "read_packet s' x = read_packet s x" if x: "x \<in> set Q"
  proof -
    have e: "read_slice s' q = read_slice s q" if "set (opt_list q) \<subseteq> set (owned s x)" for q
      unfolding s'_def by (rule read_slice_scribble) (use ne(2) [OF x] that in blast)
    show ?thesis unfolding read_packet_def st [OF x] read_struct_def
      by (auto simp: owned_def slices_def ext_slices_def intro!: e)
  qed
  have o: "owned s' x = owned s x" if "x \<in> set Q" for x by (simp add: owned_def st [OF that])
  then have m: "map (owned s') Q = map (owned s) Q" by simp
  have h: "ph_pool s' = c # ph_pool s" "ph_nstructs s' = ph_nstructs s" "ph_nbytes s' = ph_nbytes s"
    by (simp_all add: s'_def pool_Put_def scribble_def)
  have d: "distinct (concat (map (owned s') Q))" unfolding m using inv by (simp add: pool_inv_def)
  have b: "\<forall>x \<in> set Q. set (owned s' x) \<subseteq> {..< ph_nbytes s'}" using inv o h by (simp add: pool_inv_def)
  have "distinct (ph_pool s' @ Q)" "\<forall>x \<in> set (ph_pool s' @ Q). x < ph_nstructs s'"
    using inv h by (auto simp: pool_inv_def)
  then show "pool_inv Q s'" using d b by (simp add: pool_inv_def)
qed

subsection \<open>Subscribers\<close>

text \<open>A subscriber has its entry, of which the queue is not used here, and its queue of structs.\<close>

type_synonym pooled = "(nat \<times> subscriberEntry \<times> nat list) list \<times> packet_heap"

definition queued :: "(nat \<times> subscriberEntry \<times> nat list) list \<Rightarrow> nat list" where
  "queued es = concat (map (\<lambda>(k, e, q). q) es)"

definition view_entry :: "packet_heap \<Rightarrow> nat \<times> subscriberEntry \<times> nat list \<Rightarrow> nat \<times> subscriberEntry" where
  "view_entry s x = (case x of (k, e, q) \<Rightarrow> (k, e\<lparr>e_queue := map (read_packet s) q\<rparr>))"

definition view_all :: "pooled \<Rightarrow> (nat \<times> subscriberEntry) list" where
  "view_all st = (case st of (es, s) \<Rightarrow> map (view_entry s) es)"

text \<open>One round of the loop in \<open>WriteRTP\<close>, the whole loop, and one round of a writer.\<close>

definition offer_at :: "nat \<Rightarrow> nat \<Rightarrow> nat \<Rightarrow> pooled \<Rightarrow> pooled" where
  "offer_at pick a i st =
     (case st of (es, s) \<Rightarrow> (case es ! i of (k, e, q) \<Rightarrow>
        if length q \<ge> e_cap e then (es[i := (k, e\<lparr>e_dropped := e_dropped e + 1\<rparr>, q)], s)
        else (case clonePacket pick a s of (c, s') \<Rightarrow> (es[i := (k, e, q @ [c])], s'))))"

definition pooled_WriteRTP :: "(nat \<Rightarrow> nat) \<Rightarrow> nat \<Rightarrow> pooled \<Rightarrow> pooled" where
  "pooled_WriteRTP pick a st = fold (\<lambda>i. offer_at (pick i) a i) [0..<length (fst st)] st"

definition pooled_write :: "(nat \<Rightarrow> 8 word list) \<Rightarrow> nat \<Rightarrow> pooled \<Rightarrow> pooled" where
  "pooled_write scr i st =
     (case st of (es, s) \<Rightarrow> (case es ! i of (k, e, q) \<Rightarrow>
        (case q of [] \<Rightarrow> (es, s)
         | c # q' \<Rightarrow> (es[i := (k, e\<lparr>e_out := e_out e @ [read_packet s c]\<rparr>, q')], pool_Put c (scribble scr c s)))))"

lemma queued_mem: "x \<in> set es \<Longrightarrow> set (snd (snd x)) \<subseteq> set (queued es)"
  by (cases x) (auto simp: queued_def)

lemma queued_update:
  assumes "i < length es" and "es ! i = (k, e, q)"
  shows "\<exists>R. mset (queued es) = mset (q @ R) \<and> (\<forall>e' q'. mset (queued (es[i := (k, e', q')])) = mset (q' @ R)) \<and>
    (\<forall>j < length es. j \<noteq> i \<longrightarrow> set (snd (snd (es ! j))) \<subseteq> set R)"
proof -
  let ?R = "queued (take i es) @ queued (drop (Suc i) es)"
  have e: "es = take i es @ (k, e, q) # drop (Suc i) es" using id_take_nth_drop [OF assms(1)] assms(2) by simp
  have "mset (queued es) = mset (q @ ?R)" by (subst e) (simp add: queued_def)
  moreover have "mset (queued (es[i := (k, e', q')])) = mset (q' @ ?R)" for e' q'
    using assms(1) by (simp add: queued_def upd_conv_take_nth_drop)
  moreover have "set (snd (snd (es ! j))) \<subseteq> set ?R" if "j < length es" "j \<noteq> i" for j
  proof (cases "j < i")
    case True
    then have "es ! j \<in> set (take i es)" using assms(1) that by (auto simp: in_set_conv_nth intro!: exI [of _ j])
    then show ?thesis using queued_mem by fastforce
  next
    case False
    then have "es ! j \<in> set (drop (Suc i) es)"
      using that by (auto simp: in_set_conv_nth intro!: exI [of _ "j - Suc i"])
    then show ?thesis using queued_mem by fastforce
  qed
  ultimately show ?thesis by blast
qed

text \<open>Updating one queue while the packets of the others keep their values.\<close>

lemma view_update:
  assumes i: "i < length es" "es ! i = (k, e, q)"
    and others: "\<And>j x. j < length es \<Longrightarrow> j \<noteq> i \<Longrightarrow> x \<in> set (snd (snd (es ! j))) \<Longrightarrow> read_packet s' x = read_packet s x"
    and e': "e'\<lparr>e_queue := map (read_packet s') q'\<rparr> = e''"
  shows "view_all (es[i := (k, e', q')], s') = (view_all (es, s))[i := (k, e'')]"
proof (rule nth_equalityI)
  show "length (view_all (es[i := (k, e', q')], s')) = length ((view_all (es, s))[i := (k, e'')])" by (simp add: view_all_def)
next
  fix j assume "j < length (view_all (es[i := (k, e', q')], s'))"
  then have j: "j < length es" by (simp add: view_all_def)
  show "view_all (es[i := (k, e', q')], s') ! j = (view_all (es, s))[i := (k, e'')] ! j"
  proof (cases "j = i")
    case True
    then show ?thesis using j e' by (simp add: view_all_def view_entry_def)
  next
    case False
    obtain k1 e1 q1 where "es ! j = (k1, e1, q1)" by (metis prod_cases3)
    then show ?thesis using j False others [OF j False] by (simp add: view_all_def view_entry_def)
  qed
qed

lemma offer_at_effect:
  assumes inv: "pool_inv (queued es) s" and a: "readable s a" and i: "i < length es"
    and o: "offer_at pick a i (es, s) = (es', s')"
  shows "pool_inv (queued es') s' \<and> readable s' a \<and> read_packet s' a = read_packet s a \<and> length es' = length es \<and>
    view_all (es', s') = (view_all (es, s))[i := (case view_all (es, s) ! i of (k, e) \<Rightarrow> (k, snd (entry_offer (read_packet s a) e)))]"
proof -
  obtain k e q where q: "es ! i = (k, e, q)" by (metis prod_cases3)
  obtain R where R: "mset (queued es) = mset (q @ R)"
    "\<And>e' q'. mset (queued (es[i := (k, e', q')])) = mset (q' @ R)"
    "\<And>j. j < length es \<Longrightarrow> j \<noteq> i \<Longrightarrow> set (snd (snd (es ! j))) \<subseteq> set R"
    using queued_update [OF i q] by blast
  have V: "view_all (es, s) ! i = (k, e\<lparr>e_queue := map (read_packet s) q\<rparr>)" using i q by (simp add: view_all_def view_entry_def)
  show ?thesis
  proof (cases "length q \<ge> e_cap e")
    case True
    then have e': "es' = es[i := (k, e\<lparr>e_dropped := e_dropped e + 1\<rparr>, q)]" "s' = s"
      using o q by (auto simp: offer_at_def)
    have "pool_inv (queued es') s'" using inv pool_inv_perm [of "queued es'" "queued es"] R(1,2) e' by simp
    moreover have "view_all (es', s') = (view_all (es, s))[i := (k, e\<lparr>e_queue := map (read_packet s) q, e_dropped := e_dropped e + 1\<rparr>)]"
      unfolding e' by (rule view_update [OF i q]) (simp, cases e, simp)
    ultimately show ?thesis using a e' True by (simp add: V entry_offer_def)
  next
    case False
    then obtain c where c: "clonePacket pick a s = (c, s')" "es' = es[i := (k, e, q @ [c])]"
      using o q by (auto simp: offer_at_def split: prod.splits)
    note C = clonePacket_effect [OF inv a c(1)]
    have rd: "read_packet s' x = read_packet s x" if "x \<in> set (q @ R)" for x
      using C(3) queued_readable [OF inv] mset_eq_setD [OF R(1)] that by blast
    have "pool_inv (queued es') s'"
      using C(1) pool_inv_perm [of "queued es'" "c # queued es"] R(1,2) c(2) by simp
    moreover have "view_all (es', s') = (view_all (es, s))[i := (k, e\<lparr>e_queue := map (read_packet s) q @ [read_packet s a]\<rparr>)]"
      unfolding c(2) using rd C(2) R(3) by (intro view_update [OF i q]) auto
    ultimately show ?thesis using False C(3,4) a c(2) by (simp add: V entry_offer_def)
  qed
qed

lemma offers_effect:
  assumes inv: "pool_inv (queued es) s" and a: "readable s a" and n: "n \<le> length es"
  defines "g \<equiv> \<lambda>(k, e). (k :: nat, snd (entry_offer (read_packet s a) e))"
  shows "case fold (\<lambda>i. offer_at (pick i) a i) [0..<n] (es, s) of (es', s') \<Rightarrow>
    pool_inv (queued es') s' \<and> readable s' a \<and> read_packet s' a = read_packet s a \<and> length es' = length es \<and>
    view_all (es', s') = map g (take n (view_all (es, s))) @ drop n (view_all (es, s))"
  using n
proof (induction n)
  case 0
  then show ?case using inv a by simp
next
  case (Suc n)
  let ?V = "view_all (es, s)"
  obtain es1 s1 where f: "fold (\<lambda>i. offer_at (pick i) a i) [0..<n] (es, s) = (es1, s1)" by fastforce
  note I = Suc.IH [unfolded f prod.case]
  have I: "pool_inv (queued es1) s1" "readable s1 a" "read_packet s1 a = read_packet s a" "length es1 = length es"
    "view_all (es1, s1) = map g (take n ?V) @ drop n ?V" using I Suc.prems by simp_all
  obtain es2 s2 where o: "offer_at (pick n) a n (es1, s1) = (es2, s2)" by fastforce
  have n: "n < length es1" "n < length ?V" using Suc.prems I(4) by (simp_all add: view_all_def)
  note O = offer_at_effect [OF I(1,2) n(1) o]
  have "view_all (es1, s1) ! n = ?V ! n" using n(2) by (simp add: I(5) nth_append min_def)
  then have "view_all (es2, s2) = (map g (take n ?V) @ drop n ?V)[n := g (?V ! n)]"
    using O I(3,5) by (simp add: g_def)
  also have "\<dots> = map g (take (Suc n) ?V) @ drop (Suc n) ?V"
    using n(2) by (simp add: list_update_append take_Suc_conv_app_nth Cons_nth_drop_Suc [symmetric] min_def)
  finally show ?case using O I(3,4) f o by simp
qed

subsection \<open>Refinement\<close>

text \<open>A read loop unmarshals a packet into a new struct with allocated slices.\<close>

definition received :: "packet_heap \<Rightarrow> packet_heap \<Rightarrow> bool" where
  "received s s' \<longleftrightarrow> ph_nstructs s' = Suc (ph_nstructs s) \<and> ph_pool s' = ph_pool s \<and> ph_nbytes s \<le> ph_nbytes s' \<and>
     (\<forall>x < ph_nstructs s. ph_structs s' x = ph_structs s x) \<and> (\<forall>b < ph_nbytes s. ph_bytes s' b = ph_bytes s b) \<and>
     set (owned s' (ph_nstructs s)) \<subseteq> {..< ph_nbytes s'}"

text \<open>The pooled forwarder: reading, forwarding, writing, and the garbage collector, which may empty a
  pool at any time. The specification: the queues of values of \<open>Forwarder\<close>.\<close>

inductive pooled_step :: "pooled \<Rightarrow> pooled \<Rightarrow> bool" where
  receive: "received s s' \<Longrightarrow> pooled_step (es, s) (es, s')"
| forward: "readable s a \<Longrightarrow> pooled_WriteRTP pick a (es, s) = (es', s') \<Longrightarrow> pooled_step (es, s) (es', s')"
| writer: "i < length es \<Longrightarrow> pooled_write scr i (es, s) = (es', s') \<Longrightarrow> pooled_step (es, s) (es', s')"
| collect: "distinct ys \<Longrightarrow> set ys \<subseteq> set (ph_pool s) \<Longrightarrow> pooled_step (es, s) (es, s\<lparr>ph_pool := ys\<rparr>)"

inductive value_step :: "(nat \<times> subscriberEntry) list \<Rightarrow> (nat \<times> subscriberEntry) list \<Rightarrow> bool" where
  stay: "value_step vs vs"
| offer: "value_step vs (map (\<lambda>(k, e). (k, snd (entry_offer v e))) vs)"
| written: "i < length vs \<Longrightarrow> vs ! i = (k, e) \<Longrightarrow> value_step vs (vs[i := (k, entry_write e)])"

definition pooled_start :: "pooled \<Rightarrow> bool" where
  "pooled_start st \<longleftrightarrow> queued (fst st) = [] \<and> ph_pool (snd st) = []"

definition pooled_inv :: "pooled \<Rightarrow> bool" where
  "pooled_inv st \<longleftrightarrow> pool_inv (queued (fst st)) (snd st)"

lemma same_reads:
  assumes inv: "pool_inv Q s" and st: "\<And>x. x \<in> set Q \<Longrightarrow> ph_structs s' x = ph_structs s x"
    and b: "\<And>b. b < ph_nbytes s \<Longrightarrow> ph_bytes s' b = ph_bytes s b"
  shows "x \<in> set Q \<Longrightarrow> read_packet s' x = read_packet s x"
proof -
  assume x: "x \<in> set Q"
  have e: "read_slice s' p = read_slice s p" if "set (opt_list p) \<subseteq> set (owned s x)" for p
  proof -
    have "set (opt_list p) \<subseteq> {..< ph_nbytes s}" using inv x that unfolding pool_inv_def by blast
    then show ?thesis using b by (auto simp: read_slice_def opt_list_def split: option.split)
  qed
  show ?thesis unfolding read_packet_def st [OF x] read_struct_def
    by (auto simp: owned_def slices_def ext_slices_def intro!: e)
qed

lemma view_cong:
  assumes "\<And>x. x \<in> set (queued es) \<Longrightarrow> read_packet s' x = read_packet s x"
  shows "view_all (es, s') = view_all (es, s)"
proof -
  have "view_entry s' y = view_entry s y" if "y \<in> set es" for y
  proof -
    obtain k e q where y: "y = (k, e, q)" by (metis prod_cases3)
    then have "map (read_packet s') q = map (read_packet s) q" using assms queued_mem [OF that] by auto
    then show ?thesis by (simp add: view_entry_def y)
  qed
  then show ?thesis by (simp add: view_all_def)
qed

lemma pooled_write_effect:
  assumes inv: "pool_inv (queued es) s" and i: "i < length es" and w: "pooled_write scr i (es, s) = (es', s')"
  shows "pool_inv (queued es') s'" and "value_step (view_all (es, s)) (view_all (es', s'))"
proof -
  obtain k e q where q: "es ! i = (k, e, q)" by (metis prod_cases3)
  obtain R where R: "mset (queued es) = mset (q @ R)"
    "\<And>e' q'. mset (queued (es[i := (k, e', q')])) = mset (q' @ R)"
    "\<And>j. j < length es \<Longrightarrow> j \<noteq> i \<Longrightarrow> set (snd (snd (es ! j))) \<subseteq> set R"
    using queued_update [OF i q] by blast
  have "pool_inv (queued es') s' \<and> value_step (view_all (es, s)) (view_all (es', s'))"
  proof (cases q)
    case Nil
    then have "es' = es" "s' = s" using w q by (simp_all add: pooled_write_def)
    then show ?thesis using inv by (simp add: value_step.stay)
  next
    case (Cons c q')
    then have e': "es' = es[i := (k, e\<lparr>e_out := e_out e @ [read_packet s c]\<rparr>, q')]" "s' = pool_Put c (scribble scr c s)"
      using w q by (simp_all add: pooled_write_def)
    have "pool_inv (c # (q' @ R)) s" using inv pool_inv_perm [of "queued es" "c # (q' @ R)"] R(1) Cons by simp
    note E = recycle_effect [OF this, where scr = scr, folded e'(2)]
    have "pool_inv (queued es') s'" using E(1) pool_inv_perm [of "queued es'" "q' @ R"] R(2) e'(1) by simp
    moreover have "view_all (es', s') = (view_all (es, s))[i := (k, e\<lparr>e_queue := map (read_packet s) q', e_out := e_out e @ [read_packet s c]\<rparr>)]"
      unfolding e'(1)
    proof (rule view_update [OF i q])
      show "read_packet s' x = read_packet s x" if "j < length es" "j \<noteq> i" "x \<in> set (snd (snd (es ! j)))" for j x
        using E(2) R(3) [OF that(1,2)] that(3) by auto
      have "map (read_packet s') q' = map (read_packet s) q'" using E(2) by simp
      then show "e\<lparr>e_out := e_out e @ [read_packet s c], e_queue := map (read_packet s') q'\<rparr> =
          e\<lparr>e_queue := map (read_packet s) q', e_out := e_out e @ [read_packet s c]\<rparr>" by (cases e) simp
    qed
    moreover have "view_all (es, s) ! i = (k, e\<lparr>e_queue := map (read_packet s) q\<rparr>)" "i < length (view_all (es, s))"
      using i q by (simp_all add: view_all_def view_entry_def)
    ultimately show ?thesis using value_step.written Cons by (fastforce simp: entry_write_def)
  qed
  then show "pool_inv (queued es') s'" "value_step (view_all (es, s)) (view_all (es', s'))" by blast+
qed

lemma pooled_step_simulates:
  assumes "pooled_step st st'" and "pooled_inv st"
  shows "pooled_inv st' \<and> value_step (view_all st) (view_all st')"
  using assms
proof (induction rule: pooled_step.induct)
  case (receive s s' es)
  have inv: "pool_inv (queued es) s" using receive(2) by (simp add: pooled_inv_def)
  have st: "ph_structs s' x = ph_structs s x" if "x \<in> set (queued es)" for x
    using receive(1) inv that by (auto simp: received_def pool_inv_def)
  have "read_packet s' x = read_packet s x" if "x \<in> set (queued es)" for x
    by (rule same_reads [OF inv st _ that]) (use receive(1) in \<open>auto simp: received_def\<close>)
  then have v: "view_all (es, s') = view_all (es, s)" by (rule view_cong)
  have o: "owned s' x = owned s x" if "x \<in> set (queued es)" for x by (simp add: owned_def st [OF that])
  then have m: "map (owned s') (queued es) = map (owned s) (queued es)" by simp
  have r: "ph_nstructs s' = Suc (ph_nstructs s)" "ph_pool s' = ph_pool s" "ph_nbytes s \<le> ph_nbytes s'"
    using receive(1) by (simp_all add: received_def)
  have "set (owned s' x) \<subseteq> {..< ph_nbytes s'}" if "x \<in> set (queued es)" for x
    using inv that r(3) unfolding pool_inv_def o [OF that] by fastforce
  then have "pool_inv (queued es) s'" using inv r(1,2) unfolding pool_inv_def m by (auto intro: less_SucI)
  then show ?case using v by (simp add: pooled_inv_def value_step.stay)
next
  case (forward s a pick es es' s')
  have "pool_inv (queued es) s" using forward(3) by (simp add: pooled_inv_def)
  note F = offers_effect [OF this forward(1) order_refl, of pick]
  have "fold (\<lambda>i. offer_at (pick i) a i) [0..<length es] (es, s) = (es', s')"
    using forward(2) by (simp add: pooled_WriteRTP_def)
  then have "pool_inv (queued es') s'"
    "view_all (es', s') = map (\<lambda>(k, e). (k, snd (entry_offer (read_packet s a) e))) (view_all (es, s))"
    using F by (simp_all add: view_all_def)
  then show ?case using value_step.offer by (simp add: pooled_inv_def)
next
  case (writer i es scr s es' s')
  then show ?case using pooled_write_effect [of es s i scr es' s'] by (simp add: pooled_inv_def)
next
  case (collect ys s es)
  have "view_all (es, s\<lparr>ph_pool := ys\<rparr>) = view_all (es, s)"
    by (rule view_cong) (simp add: read_packet_def read_struct_def read_slice_def cong: option.case_cong)
  moreover have "owned (s\<lparr>ph_pool := ys\<rparr>) = owned s" by (simp add: owned_def fun_eq_iff)
  ultimately show ?case using collect by (auto simp: pooled_inv_def pool_inv_def value_step.stay)
qed

interpretation packets: step_invariant pooled_start pooled_step pooled_inv
proof unfold_locales
  show "pooled_inv s" if "pooled_start s" for s
    using that by (simp add: pooled_start_def pooled_inv_def pool_inv_def)
  show "pooled_inv t" if "pooled_step s t" "pooled_inv s" for s t
    using pooled_step_simulates [OF that] by blast
qed


text \<open>An example: one subscriber, one packet with a payload, forwarded and written.\<close>

definition demo_entry :: subscriberEntry where
  "demo_entry = \<lparr>e_webTrack = \<lparr>wt_domain = 0, wt_id = ''cam'', wt_kind = 1, wt_track = None,
     wt_codec = \<lparr>MimeType = '''', ClockRate = 0, Channels = 0, SDPFmtpLine = ''''\<rparr>\<rparr>,
     e_queue = [], e_cap = 2, e_dropped = 0, e_out = []\<rparr>"

definition demo_heap :: packet_heap where
  "demo_heap = \<lparr>ph_bytes = (\<lambda>_. [1, 2]), ph_nbytes = 1, ph_structs = (\<lambda>_. zero_packet\<lparr>pk_SequenceNumber := 7, pk_Payload := Some 0\<rparr>),
     ph_nstructs = 1, ph_pool = []\<rparr>"

definition demo_forwarded :: pooled where
  "demo_forwarded = pooled_WriteRTP (\<lambda>_. 0) 0 ([(5, demo_entry, [])], demo_heap)"

definition demo_written :: pooled where
  "demo_written = pooled_write (\<lambda>_. []) 0 demo_forwarded"


end
