(* ===== verification/Peer_Setup.thy ===== *)
theory Peer_Setup
  imports Negotiation Runtime_Config Metrics
begin

text \<open>
  The construction of a peer connection with pion's API, and the methods of \<open>peer_connection.go\<close>
  beside the negotiation gate: direct offers and answers, the remote description, and the
  diagnostics. pion's API is a record of functions, as pion itself is elsewhere.
\<close>

subsection \<open>Construction\<close>

datatype RTPCodecType = RTPCodecTypeAudio | RTPCodecTypeVideo

text \<open>The constants of pion's \<open>sdp\<close> package are names here.\<close>

datatype HeaderExtension = AudioLevelURI | ABSSendTimeURI | TransportCCURI | SDESMidURI | OtherURI string

datatype DTLSRole = DTLSRoleAuto | DTLSRoleClient | DTLSRoleServer

datatype RTPTransceiverDirection = DirectionSendrecv | DirectionSendonly | DirectionRecvonly | DirectionInactive

record ('m, 'p) pion_api =
  A_MediaEngine :: 'm
  A_RegisterDefaultCodecs :: "'m \<Rightarrow> gerror option \<times> 'm"
  A_RegisterHeaderExtension :: "HeaderExtension \<Rightarrow> RTPCodecType \<Rightarrow> 'm \<Rightarrow> gerror option \<times> 'm"
  A_RegisterDefaultInterceptors :: "'m \<Rightarrow> gerror option \<times> 'm"
  A_NewPeerConnection :: "'m \<Rightarrow> DTLSRole \<Rightarrow> ICEServer list \<Rightarrow> SDPSemantics \<Rightarrow> gerror + 'p"
  A_AddTransceiverFromKind :: "RTPCodecType \<Rightarrow> RTPTransceiverDirection \<Rightarrow> 'p \<Rightarrow> (gerror + nat) \<times> 'p"

definition header_extensions :: "(HeaderExtension \<times> RTPCodecType list) list" where
  "header_extensions =
     [(AudioLevelURI, [RTPCodecTypeAudio]), (ABSSendTimeURI, [RTPCodecTypeAudio, RTPCodecTypeVideo]),
      (TransportCCURI, [RTPCodecTypeAudio, RTPCodecTypeVideo]), (SDESMidURI, [RTPCodecTypeAudio, RTPCodecTypeVideo])]"

fun register_extensions ::
  "('m, 'p) pion_api \<Rightarrow> (HeaderExtension \<times> RTPCodecType) list \<Rightarrow> 'm \<Rightarrow> gerror option \<times> 'm" where
  "register_extensions A [] m = (None, m)"
| "register_extensions A ((uri, kind) # es) m =
     (case A_RegisterHeaderExtension A uri kind m of
        (Some err, m1) \<Rightarrow> (Some err, m1)
      | (None, m1) \<Rightarrow> register_extensions A es m1)"

fun publish_slots :: "('m, 'p) pion_api \<Rightarrow> RTPCodecType list \<Rightarrow> 'p \<Rightarrow> gerror + (nat list \<times> 'p)" where
  "publish_slots A [] p = Inr ([], p)"
| "publish_slots A (kind # kinds) p =
     (case A_AddTransceiverFromKind A kind DirectionRecvonly p of
        (Inl err, _) \<Rightarrow> Inl err
      | (Inr t, p1) \<Rightarrow>
          (case publish_slots A kinds p1 of Inl err \<Rightarrow> Inl err | Inr (ts, p2) \<Rightarrow> Inr (t # ts, p2)))"

text \<open>The pion connection and its two publish transceivers.\<close>

definition pion_setup :: "('m, 'p) pion_api \<Rightarrow> PeerConnectionConfig \<Rightarrow> gerror + ('p \<times> nat list)" where
  "pion_setup A config =
     (case A_RegisterDefaultCodecs A (A_MediaEngine A) of
        (Some err, _) \<Rightarrow> Inl err
      | (None, m1) \<Rightarrow>
          (case register_extensions A [(uri, kind). (uri, kinds) \<leftarrow> header_extensions, kind \<leftarrow> kinds] m1 of
             (Some err, _) \<Rightarrow> Inl err
           | (None, m2) \<Rightarrow>
               (case A_RegisterDefaultInterceptors A m2 of
                  (Some err, _) \<Rightarrow> Inl err
                | (None, m3) \<Rightarrow>
                    (case A_NewPeerConnection A m3 DTLSRoleServer (pcf_ICEServers config) (pcf_SDPSemantics config) of
                       Inl err \<Rightarrow> Inl err
                     | Inr p \<Rightarrow>
                         (case publish_slots A [RTPCodecTypeAudio, RTPCodecTypeVideo] p of
                            Inl err \<Rightarrow> Inl err
                          | Inr (slots, p1) \<Rightarrow> Inr (p1, slots))))))"

definition NewPeerConnection_full ::
  "('m, 'p) pion_api \<Rightarrow> PeerConnectionConfig \<Rightarrow> string \<Rightarrow> (pc_msg \<Rightarrow> gerror option) option \<Rightarrow> gerror + 'p PeerConnection" where
  "NewPeerConnection_full A config participant sender =
     (case pion_setup A config of
        Inl err \<Rightarrow> Inl err
      | Inr (p, slots) \<Rightarrow> Inr (NewPeerConnection p slots participant sender))"

subsection \<open>Direct offers and answers\<close>

text \<open>Both wait for the gathering of candidates without a way out: when it never completes the
  call does not return, which is \<open>None\<close>.\<close>

definition gathered_description ::
  "'p pion \<Rightarrow> 'p PeerConnection \<Rightarrow> connectionMetrics \<Rightarrow>
     ((gerror + SessionDescription) \<times> 'p PeerConnection \<times> connectionMetrics) option" where
  "gathered_description P pc m =
     (if \<not> P_Gathered P (pionPC pc) then None
      else (case P_LocalDescription P (pionPC pc) of
              None \<Rightarrow> Some (Inl (werr ErrInvalidSDP), pc, IncrementFailures m)
            | Some d \<Rightarrow> Some (Inr d, pc, m)))"

definition PC_CreateOffer ::
  "'p pion \<Rightarrow> 'p PeerConnection \<Rightarrow> connectionMetrics \<Rightarrow>
     ((gerror + SessionDescription) \<times> 'p PeerConnection \<times> connectionMetrics) option" where
  "PC_CreateOffer P pc m =
     (if pc_dead pc then Some (Inl (werr ErrPeerConnectionClosed), pc, m)
      else
        let m1 = IncrementAttempts m
        in (case P_CreateOffer P (pionPC pc) of
              (Inl err, p) \<Rightarrow> Some (Inl err, pc\<lparr>pionPC := p\<rparr>, IncrementFailures m1)
            | (Inr offer, p) \<Rightarrow>
                (case P_SetLocalDescription P offer p of
                   (Some err, p1) \<Rightarrow> Some (Inl err, pc\<lparr>pionPC := p1\<rparr>, IncrementFailures m1)
                 | (None, p1) \<Rightarrow> gathered_description P (pc\<lparr>pionPC := p1\<rparr>) m1)))"

definition PC_CreateAnswer ::
  "'p pion \<Rightarrow> SessionDescription \<Rightarrow> 'p PeerConnection \<Rightarrow> connectionMetrics \<Rightarrow>
     ((gerror + SessionDescription) \<times> 'p PeerConnection \<times> connectionMetrics) option" where
  "PC_CreateAnswer P offer pc m =
     (if pc_dead pc then Some (Inl (werr ErrPeerConnectionClosed), pc, m)
      else
        let m1 = IncrementAttempts m
        in (case P_SetRemoteDescription P offer (pionPC pc) of
              (Some err, p) \<Rightarrow> Some (Inl err, pc\<lparr>pionPC := p\<rparr>, IncrementFailures m1)
            | (None, p) \<Rightarrow>
                let pc1 = PC_flushICECandidates P (pc\<lparr>pionPC := p\<rparr>)
                in (case P_CreateAnswer P (pionPC pc1) of
                      (Inl err, p1) \<Rightarrow> Some (Inl err, pc1\<lparr>pionPC := p1\<rparr>, IncrementFailures m1)
                    | (Inr answer, p1) \<Rightarrow>
                        (case P_SetLocalDescription P answer p1 of
                           (Some err, p2) \<Rightarrow> Some (Inl err, pc1\<lparr>pionPC := p2\<rparr>, IncrementFailures m1)
                         | (None, p2) \<Rightarrow> gathered_description P (pc1\<lparr>pionPC := p2\<rparr>) m1))))"

text \<open>\<open>SetRemoteDescription\<close>: the result, and whether \<open>handleNegotiationNeeded\<close> is started.\<close>

definition PC_SetRemoteDescription ::
  "'p pion \<Rightarrow> SessionDescription \<Rightarrow> 'p PeerConnection \<Rightarrow> (gerror option \<times> bool) \<times> 'p PeerConnection" where
  "PC_SetRemoteDescription P sdp pc =
     (if pc_dead pc then ((Some (werr ErrPeerConnectionClosed), False), pc)
      else (case P_SetRemoteDescription P sdp (pionPC pc) of
              (Some err, p) \<Rightarrow> ((Some err, False), pc\<lparr>pionPC := p\<rparr>)
            | (None, p) \<Rightarrow>
                let pc1 = pc\<lparr>pionPC := p\<rparr>;
                    stable = sigState P pc1 = SignalingStateStable;
                    flush = pendingNegotiation pc1 \<and> stable;
                    pc2 = (if flush then pc1\<lparr>pendingNegotiation := False, negotiationsQueued := 0, isNegotiating := False\<rparr>
                           else if stable then pc1\<lparr>isNegotiating := False\<rparr> else pc1)
                in ((None, flush), PC_flushICECandidates P pc2)))"

subsection \<open>Diagnostics\<close>

fun join_with :: "string \<Rightarrow> string list \<Rightarrow> string" where
  "join_with sep [] = ''''"
| "join_with sep [w] = w"
| "join_with sep (w # v # ws) = w @ sep @ join_with sep (v # ws)"

text \<open>The candidate type in a candidate string.\<close>

fun after_first :: "string \<Rightarrow> string \<Rightarrow> string option" where
  "after_first marker [] = (if marker = [] then Some [] else None)"
| "after_first marker (c # s) =
     (if take (length marker) (c # s) = marker then Some (drop (length marker) (c # s)) else after_first marker s)"

definition iceCandidateType :: "string \<Rightarrow> string" where
  "iceCandidateType candidate =
     (case after_first '' typ '' candidate of
        None \<Rightarrow> ''unknown''
      | Some rest \<Rightarrow>
          let word = takeWhile (\<lambda>c. c \<noteq> CHR '' '') rest
          in if word = '''' then ''unknown'' else word)"

definition HasPrefix :: "string \<Rightarrow> string \<Rightarrow> bool" where
  "HasPrefix s pre \<longleftrightarrow> take (length pre) s = pre"

definition TrimRight :: "char \<Rightarrow> string \<Rightarrow> string" where
  "TrimRight c s = rev (dropWhile (\<lambda>x. x = c) (rev s))"

definition summary_line :: "string \<Rightarrow> bool" where
  "summary_line line \<longleftrightarrow> HasPrefix line ''a=mid:'' \<or> HasPrefix line ''a=sendrecv'' \<or> HasPrefix line ''a=sendonly'' \<or>
     HasPrefix line ''a=recvonly'' \<or> HasPrefix line ''a=inactive'' \<or> HasPrefix line ''a=rtpmap:''"

text \<open>The loop over the lines: the current section and the finished ones.\<close>

definition flush_section :: "string list \<Rightarrow> string list \<Rightarrow> string list" where
  "flush_section cur sections = (if cur \<noteq> [] then sections @ [join_with '' '' cur] else sections)"

fun summary_sections :: "string list \<Rightarrow> string list \<Rightarrow> string list \<Rightarrow> string list" where
  "summary_sections [] cur sections = flush_section cur sections"
| "summary_sections (line # ls) cur sections =
     (if HasPrefix line ''m='' then summary_sections ls [line] (flush_section cur sections)
      else if summary_line line then summary_sections ls (cur @ [line]) sections
      else summary_sections ls cur sections)"

definition SDPSummary :: "string \<Rightarrow> string" where
  "SDPSummary sdp =
     join_with '' || '' (summary_sections (map (TrimRight (char_of (13 :: nat))) (strings_Split sdp (char_of (10 :: nat)))) [] [])"

text \<open>The values logged for a transition of the negotiation.\<close>

record transition_record =
  ng_participant :: string
  ng_operation :: string
  ng_initiated_by :: string
  ng_before :: string
  ng_after :: string
  ng_generation :: "64 word"
  ng_last_offer :: "64 word"
  ng_outstanding :: bool
  ng_pending :: bool
  ng_queued :: int
  ng_deferred :: bool
  ng_mids :: string

definition logNegotiationTransition ::
  "'p pion \<Rightarrow> string \<Rightarrow> string \<Rightarrow> SignalingState \<Rightarrow> 'p PeerConnection \<Rightarrow> transition_record" where
  "logNegotiationTransition P op_name initiatedBy before pc =
     \<lparr>ng_participant = pc_participantID pc, ng_operation = op_name, ng_initiated_by = initiatedBy,
      ng_before = SignalingState_String before, ng_after = SignalingState_String (sigState P pc),
      ng_generation = negotiationGeneration pc, ng_last_offer = lastOfferGeneration pc,
      ng_outstanding = isNegotiating pc, ng_pending = pendingNegotiation pc, ng_queued = negotiationsQueued pc,
      ng_deferred = (pendingInboundOffer pc \<noteq> None),
      ng_mids = join_with '','' (map (\<lambda>t. let mid = P_Mid P t (pionPC pc) in if mid = '''' then ''-'' else mid)
        (P_GetTransceivers P (pionPC pc)))\<rparr>"

text \<open>The ICE state is recorded; when it is connected or completed, the selected pair is reported, with
  the reason when there is none. The transports are nil or present, from the outside in.\<close>

datatype ICEConnectionState =
    ICEConnectionStateNew
  | ICEConnectionStateChecking
  | ICEConnectionStateConnected
  | ICEConnectionStateCompleted
  | ICEConnectionStateDisconnected
  | ICEConnectionStateFailed
  | ICEConnectionStateClosed

record ICEEndpoint =
  ep_Typ :: string
  ep_Protocol :: string
  ep_Address :: string
  ep_Port :: nat

type_synonym selected_pair = "gerror option \<times> (ICEEndpoint option \<times> ICEEndpoint option) option"
type_synonym ice_transport = "selected_pair option"
type_synonym dtls_transport = "ice_transport option"
type_synonym sctp_transport = "dtls_transport option"

datatype pair_report =
    PairUnavailable string
  | PairSelected string string string string string string bool

definition endpoint_address :: "ICEEndpoint \<Rightarrow> string" where
  "endpoint_address e = ep_Address e @ '':'' @ FormatUint (ep_Port e)"

definition logSelectedCandidatePair :: "sctp_transport option \<Rightarrow> pair_report" where
  "logSelectedCandidatePair conn =
     (case conn of
        None \<Rightarrow> PairUnavailable ''nil peer connection''
      | Some None \<Rightarrow> PairUnavailable ''no sctp transport (media-only pc)''
      | Some (Some None) \<Rightarrow> PairUnavailable ''no dtls transport''
      | Some (Some (Some None)) \<Rightarrow> PairUnavailable ''no ice transport''
      | Some (Some (Some (Some (None, Some (Some local, Some remote))))) \<Rightarrow>
          PairSelected (ep_Typ local) (ep_Protocol local) (endpoint_address local)
            (ep_Typ remote) (ep_Protocol remote) (endpoint_address remote)
            (ep_Typ local = ''relay'' \<or> ep_Typ remote = ''relay'')
      | Some (Some (Some (Some _))) \<Rightarrow> PairUnavailable ''no selected pair yet'')"

definition handleICEConnectionStateChange ::
  "ICEConnectionState \<Rightarrow> sctp_transport option \<Rightarrow> ICEConnectionState \<times> pair_report option" where
  "handleICEConnectionStateChange state conn =
     (state, if state = ICEConnectionStateConnected \<or> state = ICEConnectionStateCompleted
             then Some (logSelectedCandidatePair conn) else None)"

subsection \<open>Header extensions of a new connection\<close>

text \<open>What pion documents of its media engine: a registered extension keeps its position, which is its
  identifier, a new one comes last, codecs do not matter, and interceptors only add.\<close>

definition engine_ids :: "('m, 'p) pion_api \<Rightarrow> ('m \<Rightarrow> HeaderExtension list) \<Rightarrow> bool" where
  "engine_ids A ids \<longleftrightarrow> ids (A_MediaEngine A) = [] \<and>
     (\<forall>m m'. A_RegisterDefaultCodecs A m = (None, m') \<longrightarrow> ids m' = ids m) \<and>
     (\<forall>u k m m'. A_RegisterHeaderExtension A u k m = (None, m') \<longrightarrow>
        ids m' = (if u \<in> set (ids m) then ids m else ids m @ [u])) \<and>
     (\<forall>m m'. A_RegisterDefaultInterceptors A m = (None, m') \<longrightarrow> (\<exists>us. ids m' = ids m @ us))"

lemma register_extensions_ids:
  assumes "engine_ids A ids"
  shows "register_extensions A es m = (None, m') \<Longrightarrow>
    ids m' = fold (\<lambda>(u, k) us. if u \<in> set us then us else us @ [u]) es (ids m)"
proof (induction es arbitrary: m)
  case (Cons e es)
  obtain u k where e: "e = (u, k)" by fastforce
  obtain m1 where m1: "A_RegisterHeaderExtension A u k m = (None, m1)" "register_extensions A es m1 = (None, m')"
    using Cons.prems by (auto simp: e split: prod.splits option.splits)
  have "ids m1 = (if u \<in> set (ids m) then ids m else ids m @ [u])" using assms m1(1) by (simp add: engine_ids_def)
  then show ?case using Cons.IH [OF m1(2)] by (simp add: e)
qed simp

lemma publish_slots_length: "publish_slots A ks p = Inr (ts, p') \<Longrightarrow> length ts = length ks"
  by (induction ks arbitrary: p ts) (auto split: prod.splits sum.splits)


definition demo_api :: "(HeaderExtension list, nat) pion_api" where
  "demo_api = \<lparr>A_MediaEngine = [], A_RegisterDefaultCodecs = (\<lambda>m. (None, m)),
     A_RegisterHeaderExtension = (\<lambda>u k m. (None, if u \<in> set m then m else m @ [u])),
     A_RegisterDefaultInterceptors = (\<lambda>m. (None, if TransportCCURI \<in> set m then m else m @ [TransportCCURI])),
     A_NewPeerConnection = (\<lambda>m role servers sem. Inr 0),
     A_AddTransceiverFromKind = (\<lambda>k dir p. (Inr p, Suc p))\<rparr>"


subsection \<open>Direct calls\<close>

lemma AddICE_same_gate: "same_gate pc (snd (PC_AddICECandidate P c pc))"
proof (cases "pc_dead pc")
  case True
  then show ?thesis using same_gateI(1) [of pc "pionPC pc"] by (simp add: PC_AddICECandidate_def)
next
  case False
  then show ?thesis by (simp add: PC_AddICECandidate_def case_prod_beta same_gateI)
qed

lemma same_gate_trans: "same_gate a b \<Longrightarrow> same_gate b c \<Longrightarrow> same_gate a c"
  by (fastforce simp: same_gate_def)

lemma flushICE_same_gate: "same_gate pc (PC_flushICECandidates P pc)"
proof -
  have "same_gate x (fold (\<lambda>c x. snd (PC_AddICECandidate P c x)) cs x)" for x cs
  proof (induction cs arbitrary: x)
    case Nil
    show ?case using same_gateI(1) [of x "pionPC x"] by simp
  next
    case (Cons c cs)
    show ?case using same_gate_trans [OF AddICE_same_gate Cons.IH] by simp
  qed
  moreover have "same_gate pc (pc\<lparr>pendingICECandidates := []\<rparr>)" using same_gateI(2) [of pc "pionPC pc" "[]"] by simp
  ultimately show ?thesis unfolding PC_flushICECandidates_def using same_gate_trans by blast
qed

text \<open>The account of one call: the counters and the gate.\<close>

definition counted ::
  "'p PeerConnection \<Rightarrow> connectionMetrics \<Rightarrow> (gerror + SessionDescription) \<times> 'p PeerConnection \<times> connectionMetrics \<Rightarrow> bool" where
  "counted pc m out \<longleftrightarrow> (case out of (res, pc', m') \<Rightarrow>
     cm_attempts m' = cm_attempts m + (if pc_dead pc then 0 else 1) \<and>
     cm_failures m' = cm_failures m + (if \<not> pc_dead pc \<and> isl res then 1 else 0) \<and> same_gate pc pc' \<and>
     (pc_dead pc \<longrightarrow> res = Inl (werr ErrPeerConnectionClosed) \<and> pc' = pc))"

lemma gathered_counted:
  assumes "gathered_description P pc1 (IncrementAttempts m) = Some out" and "\<not> pc_dead pc" and "same_gate pc pc1"
  shows "counted pc m out"
  using assms by (auto simp: gathered_description_def counted_def IncrementAttempts_def IncrementFailures_def
      split: if_splits option.splits)

lemma failed_counted:
  assumes "\<not> pc_dead pc" and "same_gate pc pc'"
  shows "counted pc m (Inl e, pc', IncrementFailures (IncrementAttempts m))"
  using assms by (simp add: counted_def IncrementAttempts_def IncrementFailures_def)

lemma same_gate_refl: "same_gate pc pc"
  using same_gateI(1) [of pc "pionPC pc"] by simp

text \<open>Direct offers and answers count one attempt each on a live connection and one failure exactly
  when they return an error; on a dead one they change nothing. They bypass the negotiation
  gate: none of its flags changes. They return whenever gathering completes.\<close>

theorem direct_negotiation_counted:
  "(case PC_CreateOffer P pc m of None \<Rightarrow> True | Some out \<Rightarrow> counted pc m out) \<and>
   (case PC_CreateAnswer P offer pc m of None \<Rightarrow> True | Some out \<Rightarrow> counted pc m out) \<and>
   ((\<forall>p. P_Gathered P p) \<longrightarrow> PC_CreateOffer P pc m \<noteq> None \<and> PC_CreateAnswer P offer pc m \<noteq> None)"
proof (cases "pc_dead pc")
  case True
  then show ?thesis by (simp add: PC_CreateOffer_def PC_CreateAnswer_def counted_def same_gate_refl)
next
  case live: False
  have g: "gathered_description P x y \<noteq> None" if "\<forall>p. P_Gathered P p" for x y
    using that by (simp add: gathered_description_def split: option.split)
  have o: "case PC_CreateOffer P pc m of None \<Rightarrow> True | Some out \<Rightarrow> counted pc m out"
    using live by (auto simp: PC_CreateOffer_def Let_def same_gateI intro: failed_counted gathered_counted
        split: option.split sum.split prod.split)
  have pc1: "same_gate pc ((PC_flushICECandidates P (pc\<lparr>pionPC := q\<rparr>))\<lparr>pionPC := p\<rparr>)" for p q
    by (rule same_gate_trans [OF same_gate_trans [OF same_gateI(1) flushICE_same_gate] same_gateI(1)])
  have a: "case PC_CreateAnswer P offer pc m of None \<Rightarrow> True | Some out \<Rightarrow> counted pc m out"
    using live by (auto simp: PC_CreateAnswer_def Let_def same_gateI pc1
        intro: failed_counted gathered_counted [OF _ _ pc1] split: option.split sum.split prod.split)
  show ?thesis using o a g
    by (auto simp: PC_CreateOffer_def PC_CreateAnswer_def Let_def split: option.split sum.split prod.split)
qed

subsection \<open>The remote description\<close>

text \<open>Applying the answer to an outstanding offer through \<open>SetRemoteDescription\<close> closes the exchange:
  the gate is open, queued candidates are applied, and a deferred server offer is handed to a
  goroutine. Unlike \<open>ProcessBrowserAnswer\<close>, it leaves a deferred browser offer where it is.\<close>

theorem SetRemoteDescription_closes_exchange:
  assumes J: "jsep P" and live: "\<not> pc_dead pc" and st: "sigState P pc = SignalingStateHaveLocalOffer"
    and ty: "sd_type answer = SDPTypeAnswer" and ok: "P_SetRemoteDescription P answer (pionPC pc) = (None, p)"
  shows "\<exists>pc'. PC_SetRemoteDescription P answer pc = ((None, pendingNegotiation pc), pc') \<and>
    \<not> isNegotiating pc' \<and> \<not> pendingNegotiation pc' \<and> pendingICECandidates pc' = [] \<and>
    sigState P pc' = SignalingStateStable \<and> pendingInboundOffer pc' = pendingInboundOffer pc"
proof -
  have s: "P_SignalingState P p = SignalingStateStable" using jsepD(10) [OF J ok ty] st by (simp add: sigState_def)
  define pc2 where "pc2 = (if pendingNegotiation pc
    then (pc\<lparr>pionPC := p\<rparr>)\<lparr>pendingNegotiation := False, negotiationsQueued := 0, isNegotiating := False\<rparr>
    else (pc\<lparr>pionPC := p\<rparr>)\<lparr>isNegotiating := False\<rparr>)"
  have r: "PC_SetRemoteDescription P answer pc = ((None, pendingNegotiation pc), PC_flushICECandidates P pc2)"
    using live ok s by (simp add: PC_SetRemoteDescription_def Let_def sigState_def pc2_def)
  obtain p' where f: "PC_flushICECandidates P pc2 = pc2\<lparr>pendingICECandidates := [], pionPC := p'\<rparr>"
    "P_SignalingState P p' = P_SignalingState P (pionPC pc2)" by (rule flushICE_shape [OF J])
  have "pionPC pc2 = p" by (simp add: pc2_def)
  then show ?thesis using s f(2) unfolding r f(1) by (auto simp: pc2_def sigState_def)
qed

subsection \<open>Summaries of descriptions\<close>

definition kept_line :: "string \<Rightarrow> bool" where
  "kept_line l \<longleftrightarrow> HasPrefix l ''m='' \<or> summary_line l"

lemma summary_sections_filter: "summary_sections (filter kept_line ls) cur sections = summary_sections ls cur sections"
proof (induction ls arbitrary: cur sections)
  case (Cons l ls)
  show ?case
  proof (cases "kept_line l")
    case True
    then show ?thesis by (simp only: filter.simps if_True summary_sections.simps Cons.IH)
  next
    case False
    then have n: "\<not> HasPrefix l ''m=''" "\<not> summary_line l" unfolding kept_line_def by blast+
    show ?thesis by (simp only: filter.simps False n if_False summary_sections.simps Cons.IH)
  qed
qed simp

text \<open>The logged summary of a description depends only on its media lines, identifiers, directions and
  codec lines: two descriptions that differ in any other line, such as the ICE passwords, the
  fingerprints or the candidates, have the same summary.\<close>

definition sdp_lines :: "string \<Rightarrow> string list" where
  "sdp_lines sdp = map (TrimRight (char_of (13 :: nat))) (strings_Split sdp (char_of (10 :: nat)))"

theorem SDPSummary_depends:
  assumes "filter kept_line (sdp_lines s) = filter kept_line (sdp_lines t)"
  shows "SDPSummary s = SDPSummary t"
  unfolding SDPSummary_def sdp_lines_def [symmetric] by (metis assms summary_sections_filter)

end
