(* ===== verification/Session_Url.thy ===== *)
theory Session_Url
  imports Go_Strings Runtime_Config Handler_Requests Sdk_Session "HOL-Library.List_Lexorder" "HOL-Library.Char_ord"
begin

text \<open>
  How a session names its room and participant to the server: the address that \<open>websocketURL\<close> of
  \<open>helpers.go\<close> builds, and the query that \<open>ServeHTTP\<close> of \<open>handler.go\<close> reads. The query encoding of
  \<open>net/url\<close> is modelled; parsing the base address is an argument.
\<close>

subsection \<open>Query encoding\<close>

definition hex_digit :: "nat \<Rightarrow> char" where
  "hex_digit n = (if n < 10 then char_of (48 + n) else char_of (55 + n))"

definition hex_val :: "char \<Rightarrow> nat option" where
  "hex_val c = (let n = of_char c :: nat in
     if 48 \<le> n \<and> n \<le> 57 then Some (n - 48)
     else if 65 \<le> n \<and> n \<le> 70 then Some (n - 55)
     else if 97 \<le> n \<and> n \<le> 102 then Some (n - 87) else None)"

definition unreserved :: "char \<Rightarrow> bool" where
  "unreserved c = (let n = of_char c :: nat in
     48 \<le> n \<and> n \<le> 57 \<or> 65 \<le> n \<and> n \<le> 90 \<or> 97 \<le> n \<and> n \<le> 122 \<or> n = 45 \<or> n = 95 \<or> n = 46 \<or> n = 126)"

definition escape_char :: "char \<Rightarrow> string" where
  "escape_char c =
     (if unreserved c then [c] else if c = CHR '' '' then ''+''
      else [CHR ''%'', hex_digit (of_char c div 16), hex_digit (of_char c mod 16)])"

definition QueryEscape :: "string \<Rightarrow> string" where
  "QueryEscape s = concat (map escape_char s)"

fun QueryUnescape :: "string \<Rightarrow> string option" where
  "QueryUnescape [] = Some []"
| "QueryUnescape (c # s) =
     (if c = CHR ''%'' then
        (case s of
           x # y # r \<Rightarrow>
             (case (hex_val x, hex_val y) of
                (Some a, Some b) \<Rightarrow> map_option ((#) (char_of (16 * a + b))) (QueryUnescape r)
              | _ \<Rightarrow> None)
         | _ \<Rightarrow> None)
      else map_option ((#) (if c = CHR ''+'' then CHR '' '' else c)) (QueryUnescape s))"

type_synonym Values = "(string, string list) gomap"

text \<open>\<open>Cut\<close> at the first equality sign; a segment with a semicolon or a bad escape is dropped.\<close>

definition parse_pair :: "string \<Rightarrow> (string \<times> string) option" where
  "parse_pair seg =
     (if CHR '';'' \<in> set seg then None
      else if seg = '''' then None
      else
        let key = takeWhile (\<lambda>c. c \<noteq> CHR ''='') seg;
            val = drop (Suc (length key)) seg
        in (case (QueryUnescape key, QueryUnescape val) of (Some k, Some v) \<Rightarrow> Some (k, v) | _ \<Rightarrow> None))"

definition add_value :: "string \<times> string \<Rightarrow> Values \<Rightarrow> Values" where
  "add_value p m = (case p of (k, v) \<Rightarrow> mput k ((case mget m k of None \<Rightarrow> [] | Some vs \<Rightarrow> vs) @ [v]) m)"

definition ParseQuery :: "string \<Rightarrow> Values" where
  "ParseQuery raw = fold add_value (List.map_filter parse_pair (strings_Split raw (CHR ''&''))) []"

definition Values_Get :: "string \<Rightarrow> Values \<Rightarrow> string" where
  "Values_Get k m = (case mget m k of Some (v # _) \<Rightarrow> v | _ \<Rightarrow> '''')"

definition Values_Set :: "string \<Rightarrow> string \<Rightarrow> Values \<Rightarrow> Values" where
  "Values_Set k v m = mput k [v] m"

definition value_pairs :: "Values \<Rightarrow> (string \<times> string) list" where
  "value_pairs m = [(k, v). k \<leftarrow> sort (mkeys m), v \<leftarrow> (case mget m k of None \<Rightarrow> [] | Some vs \<Rightarrow> vs)]"

definition Values_Encode :: "Values \<Rightarrow> string" where
  "Values_Encode m = strings_Join (map (\<lambda>(k, v). QueryEscape k @ CHR ''='' # QueryEscape v) (value_pairs m)) (CHR ''&'')"

subsection \<open>The address of a session\<close>

text \<open>The parts of an address that \<open>websocketURL\<close> reads or writes. Its result is the address before
  \<open>String\<close>, which prints the scheme, the host, the path and the raw query as they are here.\<close>

record URL =
  u_Scheme :: string
  u_Host :: string
  u_Path :: string
  u_RawQuery :: string

definition websocketURL :: "(string \<Rightarrow> gerror + URL) \<Rightarrow> string \<Rightarrow> string \<Rightarrow> string \<Rightarrow> gerror + URL" where
  "websocketURL parse base roomID participantID =
     (case parse base of
        Inl err \<Rightarrow> Inl err
      | Inr u \<Rightarrow>
          let u1 = (if u_Scheme u = ''http'' then u\<lparr>u_Scheme := ''ws''\<rparr>
                    else if u_Scheme u = ''https'' then u\<lparr>u_Scheme := ''wss''\<rparr> else u);
              u2 = u1\<lparr>u_Path := DefaultWebSocketPath\<rparr>;
              u3 = (if take 1 (u_Path u2) \<noteq> ''/'' then u2\<lparr>u_Path := CHR ''/'' # u_Path u2\<rparr> else u2);
              q = Values_Set ''participant_id'' participantID (Values_Set ''room_id'' roomID (ParseQuery (u_RawQuery u3)))
          in Inr (u3\<lparr>u_RawQuery := Values_Encode q\<rparr>))"

text \<open>The request that reaches the server: \<open>ServeHTTP\<close> from its query on.\<close>

definition ServeHTTP_request :: "string \<Rightarrow> caddr \<Rightarrow> 'p Handler \<Rightarrow> bool \<times> 'p Handler" where
  "ServeHTTP_request rawQuery c h =
     ServeHTTP (Values_Get ''room_id'' (ParseQuery rawQuery)) (Values_Get ''participant_id'' (ParseQuery rawQuery)) c h"

subsection \<open>Round trips\<close>

lemma hex_digit_val: "n < 16 \<Longrightarrow> hex_val (hex_digit n) = Some n"
  by (simp add: hex_digit_def hex_val_def Let_def)

lemma hex_digit_unreserved: "n < 16 \<Longrightarrow> unreserved (hex_digit n)"
  by (simp add: hex_digit_def unreserved_def Let_def)

lemma reserved_marks:
  "\<not> unreserved (CHR ''%'')" "\<not> unreserved (CHR ''+'')" "\<not> unreserved (CHR ''&'')"
  "\<not> unreserved (CHR ''='')" "\<not> unreserved (CHR '';'')"
  by (simp_all add: unreserved_def Let_def)

lemma char_div: "of_char c div 16 < (16 :: nat)"
proof -
  have "of_char c < (256 :: nat)" by simp
  then show ?thesis by arith
qed

lemma unescape_escape_char:
  "QueryUnescape (escape_char c @ s) = map_option ((#) c) (QueryUnescape s)"
proof (cases "unreserved c \<or> c = CHR '' ''")
  case True
  then have "unreserved c \<Longrightarrow> c \<noteq> CHR ''%'' \<and> c \<noteq> CHR ''+''" using reserved_marks by blast
  then show ?thesis using True by (auto simp: escape_char_def)
next
  case False
  have "16 * (of_char c div 16) + of_char c mod 16 = (of_char c :: nat)" by simp
  then show ?thesis using False by (simp add: escape_char_def hex_digit_val char_div)
qed

lemma unescape_escape: "QueryUnescape (QueryEscape s) = Some s"
  by (induction s) (simp_all add: QueryEscape_def unescape_escape_char)

lemma escape_char_shape: "d \<in> set (escape_char c) \<Longrightarrow> unreserved d \<or> d = CHR ''%'' \<or> d = CHR ''+''"
  by (auto simp: escape_char_def hex_digit_unreserved char_div split: if_splits)

lemma escape_plain: "c \<in> set (QueryEscape s) \<Longrightarrow> c \<noteq> CHR ''&'' \<and> c \<noteq> CHR ''='' \<and> c \<noteq> CHR '';''"
proof -
  assume "c \<in> set (QueryEscape s)"
  then obtain x where "c \<in> set (escape_char x)" by (auto simp: QueryEscape_def)
  then have "unreserved c \<or> c = CHR ''%'' \<or> c = CHR ''+''" by (rule escape_char_shape)
  then show ?thesis using reserved_marks by auto
qed

lemma parse_pair_escaped: "parse_pair (QueryEscape k @ CHR ''='' # QueryEscape v) = Some (k, v)"
proof -
  have "takeWhile (\<lambda>c. c \<noteq> CHR ''='') (QueryEscape k @ CHR ''='' # QueryEscape v) = QueryEscape k"
    using escape_plain by (subst takeWhile_append2) auto
  moreover have "CHR '';'' \<notin> set (QueryEscape k @ CHR ''='' # QueryEscape v)" using escape_plain by auto
  ultimately show ?thesis by (simp add: parse_pair_def Let_def unescape_escape)
qed


definition values_of :: "(string \<times> string) list \<Rightarrow> string \<Rightarrow> string list" where
  "values_of ps k = map snd (filter (\<lambda>p. fst p = k) ps)"

lemma values_of_pairs:
  "distinct ks \<Longrightarrow> values_of (concat (map (\<lambda>k. map (Pair k) (f k)) ks)) k = (if k \<in> set ks then f k else [])"
proof (induction ks)
  case (Cons a ks)
  have "map snd (filter (\<lambda>p. fst p = k) (map (Pair a) (f a))) = (if a = k then f a else [])"
    by (simp add: filter_map o_def)
  then show ?case using Cons by (auto simp: values_of_def)
qed (simp add: values_of_def)

lemma value_pairs_values:
  assumes "wf_map q"
  shows "values_of (value_pairs q) k = (case mget q k of None \<Rightarrow> [] | Some vs \<Rightarrow> vs)"
proof -
  have "value_pairs q = concat (map (\<lambda>k. map (Pair k) (case mget q k of None \<Rightarrow> [] | Some vs \<Rightarrow> vs)) (sort (mkeys q)))"
    by (simp add: value_pairs_def)
  moreover have "distinct (sort (mkeys q))" using assms by simp
  ultimately have "values_of (value_pairs q) k =
      (if k \<in> set (mkeys q) then case mget q k of None \<Rightarrow> [] | Some vs \<Rightarrow> vs else [])"
    by (simp only: values_of_pairs set_sort)
  then show ?thesis by (cases "mget q k") (simp_all only: set_mkeys domIff option.case, simp_all)
qed

lemma fold_add_value:
  "mget (fold add_value ps m) k =
     (if values_of ps k = [] then mget m k
      else Some ((case mget m k of None \<Rightarrow> [] | Some vs \<Rightarrow> vs) @ values_of ps k))"
proof (induction ps arbitrary: m)
  case (Cons p ps)
  obtain a v where p: "p = (a, v)" by (cases p)
  show ?case
  proof (cases "a = k")
    case True
    then have "values_of (p # ps) k = v # values_of ps k" using p by (simp add: values_of_def)
    moreover have "mget (add_value p m) k = Some ((case mget m k of None \<Rightarrow> [] | Some vs \<Rightarrow> vs) @ [v])"
      using True p by (simp add: add_value_def)
    ultimately show ?thesis by (simp add: Cons.IH)
  next
    case False
    then have "values_of (p # ps) k = values_of ps k" using p by (simp add: values_of_def)
    moreover have "mget (add_value p m) k = mget m k" using False p by (simp add: add_value_def)
    ultimately show ?thesis by (simp add: Cons.IH)
  qed
qed (simp add: values_of_def)

lemma map_filter_parse: "List.map_filter parse_pair (map (\<lambda>(k, v). QueryEscape k @ CHR ''='' # QueryEscape v) ps) = ps"
  by (induction ps) (auto simp: List.map_filter_simps parse_pair_escaped)

lemma parse_encoded: "List.map_filter parse_pair (strings_Split (Values_Encode q) (CHR ''&'')) = value_pairs q"
proof (cases "value_pairs q = []")
  case True
  then show ?thesis by (simp add: Values_Encode_def parse_pair_def List.map_filter_simps)
next
  case False
  let ?segs = "map (\<lambda>(k, v). QueryEscape k @ CHR ''='' # QueryEscape v) (value_pairs q)"
  have "\<forall>w \<in> set ?segs. CHR ''&'' \<notin> set w" using escape_plain by fastforce
  then have "strings_Split (Values_Encode q) (CHR ''&'') = ?segs"
    using False by (simp only: Values_Encode_def) (rule Split_Join, simp_all)
  then show ?thesis by (simp only: map_filter_parse)
qed

definition wf_values :: "Values \<Rightarrow> bool" where
  "wf_values q = (wf_map q \<and> (\<forall>k. mget q k \<noteq> Some []))"

lemma wf_values_Set: "wf_values q \<Longrightarrow> wf_values (Values_Set k v q)"
  by (simp add: wf_values_def Values_Set_def wf_map_mput)

lemma wf_values_add: "wf_values m \<Longrightarrow> wf_values (add_value p m)"
proof -
  assume m: "wf_values m"
  obtain a v where p: "p = (a, v)" by (cases p)
  have "wf_map (add_value p m)" using m by (simp add: p wf_values_def add_value_def)
  moreover have "mget (add_value p m) k \<noteq> Some []" for k
    using m by (simp only: p wf_values_def add_value_def prod.case mget_mput) simp
  ultimately show ?thesis by (simp only: wf_values_def) blast
qed

lemma wf_values_fold: "wf_values m \<Longrightarrow> wf_values (fold add_value ps m)"
  by (induction ps arbitrary: m) (simp_all add: wf_values_add)

lemma wf_values_ParseQuery: "wf_values (ParseQuery raw)"
  unfolding ParseQuery_def by (rule wf_values_fold) (simp add: wf_values_def)

lemma Query_roundtrip: "wf_values q \<Longrightarrow> mget (ParseQuery (Values_Encode q)) k = mget q k"
proof -
  assume q: "wf_values q"
  then have "values_of (value_pairs q) k = (case mget q k of None \<Rightarrow> [] | Some vs \<Rightarrow> vs)"
    by (intro value_pairs_values) (simp add: wf_values_def)
  moreover have "mget q k \<noteq> Some []" using q by (simp only: wf_values_def) blast
  ultimately show ?thesis
    by (cases "mget q k") (simp_all add: ParseQuery_def parse_encoded fold_add_value del: map_of_eq_Some_iff)
qed

lemma ServeHTTP_request_cong:
  "Values_Get ''room_id'' (ParseQuery raw) = r \<Longrightarrow> Values_Get ''participant_id'' (ParseQuery raw) = p \<Longrightarrow>
   ServeHTTP_request raw c h = ServeHTTP r p c h"
  by (simp add: ServeHTTP_request_def)

text \<open>C35. A session joins where it asked to.

  Whatever the room and participant identifiers hold (separators, percent signs, spaces, any
  byte), the query that \<open>websocketURL\<close> writes is read back by \<open>ServeHTTP\<close> as exactly these two
  identifiers, on the path the server routes to the signaling handler, and every other parameter
  of the base address keeps its values.\<close>

theorem session_request_roundtrip:
  assumes "websocketURL parse base roomID participantID = Inr u"
  shows "ServeHTTP_request (u_RawQuery u) c h = ServeHTTP roomID participantID c h \<and>
         u_Path u = DefaultWebSocketPath \<and>
         (\<exists>u0. parse base = Inr u0 \<and> u_Host u = u_Host u0 \<and>
           (\<forall>k. k \<noteq> ''room_id'' \<and> k \<noteq> ''participant_id'' \<longrightarrow>
             mget (ParseQuery (u_RawQuery u)) k = mget (ParseQuery (u_RawQuery u0)) k))"
proof -
  obtain u0 where u0: "parse base = Inr u0" using assms by (cases "parse base") (simp_all add: websocketURL_def)
  let ?q = "Values_Set ''participant_id'' participantID (Values_Set ''room_id'' roomID (ParseQuery (u_RawQuery u0)))"
  have raw: "u_RawQuery u = Values_Encode ?q" and path: "u_Path u = DefaultWebSocketPath" and host: "u_Host u = u_Host u0"
    using assms u0 by (auto simp: websocketURL_def Let_def DefaultWebSocketPath_def)
  have reads: "mget (ParseQuery (u_RawQuery u)) k = mget ?q k" for k
    unfolding raw by (intro Query_roundtrip wf_values_Set wf_values_ParseQuery)
  then have serve: "ServeHTTP_request (u_RawQuery u) c h = ServeHTTP roomID participantID c h"
    by (intro ServeHTTP_request_cong) (simp_all add: Values_Get_def Values_Set_def)
  have "mget (ParseQuery (u_RawQuery u)) k = mget (ParseQuery (u_RawQuery u0)) k"
    if "k \<noteq> ''room_id'' \<and> k \<noteq> ''participant_id''" for k
    using that by (simp add: reads Values_Set_def)
  then show ?thesis using serve path host u0 by blast
qed

lemma session_request_roundtrip_witness:
  "\<exists>u. websocketURL (\<lambda>s. Inr \<lparr>u_Scheme = ''http'', u_Host = s, u_Path = '''', u_RawQuery = ''v=1''\<rparr>) ''h:80'' ''a b&c'' ''100%'' = Inr u \<and>
       u_Scheme u = ''ws'' \<and> u_Path u = DefaultWebSocketPath \<and>
       (\<forall>c h. ServeHTTP_request (u_RawQuery u) c (h :: nat Handler) = ServeHTTP ''a b&c'' ''100%'' c h)"
proof -
  let ?parse = "\<lambda>s. Inr \<lparr>u_Scheme = ''http'', u_Host = s, u_Path = '''', u_RawQuery = ''v=1''\<rparr>"
  obtain u where "websocketURL ?parse ''h:80'' ''a b&c'' ''100%'' = Inr u \<and> u_Scheme u = ''ws''"
    by (simp add: websocketURL_def Let_def)
  moreover from this have "websocketURL ?parse ''h:80'' ''a b&c'' ''100%'' = Inr u" ..
  ultimately show ?thesis
    using session_request_roundtrip [of ?parse "''h:80''" "''a b&c''" "''100%''" u] by blast
qed

end
