(* ===== verification/Spec2Isabelle.thy ===== *)
theory Spec2Isabelle
  imports Room_Contracts Signaling_Managers Gate_Contracts Forwarder_Contracts Handler_Contracts Sdk_Contracts
    Server_Contracts Message_Loop Config_Contracts Http_Contracts Packet_Pool Peer_Setup Session_Url
begin

text \<open>
  Verification of slive, a selective forwarding unit (SFU) for WebRTC written in Go.

  \<^bold>\<open>The program.\<close> Browsers connect over WebSockets to a signaling server, join rooms, publish
  audio and video tracks and subscribe to the tracks of others. The server keeps one WebRTC
  peer connection per participant and one forwarder per published track, which copies the
  RTP packets of the publisher to its subscribers. Its parts under \<open>src/\<close>:

    \<^item> \<open>internal/domain\<close>: rooms, participants and tracks, which refer to each other by
      pointer and own the rules of who publishes and who subscribes to what;
    \<^item> \<open>internal/signaling\<close>: the JSON messages, the WebSocket connection with its queues, the
      registries of rooms and connections, and the handler, which turns requests into
      operations on the domain and on the media side;
    \<^item> \<open>internal/webrtc\<close>: the peer connection with its negotiation gate, a wrapper of the
      library pion, and the track forwarder;
    \<^item> \<open>internal/config\<close>, \<open>internal/http\<close>, \<open>cmd/slive\<close>: the settings read from the environment,
      the health endpoint with its metrics, the routes, and the command that joins all parts;
    \<^item> \<open>pkg/slive\<close>: the SDK, a client that owns a room manager and a handler and drives
      rooms in process, and sessions that speak the protocol over a socket.

  \<^bold>\<open>The model.\<close> A Go struct is a record, a pointer an address into a store, a map an association
  list with distinct keys (its iteration order is the order of the list, and the theorems
  hold for every such list), an error a value of the type \<open>gerror\<close> with its wrapped errors,
  a string a list of bytes. A method that locks is one atomic step. A goroutine that a
  method starts is recorded as a task that some later step runs; a loop over a channel or a
  socket is a definition of one of its rounds. pion is a record of functions over an
  unspecified state, an argument of what uses it; where a theorem needs pion to work, this
  is a named hypothesis such as \<open>offer_works\<close>, and the witnesses instantiate it. Every
  recursion terminates; only the message loop of a connection, which may run for ever, has
  fuel, and C10 says how much is enough once the transport is closed. The bounds are those of the source: 256
  messages to send and to receive per connection, 64 packets per subscriber unless
  configured, three attempts for an ICE candidate, 64 KiB of SDP and 1 KiB of candidate.

  \<^bold>\<open>Theories and sources.\<close>

    \<^item> \<open>Slive_Prelude\<close>: Go maps, decimal numbers, the locales \<open>keyed_registry\<close>,
      \<open>step_invariant\<close> and \<open>bounded_buffer\<close>; \<open>Slive_Errors\<close>: sentinels, \<open>errors.Is\<close>.
    \<^item> \<open>Domain_Track\<close>, \<open>Domain_Participant\<close>, \<open>Domain_Room\<close>: \<open>track.go\<close>, \<open>participant.go\<close>,
      \<open>room.go\<close> over the heap \<open>dheap\<close>, one definition per method, and the room invariant
      \<open>room_inv\<close>. \<open>Domain_Teardown\<close>, \<open>Domain_System\<close>, \<open>Domain_Steps\<close>, \<open>Domain_Reach\<close>: what
      leaving and closing do, and that every operation keeps the invariant.
    \<^item> \<open>Room_Protocol\<close>: the step relation \<open>room_step\<close>, the abstract specification of how a
      room may be driven, and the locale \<open>room_driver\<close> of the components that drive rooms;
      \<open>Room_Contracts\<close>: the guarantees of rooms.
    \<^item> \<open>Signaling_Message\<close>, \<open>Signaling_Connection\<close>, \<open>Signaling_Managers\<close>: \<open>message.go\<close>,
      \<open>connection.go\<close>, \<open>room_manager.go\<close>, \<open>connection_manager.go\<close>.
    \<^item> \<open>Peer_Connection\<close>, \<open>Negotiation\<close>: \<open>peer_connection.go\<close>, \<open>retry.go\<close> and the value types
      of \<open>internal/webrtc\<close>; \<open>Gate_Protocol\<close>: the negotiation gate as a step relation with its
      invariant; \<open>Gate_Contracts\<close>: its guarantees.
      \<open>Peer_Setup\<close>: \<open>NewPeerConnection\<close> with the calls of pion that it makes in their order, the
      direct calls \<open>CreateOffer\<close>, \<open>CreateAnswer\<close>, \<open>SetRemoteDescription\<close>, and the diagnostics.
    \<^item> \<open>Forwarder\<close>, \<open>Forwarder_Contracts\<close>: \<open>track_forwarder.go\<close> over packets as values;
      \<open>Packet_Pool\<close>: \<open>clonePacket\<close> and the packet pool over a heap of structs and slices, with
      the steps of forwarding and writing on it and their simulation by those on values.
    \<^item> \<open>Handler\<close>, \<open>Handler_Requests\<close>: \<open>handler.go\<close>; its state record holds the stores of all
      objects and the registries. \<open>Handler_Frames\<close>: what each operation leaves alone;
      \<open>Handler_Refinement\<close>: each request as steps of the room protocol; \<open>Handler_Teardown\<close>:
      what is gone after a departure and after shutdown; \<open>Handler_Protocol\<close>: the server as the
      step relation \<open>handler_step\<close>, an instance of \<open>room_driver\<close>; \<open>Handler_Contracts\<close>.
    \<^item> \<open>Domain_Separation\<close>: rooms on one heap that share no participant and no track, and that a
      step of one leaves the others alone. \<open>Handler_Relation\<close>: the locale \<open>handler_relation\<close> of
      the relations between states that every request and event respects, with its lemmas
      proved once; \<open>Handler_Registries\<close> (the registries stay well typed) and \<open>Message_Loop\<close>
      (nothing reads a receive queue but its loop) are its instances. \<open>Server_Protocol\<close>: the
      server with all its rooms as the step relation \<open>server_step\<close>, \<open>create_room\<close> included,
      an instance of \<open>step_invariant\<close>; \<open>Server_Contracts\<close>: its guarantees.
    \<^item> \<open>Go_Strings\<close>: what the configuration uses of \<open>strings\<close> and \<open>time.ParseDuration\<close>;
      \<open>Runtime_Config\<close>: \<open>config.go\<close>, \<open>ice_servers.go\<close>, the options and the constructor in
      \<open>handler.go\<close>, \<open>main.go\<close>, and the configuration in \<open>pkg/slive\<close>; \<open>Config_Contracts\<close>.
    \<^item> \<open>Metrics\<close>: both \<open>metrics.go\<close>; \<open>Http_Server\<close>: \<open>handlers.go\<close>, \<open>router.go\<close>, \<open>server.go\<close> of
      \<open>internal/http\<close>, the server of \<open>main.go\<close> and the client's \<open>HTTPHandler\<close>; \<open>Http_Contracts\<close>.
    \<^item> \<open>Sdk_Client\<close>, \<open>Sdk_Session\<close>: \<open>client.go\<close>, \<open>helpers.go\<close>, \<open>errors.go\<close> of \<open>pkg/slive\<close>;
      \<open>Sdk_Contracts\<close>: their guarantees, with \<open>client_step\<close>, the second instance of
      \<open>room_driver\<close>, whose runs interleave the client with the server that it owns.
      \<open>Session_Url\<close>: \<open>websocketURL\<close> and the query that \<open>ServeHTTP\<close> reads, with the escaping of
      \<open>net/url\<close>; the parser of the base address is an argument.

  \<^bold>\<open>What is shown.\<close>

    \<^item> C1 to C7, rooms: the invariant of the whole server and of each room in all reachable
      states; rooms are isolated from each other; leaving leaves nothing dangling; the exact
      outcome of subscribing; unsubscribing undoes it; unpublishing strands subscribers.
    \<^item> C8 to C17, the handler: runs of the server refine the room protocol; its registries are
      well typed; the message loop of a closed connection returns; forwarders are not isolated
      between rooms; subscriptions are atomic; leaving and reaping release all media; a
      reconnect resumes the session; joiners discover exactly the tracks of the others;
      keyframe requests are addressed.
    \<^item> C18 to C22, the SDK: a round trip of a session agrees with the server; the identity of
      errors survives the wire; runs of the client refine the room protocol; joining is
      total and idempotent; closing releases everything.
    \<^item> C23 to C28, the peer connection: the invariant of the negotiation gate, at most one offer
      outstanding, deferred offers first, how a failed answer leaves pion and the gate apart,
      the partition of MIDs, and the header extensions of every new connection.
    \<^item> C29 to C32, the forwarder: isolation of subscribers, order and bounds of queues, codecs
      after a publisher swap, and that pooling packets is invisible.
    \<^item> C33 to C35, wire: round trips of messages, delivery of a connection, and of the
      identifiers in the address that a session dials.
    \<^item> C36 to C38, HTTP: the gauges are exact, both formats of the health endpoint agree, which
      routes exist.
    \<^item> C39 and C40, configuration: bounds of the timeouts, secrets are not logged.

  Further theorems without a number cover closing, broadcasts, the registries, error codes,
  the remaining operations of the gate and of the forwarder, lists and the ping interval in
  the environment, and the wiring, with the health endpoint of the command that reports zeros.

  \<^bold>\<open>Not modelled.\<close> Logging, the delivery of HTTP and the upgrade of a connection (net/http and
  gorilla/websocket); parsing of URLs; the registration of callbacks with pion; WebSocket
  frames, deadlines and pings, which are gorilla/websocket and the clock; the interleaving
  inside a method between its critical sections; flags and signals of the command, and the
  examples.
\<close>

end
